(* ===== verification/Go_Prelude.thy ===== *)
theory Go_Prelude
  imports Main
begin

text \<open>
  What every component of the broker shares: the errors the code returns, the outcome of a Go
  call (a value, a returned error, or a panic), the composition of calls that read and write the
  cluster, and the collections of facts the component proofs use.

  Errors are kept structured. A package-level \<open>errors.New\<close> value is a \<open>sentinel\<close> (the code
  compares these by identity), an error built where it is returned is \<open>Errorf\<close> with its format
  and arguments, \<open>fmt.Errorf\<close> with \<open>%w\<close> is \<open>Wrapf\<close>, and the two library error types the code
  inspects are \<open>StatusError\<close> (\<open>k8serrors\<close>) and \<open>Failure\<close> (\<open>apiresponses.FailureResponse\<close>).
  Texts are never rendered, because no code inspects them.
\<close>

section \<open>Collections of facts\<close>

named_theorems go_inv "inversion of a call that ended in a known outcome"
named_theorems go_frame "calls that write nothing, or write only certain objects"

section \<open>Lists searched by a key\<close>

definition lookup_by :: "('a \<Rightarrow> 'k) \<Rightarrow> 'a list \<Rightarrow> 'k \<Rightarrow> 'a option" where
  "lookup_by key xs k = find (\<lambda>x. key x = k) xs"

definition delete_by :: "('a \<Rightarrow> 'k) \<Rightarrow> 'k \<Rightarrow> 'a list \<Rightarrow> 'a list" where
  "delete_by key k xs = filter (\<lambda>x. key x \<noteq> k) xs"

definition store_by :: "('a \<Rightarrow> 'k) \<Rightarrow> 'a \<Rightarrow> 'a list \<Rightarrow> 'a list" where
  "store_by key x xs = x # delete_by key (key x) xs"

lemma lookup_by_Cons [simp]:
  "lookup_by key (x # xs) k = (if key x = k then Some x else lookup_by key xs k)"
  by (simp add: lookup_by_def)

lemma lookup_by_Nil [simp]: "lookup_by key [] k = None"
  by (simp add: lookup_by_def)

lemma lookup_by_SomeD: "lookup_by key xs k = Some x \<Longrightarrow> x \<in> set xs \<and> key x = k"
  by (auto simp: lookup_by_def find_Some_iff)

lemma lookup_by_None_iff: "lookup_by key xs k = None \<longleftrightarrow> (\<forall>x \<in> set xs. key x \<noteq> k)"
  by (auto simp: lookup_by_def find_None_iff)

lemma lookup_by_delete:
  "lookup_by key (delete_by key k xs) = (lookup_by key xs)(k := None)"
  by (induction xs) (auto simp: delete_by_def fun_eq_iff)

lemma lookup_by_store:
  "lookup_by key (store_by key x xs) = (lookup_by key xs)(key x \<mapsto> x)"
  by (auto simp: store_by_def lookup_by_delete fun_eq_iff)

section \<open>Errors\<close>

text \<open>
  \<open>k8serrors.StatusError\<close>: \<open>se_class\<close> is the library's own classification, what
  \<open>k8serrors.IsNotFound\<close> and \<open>k8serrors.IsAlreadyExists\<close> answer for it; \<open>se_message\<close> is its text.
\<close>

datatype k8s_class = ClassNotFound | ClassAlreadyExists | ClassOther

record status_error =
  se_class :: k8s_class
  se_code :: int
  se_reason :: string
  se_message :: string

datatype sentinel =
    ErrInstanceNotFound
  | ErrInstanceNotReady
  | ErrBindingNotReady
  | ErrServiceUpdateNotPermitted
  | ErrPlanChangeNotPermitted

text \<open>The failure responses that package \<open>apiresponses\<close> predefines and the broker returns.\<close>

datatype lib_failure =
    ErrInstanceDoesNotExist
  | ErrInstanceAlreadyExists
  | ErrConcurrentInstanceAccess
  | ErrBindingDoesNotExist
  | ErrBindingNotFound
  | ErrAsyncRequired

text \<open>
  A failure response is recorded by the calls that build it: \<open>NewFailure e code action key\<close> is
  \<open>NewFailureResponseBuilder(e, code, action)\<close>, with \<open>WithErrorKey(k)\<close> when the key is \<open>Some k\<close>.
\<close>

datatype go_error =
    Sentinel sentinel
  | Errorf string "string list"
  | Wrapf string "string list" go_error
  | StatusError status_error
  | Failure failure_response
  | LibError string
and failure_response =
    LibFailure lib_failure
  | NewFailure go_error int string "string option"
  | AppendErrorMessage failure_response string

text \<open>\<open>errors.As\<close> for the two error types the broker looks for, and \<open>errors.Is\<close> for a sentinel.\<close>

fun as_failure :: "go_error \<Rightarrow> failure_response option" where
  "as_failure (Failure f) = Some f"
| "as_failure (Wrapf _ _ e) = as_failure e"
| "as_failure _ = None"

fun as_status :: "go_error \<Rightarrow> status_error option" where
  "as_status (StatusError s) = Some s"
| "as_status (Wrapf _ _ e) = as_status e"
| "as_status _ = None"

fun is_sentinel :: "sentinel \<Rightarrow> go_error \<Rightarrow> bool" where
  "is_sentinel s (Sentinel t) = (s = t)"
| "is_sentinel s (Wrapf _ _ e) = is_sentinel s e"
| "is_sentinel s _ = False"

definition IsNotFound :: "go_error \<Rightarrow> bool" where
  "IsNotFound e = (case as_status e of None \<Rightarrow> False | Some s \<Rightarrow> se_class s = ClassNotFound)"

definition IsAlreadyExists :: "go_error \<Rightarrow> bool" where
  "IsAlreadyExists e =
     (case as_status e of None \<Rightarrow> False | Some s \<Rightarrow> se_class s = ClassAlreadyExists)"

lemma IsNotFound_simps [simp]:
  "IsNotFound (Sentinel s) = False"
  "IsNotFound (Errorf f as) = False"
  "IsNotFound (Wrapf f as e) = IsNotFound e"
  "IsNotFound (StatusError st) = (se_class st = ClassNotFound)"
  "IsNotFound (Failure r) = False"
  "IsNotFound (LibError m) = False"
  by (simp_all add: IsNotFound_def)

lemma IsAlreadyExists_simps [simp]:
  "IsAlreadyExists (Sentinel s) = False"
  "IsAlreadyExists (Errorf f as) = False"
  "IsAlreadyExists (Wrapf f as e) = IsAlreadyExists e"
  "IsAlreadyExists (StatusError st) = (se_class st = ClassAlreadyExists)"
  "IsAlreadyExists (Failure r) = False"
  "IsAlreadyExists (LibError m) = False"
  by (simp_all add: IsAlreadyExists_def)

lemma IsAlreadyExists_not_NotFound: "IsAlreadyExists e \<Longrightarrow> \<not> IsNotFound e"
  by (auto simp: IsNotFound_def IsAlreadyExists_def split: option.splits)

section \<open>Outcomes of pure calls\<close>

text \<open>
  A panic is not an error value: no \<open>if err != nil\<close> of the code sees it, so it has a constructor
  of its own that every composition passes through unchanged.
\<close>

datatype go_panic = TypeAssertion string | NilPointer string | PanicValue go_error | ClosedChannel

datatype 'a result = Ok 'a | Err go_error | Panic go_panic

fun bindR :: "'a result \<Rightarrow> ('a \<Rightarrow> 'b result) \<Rightarrow> 'b result" where
  "bindR (Ok a) f = f a"
| "bindR (Err e) f = Err e"
| "bindR (Panic p) f = Panic p"

fun mapErr :: "(go_error \<Rightarrow> go_error) \<Rightarrow> 'a result \<Rightarrow> 'a result" where
  "mapErr h (Ok a) = Ok a"
| "mapErr h (Err e) = Err (h e)"
| "mapErr h (Panic p) = Panic p"

text \<open>Library calls never panic by type: they return an error or a value.\<close>

fun lib_call :: "go_error + 'a \<Rightarrow> 'a result" where
  "lib_call (Inl e) = Err e"
| "lib_call (Inr a) = Ok a"

text \<open>Reading through a pointer.\<close>

fun deref :: "string \<Rightarrow> 'a option \<Rightarrow> 'a result" where
  "deref v None = Panic (NilPointer v)"
| "deref v (Some a) = Ok a"

fun returns :: "'a result \<Rightarrow> bool" where
  "returns (Panic p) = False"
| "returns _ = True"

lemma bindR_Ok_iff [go_inv]: "bindR r f = Ok b \<longleftrightarrow> (\<exists>a. r = Ok a \<and> f a = Ok b)"
  by (cases r) auto

lemma bindR_Err_iff [go_inv]:
  "bindR r f = Err e \<longleftrightarrow> r = Err e \<or> (\<exists>a. r = Ok a \<and> f a = Err e)"
  by (cases r) auto

lemma bindR_Panic_iff [go_inv]:
  "bindR r f = Panic p \<longleftrightarrow> r = Panic p \<or> (\<exists>a. r = Ok a \<and> f a = Panic p)"
  by (cases r) auto

lemma mapErr_Ok_iff [go_inv]: "mapErr h r = Ok a \<longleftrightarrow> r = Ok a"
  by (cases r) auto

lemma mapErr_Err_iff [go_inv]: "mapErr h r = Err e \<longleftrightarrow> (\<exists>e'. r = Err e' \<and> e = h e')"
  by (cases r) auto

lemma mapErr_Panic_iff [go_inv]: "mapErr h r = Panic p \<longleftrightarrow> r = Panic p"
  by (cases r) auto

lemma lib_call_Ok_iff [go_inv]: "lib_call x = Ok a \<longleftrightarrow> x = Inr a"
  by (cases x) auto

lemma lib_call_Err_iff [go_inv]: "lib_call x = Err e \<longleftrightarrow> x = Inl e"
  by (cases x) auto

lemma lib_call_not_Panic [simp]: "lib_call x \<noteq> Panic p"
  by (cases x) auto

lemma deref_Ok_iff [go_inv]: "deref v x = Ok a \<longleftrightarrow> x = Some a"
  by (cases x) auto

lemma deref_not_Err [simp]: "deref v x \<noteq> Err e"
  by (cases x) auto

lemma deref_Panic_iff [go_inv]: "deref v x = Panic p \<longleftrightarrow> x = None \<and> p = NilPointer v"
  by (cases x) auto

lemma bindR_assoc: "bindR (bindR r f) g = bindR r (\<lambda>a. bindR (f a) g)"
  by (cases r) auto

section \<open>Calls that change the cluster\<close>

text \<open>
  A handler runs from a state of the outside world \<open>'w\<close> to its outcome and the world it leaves
  behind. An error does not undo the writes made before it. Handlers that only read have the
  type \<open>'w \<Rightarrow> 'a result\<close> and become such a call by \<open>readM\<close>.
\<close>

type_synonym ('w, 'a) io = "'w \<Rightarrow> 'a result \<times> 'w"

definition retM :: "'a \<Rightarrow> ('w, 'a) io" where
  "retM a w = (Ok a, w)"

definition failM :: "go_error \<Rightarrow> ('w, 'a) io" where
  "failM e w = (Err e, w)"

definition liftR :: "'a result \<Rightarrow> ('w, 'a) io" where
  "liftR r w = (r, w)"

definition readM :: "('w \<Rightarrow> 'a result) \<Rightarrow> ('w, 'a) io" where
  "readM f w = (f w, w)"

definition writeM :: "('w \<Rightarrow> (go_error + 'a) \<times> 'w) \<Rightarrow> ('w, 'a) io" where
  "writeM f w = (case f w of (x, w') \<Rightarrow> (lib_call x, w'))"

definition bindM :: "('w, 'a) io \<Rightarrow> ('a \<Rightarrow> ('w, 'b) io) \<Rightarrow> ('w, 'b) io" where
  "bindM m f w = (case m w of
       (Ok a, w') \<Rightarrow> f a w'
     | (Err e, w') \<Rightarrow> (Err e, w')
     | (Panic p, w') \<Rightarrow> (Panic p, w'))"

text \<open>\<open>if err != nil { handle(err) }\<close> where the handler may itself return a value or an error.\<close>

definition handleM :: "('w, 'a) io \<Rightarrow> (go_error \<Rightarrow> 'a result) \<Rightarrow> ('w, 'a) io" where
  "handleM m h w = (case m w of
       (Ok a, w') \<Rightarrow> (Ok a, w')
     | (Err e, w') \<Rightarrow> (h e, w')
     | (Panic p, w') \<Rightarrow> (Panic p, w'))"

lemma basic_io_simps [simp]:
  "retM a w = (Ok a, w)"
  "failM e w = (Err e, w)"
  "liftR r w = (r, w)"
  "readM f w = (f w, w)"
  by (simp_all add: retM_def failM_def liftR_def readM_def)

lemma writeM_simps:
  "f w = (Inr a, w') \<Longrightarrow> writeM f w = (Ok a, w')"
  "f w = (Inl e, w') \<Longrightarrow> writeM f w = (Err e, w')"
  by (simp_all add: writeM_def)

lemma writeM_Ok_iff [go_inv]: "writeM f w = (Ok a, w') \<longleftrightarrow> f w = (Inr a, w')"
  by (auto simp: writeM_def go_inv split: prod.splits)

lemma writeM_Err_iff [go_inv]: "writeM f w = (Err e, w') \<longleftrightarrow> f w = (Inl e, w')"
  by (auto simp: writeM_def go_inv split: prod.splits)

lemma writeM_not_Panic [simp]: "writeM f w \<noteq> (Panic p, w')"
  by (auto simp: writeM_def split: prod.splits)

lemma bindM_step:
  "m w = (Ok a, w') \<Longrightarrow> bindM m f w = f a w'"
  "m w = (Err e, w') \<Longrightarrow> bindM m f w = (Err e, w')"
  "m w = (Panic p, w') \<Longrightarrow> bindM m f w = (Panic p, w')"
  by (simp_all add: bindM_def)

lemma bindM_retM [simp]: "bindM (retM a) f w = f a w"
  by (simp add: bindM_def)

lemma bindM_failM [simp]: "bindM (failM e) f w = (Err e, w)"
  by (simp add: bindM_def)

lemma bindM_liftR [simp]:
  "bindM (liftR r) f w =
     (case r of Ok a \<Rightarrow> f a w | Err e \<Rightarrow> (Err e, w) | Panic p \<Rightarrow> (Panic p, w))"
  by (simp add: bindM_def split: result.splits)

lemma bindM_readM [simp]:
  "bindM (readM g) f w =
     (case g w of Ok a \<Rightarrow> f a w | Err e \<Rightarrow> (Err e, w) | Panic p \<Rightarrow> (Panic p, w))"
  by (simp add: bindM_def split: result.splits)

lemma bindM_Ok_iff [go_inv]:
  "bindM m f w = (Ok b, w') \<longleftrightarrow> (\<exists>a w1. m w = (Ok a, w1) \<and> f a w1 = (Ok b, w'))"
  by (auto simp: bindM_def split: prod.splits result.splits)

lemma bindM_Err_iff [go_inv]:
  "bindM m f w = (Err e, w') \<longleftrightarrow>
     m w = (Err e, w') \<or> (\<exists>a w1. m w = (Ok a, w1) \<and> f a w1 = (Err e, w'))"
  by (auto simp: bindM_def split: prod.splits result.splits)

lemma bindM_Panic_iff [go_inv]:
  "bindM m f w = (Panic p, w') \<longleftrightarrow>
     m w = (Panic p, w') \<or> (\<exists>a w1. m w = (Ok a, w1) \<and> f a w1 = (Panic p, w'))"
  by (auto simp: bindM_def split: prod.splits result.splits)

lemma bindM_assoc: "bindM (bindM m f) g = bindM m (\<lambda>a. bindM (f a) g)"
  by (rule ext) (simp add: bindM_def split: prod.splits result.splits)

lemma bindM_retM_world [simp]: "snd (bindM m (\<lambda>a. retM (f a)) w) = snd (m w)"
  by (simp add: bindM_def split: prod.splits result.splits)

lemma handleM_step:
  "m w = (Ok a, w') \<Longrightarrow> handleM m h w = (Ok a, w')"
  "m w = (Err e, w') \<Longrightarrow> handleM m h w = (h e, w')"
  "m w = (Panic p, w') \<Longrightarrow> handleM m h w = (Panic p, w')"
  by (simp_all add: handleM_def)

lemma handleM_Ok_iff [go_inv]:
  "handleM m h w = (Ok a, w') \<longleftrightarrow>
     m w = (Ok a, w') \<or> (\<exists>e. m w = (Err e, w') \<and> h e = Ok a)"
  by (auto simp: handleM_def split: prod.splits result.splits)

lemma snd_handleM [simp]: "snd (handleM m h w) = snd (m w)"
  by (simp add: handleM_def split: prod.splits result.splits)

section \<open>Calls that keep a part of the world\<close>

text \<open>
  \<open>keeps R m\<close>: whatever its outcome, a run of \<open>m\<close> relates the world before and after by \<open>R\<close>.
  With \<open>R\<close> reflexive and transitive this composes along \<open>bindM\<close>, which is how the frame facts
  of the handlers are proved; \<open>R\<close> is equality for a call that writes nothing.
\<close>

definition keeps :: "('w \<Rightarrow> 'w \<Rightarrow> bool) \<Rightarrow> ('w, 'a) io \<Rightarrow> bool" where
  "keeps R m \<longleftrightarrow> (\<forall>w. R w (snd (m w)))"

abbreviation read_only :: "('w, 'a) io \<Rightarrow> bool" where
  "read_only \<equiv> keeps (=)"

lemma keepsD: "keeps R m \<Longrightarrow> m w = (r, w') \<Longrightarrow> R w w'"
  by (metis keeps_def snd_conv)

lemma keepsI: "(\<And>w r w'. m w = (r, w') \<Longrightarrow> R w w') \<Longrightarrow> keeps R m"
  by (simp add: keeps_def) (metis prod.collapse)

lemma keeps_basic:
  assumes "reflp R"
  shows "keeps R (retM a)" "keeps R (failM e)" "keeps R (liftR r)" "keeps R (readM f)"
  using assms by (simp_all add: keeps_def reflp_def)

lemma keeps_bindM:
  assumes "transp R" and "keeps R m" and "\<And>a. keeps R (f a)"
  shows "keeps R (bindM m f)"
proof (rule keepsI)
  fix w r w'
  assume run: "bindM m f w = (r, w')"
  obtain r1 w1 where m: "m w = (r1, w1)" by fastforce
  then have first: "R w w1" using assms(2) keepsD by metis
  show "R w w'"
  proof (cases r1)
    case (Ok a)
    with run m have "f a w1 = (r, w')" by (simp add: bindM_step)
    then have "R w1 w'" using assms(3) keepsD by metis
    with first show ?thesis by (rule transpD [OF assms(1)])
  qed (use run m first in \<open>auto simp: bindM_step\<close>)
qed

lemma keeps_handleM: "keeps R m \<Longrightarrow> keeps R (handleM m h)"
  by (simp add: keeps_def)

lemma keeps_read_only: "reflp R \<Longrightarrow> read_only m \<Longrightarrow> keeps R m"
  by (simp add: keeps_def reflp_def)

lemma read_only_basic [go_frame]:
  "read_only (retM a)" "read_only (failM e)" "read_only (liftR r)" "read_only (readM f)"
  by (simp_all add: keeps_def)

lemma read_only_bindM [go_frame]:
  "read_only m \<Longrightarrow> (\<And>a. read_only (f a)) \<Longrightarrow> read_only (bindM m f)"
  by (rule keeps_bindM) auto

end
