(* ===== verification/Go_Strings.thy ===== *)
theory Go_Strings
  imports Go_Prelude "HOL-Library.List_Lexorder" "HOL-Library.Char_ord"
begin

text \<open>
  The functions of Go's \<open>strings\<close> and \<open>strconv\<close> packages the broker uses, on strings as byte
  lists: \<open>Split\<close> and \<open>Join\<close> with a one-byte separator, \<open>Replace\<close> of the first occurrence,
  \<open>TrimSpace\<close> and \<open>Fields\<close> with Unicode's white space, \<open>Atoi\<close>, \<open>ParseBool\<close> and the decimal
  printing of \<open>%d\<close>; and maps with string values, whose lookup of a missing key is the empty
  string.
\<close>

section \<open>Maps with string values\<close>

type_synonym str_map = "string \<rightharpoonup> string"

definition sget :: "str_map \<Rightarrow> string \<Rightarrow> string" where
  "sget m k = (case m k of None \<Rightarrow> '''' | Some v \<Rightarrow> v)"

lemma sget_upd [simp]: "sget (m(k \<mapsto> v)) k' = (if k = k' then v else sget m k')"
  by (simp add: sget_def)

lemma sget_empty [simp]: "sget Map.empty k = ''''"
  by (simp add: sget_def)

section \<open>\<open>strings.Split\<close> and \<open>strings.Join\<close>\<close>

fun Split :: "string \<Rightarrow> char \<Rightarrow> string list" where
  "Split [] c = [[]]"
| "Split (x # xs) c =
     (if x = c then [] # Split xs c
      else (case Split xs c of [] \<Rightarrow> [[x]] | p # ps \<Rightarrow> (x # p) # ps))"

fun Join :: "string list \<Rightarrow> string \<Rightarrow> string" where
  "Join [] sep = []"
| "Join [p] sep = p"
| "Join (p # ps) sep = p @ sep @ Join ps sep"

lemma Split_not_Nil [simp]: "Split s c \<noteq> []"
  by (induction s) (auto split: list.splits)

lemma Join_Cons_char: "ps \<noteq> [] \<Longrightarrow> Join ((x # p) # ps) sep = x # Join (p # ps) sep"
  by (cases ps) auto

lemma Join_Split: "Join (Split s c) [c] = s"
proof (induction s)
  case (Cons x xs)
  then show ?case by (cases "Split xs c"; cases "tl (Split xs c)") auto
qed simp

lemma Split_no_sep: "c \<notin> set s \<Longrightarrow> Split s c = [s]"
  by (induction s) auto

lemma Split_append_sep: "c \<notin> set s \<Longrightarrow> Split (s @ c # t) c = s # Split t c"
  by (induction s) auto

lemma Split_Join:
  assumes "ps \<noteq> []" and "\<And>p. p \<in> set ps \<Longrightarrow> c \<notin> set p"
  shows "Split (Join ps [c]) c = ps"
  using assms
proof (induction ps "[c]" rule: Join.induct)
  case (3 p q qs)
  then show ?case by (simp add: Split_append_sep)
qed (auto simp: Split_no_sep)

lemma Split_parts_no_sep: "p \<in> set (Split s c) \<Longrightarrow> c \<notin> set p"
  by (induction s arbitrary: p) (auto split: if_splits list.splits)

lemma set_parts_Split: "p \<in> set (Split s c) \<Longrightarrow> set p \<subseteq> set s"
  by (induction s arbitrary: p) (fastforce split: if_splits list.splits)+

lemma length_Split: "length (Split s c) = Suc (count_list s c)"
  by (induction s) (auto split: list.splits)

section \<open>\<open>strings.Replace(s, old, new, 1)\<close>\<close>

fun Replace1 :: "string \<Rightarrow> string \<Rightarrow> string \<Rightarrow> string" where
  "Replace1 [] old new = (if old = [] then new else [])"
| "Replace1 (x # xs) old new =
     (if take (length old) (x # xs) = old then new @ drop (length old) (x # xs)
      else x # Replace1 xs old new)"

text \<open>Where no character before the first occurrence can start one, the cut is exactly there.\<close>

lemma Replace1_skip:
  assumes "old \<noteq> []" and "hd old \<notin> set s"
  shows "Replace1 (s @ t) old new = s @ Replace1 t old new"
  using assms(2)
proof (induction s)
  case (Cons x xs)
  from Cons.prems have "take (length old) ((x # xs) @ t) \<noteq> old"
    using assms(1) by (cases old) auto
  with Cons show ?case by simp
qed simp

lemma Replace1_prefix: "Replace1 (old @ t) old new = new @ t"
  by (cases "old @ t") (auto simp: append_eq_Cons_conv)

lemma Replace1_absent:
  assumes "old \<noteq> []" and "hd old \<notin> set s"
  shows "Replace1 s old new = s"
  using Replace1_skip [OF assms, of "[]"] assms(1) by simp

section \<open>White space: \<open>strings.TrimSpace\<close> and \<open>strings.Fields\<close>\<close>

text \<open>
  \<open>unicode.IsSpace\<close>, as UTF-8 byte sequences: tab, line feed, vertical tab, form feed, carriage
  return, space, U+0085, U+00A0, U+1680, U+2000 to U+200A, U+2028, U+2029, U+202F, U+205F and
  U+3000. Every one of them starts with a byte that is no UTF-8 continuation byte, so reading
  the string byte by byte finds the runes Go finds.
\<close>

definition space_runes :: "string list" where
  "space_runes =
     map (map char_of)
      ([[9], [10], [11], [12], [13], [32], [194, 133], [194, 160], [225, 154, 128],
        [226, 128, 168], [226, 128, 169], [226, 128, 175], [226, 129, 159], [227, 128, 128]]
       @ map (\<lambda>k. [226, 128, 128 + k]) [0..<11] :: nat list list)"

text \<open>The list written out, for evaluation.\<close>

lemma space_runes_code [code]:
  "space_runes =
    [[CHR 0x09], [CHR 0x0A], [CHR 0x0B], [CHR 0x0C], [CHR 0x0D], [CHR 0x20],
     [CHR 0xC2, CHR 0x85], [CHR 0xC2, CHR 0xA0], [CHR 0xE1, CHR 0x9A, CHR 0x80],
     [CHR 0xE2, CHR 0x80, CHR 0xA8], [CHR 0xE2, CHR 0x80, CHR 0xA9],
     [CHR 0xE2, CHR 0x80, CHR 0xAF], [CHR 0xE2, CHR 0x81, CHR 0x9F],
     [CHR 0xE3, CHR 0x80, CHR 0x80], [CHR 0xE2, CHR 0x80, CHR 0x80],
     [CHR 0xE2, CHR 0x80, CHR 0x81], [CHR 0xE2, CHR 0x80, CHR 0x82],
     [CHR 0xE2, CHR 0x80, CHR 0x83], [CHR 0xE2, CHR 0x80, CHR 0x84],
     [CHR 0xE2, CHR 0x80, CHR 0x85], [CHR 0xE2, CHR 0x80, CHR 0x86],
     [CHR 0xE2, CHR 0x80, CHR 0x87], [CHR 0xE2, CHR 0x80, CHR 0x88],
     [CHR 0xE2, CHR 0x80, CHR 0x89], [CHR 0xE2, CHR 0x80, CHR 0x8A]]"
  by (simp add: space_runes_def upt_rec char_of_def bit_Suc_0_iff)

definition leading_space :: "string list \<Rightarrow> string \<Rightarrow> nat" where
  "leading_space runes s =
     (case find (\<lambda>r. take (length r) s = r) runes of None \<Rightarrow> 0 | Some r \<Rightarrow> length r)"

function trim_left :: "string list \<Rightarrow> string \<Rightarrow> string" where
  "trim_left runes s =
     (let n = leading_space runes s
      in if n = 0 \<or> s = [] then s else trim_left runes (drop n s))"
  by pat_completeness auto
termination
  by (relation "measure (\<lambda>(_, s). length s)") auto

declare trim_left.simps [simp del]

definition TrimSpace :: "string \<Rightarrow> string" where
  "TrimSpace s =
     rev (trim_left (map rev space_runes) (rev (trim_left space_runes s)))"

fun fields_aux :: "nat \<Rightarrow> string \<Rightarrow> string \<Rightarrow> string list" where
  "fields_aux 0 cur s = []"
| "fields_aux (Suc fuel) cur [] = (if cur = [] then [] else [rev cur])"
| "fields_aux (Suc fuel) cur (x # xs) =
     (let n = leading_space space_runes (x # xs)
      in if n = 0 then fields_aux fuel (x # cur) xs
         else if cur = [] then fields_aux fuel [] (drop n (x # xs))
         else rev cur # fields_aux fuel [] (drop n (x # xs)))"

text \<open>Every step consumes a byte, so one more unit of fuel than bytes is enough.\<close>

definition Fields :: "string \<Rightarrow> string list" where
  "Fields s = fields_aux (Suc (length s)) [] s"

text \<open>More fuel changes nothing once there is one unit more than bytes left.\<close>

lemma fields_aux_enough:
  "length s < n \<Longrightarrow> length s < m \<Longrightarrow> fields_aux n cur s = fields_aux m cur s"
proof (induction n arbitrary: m cur s)
  case (Suc n)
  from Suc.prems(2) obtain k where k: "m = Suc k" by (cases m) auto
  show ?case
  proof (cases s)
    case (Cons x xs)
    define j where "j = leading_space space_runes (x # xs)"
    have rest: "fields_aux n c xs = fields_aux k c xs" for c
      by (rule Suc.IH) (use Suc.prems Cons k in simp_all)
    show ?thesis
    proof (cases "j = 0")
      case True
      then show ?thesis
        using rest [of "x # cur"] by (simp add: Cons k Let_def flip: j_def)
    next
      case False
      have "fields_aux n [] (drop j (x # xs)) = fields_aux k [] (drop j (x # xs))"
        by (rule Suc.IH) (use Suc.prems Cons k False in simp_all)
      with False show ?thesis
        by (simp add: Cons k Let_def flip: j_def del: drop_Cons')
    qed
  qed (simp add: k)
qed simp

lemma trim_left_suffix: "\<exists>p. s = p @ trim_left runes s"
proof (induction runes s rule: trim_left.induct)
  case (1 runes s)
  show ?case
  proof (cases "leading_space runes s = 0 \<or> s = []")
    case True
    then show ?thesis by (subst trim_left.simps) (simp add: Let_def)
  next
    case False
    with 1 obtain p where
      "drop (leading_space runes s) s = p @ trim_left runes (drop (leading_space runes s) s)"
      by blast
    then have "s = (take (leading_space runes s) s @ p)
        @ trim_left runes (drop (leading_space runes s) s)"
      by (metis append_assoc append_take_drop_id)
    moreover have "trim_left runes s = trim_left runes (drop (leading_space runes s) s)"
      using False by (simp add: trim_left.simps [of runes s] Let_def)
    ultimately show ?thesis by metis
  qed
qed

lemma set_trim_left: "set (trim_left runes s) \<subseteq> set s"
  using trim_left_suffix [of s runes] by (metis set_append Un_upper2)

lemma set_TrimSpace: "set (TrimSpace s) \<subseteq> set s"
proof -
  have "set (TrimSpace s) \<subseteq> set (rev (trim_left space_runes s))"
    unfolding TrimSpace_def
    using set_trim_left [of "map rev space_runes" "rev (trim_left space_runes s)"] by simp
  also have "\<dots> \<subseteq> set s" unfolding set_rev by (rule set_trim_left)
  finally show ?thesis .
qed

lemma trim_left_idle: "leading_space runes (trim_left runes s) = 0 \<or> trim_left runes s = []"
proof (induction runes s rule: trim_left.induct)
  case (1 runes s)
  then show ?case
    by (cases "leading_space runes s = 0 \<or> s = []")
      (auto simp: trim_left.simps [of runes s] Let_def)
qed

section \<open>Decimal numbers: \<open>strconv.Atoi\<close> and \<open>%d\<close>\<close>

definition is_digit :: "char \<Rightarrow> bool" where
  "is_digit c = (48 \<le> (of_char c :: nat) \<and> (of_char c :: nat) \<le> 57)"

definition digits_value :: "string \<Rightarrow> nat" where
  "digits_value ds = foldl (\<lambda>n c. 10 * n + (of_char c - 48)) 0 ds"

text \<open>
  \<open>int\<close> has 64 bits. A syntax error and a number out of range are one error here: the code
  returns either without looking at it.
\<close>

definition Atoi :: "string \<Rightarrow> int result" where
  "Atoi s =
     (let neg = (s \<noteq> [] \<and> hd s = CHR ''-'');
          ds = (if s \<noteq> [] \<and> (hd s = CHR ''-'' \<or> hd s = CHR ''+'') then tl s else s);
          n = int (digits_value ds);
          v = (if neg then - n else n)
      in if ds = [] \<or> \<not> list_all is_digit ds then Err (LibError ''strconv.Atoi'')
         else if - (2 ^ 63) \<le> v \<and> v < 2 ^ 63 then Ok v
         else Err (LibError ''strconv.Atoi''))"

fun show_nat :: "nat \<Rightarrow> string" where
  "show_nat n =
     (if n < 10 then [char_of (48 + n)] else show_nat (n div 10) @ [char_of (48 + n mod 10)])"

declare show_nat.simps [simp del]

definition show_int :: "int \<Rightarrow> string" where
  "show_int i = (if i < 0 then CHR ''-'' # show_nat (nat (- i)) else show_nat (nat i))"

lemma of_char_digit: "d < 10 \<Longrightarrow> (of_char (char_of (48 + d) :: char) :: nat) = 48 + d"
  by simp

lemma show_nat_not_Nil [simp]: "show_nat n \<noteq> []"
  by (subst show_nat.simps) simp

lemma show_nat_digits: "list_all is_digit (show_nat n)"
proof (induction n rule: show_nat.induct)
  case (1 n)
  have "is_digit (char_of (48 + d))" if "d < 10" for d :: nat
    using that by (simp add: is_digit_def)
  with 1 show ?case by (subst show_nat.simps) simp
qed

lemma digits_value_snoc: "digits_value (ds @ [c]) = 10 * digits_value ds + (of_char c - 48)"
  by (simp add: digits_value_def)

lemma digits_value_show_nat: "digits_value (show_nat n) = n"
proof (induction n rule: show_nat.induct)
  case (1 n)
  show ?case
  proof (cases "n < 10")
    case True
    then show ?thesis by (subst show_nat.simps) (simp add: digits_value_def)
  next
    case False
    with 1 have "digits_value (show_nat (n div 10)) = n div 10" by simp
    with False show ?thesis
      by (subst show_nat.simps) (simp add: digits_value_snoc)
  qed
qed

lemma is_digit_sign: "\<not> is_digit CHR ''-''" "\<not> is_digit CHR ''+''"
  by (simp_all add: is_digit_def)

lemma hd_show_nat: "hd (show_nat n) \<noteq> CHR ''-''" "hd (show_nat n) \<noteq> CHR ''+''"
  using show_nat_digits [of n] is_digit_sign
  by (cases "show_nat n"; auto)+

lemma Atoi_show_nat: "int n < 2 ^ 63 \<Longrightarrow> Atoi (show_nat n) = Ok (int n)"
  using hd_show_nat [of n] show_nat_digits [of n]
  by (simp add: Atoi_def Let_def digits_value_show_nat)

lemma Atoi_show_int:
  assumes "- (2 ^ 63) \<le> i" and "i < 2 ^ 63"
  shows "Atoi (show_int i) = Ok i"
proof (cases "i < 0")
  case True
  with assms show ?thesis
    using show_nat_digits [of "nat (- i)"]
    by (simp add: Atoi_def show_int_def Let_def digits_value_show_nat)
next
  case False
  with assms Atoi_show_nat [of "nat i"] show ?thesis by (simp add: show_int_def)
qed

lemma Atoi_range: "Atoi s = Ok v \<Longrightarrow> - (2 ^ 63) \<le> v \<and> v < 2 ^ 63"
  by (auto simp: Atoi_def Let_def split: if_splits)

text \<open>The same value, evaluated on \<open>int\<close>.\<close>

lemma int_digits_value:
  assumes "list_all is_digit ds"
  shows "int (digits_value ds) = foldl (\<lambda>n c. 10 * n + (of_char c - 48)) 0 ds"
proof -
  have "int (foldl (\<lambda>n c. 10 * n + (of_char c - 48)) m ds) =
      foldl (\<lambda>n c. 10 * n + (of_char c - 48)) (int m) ds" for m
    using assms
  proof (induction ds arbitrary: m)
    case (Cons c ds)
    then have "int (10 * m + (of_char c - 48)) = 10 * int m + (of_char c - 48)"
      by (simp add: is_digit_def of_nat_diff of_nat_of_char)
    with Cons show ?case by (simp del: of_nat_add of_nat_mult)
  qed simp
  from this [of 0] show ?thesis by (simp add: digits_value_def)
qed

lemma Atoi_code [code]:
  "Atoi s =
     (let neg = (s \<noteq> [] \<and> hd s = CHR ''-'');
          ds = (if s \<noteq> [] \<and> (hd s = CHR ''-'' \<or> hd s = CHR ''+'') then tl s else s)
      in if ds = [] \<or> \<not> list_all is_digit ds then Err (LibError ''strconv.Atoi'')
         else let n = foldl (\<lambda>n c. 10 * n + (of_char c - 48)) 0 ds; v = (if neg then - n else n)
           in if - (2 ^ 63) \<le> v \<and> v < 2 ^ 63 then Ok v else Err (LibError ''strconv.Atoi''))"
proof -
  define ds where "ds = (if s \<noteq> [] \<and> (hd s = CHR ''-'' \<or> hd s = CHR ''+'') then tl s else s)"
  show ?thesis
    unfolding Atoi_def Let_def ds_def [symmetric]
    by (cases "list_all is_digit ds") (simp_all only: int_digits_value simp_thms if_False if_True)
qed

function show_pos :: "int \<Rightarrow> string" where
  "show_pos i = (if i < 10 then [char_of (48 + i)] else show_pos (i div 10) @ [char_of (48 + i mod 10)])"
  by auto

termination by (relation "measure nat") auto

declare show_pos.simps [simp del]

lemma show_pos_nat: "show_pos (int n) = show_nat n"
proof (induction n rule: show_nat.induct)
  case (1 n)
  have digit: "(char_of (48 + int m) :: char) = char_of (48 + m)" for m
    by (metis char_of_nat of_nat_add of_nat_numeral)
  show ?case
  proof (cases "n < 10")
    case True
    then show ?thesis by (simp add: show_pos.simps [of "int n"] show_nat.simps [of n] digit)
  next
    case False
    then have "show_pos (int n) = show_pos (int (n div 10)) @ [char_of (48 + int (n mod 10))]"
      by (simp add: show_pos.simps [of "int n"] zdiv_int zmod_int)
    with 1 [OF False] False show ?thesis by (simp only: digit show_nat.simps [of n] if_False)
  qed
qed

lemma show_int_code [code]:
  "show_int i = (if i < 0 then CHR ''-'' # show_pos (- i) else show_pos i)"
  using show_pos_nat [of "nat i"] show_pos_nat [of "nat (- i)"]
  by (cases "i < 0") (simp_all add: show_int_def)

text \<open>\<open>strings.ToLower\<close> on a letter of ASCII.\<close>

definition ascii_lower :: "char \<Rightarrow> char" where
  "ascii_lower c =
     (let n = of_char c :: nat in if 65 \<le> n \<and> n \<le> 90 then char_of (n + 32) else c)"

section \<open>\<open>strconv.ParseBool\<close>\<close>

definition ParseBool :: "string \<Rightarrow> bool result" where
  "ParseBool s =
     (if s \<in> {''1'', ''t'', ''T'', ''true'', ''TRUE'', ''True''} then Ok True
      else if s \<in> {''0'', ''f'', ''F'', ''false'', ''FALSE'', ''False''} then Ok False
      else Err (LibError ''strconv.ParseBool''))"

lemma ParseBool_not_Panic [simp]: "ParseBool s \<noteq> Panic p"
  by (simp add: ParseBool_def)

end
