(* ===== verification/Metadata.thy ===== *)
theory Metadata
  imports Go_Strings
begin

text \<open>
  \<open>pkg/crossplane/metadata.go\<close> and the service names of \<open>pkg/crossplane/services.go\<close>: the
  annotation and label keys, the parsed \<open>Labels\<close> and their parser.
\<close>

section \<open>Keys\<close>

definition SynToolsBase :: string where "SynToolsBase = ''service.syn.tools''"
definition AppcatBase :: string where "AppcatBase = ''appcat.vshn.io''"

definition DescriptionAnnotation :: string where
  "DescriptionAnnotation = SynToolsBase @ ''/description''"
definition MetadataAnnotation :: string where
  "MetadataAnnotation = SynToolsBase @ ''/metadata''"
definition TagsAnnotation :: string where
  "TagsAnnotation = SynToolsBase @ ''/tags''"

definition ServiceNameLabel :: string where "ServiceNameLabel = SynToolsBase @ ''/name''"
definition ServiceIDLabel :: string where "ServiceIDLabel = SynToolsBase @ ''/id''"
definition PlanNameLabel :: string where "PlanNameLabel = SynToolsBase @ ''/plan''"
definition ClusterLabel :: string where "ClusterLabel = SynToolsBase @ ''/cluster''"
definition SLALabel :: string where "SLALabel = SynToolsBase @ ''/sla''"
definition InstanceIDLabel :: string where "InstanceIDLabel = SynToolsBase @ ''/instance''"
definition ParentIDLabel :: string where "ParentIDLabel = SynToolsBase @ ''/parent''"
definition BindableLabel :: string where "BindableLabel = SynToolsBase @ ''/bindable''"
definition UpdatableLabel :: string where "UpdatableLabel = SynToolsBase @ ''/updatable''"
definition DeletedLabel :: string where "DeletedLabel = SynToolsBase @ ''/deleted''"
definition PrincipalLabel :: string where "PrincipalLabel = SynToolsBase @ ''/principal''"
definition OwnerApiVersionLabel :: string where
  "OwnerApiVersionLabel = AppcatBase @ ''/ownerapiversion''"
definition OwnerGroupLabel :: string where "OwnerGroupLabel = AppcatBase @ ''/ownergroup''"
definition OwnerKindLabel :: string where "OwnerKindLabel = AppcatBase @ ''/ownerkind''"

text \<open>Unfolding the keys decides which two of them are equal: no two are.\<close>

lemmas label_keys =
  SynToolsBase_def AppcatBase_def ServiceNameLabel_def ServiceIDLabel_def PlanNameLabel_def
  ClusterLabel_def SLALabel_def InstanceIDLabel_def ParentIDLabel_def BindableLabel_def
  UpdatableLabel_def DeletedLabel_def PrincipalLabel_def OwnerApiVersionLabel_def
  OwnerGroupLabel_def OwnerKindLabel_def

section \<open>Service names\<close>

definition RedisService :: string where "RedisService = ''redis-k8s''"
definition MariaDBService :: string where "MariaDBService = ''mariadb-k8s''"
definition MariaDBDatabaseService :: string where
  "MariaDBDatabaseService = ''mariadb-k8s-database''"

lemmas service_names = RedisService_def MariaDBService_def MariaDBDatabaseService_def

lemma service_names_distinct [simp]:
  "RedisService \<noteq> MariaDBService" "MariaDBService \<noteq> RedisService"
  "RedisService \<noteq> MariaDBDatabaseService" "MariaDBDatabaseService \<noteq> RedisService"
  "MariaDBService \<noteq> MariaDBDatabaseService" "MariaDBDatabaseService \<noteq> MariaDBService"
  by (simp_all add: service_names)

definition IsValid :: "string \<Rightarrow> bool" where
  "IsValid s = (s = RedisService \<or> s = MariaDBService \<or> s = MariaDBDatabaseService)"

section \<open>Labels\<close>

record labels =
  ServiceName :: string
  ServiceID :: string
  PlanName :: string
  PlanSize :: string
  InstanceID :: string
  ParentID :: string
  SLA :: string
  Bindable :: bool
  Updatable :: bool
  Deleted :: bool
  OwnerApiVersion :: string
  OwnerGroup :: string
  OwnerKind :: string

definition parseBoolLabel :: "string \<Rightarrow> bool \<Rightarrow> bool result" where
  "parseBoolLabel s def = (if s = '''' then Ok def else ParseBool s)"

definition getPlanSize :: "string \<Rightarrow> string \<Rightarrow> string" where
  "getPlanSize name sla = Replace1 name (''-'' @ sla) ''''"

definition parseLabels :: "str_map \<Rightarrow> labels result" where
  "parseLabels l =
     (let name = sget l PlanNameLabel;
          sla = sget l SLALabel;
          md = \<lparr>ServiceName = sget l ServiceNameLabel, ServiceID = sget l ServiceIDLabel,
                PlanName = name, PlanSize = getPlanSize name sla,
                InstanceID = sget l InstanceIDLabel, ParentID = sget l ParentIDLabel, SLA = sla,
                Bindable = True, Updatable = False, Deleted = False,
                OwnerApiVersion = sget l OwnerApiVersionLabel,
                OwnerGroup = sget l OwnerGroupLabel, OwnerKind = sget l OwnerKindLabel\<rparr>
      in if \<not> IsValid (ServiceName md)
         then Err (Errorf ''service %q not valid'' [ServiceName md])
         else bindR (parseBoolLabel (sget l BindableLabel) True) (\<lambda>b.
              bindR (parseBoolLabel (sget l UpdatableLabel) False) (\<lambda>u.
              bindR (parseBoolLabel (sget l DeletedLabel) False) (\<lambda>d.
              Ok (md\<lparr>Bindable := b, Updatable := u, Deleted := d\<rparr>)))))"

section \<open>Lemmas\<close>

lemma parseBoolLabel_not_Panic [simp]: "parseBoolLabel s d \<noteq> Panic p"
  by (simp add: parseBoolLabel_def)

lemma parseLabels_not_Panic [simp]: "parseLabels l \<noteq> Panic p"
  by (simp add: parseLabels_def Let_def go_inv)

text \<open>What a successful parse returns, field by field.\<close>

lemma parseLabels_OkD:
  assumes "parseLabels l = Ok md"
  shows "ServiceName md = sget l ServiceNameLabel" "ServiceID md = sget l ServiceIDLabel"
    "PlanName md = sget l PlanNameLabel" "SLA md = sget l SLALabel"
    "PlanSize md = getPlanSize (sget l PlanNameLabel) (sget l SLALabel)"
    "InstanceID md = sget l InstanceIDLabel" "ParentID md = sget l ParentIDLabel"
    "IsValid (ServiceName md)"
  using assms by (auto simp: parseLabels_def Let_def go_inv split: if_splits)

text \<open>The parse looks at no label but the ones it names.\<close>

definition parsed_keys :: "string set" where
  "parsed_keys = {ServiceNameLabel, ServiceIDLabel, PlanNameLabel, SLALabel, InstanceIDLabel,
     ParentIDLabel, BindableLabel, UpdatableLabel, DeletedLabel, OwnerApiVersionLabel,
     OwnerGroupLabel, OwnerKindLabel}"

lemma parseLabels_cong:
  assumes "\<And>k. k \<in> parsed_keys \<Longrightarrow> sget l k = sget l' k"
  shows "parseLabels l = parseLabels l'"
  using assms by (simp add: parseLabels_def parsed_keys_def Let_def)

lemma parseLabels_Ok_iff:
  "(\<exists>md. parseLabels l = Ok md) \<longleftrightarrow>
     IsValid (sget l ServiceNameLabel) \<and>
     (\<exists>b. parseBoolLabel (sget l BindableLabel) True = Ok b) \<and>
     (\<exists>b. parseBoolLabel (sget l UpdatableLabel) False = Ok b) \<and>
     (\<exists>b. parseBoolLabel (sget l DeletedLabel) False = Ok b)"
  by (auto simp: parseLabels_def Let_def go_inv)

lemma sget_non_empty_Some: "sget l k \<noteq> '''' \<Longrightarrow> l k \<noteq> None"
  by (auto simp: sget_def split: option.splits)

lemma IsValid_not_empty: "IsValid s \<Longrightarrow> s \<noteq> ''''"
  by (auto simp: IsValid_def service_names)

lemma getPlanSize_suffix:
  assumes "CHR ''-'' \<notin> set sz"
  shows "getPlanSize (sz @ ''-'' @ sla) sla = sz"
  using assms Replace1_skip [of "''-'' @ sla" sz "''-'' @ sla" "''''"]
    Replace1_prefix [of "''-'' @ sla" "''''" "''''"]
  by (simp add: getPlanSize_def)

lemma getPlanSize_no_dash: "CHR ''-'' \<notin> set name \<Longrightarrow> getPlanSize name sla = name"
  by (simp add: getPlanSize_def Replace1_absent)

section \<open>Properties\<close>

definition true_words :: "string set" where
  "true_words = {''1'', ''t'', ''T'', ''true'', ''TRUE'', ''True''}"

definition false_words :: "string set" where
  "false_words = {''0'', ''f'', ''F'', ''false'', ''FALSE'', ''False''}"

lemma parseBoolLabel_Ok_iff:
  "parseBoolLabel s d = Ok b \<longleftrightarrow>
     (if s = '''' then b = d else s \<in> true_words \<union> false_words \<and> b = (s \<in> true_words))"
proof -
  have "true_words \<inter> false_words = {}" "'''' \<notin> true_words" "'''' \<notin> false_words"
    by (simp_all add: true_words_def false_words_def)
  then show ?thesis
    by (auto simp: parseBoolLabel_def ParseBool_def simp flip: true_words_def false_words_def)
qed

text \<open>C31: The parser of labels, by what it accepts and what it answers: the service name must be one
  of the three known services, and the labels \<open>bindable\<close>, \<open>updatable\<close> and \<open>deleted\<close> must each be
  missing, empty or a Boolean in Go's notation; a service is bindable unless it says otherwise, and
  neither updatable nor deleted unless it says so.\<close>

theorem labels_accepted:
  "parseLabels l = Ok md \<longleftrightarrow>
     IsValid (sget l ServiceNameLabel) \<and>
     {sget l BindableLabel, sget l UpdatableLabel, sget l DeletedLabel}
       \<subseteq> {''''} \<union> true_words \<union> false_words \<and>
     md = \<lparr>ServiceName = sget l ServiceNameLabel, ServiceID = sget l ServiceIDLabel,
           PlanName = sget l PlanNameLabel,
           PlanSize = getPlanSize (sget l PlanNameLabel) (sget l SLALabel),
           InstanceID = sget l InstanceIDLabel, ParentID = sget l ParentIDLabel,
           SLA = sget l SLALabel,
           Bindable = (sget l BindableLabel \<notin> false_words),
           Updatable = (sget l UpdatableLabel \<in> true_words),
           Deleted = (sget l DeletedLabel \<in> true_words),
           OwnerApiVersion = sget l OwnerApiVersionLabel, OwnerGroup = sget l OwnerGroupLabel,
           OwnerKind = sget l OwnerKindLabel\<rparr>"
proof -
  have disjoint: "true_words \<inter> false_words = {}" "'''' \<notin> true_words" "'''' \<notin> false_words"
    by (simp_all add: true_words_def false_words_def)
  have unless: "parseBoolLabel s True = Ok b \<longleftrightarrow>
      s \<in> {''''} \<union> true_words \<union> false_words \<and> b = (s \<notin> false_words)" for s b
    using disjoint by (auto simp: parseBoolLabel_Ok_iff)
  have if_said: "parseBoolLabel s False = Ok b \<longleftrightarrow>
      s \<in> {''''} \<union> true_words \<union> false_words \<and> b = (s \<in> true_words)" for s b
    using disjoint by (auto simp: parseBoolLabel_Ok_iff)
  show ?thesis
    unfolding parseLabels_def Let_def by (auto simp: go_inv unless if_said)
qed

text \<open>For a plan named by its size and its service level, joined by a dash, the size that is read
  is the part before the dash, for every service level. What follows the level stays in the size:
  the level is removed where it first occurs, not only at the end.\<close>

theorem plan_size_of_name:
  assumes "parseLabels l = Ok md"
    and "sget l PlanNameLabel = sz @ ''-'' @ sget l SLALabel @ rest" and "CHR ''-'' \<notin> set sz"
  shows "PlanSize md = sz @ rest"
proof -
  have "getPlanSize (sz @ ''-'' @ sla @ rest) sla = sz @ rest" for sla
    using assms(3) Replace1_skip [of "''-'' @ sla" sz "''-'' @ sla @ rest" "''''"]
      Replace1_prefix [of "''-'' @ sla" rest "''''"] by (simp add: getPlanSize_def)
  with parseLabels_OkD(5) [OF assms(1)] assms(2) show ?thesis by simp
qed

theorem plan_size_of_name_witness:
  "\<exists>md. parseLabels [ServiceNameLabel \<mapsto> RedisService, PlanNameLabel \<mapsto> ''xsmall-premium'',
      SLALabel \<mapsto> ''premium''] = Ok md \<and> PlanSize md = ''xsmall''"
proof -
  let ?l = "[ServiceNameLabel \<mapsto> RedisService, PlanNameLabel \<mapsto> ''xsmall-premium'',
      SLALabel \<mapsto> ''premium'']"
  have "case parseLabels ?l of Ok md \<Rightarrow> True | _ \<Rightarrow> False" by code_simp
  then obtain md where md: "parseLabels ?l = Ok md" by (auto split: result.splits)
  have "sget ?l PlanNameLabel = ''xsmall'' @ ''-'' @ sget ?l SLALabel @ ''''"
    by (simp add: label_keys)
  from plan_size_of_name [OF md this] md show ?thesis by simp
qed

end
