(* ===== verification/Kube.thy ===== *)
theory Kube
  imports Metadata "HOL-Library.Word"
begin

text \<open>
  The objects the broker reads and writes in the Kubernetes API, the calls it makes to code
  outside the repository (\<open>'w lib\<close>: the controller-runtime client, label selectors, field paths,
  the password generator), and what the broker relies on of them, as the locales \<open>k8s_api\<close> and
  \<open>k8s_reliable\<close>. An in-memory API server, \<open>mem_lib\<close>, is an instance of both.
\<close>

section \<open>JSON values and Go maps\<close>

text \<open>
  What \<open>json.Unmarshal\<close> puts into an \<open>interface{}\<close>. Numbers keep their text. A JSON object and a
  \<open>map[string]interface{}\<close> are association lists without duplicate keys; a Go map can also be nil.
\<close>

datatype json =
    JNull | JBool bool | JNumber string | JString string | JArray "json list"
  | JObject "(string \<times> json) list"

datatype go_map = NilMap | GoMap "(string \<times> json) list"

fun entries :: "go_map \<Rightarrow> (string \<times> json) list" where
  "entries NilMap = []"
| "entries (GoMap kvs) = kvs"

text \<open>Reading a key of a nil map is reading a key that is not there.\<close>

definition gm_get :: "go_map \<Rightarrow> string \<Rightarrow> json option" where
  "gm_get m k = map_of (entries m) k"

fun put :: "string \<Rightarrow> json \<Rightarrow> (string \<times> json) list \<Rightarrow> (string \<times> json) list" where
  "put k v [] = [(k, v)]"
| "put k v (p # ps) = (if fst p = k then (k, v) # ps else p # put k v ps)"

fun gm_put :: "string \<Rightarrow> json \<Rightarrow> go_map \<Rightarrow> go_map result" where
  "gm_put k v NilMap = Panic (NilPointer ''assignment to entry in nil map'')"
| "gm_put k v (GoMap kvs) = Ok (GoMap (put k v kvs))"

fun map_value :: "go_map \<Rightarrow> json" where
  "map_value NilMap = JNull"
| "map_value (GoMap kvs) = JObject kvs"

lemma map_of_put [simp]: "map_of (put k v kvs) k' = (if k' = k then Some v else map_of kvs k')"
  by (induction kvs) auto

lemma gm_get_simps [simp]: "gm_get NilMap k = None" "gm_get (GoMap kvs) k = map_of kvs k"
  by (simp_all add: gm_get_def)

text \<open>
  A \<open>json.RawMessage\<close> the request carries: \<open>None\<close> where the request has no parameters (a nil
  slice), otherwise the JSON value its bytes spell, or the error a malformed text gives; the empty
  slice, which is not nil, has a constructor of its own.
\<close>

datatype raw_json = EmptyText | Malformed string | Json json

definition raw_is_empty :: "raw_json option \<Rightarrow> bool" where
  "raw_is_empty r = (r = None \<or> r = Some EmptyText)"

fun unmarshal_map :: "raw_json \<Rightarrow> go_map result" where
  "unmarshal_map (Json (JObject kvs)) = Ok (GoMap kvs)"
| "unmarshal_map (Json JNull) = Ok NilMap"
| "unmarshal_map (Json v) = Err (LibError ''json: cannot unmarshal into map'')"
| "unmarshal_map (Malformed m) = Err (LibError m)"
| "unmarshal_map EmptyText = Err (LibError ''unexpected end of JSON input'')"

lemma unmarshal_map_not_Panic [simp]: "unmarshal_map r \<noteq> Panic p"
  by (cases r rule: unmarshal_map.cases) auto

section \<open>Objects\<close>

record gvk =
  Group :: string
  Version :: string
  Kind :: string

record condition =
  cond_Status :: string
  cond_Reason :: string

record secret_ref =
  sr_Name :: string
  sr_Namespace :: string

record object_ref =
  or_APIVersion :: string
  or_Kind :: string
  or_Name :: string

text \<open>
  A composite (\<open>composite.Unstructured\<close>), by what its accessors answer: \<open>c_ready\<close> is
  \<open>GetCondition(TypeReady)\<close>, \<open>c_parameters\<close> is the value at \<open>spec.parameters\<close> if there is one, and
  \<open>c_terminating\<close> says whether it has a deletion time stamp.
\<close>

record composite =
  c_gvk :: gvk
  c_name :: string
  c_labels :: str_map
  c_compositionRef :: "string option"
  c_parameters :: "json option"
  c_ready :: condition
  c_resourceRefs :: "object_ref list"
  c_secretRef :: "secret_ref option"
  c_terminating :: bool

text \<open>\<open>composite.New(WithGroupVersionKind(g))\<close> followed by \<open>SetName(n)\<close>.\<close>

definition new_composite :: "gvk \<Rightarrow> string \<Rightarrow> composite" where
  "new_composite g n =
     \<lparr>c_gvk = g, c_name = n, c_labels = Map.empty, c_compositionRef = None, c_parameters = None,
      c_ready = \<lparr>cond_Status = ''Unknown'', cond_Reason = ''''\<rparr>, c_resourceRefs = [],
      c_secretRef = None, c_terminating = False\<rparr>"

record composition =
  co_name :: string
  co_labels :: str_map
  co_annotations :: str_map
  co_typeRefAPIVersion :: string
  co_typeRefKind :: string

record xrd =
  x_name :: string
  x_labels :: str_map
  x_annotations :: str_map

record owner_ref =
  ow_APIVersion :: string
  ow_Kind :: string
  ow_Name :: string
  ow_UID :: string
  ow_BlockOwnerDeletion :: bool

text \<open>A \<open>corev1.Secret\<close>; \<open>s_data\<close> is \<open>None\<close> for nil data.\<close>

record secret =
  s_name :: string
  s_namespace :: string
  s_labels :: str_map
  s_data :: "str_map option"
  s_owners :: "owner_ref list"

record kobject =
  k_apiVersion :: string
  k_kind :: string
  k_name :: string
  k_uid :: string

section \<open>Calls outside the repository\<close>

text \<open>
  One field per call the code makes. Reads answer from the world as it is; writes, and the random
  password, change it. The list calls take the label and the values it may have.
\<close>

record 'w lib =
  l_newRequirement :: "string \<Rightarrow> string list \<Rightarrow> go_error + unit"
  l_parseGroupVersion :: "string \<Rightarrow> go_error + string \<times> string"
  l_setParameters :: "json \<Rightarrow> composite \<Rightarrow> go_error + composite"
  l_setParameter :: "string \<Rightarrow> json \<Rightarrow> composite \<Rightarrow> go_error + composite"
  l_listXRDs :: "string \<Rightarrow> string list \<Rightarrow> 'w \<Rightarrow> go_error + xrd list"
  l_listCompositions :: "string \<Rightarrow> string list \<Rightarrow> 'w \<Rightarrow> go_error + composition list"
  l_getComposition :: "string \<Rightarrow> 'w \<Rightarrow> go_error + composition"
  l_getComposite :: "gvk \<Rightarrow> string \<Rightarrow> 'w \<Rightarrow> go_error + composite"
  l_listComposites :: "gvk \<Rightarrow> string \<Rightarrow> string \<Rightarrow> 'w \<Rightarrow> go_error + composite list"
  l_getSecret :: "string \<Rightarrow> string \<Rightarrow> 'w \<Rightarrow> go_error + secret"
  l_getObject :: "string \<Rightarrow> string \<Rightarrow> string \<Rightarrow> 'w \<Rightarrow> go_error + kobject"
  l_createComposite :: "composite \<Rightarrow> 'w \<Rightarrow> (go_error + unit) \<times> 'w"
  l_updateComposite :: "composite \<Rightarrow> 'w \<Rightarrow> (go_error + unit) \<times> 'w"
  l_deleteComposite :: "gvk \<Rightarrow> string \<Rightarrow> bool \<Rightarrow> 'w \<Rightarrow> (go_error + unit) \<times> 'w"
  l_createSecret :: "secret \<Rightarrow> 'w \<Rightarrow> (go_error + unit) \<times> 'w"
  l_updateSecret :: "secret \<Rightarrow> 'w \<Rightarrow> (go_error + unit) \<times> 'w"
  l_generatePassword :: "'w \<Rightarrow> (go_error + string) \<times> 'w"

section \<open>What the broker relies on\<close>

text \<open>
  The cluster as the API presents it. A composite is stored under its kind and name, a secret under
  its namespace and name.
\<close>

record cluster =
  cl_compositions :: "composition list"
  cl_xrds :: "xrd list"
  cl_composites :: "gvk \<times> string \<Rightarrow> composite option"
  cl_secrets :: "string \<times> string \<Rightarrow> secret option"

definition put_composite :: "composite \<Rightarrow> cluster \<Rightarrow> cluster" where
  "put_composite c cl =
     cl\<lparr>cl_composites := (cl_composites cl)((c_gvk c, c_name c) \<mapsto> c)\<rparr>"

definition drop_composite :: "gvk \<Rightarrow> string \<Rightarrow> cluster \<Rightarrow> cluster" where
  "drop_composite g n cl = cl\<lparr>cl_composites := (cl_composites cl)((g, n) := None)\<rparr>"

definition put_secret :: "secret \<Rightarrow> cluster \<Rightarrow> cluster" where
  "put_secret s cl = cl\<lparr>cl_secrets := (cl_secrets cl)((s_namespace s, s_name s) \<mapsto> s)\<rparr>"

text \<open>
  A delete removes the object, or marks it as terminating while finalizers hold it.
\<close>

definition deleted :: "gvk \<Rightarrow> string \<Rightarrow> cluster \<Rightarrow> cluster \<Rightarrow> bool" where
  "deleted g n cl cl' \<longleftrightarrow>
     cl' = drop_composite g n cl \<or>
     (\<exists>c. cl_composites cl (g, n) = Some c \<and> cl' = put_composite (c\<lparr>c_terminating := True\<rparr>) cl)"

lemmas cluster_updates = put_composite_def drop_composite_def put_secret_def

text \<open>
  The documented behaviour of the client, over any view of the world as a cluster. An answer tells
  the truth about the view; a write that reports success took effect and one that reports an error
  either took effect or did not (a lost response); no write touches any object but its own, and a
  create never replaces one, and a list names no object twice. Field paths set the value they name.
\<close>

locale k8s_api =
  fixes lib :: "'w lib" and view :: "'w \<Rightarrow> cluster"
  assumes composite_key:
      "cl_composites (view w) (g, n) = Some c \<Longrightarrow> c_gvk c = g \<and> c_name c = n"
    and secret_key:
      "cl_secrets (view w) (ns, n) = Some s \<Longrightarrow> s_namespace s = ns \<and> s_name s = n"
    and get_composition_ok:
      "l_getComposition lib n w = Inr co \<Longrightarrow> co \<in> set (cl_compositions (view w)) \<and> co_name co = n"
    and list_compositions_ok:
      "l_listCompositions lib k vs w = Inr cos \<Longrightarrow>
         set cos = {co \<in> set (cl_compositions (view w)). \<exists>v. co_labels co k = Some v \<and> v \<in> set vs}"
    and list_compositions_once:
      "l_listCompositions lib k vs w = Inr cos \<Longrightarrow> length cos \<le> length (cl_compositions (view w))"
    and list_xrds_ok:
      "l_listXRDs lib k vs w = Inr ds \<Longrightarrow>
         set ds = {d \<in> set (cl_xrds (view w)). \<exists>v. x_labels d k = Some v \<and> v \<in> set vs}"
    and get_composite_ok:
      "l_getComposite lib g n w = Inr c \<Longrightarrow> cl_composites (view w) (g, n) = Some c"
    and get_composite_absent:
      "l_getComposite lib g n w = Inl e \<Longrightarrow> IsNotFound e \<Longrightarrow> cl_composites (view w) (g, n) = None"
    and list_composites_ok:
      "l_listComposites lib (g\<lparr>Kind := Kind g @ ''List''\<rparr>) k v w = Inr cs \<Longrightarrow>
         set cs = {c. \<exists>n. cl_composites (view w) (g, n) = Some c \<and> c_labels c k = Some v}"
    and get_secret_ok:
      "l_getSecret lib ns n w = Inr s \<Longrightarrow> cl_secrets (view w) (ns, n) = Some s"
    and get_secret_absent:
      "l_getSecret lib ns n w = Inl e \<Longrightarrow> IsNotFound e \<Longrightarrow> cl_secrets (view w) (ns, n) = None"
    and get_object_ok:
      "l_getObject lib a k n w = Inr u \<Longrightarrow> k_apiVersion u = a \<and> k_kind u = k \<and> k_name u = n"
    and create_composite_ok:
      "l_createComposite lib c w = (Inr (), w') \<Longrightarrow>
         cl_composites (view w) (c_gvk c, c_name c) = None \<and> view w' = put_composite c (view w)"
    and create_composite_err:
      "l_createComposite lib c w = (Inl e, w') \<Longrightarrow> view w' = view w \<or>
         cl_composites (view w) (c_gvk c, c_name c) = None \<and> view w' = put_composite c (view w)"
    and create_composite_exists:
      "l_createComposite lib c w = (Inl e, w') \<Longrightarrow> IsAlreadyExists e \<Longrightarrow>
         cl_composites (view w) (c_gvk c, c_name c) \<noteq> None \<and> view w' = view w"
    and update_composite_ok:
      "l_updateComposite lib c w = (Inr (), w') \<Longrightarrow>
         cl_composites (view w) (c_gvk c, c_name c) \<noteq> None \<and> view w' = put_composite c (view w)"
    and update_composite_err:
      "l_updateComposite lib c w = (Inl e, w') \<Longrightarrow>
         view w' = view w \<or> view w' = put_composite c (view w)"
    and delete_composite_ok:
      "l_deleteComposite lib g n fg w = (Inr (), w') \<Longrightarrow>
         cl_composites (view w) (g, n) \<noteq> None \<and> deleted g n (view w) (view w')"
    and delete_composite_err:
      "l_deleteComposite lib g n fg w = (Inl e, w') \<Longrightarrow>
         view w' = view w \<or> deleted g n (view w) (view w')"
    and create_secret_ok:
      "l_createSecret lib s w = (Inr (), w') \<Longrightarrow>
         cl_secrets (view w) (s_namespace s, s_name s) = None \<and> view w' = put_secret s (view w)"
    and create_secret_err:
      "l_createSecret lib s w = (Inl e, w') \<Longrightarrow> view w' = view w \<or>
         cl_secrets (view w) (s_namespace s, s_name s) = None \<and> view w' = put_secret s (view w)"
    and update_secret_ok:
      "l_updateSecret lib s w = (Inr (), w') \<Longrightarrow>
         cl_secrets (view w) (s_namespace s, s_name s) \<noteq> None \<and> view w' = put_secret s (view w)"
    and update_secret_err:
      "l_updateSecret lib s w = (Inl e, w') \<Longrightarrow> view w' = view w \<or> view w' = put_secret s (view w)"
    and password_keeps:
      "l_generatePassword lib w = (r, w') \<Longrightarrow> view w' = view w"
    and set_parameters_ok:
      "l_setParameters lib jv c = Inr c' \<Longrightarrow> c' = c\<lparr>c_parameters := Some jv\<rparr>"
    and set_parameter_ok:
      "l_setParameter lib k jv (c\<lparr>c_parameters := None\<rparr>) = Inr c' \<Longrightarrow>
         c' = c\<lparr>c_parameters := Some (JObject [(k, jv)])\<rparr>"

text \<open>
  A cluster that answers: every request gets through, and is refused only for an object that is
  missing or already there. With it, what the handlers do is fully determined.
\<close>

locale k8s_reliable = k8s_api +
  assumes get_composition_found:
      "co \<in> set (cl_compositions (view w)) \<Longrightarrow> \<exists>co'. l_getComposition lib (co_name co) w = Inr co'"
    and get_composition_missing:
      "\<not> (\<exists>co \<in> set (cl_compositions (view w)). co_name co = n) \<Longrightarrow>
         \<exists>e. l_getComposition lib n w = Inl e \<and> IsNotFound e"
    and get_composite_found:
      "cl_composites (view w) (g, n) = Some c \<Longrightarrow> l_getComposite lib g n w = Inr c"
    and get_composite_missing:
      "cl_composites (view w) (g, n) = None \<Longrightarrow>
         \<exists>e. l_getComposite lib g n w = Inl e \<and> IsNotFound e"
    and list_composites_answers:
      "\<exists>cs. l_listComposites lib g k v w = Inr cs"
    and get_secret_found:
      "cl_secrets (view w) (ns, n) = Some s \<Longrightarrow> l_getSecret lib ns n w = Inr s"
    and get_secret_missing:
      "cl_secrets (view w) (ns, n) = None \<Longrightarrow> \<exists>e. l_getSecret lib ns n w = Inl e \<and> IsNotFound e"
    and create_composite_succeeds:
      "cl_composites (view w) (c_gvk c, c_name c) = None \<Longrightarrow>
         \<exists>w'. l_createComposite lib c w = (Inr (), w')"
    and create_composite_refused:
      "cl_composites (view w) (c_gvk c, c_name c) \<noteq> None \<Longrightarrow>
         \<exists>e w'. l_createComposite lib c w = (Inl e, w') \<and> IsAlreadyExists e"
    and update_composite_succeeds:
      "cl_composites (view w) (c_gvk c, c_name c) \<noteq> None \<Longrightarrow>
         \<exists>w'. l_updateComposite lib c w = (Inr (), w')"
    and update_composite_missing:
      "cl_composites (view w) (c_gvk c, c_name c) = None \<Longrightarrow>
         \<exists>e w'. l_updateComposite lib c w = (Inl e, w') \<and> view w' = view w"
    and delete_composite_succeeds:
      "cl_composites (view w) (g, n) \<noteq> None \<Longrightarrow>
         \<exists>w'. l_deleteComposite lib g n fg w = (Inr (), w')"
    and create_secret_succeeds:
      "cl_secrets (view w) (s_namespace s, s_name s) = None \<Longrightarrow>
         \<exists>w'. l_createSecret lib s w = (Inr (), w')"
    and create_secret_refused:
      "cl_secrets (view w) (s_namespace s, s_name s) \<noteq> None \<Longrightarrow>
         \<exists>e w'. l_createSecret lib s w = (Inl e, w') \<and> IsAlreadyExists e \<and> view w' = view w"
    and update_secret_succeeds:
      "cl_secrets (view w) (s_namespace s, s_name s) \<noteq> None \<Longrightarrow>
         \<exists>w'. l_updateSecret lib s w = (Inr (), w')"
    and password_answers:
      "\<exists>pw w'. l_generatePassword lib w = (Inr pw, w')"
    and set_parameters_answers:
      "\<exists>c'. l_setParameters lib jv c = Inr c'"
    and set_parameter_answers:
      "\<exists>c'. l_setParameter lib k jv (c\<lparr>c_parameters := None\<rparr>) = Inr c'"

section \<open>What a call may touch\<close>

text \<open>
  \<open>touches cs ss\<close>: only composites with a key in \<open>cs\<close> and secrets with a key in \<open>ss\<close> differ.
\<close>

definition touches ::
  "(gvk \<times> string) set \<Rightarrow> (string \<times> string) set \<Rightarrow> cluster \<Rightarrow> cluster \<Rightarrow> bool" where
  "touches cs ss cl cl' \<longleftrightarrow>
     cl_compositions cl' = cl_compositions cl \<and> cl_xrds cl' = cl_xrds cl \<and>
     (\<forall>k. k \<notin> cs \<longrightarrow> cl_composites cl' k = cl_composites cl k) \<and>
     (\<forall>k. k \<notin> ss \<longrightarrow> cl_secrets cl' k = cl_secrets cl k)"

definition writes_only ::
  "('w \<Rightarrow> cluster) \<Rightarrow> (gvk \<times> string) set \<Rightarrow> (string \<times> string) set \<Rightarrow> ('w, 'a) io \<Rightarrow> bool" where
  "writes_only view cs ss = keeps (\<lambda>w w'. touches cs ss (view w) (view w'))"

lemma touches_refl [simp]: "touches cs ss cl cl"
  by (simp add: touches_def)

lemma touches_trans: "touches cs ss a b \<Longrightarrow> touches cs ss b c \<Longrightarrow> touches cs ss a c"
  by (simp add: touches_def)

lemma touches_mono: "touches cs ss a b \<Longrightarrow> cs \<subseteq> cs' \<Longrightarrow> ss \<subseteq> ss' \<Longrightarrow> touches cs' ss' a b"
  unfolding touches_def by blast

lemma touches_none: "touches {} {} a b \<longleftrightarrow> b = a"
  by (cases a, cases b) (auto simp: touches_def fun_eq_iff)

lemma touches_updates [intro]:
  "(c_gvk c, c_name c) \<in> cs \<Longrightarrow> touches cs ss cl (put_composite c cl)"
  "(g, n) \<in> cs \<Longrightarrow> touches cs ss cl (drop_composite g n cl)"
  "(s_namespace s, s_name s) \<in> ss \<Longrightarrow> touches cs ss cl (put_secret s cl)"
  by (auto simp: touches_def cluster_updates)

lemma writes_onlyD: "writes_only view cs ss m \<Longrightarrow> m w = (r, w') \<Longrightarrow> touches cs ss (view w) (view w')"
  unfolding writes_only_def by (erule keepsD)

lemma writes_only_mono:
  "writes_only view cs ss m \<Longrightarrow> cs \<subseteq> cs' \<Longrightarrow> ss \<subseteq> ss' \<Longrightarrow> writes_only view cs' ss' m"
  by (auto simp: writes_only_def keeps_def intro: touches_mono)

lemma writes_only_read_only: "read_only m \<Longrightarrow> writes_only view cs ss m"
  by (simp add: writes_only_def keeps_def)

lemma writes_only_basic [go_frame]:
  "writes_only view cs ss (retM a)" "writes_only view cs ss (failM e)"
  "writes_only view cs ss (liftR r)" "writes_only view cs ss (readM f)"
  by (intro writes_only_read_only read_only_basic)+

lemma writes_only_bindM [go_frame]:
  "writes_only view cs ss m \<Longrightarrow> (\<And>a. writes_only view cs ss (f a)) \<Longrightarrow>
     writes_only view cs ss (bindM m f)"
  unfolding writes_only_def
  by (rule keeps_bindM) (auto intro: transpI touches_trans)

lemma writes_only_handleM [go_frame]:
  "writes_only view cs ss m \<Longrightarrow> writes_only view cs ss (handleM m h)"
  unfolding writes_only_def by (rule keeps_handleM)

text \<open>
  \<open>persists\<close>: no object that is there disappears, and what is there keeps its secrets. A handler
  that deletes nothing is of this kind.
\<close>

definition persists :: "cluster \<Rightarrow> cluster \<Rightarrow> bool" where
  "persists cl cl' \<longleftrightarrow>
     (\<forall>k. cl_composites cl k \<noteq> None \<longrightarrow> cl_composites cl' k \<noteq> None) \<and>
     (\<forall>k. cl_secrets cl k \<noteq> None \<longrightarrow> cl_secrets cl' k \<noteq> None)"

lemma persists_refl [simp]: "persists cl cl"
  by (simp add: persists_def)

lemma persists_trans: "persists a b \<Longrightarrow> persists b c \<Longrightarrow> persists a c"
  by (simp add: persists_def)

lemma persists_updates [simp]: "persists cl (put_composite c cl)" "persists cl (put_secret s cl)"
  by (simp_all add: persists_def cluster_updates)

context k8s_api
begin

lemma touches_deleted: "deleted g n cl cl' \<Longrightarrow> (g, n) \<in> cs \<Longrightarrow> cl = view w \<Longrightarrow> touches cs ss cl cl'"
  by (auto simp: deleted_def dest: composite_key intro!: touches_updates)

text \<open>Whatever it answers, a write leaves its object as it was or as the write says.\<close>

lemma create_composite_view:
  assumes "writeM (l_createComposite lib c) w = (r, w')"
  shows "view w' = view w \<or> view w' = put_composite c (view w)"
  by (cases r) (use assms create_composite_ok create_composite_err in \<open>fastforce simp: go_inv\<close>)+

text \<open>A create only ever adds.\<close>

lemma create_secret_new:
  assumes "writeM (l_createSecret lib s) w = (r, w')"
  shows "view w' = view w \<or>
     cl_secrets (view w) (s_namespace s, s_name s) = None \<and> view w' = put_secret s (view w)"
  by (cases r) (use assms create_secret_ok create_secret_err in \<open>fastforce simp: go_inv\<close>)+

lemma update_composite_view:
  assumes "writeM (l_updateComposite lib c) w = (r, w')"
  shows "view w' = view w \<or> view w' = put_composite c (view w)"
  by (cases r) (use assms update_composite_ok update_composite_err in \<open>fastforce simp: go_inv\<close>)+

lemma delete_composite_view:
  assumes "writeM (l_deleteComposite lib g n fg) w = (r, w')"
  shows "view w' = view w \<or> deleted g n (view w) (view w')"
  by (cases r) (use assms delete_composite_ok delete_composite_err in \<open>fastforce simp: go_inv\<close>)+

lemma create_secret_view:
  assumes "writeM (l_createSecret lib s) w = (r, w')"
  shows "view w' = view w \<or> view w' = put_secret s (view w)"
  using create_secret_new [OF assms] by blast

lemma update_secret_view:
  assumes "writeM (l_updateSecret lib s) w = (r, w')"
  shows "view w' = view w \<or> view w' = put_secret s (view w)"
  by (cases r) (use assms update_secret_ok update_secret_err in \<open>fastforce simp: go_inv\<close>)+

lemma generate_password_view:
  assumes "writeM (l_generatePassword lib) w = (r, w')"
  shows "view w' = view w"
  by (cases "l_generatePassword lib w") (use assms password_keeps in \<open>auto simp: writeM_def\<close>)

text \<open>So it touches the object it names and no other.\<close>

lemma create_composite_frame [go_frame]:
  assumes "(c_gvk c, c_name c) \<in> cs"
  shows "writes_only view cs ss (writeM (l_createComposite lib c))"
  unfolding writes_only_def
  by (rule keepsI) (use assms in \<open>auto dest!: create_composite_view\<close>)

lemma update_composite_frame [go_frame]:
  assumes "(c_gvk c, c_name c) \<in> cs"
  shows "writes_only view cs ss (writeM (l_updateComposite lib c))"
  unfolding writes_only_def
  by (rule keepsI) (use assms in \<open>auto dest!: update_composite_view\<close>)

lemma delete_composite_frame [go_frame]:
  assumes "(g, n) \<in> cs"
  shows "writes_only view cs ss (writeM (l_deleteComposite lib g n fg))"
  unfolding writes_only_def
  by (rule keepsI) (use assms touches_deleted in \<open>auto dest!: delete_composite_view\<close>)

lemma create_secret_frame [go_frame]:
  assumes "(s_namespace s, s_name s) \<in> ss"
  shows "writes_only view cs ss (writeM (l_createSecret lib s))"
  unfolding writes_only_def
  by (rule keepsI) (use assms in \<open>auto dest!: create_secret_view\<close>)

lemma update_secret_frame [go_frame]:
  assumes "(s_namespace s, s_name s) \<in> ss"
  shows "writes_only view cs ss (writeM (l_updateSecret lib s))"
  unfolding writes_only_def
  by (rule keepsI) (use assms in \<open>auto dest!: update_secret_view\<close>)

lemma password_frame [go_frame]: "writes_only view cs ss (writeM (l_generatePassword lib))"
  unfolding writes_only_def by (rule keepsI) (auto dest!: generate_password_view)

end

end
