(* ===== verification/Plans.thy ===== *)
theory Plans
  imports Kube
begin

text \<open>
  \<open>pkg/crossplane/plan.go\<close>: plans, the rules that say which plan updates are allowed, and their
  parser. \<open>Labels\<close> is a pointer in the code and may be nil: reading through it is \<open>deref\<close>.
\<close>

section \<open>Plans\<close>

record plan =
  p_Composition :: composition
  p_Labels :: "labels option"
  p_Metadata :: string
  p_Tags :: string
  p_Description :: string

definition GVK :: "'w lib \<Rightarrow> plan \<Rightarrow> gvk result" where
  "GVK lib p =
     bindR (lib_call (l_parseGroupVersion lib (co_typeRefAPIVersion (p_Composition p)))) (\<lambda>(g, v).
     Ok \<lparr>Group = g, Version = v, Kind = co_typeRefKind (p_Composition p)\<rparr>)"

definition newPlan :: "composition \<Rightarrow> plan result" where
  "newPlan c =
     bindR (parseLabels (co_labels c)) (\<lambda>l.
     Ok \<lparr>p_Composition = c, p_Labels = Some l,
         p_Metadata = sget (co_annotations c) MetadataAnnotation,
         p_Tags = sget (co_annotations c) TagsAnnotation,
         p_Description = sget (co_annotations c) DescriptionAnnotation\<rparr>)"

section \<open>Update rules\<close>

record planUpdateRule =
  oldPlan :: string
  newPlanName :: string

record PlanUpdateChecker =
  sizeRules :: "planUpdateRule list"
  slaRules :: "planUpdateRule list"

definition allowed :: "planUpdateRule \<Rightarrow> string \<Rightarrow> string \<Rightarrow> bool" where
  "allowed r a b = (a = oldPlan r \<and> b = newPlanName r)"

fun parse_rules :: "string list \<Rightarrow> planUpdateRule list result" where
  "parse_rules [] = Ok []"
| "parse_rules (r # rs) =
     (let a = Split r CHR ''>''
      in if length a \<noteq> 2 then Err (Errorf ''unable to parse rule: %s'' [r])
         else bindR (parse_rules rs) (\<lambda>rules.
              Ok (\<lparr>oldPlan = a ! 0, newPlanName = a ! 1\<rparr> # rules)))"

definition parsePlanUpdateRules :: "string \<Rightarrow> planUpdateRule list result" where
  "parsePlanUpdateRules ruleString =
     (if ruleString = '''' then Ok [] else parse_rules (Split ruleString CHR ''|''))"

definition ParsePlanUpdateRules :: "string \<Rightarrow> string \<Rightarrow> PlanUpdateChecker result" where
  "ParsePlanUpdateRules sizes slas =
     bindR (parsePlanUpdateRules sizes) (\<lambda>sz.
     bindR (parsePlanUpdateRules slas) (\<lambda>sl.
     Ok \<lparr>sizeRules = sz, slaRules = sl\<rparr>))"

definition planSizeChanged :: "plan \<Rightarrow> plan \<Rightarrow> bool" where
  "planSizeChanged a b =
     (case p_Labels a of None \<Rightarrow> False
      | Some la \<Rightarrow> (case p_Labels b of None \<Rightarrow> False | Some lb \<Rightarrow> PlanSize la \<noteq> PlanSize lb))"

definition planSLAChanged :: "plan \<Rightarrow> plan \<Rightarrow> bool" where
  "planSLAChanged a b =
     (case p_Labels a of None \<Rightarrow> False
      | Some la \<Rightarrow> (case p_Labels b of None \<Rightarrow> False | Some lb \<Rightarrow> SLA la \<noteq> SLA lb))"

text \<open>The loops over the rules: the labels are only read when there is a rule to compare with.\<close>

fun allow_loop :: "(labels \<Rightarrow> string) \<Rightarrow> planUpdateRule list \<Rightarrow> plan \<Rightarrow> plan \<Rightarrow> bool result" where
  "allow_loop f [] a b = Ok False"
| "allow_loop f (c # cs) a b =
     bindR (deref ''a.Labels'' (p_Labels a)) (\<lambda>la.
     bindR (deref ''b.Labels'' (p_Labels b)) (\<lambda>lb.
     if allowed c (f la) (f lb) then Ok True else allow_loop f cs a b))"

definition allowSizeUpdate :: "PlanUpdateChecker \<Rightarrow> plan \<Rightarrow> plan \<Rightarrow> bool result" where
  "allowSizeUpdate pc a b = allow_loop PlanSize (sizeRules pc) a b"

definition allowSLAUpdate :: "PlanUpdateChecker \<Rightarrow> plan \<Rightarrow> plan \<Rightarrow> bool result" where
  "allowSLAUpdate pc a b = allow_loop SLA (slaRules pc) a b"

definition AllowUpdate :: "PlanUpdateChecker \<Rightarrow> plan \<Rightarrow> plan \<Rightarrow> bool result" where
  "AllowUpdate pc a b =
     bindR (deref ''a.Labels'' (p_Labels a)) (\<lambda>la.
     bindR (deref ''b.Labels'' (p_Labels b)) (\<lambda>lb.
     if ServiceID la \<noteq> ServiceID lb then Ok False
     else if planSizeChanged a b \<and> planSLAChanged a b then Ok False
     else if planSizeChanged a b then allowSizeUpdate pc a b
     else if planSLAChanged a b then allowSLAUpdate pc a b
     else Ok True))"

section \<open>Plans from compositions\<close>

lemma newPlan_OkD:
  assumes "newPlan c = Ok p"
  shows "p_Composition p = c" "\<exists>l. p_Labels p = Some l \<and> parseLabels (co_labels c) = Ok l"
  using assms by (auto simp: newPlan_def go_inv)

lemma newPlan_Ok_iff: "(\<exists>p. newPlan c = Ok p) \<longleftrightarrow> (\<exists>l. parseLabels (co_labels c) = Ok l)"
  by (auto simp: newPlan_def go_inv)

lemma newPlan_not_Panic [simp]: "newPlan c \<noteq> Panic x"
  by (auto simp: newPlan_def go_inv)

lemma GVK_kind: "GVK lib p = Ok g \<Longrightarrow> Kind g = co_typeRefKind (p_Composition p)"
  by (auto simp: GVK_def go_inv)

lemma GVK_not_Panic [simp]: "GVK lib p \<noteq> Panic x"
  by (auto simp: GVK_def go_inv)

section \<open>Printing and parsing rules\<close>

text \<open>The notation of the rules: \<open>old>new\<close>, separated by bars.\<close>

definition rule_text :: "planUpdateRule \<Rightarrow> string" where
  "rule_text r = oldPlan r @ ''>'' @ newPlanName r"

definition rules_text :: "planUpdateRule list \<Rightarrow> string" where
  "rules_text rs = Join (map rule_text rs) ''|''"

definition plain :: "string \<Rightarrow> bool" where
  "plain s = (CHR ''|'' \<notin> set s \<and> CHR ''>'' \<notin> set s)"

definition plain_rule :: "planUpdateRule \<Rightarrow> bool" where
  "plain_rule r = (plain (oldPlan r) \<and> plain (newPlanName r))"

lemma Split_rule_text:
  "plain_rule r \<Longrightarrow> Split (rule_text r) CHR ''>'' = [oldPlan r, newPlanName r]"
  by (simp add: rule_text_def plain_rule_def plain_def Split_append_sep Split_no_sep)

lemma parse_rules_text:
  "list_all plain_rule rs \<Longrightarrow> parse_rules (map rule_text rs) = Ok rs"
  by (induction rs) (auto simp: Split_rule_text Let_def)

lemma rule_text_no_bar: "plain_rule r \<Longrightarrow> CHR ''|'' \<notin> set (rule_text r)"
  by (auto simp: rule_text_def plain_rule_def plain_def)

lemma rules_text_not_empty: "rs \<noteq> [] \<Longrightarrow> rules_text rs \<noteq> ''''"
  by (cases rs; cases "tl rs") (auto simp: rules_text_def rule_text_def)

text \<open>A parsed rule is plain, and the parser accepts exactly the parts with one \<open>>\<close> each.\<close>

lemma parse_rules_Ok_iff:
  "(\<exists>rules. parse_rules rs = Ok rules) \<longleftrightarrow> list_all (\<lambda>r. count_list r CHR ''>'' = 1) rs"
  by (induction rs) (auto simp: Let_def go_inv length_Split)

lemma parse_rules_not_Panic [simp]: "parse_rules rs \<noteq> Panic p"
  by (induction rs) (auto simp: Let_def go_inv)

lemma ParsePlanUpdateRules_not_Panic [simp]: "ParsePlanUpdateRules sizes slas \<noteq> Panic p"
  by (simp add: ParsePlanUpdateRules_def parsePlanUpdateRules_def go_inv)

lemma parse_rules_texts:
  "parse_rules rs = Ok rules \<Longrightarrow> map rule_text rules = rs \<and> length rules = length rs"
proof (induction rs arbitrary: rules)
  case (Cons r rs)
  then obtain a b rest where ab: "Split r CHR ''>'' = [a, b]"
    and rest: "parse_rules rs = Ok rest"
    and rules: "rules = \<lparr>oldPlan = a, newPlanName = b\<rparr> # rest"
    by (auto simp: Let_def go_inv length_Suc_conv numeral_2_eq_2 split: if_splits)
  from ab Join_Split [of r "CHR ''>''"] have "r = a @ ''>'' @ b" by simp
  with rules rest Cons.IH show ?case by (simp add: rule_text_def)
qed simp

section \<open>What the checker decides\<close>

lemma allow_loop_labels:
  "p_Labels a = Some la \<Longrightarrow> p_Labels b = Some lb \<Longrightarrow>
     allow_loop f cs a b = Ok (list_ex (\<lambda>c. allowed c (f la) (f lb)) cs)"
  by (induction cs) auto

definition in_rules :: "planUpdateRule list \<Rightarrow> string \<Rightarrow> string \<Rightarrow> bool" where
  "in_rules rs a b = (\<lparr>oldPlan = a, newPlanName = b\<rparr> \<in> set rs)"

lemma list_ex_allowed: "list_ex (\<lambda>c. allowed c x y) rs = in_rules rs x y"
proof -
  have "allowed c x y \<longleftrightarrow> c = \<lparr>oldPlan = x, newPlanName = y\<rparr>" for c
    by (cases c) (auto simp: allowed_def)
  then show ?thesis by (auto simp: list_ex_iff in_rules_def)
qed

lemma AllowUpdate_labels:
  assumes "p_Labels a = Some la" and "p_Labels b = Some lb"
  shows "AllowUpdate pc a b = Ok
     (ServiceID la = ServiceID lb \<and>
      (if PlanSize la = PlanSize lb
       then SLA la = SLA lb \<or> in_rules (slaRules pc) (SLA la) (SLA lb)
       else SLA la = SLA lb \<and> in_rules (sizeRules pc) (PlanSize la) (PlanSize lb)))"
  using assms
  by (simp add: AllowUpdate_def planSizeChanged_def planSLAChanged_def allowSizeUpdate_def
      allowSLAUpdate_def allow_loop_labels list_ex_allowed)

definition update_permitted :: "PlanUpdateChecker \<Rightarrow> labels \<Rightarrow> labels \<Rightarrow> bool" where
  "update_permitted pc la lb \<longleftrightarrow>
     ServiceID la = ServiceID lb \<and>
     (PlanSize la = PlanSize lb \<and> SLA la = SLA lb \<or>
      PlanSize la = PlanSize lb \<and> SLA la \<noteq> SLA lb \<and> in_rules (slaRules pc) (SLA la) (SLA lb) \<or>
      PlanSize la \<noteq> PlanSize lb \<and> SLA la = SLA lb \<and>
        in_rules (sizeRules pc) (PlanSize la) (PlanSize lb))"

section \<open>Properties\<close>

text \<open>C30: Printing and parsing rules are inverse to each other: a list of rules whose names contain
  neither separator is read back as it was, and whatever the parser accepts prints to the text it
  was read from.\<close>

theorem rules_round_trip:
  "(list_all plain_rule rs \<longrightarrow> parsePlanUpdateRules (rules_text rs) = Ok rs) \<and>
   (parsePlanUpdateRules s = Ok rs \<longrightarrow> rules_text rs = s)"
proof (intro conjI impI)
  assume plain: "list_all plain_rule rs"
  show "parsePlanUpdateRules (rules_text rs) = Ok rs"
  proof (cases "rs = []")
    case False
    have "CHR ''|'' \<notin> set p" if "p \<in> set (map rule_text rs)" for p
      using that plain by (auto simp: list_all_iff rule_text_no_bar)
    with False have "Split (rules_text rs) CHR ''|'' = map rule_text rs"
      unfolding rules_text_def by (intro Split_Join) simp_all
    with False plain show ?thesis
      by (simp add: parsePlanUpdateRules_def rules_text_not_empty parse_rules_text)
  qed (simp add: parsePlanUpdateRules_def rules_text_def)
next
  assume ok: "parsePlanUpdateRules s = Ok rs"
  show "rules_text rs = s"
  proof (cases "s = ''''")
    case False
    with ok have "map rule_text rs = Split s CHR ''|''"
      by (simp add: parsePlanUpdateRules_def parse_rules_texts)
    then show ?thesis by (simp add: rules_text_def Join_Split)
  qed (use ok in \<open>simp add: parsePlanUpdateRules_def rules_text_def\<close>)
qed

theorem rules_round_trip_witness:
  "parsePlanUpdateRules ''small>medium|medium>large'' =
     Ok [\<lparr>oldPlan = ''small'', newPlanName = ''medium''\<rparr>,
         \<lparr>oldPlan = ''medium'', newPlanName = ''large''\<rparr>] \<and>
   rules_text [\<lparr>oldPlan = ''a'', newPlanName = ''b''\<rparr>] = ''a>b''"
proof -
  let ?rs = "[\<lparr>oldPlan = ''small'', newPlanName = ''medium''\<rparr>,
      \<lparr>oldPlan = ''medium'', newPlanName = ''large''\<rparr>]"
  let ?one = "[\<lparr>oldPlan = ''a'', newPlanName = ''b''\<rparr>]"
  have "list_all plain_rule ?rs" by code_simp
  moreover have "rules_text ?rs = ''small>medium|medium>large''"
    by (simp add: rules_text_def rule_text_def)
  moreover have "parsePlanUpdateRules ''a>b'' = Ok ?one" by code_simp
  ultimately show ?thesis
    using rules_round_trip [of ?rs "''''"] rules_round_trip [of ?one "''a>b''"] by simp
qed

text \<open>The parser accepts the empty text, and every text in which each part between bars has
  exactly one greater-than sign, and then returns one rule for each part; anything else is an error.\<close>

theorem rules_accepted:
  "(\<exists>rs. parsePlanUpdateRules s = Ok rs \<and>
      length rs = (if s = '''' then 0 else length (Split s CHR ''|''))) =
   (s = '''' \<or> list_all (\<lambda>p. count_list p CHR ''>'' = 1) (Split s CHR ''|''))"
proof (cases "s = ''''")
  case False
  then show ?thesis
    using parse_rules_Ok_iff [of "Split s CHR ''|''"] parse_rules_texts [of "Split s CHR ''|''"]
    by (auto simp: parsePlanUpdateRules_def)
qed (simp add: parsePlanUpdateRules_def)

text \<open>C14: Between plans read from compositions, an update is permitted exactly when both belong to one
  service and at most one of size and service level changes, the one that changes by a rule of its
  own list: rules never combine, and a size rule never permits a change of the service level.\<close>

theorem update_decision:
  assumes "newPlan ca = Ok a" and "newPlan cb = Ok b"
  shows "\<exists>la lb. parseLabels (co_labels ca) = Ok la \<and> parseLabels (co_labels cb) = Ok lb \<and>
    AllowUpdate pc a b = Ok (update_permitted pc la lb)"
proof -
  from newPlan_OkD(2) [OF assms(1)] newPlan_OkD(2) [OF assms(2)] obtain la lb
    where "p_Labels a = Some la" "parseLabels (co_labels ca) = Ok la"
      "p_Labels b = Some lb" "parseLabels (co_labels cb) = Ok lb" by blast
  then show ?thesis by (auto simp: AllowUpdate_labels update_permitted_def)
qed

definition ex_plan_composition :: "string \<Rightarrow> string \<Rightarrow> composition" where
  "ex_plan_composition size_name level =
     \<lparr>co_name = size_name @ level,
      co_labels = [ServiceNameLabel \<mapsto> RedisService, ServiceIDLabel \<mapsto> ''svc'',
        PlanNameLabel \<mapsto> size_name @ ''-'' @ level, SLALabel \<mapsto> level],
      co_annotations = Map.empty, co_typeRefAPIVersion = ''syn.tools/v1alpha1'',
      co_typeRefKind = ''CompositeRedisInstance''\<rparr>"

theorem update_decision_witness:
  "\<exists>a b. newPlan (ex_plan_composition ''small'' ''standard'') = Ok a \<and>
     newPlan (ex_plan_composition ''large'' ''premium'') = Ok b \<and> AllowUpdate \<lparr>sizeRules = [], slaRules = []\<rparr> a b = Ok False"
proof -
  let ?ca = "ex_plan_composition ''small'' ''standard''"
    and ?cb = "ex_plan_composition ''large'' ''premium''"
  have "case parseLabels (co_labels ?ca) of Ok l \<Rightarrow> PlanSize l = ''small'' \<and> SLA l = ''standard'' | _ \<Rightarrow> False"
    "case parseLabels (co_labels ?cb) of Ok l \<Rightarrow> PlanSize l = ''large'' \<and> SLA l = ''premium'' | _ \<Rightarrow> False"
    by code_simp+
  then obtain la lb where l: "parseLabels (co_labels ?ca) = Ok la" "parseLabels (co_labels ?cb) = Ok lb"
    "PlanSize la \<noteq> PlanSize lb" "SLA la \<noteq> SLA lb" by (auto split: result.splits)
  then obtain a b where ab: "newPlan ?ca = Ok a" "newPlan ?cb = Ok b" by (auto simp: newPlan_def)
  from update_decision [OF this, of "\<lparr>sizeRules = [], slaRules = []\<rparr>"] l ab show ?thesis by (auto simp: update_permitted_def)
qed

end
