(* ===== verification/Broker_Config.thy ===== *)
theory Broker_Config
  imports Go_Strings
begin

text \<open>
  \<open>pkg/config/config.go\<close>: reading the broker's settings from the environment. The key register
  of the JWT library is represented by the documents loaded into it; parsing them, parsing
  durations and URLs, fetching and reading files is done by code outside the repository and
  arrives in the record \<open>config_lib\<close>.
\<close>

section \<open>Environment variables and defaults\<close>

definition EnvKubeconfig :: string where "EnvKubeconfig = ''KUBECONFIG''"
definition EnvNamespace :: string where "EnvNamespace = ''OSB_NAMESPACE''"
definition EnvServiceIDs :: string where "EnvServiceIDs = ''OSB_SERVICE_IDS''"
definition EnvUsername :: string where "EnvUsername = ''OSB_USERNAME''"
definition EnvPassword :: string where "EnvPassword = ''OSB_PASSWORD''"
definition EnvUsernameClaim :: string where "EnvUsernameClaim = ''OSB_USERNAME_CLAIM''"
definition EnvHTTPListenAddr :: string where "EnvHTTPListenAddr = ''OSB_HTTP_LISTEN_ADDR''"
definition EnvHTTPReadTimeout :: string where "EnvHTTPReadTimeout = ''OSB_HTTP_READ_TIMEOUT''"
definition EnvHTTPWriteTimeout :: string where "EnvHTTPWriteTimeout = ''OSB_HTTP_WRITE_TIMEOUT''"
definition EnvHTTPMaxHeaderBytes :: string where
  "EnvHTTPMaxHeaderBytes = ''OSB_HTTP_MAX_HEADER_BYTES''"
definition EnvJWTKeyJWKURL :: string where "EnvJWTKeyJWKURL = ''OSB_JWT_KEYS_JWK_URL''"
definition EnvJWTKeyPEMURL :: string where "EnvJWTKeyPEMURL = ''OSB_JWT_KEYS_PEM_URL''"
definition EnvPlanUpdateSLA :: string where "EnvPlanUpdateSLA = ''OSB_PLAN_UPDATE_SLA_RULES''"
definition EnvPlanUpdateSize :: string where "EnvPlanUpdateSize = ''OSB_PLAN_UPDATE_SIZE_RULES''"
definition EnvEnableMetrics :: string where "EnvEnableMetrics = ''ENABLE_METRICS''"
definition EnvMetricsDomain :: string where "EnvMetricsDomain = ''METRICS_DOMAIN''"

lemmas env_keys =
  EnvKubeconfig_def EnvNamespace_def EnvServiceIDs_def EnvUsername_def EnvPassword_def
  EnvUsernameClaim_def EnvHTTPListenAddr_def EnvHTTPReadTimeout_def EnvHTTPWriteTimeout_def
  EnvHTTPMaxHeaderBytes_def EnvJWTKeyJWKURL_def EnvJWTKeyPEMURL_def EnvPlanUpdateSLA_def
  EnvPlanUpdateSize_def EnvEnableMetrics_def EnvMetricsDomain_def

text \<open>\<open>time.Duration\<close> counts nanoseconds.\<close>

definition defaultHTTPTimeout :: int where "defaultHTTPTimeout = 3 * 60 * 1000000000"
definition defaultHTTPMaxHeaderBytes :: int where "defaultHTTPMaxHeaderBytes = 2 ^ 20"
definition defaultHTTPListenAddr :: string where "defaultHTTPListenAddr = '':8080''"
definition defaultUsernameClaim :: string where "defaultUsernameClaim = ''sub''"
definition defaultSLAUpdateRules :: string where
  "defaultSLAUpdateRules = ''standard>premium|premium>standard''"
definition defaultEnableMetrics :: bool where "defaultEnableMetrics = False"

section \<open>The configuration\<close>

datatype key_document = JWKDocument string | PEMDocument string

record config =
  Kubeconfig :: string
  ServiceIDs :: "string list"
  ListenAddr :: string
  Username :: string
  Password :: string
  UsernameClaim :: string
  JWKeyRegister :: "key_document list"
  Namespace :: string
  ReadTimeout :: int
  WriteTimeout :: int
  MaxHeaderBytes :: int
  PlanUpdateSizeRule :: string
  PlanUpdateSLARule :: string
  EnableMetrics :: bool
  MetricsDomain :: string

record url =
  Scheme :: string
  Path :: string
  Whole :: string

text \<open>
  What the code calls outside the repository: \<open>time.ParseDuration\<close>, \<open>url.Parse\<close>, an HTTP GET (its
  response is the result of reading the body), the contents of a file, and whether the key
  register accepts a document.
\<close>

record config_lib =
  ParseDuration :: "string \<Rightarrow> go_error + int"
  UrlParse :: "string \<Rightarrow> go_error + url"
  HttpGet :: "string \<Rightarrow> go_error + (go_error + string)"
  ReadFile :: "string \<Rightarrow> go_error + string"
  LoadKeys :: "key_document \<Rightarrow> go_error + unit"

type_synonym GetEnv = "string \<Rightarrow> string"

section \<open>Reading the settings\<close>

definition getServiceIDs :: "GetEnv \<Rightarrow> string list result" where
  "getServiceIDs getEnv =
     (let ids = filter (\<lambda>s. s \<noteq> '''') (map TrimSpace (Split (getEnv EnvServiceIDs) CHR '',''))
      in if length ids = 0
         then Err (Errorf ''%s is required, but was not defined or is empty'' [EnvServiceIDs])
         else Ok ids)"

definition getTimeout :: "config_lib \<Rightarrow> GetEnv \<Rightarrow> string \<Rightarrow> int result" where
  "getTimeout x getEnv timeoutName =
     (let timeout = getEnv timeoutName
      in if timeout = '''' then Ok defaultHTTPTimeout
         else mapErr (Wrapf ''%s is set to '%s', but that is not a valid time format: %w''
                        [timeoutName, timeout])
                (lib_call (ParseDuration x timeout)))"

definition getHTTPMaxHeaderBytes :: "GetEnv \<Rightarrow> int result" where
  "getHTTPMaxHeaderBytes getEnv =
     (let v = getEnv EnvHTTPMaxHeaderBytes
      in if v = '''' then Ok defaultHTTPMaxHeaderBytes
         else mapErr (Wrapf ''%s is set to '%s', but a number was expected: %w''
                        [EnvHTTPMaxHeaderBytes, v])
                (Atoi v))"

text \<open>
  On an error the code prints the Boolean it parsed, which \<open>ParseBool\<close> leaves false, and not the
  text it was given.
\<close>

definition getEnableMetrics :: "GetEnv \<Rightarrow> bool result" where
  "getEnableMetrics getEnv =
     (let v = getEnv EnvEnableMetrics
      in if v = '''' then Ok defaultEnableMetrics
         else mapErr (Wrapf ''%s is set to '%t', but a boolean was expected: %w''
                        [EnvEnableMetrics, ''false''])
                (ParseBool v))"

definition getMetricsDomain :: "GetEnv \<Rightarrow> bool \<Rightarrow> string result" where
  "getMetricsDomain getEnv enableMetrics =
     (if \<not> enableMetrics then Ok ''''
      else let d = getEnv EnvMetricsDomain
           in if d = ''''
              then Err (Errorf ''%s is set to true, but %s is empty''
                          [EnvEnableMetrics, EnvMetricsDomain])
              else Ok d)"

definition ensureRequiredSettings :: "config \<Rightarrow> unit result" where
  "ensureRequiredSettings cfg =
     (if Username cfg = ''''
      then Err (Errorf ''%s is required, but was not defined or is empty'' [EnvUsername])
      else if Password cfg = ''''
      then Err (Errorf ''%s is required, but was not defined or is empty'' [EnvPassword])
      else if Namespace cfg = ''''
      then Err (Errorf ''%s is required, but was not defined or is empty'' [EnvNamespace])
      else if EnableMetrics cfg \<and> MetricsDomain cfg = ''''
      then Err (Errorf ''%s is required, but was not defined or is empty'' [EnvMetricsDomain])
      else Ok ())"

definition setDefaults :: "config \<Rightarrow> config" where
  "setDefaults cfg =
     (let cfg1 = (if UsernameClaim cfg = '''' then cfg\<lparr>UsernameClaim := defaultUsernameClaim\<rparr>
                  else cfg)
      in if ListenAddr cfg1 = '''' then cfg1\<lparr>ListenAddr := defaultHTTPListenAddr\<rparr> else cfg1)"

section \<open>Loading the keys of JSON web tokens\<close>

definition loadContentFromHTTP :: "config_lib \<Rightarrow> url \<Rightarrow> string result" where
  "loadContentFromHTTP x u =
     bindR (mapErr (Wrapf ''unable to connect to '%s': '%w'' [Whole u])
              (lib_call (HttpGet x (Whole u)))) (\<lambda>body.
     mapErr (Wrapf ''unable to read response from '%s': %w'' [Whole u]) (lib_call body))"

definition loadContentFromFile :: "config_lib \<Rightarrow> url \<Rightarrow> string result" where
  "loadContentFromFile x u =
     mapErr (Wrapf ''unable to read file '%s': %w'' [Path u]) (lib_call (ReadFile x (Path u)))"

definition loadContentFromPath :: "config_lib \<Rightarrow> string \<Rightarrow> string result" where
  "loadContentFromPath x path =
     (if path = '''' then Err (Errorf ''an empty path is not allowed'' [])
      else bindR (mapErr (Wrapf ''the value '%s' can't be parsed as url: %w'' [path])
                    (lib_call (UrlParse x path))) (\<lambda>u.
        if Scheme u = ''https''
        then mapErr (Wrapf ''content can't be loaded from '%s': %w'' [Whole u])
               (loadContentFromHTTP x u)
        else if Scheme u = ''file''
        then mapErr (Wrapf ''content can't be loaded from '%s': %w'' [Whole u])
               (loadContentFromFile x u)
        else if Scheme u = ''http''
        then Err (Errorf (''the scheme '%s' of '%s' is not supported. Did you mean 'https' instead of 'http'? '' @
                           ''Supported schemes are 'https' and 'file'' @ [CHR 0x27])
                    [Scheme u, path])
        else Err (Errorf (''the scheme '%s' of '%s' is not supported. '' @
                           ''Supported schemes are 'https' and 'file'' @ [CHR 0x27])
                    [Scheme u, path])))"

text \<open>
  The register is passed as the documents loaded so far. A loader failing part-way leaves the
  register unspecified, but then no configuration is returned at all.
\<close>

definition loadKeysFromPath ::
  "config_lib \<Rightarrow> GetEnv \<Rightarrow> key_document list \<Rightarrow> string \<Rightarrow> (string \<Rightarrow> key_document)
    \<Rightarrow> key_document list result" where
  "loadKeysFromPath x getEnv keys envVarName loadFunc =
     (let v = getEnv envVarName
      in if v = '''' then Ok keys
         else bindR (mapErr (Wrapf ''unable to load keys from '%s' (defined in %s): %w''
                               [v, envVarName])
                       (loadContentFromPath x v)) (\<lambda>content.
              bindR (lib_call (LoadKeys x (loadFunc content))) (\<lambda>_.
              Ok (keys @ [loadFunc content]))))"

definition loadJWTSigningKeys ::
  "config_lib \<Rightarrow> GetEnv \<Rightarrow> key_document list \<Rightarrow> key_document list result" where
  "loadJWTSigningKeys x getEnv keys =
     bindR (loadKeysFromPath x getEnv keys EnvJWTKeyJWKURL JWKDocument) (\<lambda>keys1.
     loadKeysFromPath x getEnv keys1 EnvJWTKeyPEMURL PEMDocument)"

section \<open>\<open>ReadConfig\<close>\<close>

definition ReadConfig :: "config_lib \<Rightarrow> GetEnv \<Rightarrow> config result" where
  "ReadConfig x getEnv =
     (let cfg = \<lparr>Kubeconfig = getEnv EnvKubeconfig, ServiceIDs = [],
                 ListenAddr = getEnv EnvHTTPListenAddr, Username = getEnv EnvUsername,
                 Password = getEnv EnvPassword, UsernameClaim = getEnv EnvUsernameClaim,
                 JWKeyRegister = [], Namespace = getEnv EnvNamespace,
                 ReadTimeout = 0, WriteTimeout = 0, MaxHeaderBytes = 0,
                 PlanUpdateSizeRule = getEnv EnvPlanUpdateSize,
                 PlanUpdateSLARule = getEnv EnvPlanUpdateSLA,
                 EnableMetrics = False, MetricsDomain = getEnv EnvMetricsDomain\<rparr>;
          cfg1 = (if PlanUpdateSLARule cfg = ''''
                  then cfg\<lparr>PlanUpdateSLARule := defaultSLAUpdateRules\<rparr> else cfg)
      in bindR (getServiceIDs getEnv) (\<lambda>ids.
         bindR (getTimeout x getEnv EnvHTTPReadTimeout) (\<lambda>rt.
         bindR (getTimeout x getEnv EnvHTTPWriteTimeout) (\<lambda>wt.
         bindR (getHTTPMaxHeaderBytes getEnv) (\<lambda>bytes.
         bindR (loadJWTSigningKeys x getEnv (JWKeyRegister cfg1)) (\<lambda>keys.
         let cfg2 = cfg1\<lparr>ServiceIDs := ids, ReadTimeout := rt, WriteTimeout := wt,
                         MaxHeaderBytes := bytes, JWKeyRegister := keys\<rparr>
         in bindR (ensureRequiredSettings cfg2) (\<lambda>_.
            bindR (getEnableMetrics getEnv) (\<lambda>enableMetrics.
            bindR (getMetricsDomain getEnv enableMetrics) (\<lambda>metricsDomain.
            Ok (setDefaults (cfg2\<lparr>EnableMetrics := enableMetrics,
                                  MetricsDomain := metricsDomain\<rparr>)))))))))))"

section \<open>Lemmas\<close>

lemma getServiceIDs_Ok:
  assumes "getServiceIDs getEnv = Ok ids"
  shows "ids \<noteq> []" and "\<forall>s \<in> set ids. s \<noteq> '''' \<and> CHR '','' \<notin> set s"
proof -
  from assms have ids:
    "ids = filter (\<lambda>s. s \<noteq> '''') (map TrimSpace (Split (getEnv EnvServiceIDs) CHR '',''))" "ids \<noteq> []"
    by (auto simp: getServiceIDs_def Let_def split: if_splits)
  then show "ids \<noteq> []" by simp
  show "\<forall>s \<in> set ids. s \<noteq> '''' \<and> CHR '','' \<notin> set s"
    using ids(1) Split_parts_no_sep set_TrimSpace by fastforce
qed

lemma getServiceIDs_not_Panic [simp]: "getServiceIDs getEnv \<noteq> Panic p"
  by (simp add: getServiceIDs_def Let_def)

lemma getTimeout_not_Panic [simp]: "getTimeout x getEnv n \<noteq> Panic p"
  by (auto simp: getTimeout_def Let_def go_inv)

lemma getHTTPMaxHeaderBytes_not_Panic [simp]: "getHTTPMaxHeaderBytes getEnv \<noteq> Panic p"
  by (auto simp: getHTTPMaxHeaderBytes_def Atoi_def Let_def go_inv)

lemma getHTTPMaxHeaderBytes_range:
  "getHTTPMaxHeaderBytes getEnv = Ok n \<Longrightarrow> - (2 ^ 63) \<le> n \<and> n < 2 ^ 63"
  by (auto simp: getHTTPMaxHeaderBytes_def defaultHTTPMaxHeaderBytes_def Let_def go_inv
      dest: Atoi_range split: if_splits)

lemma getEnableMetrics_not_Panic [simp]: "getEnableMetrics getEnv \<noteq> Panic p"
  by (auto simp: getEnableMetrics_def Let_def go_inv)

lemma getMetricsDomain_Ok:
  "getMetricsDomain getEnv m = Ok d \<Longrightarrow> d = '''' \<longleftrightarrow> \<not> m"
  by (auto simp: getMetricsDomain_def Let_def split: if_splits)

lemma getMetricsDomain_not_Panic [simp]: "getMetricsDomain getEnv m \<noteq> Panic p"
  by (simp add: getMetricsDomain_def Let_def)

lemma ensureRequiredSettings_Ok:
  "ensureRequiredSettings cfg = Ok u \<Longrightarrow>
     Username cfg \<noteq> '''' \<and> Password cfg \<noteq> '''' \<and> Namespace cfg \<noteq> ''''"
  by (auto simp: ensureRequiredSettings_def split: if_splits)

lemma ensureRequiredSettings_not_Panic [simp]: "ensureRequiredSettings cfg \<noteq> Panic p"
  by (simp add: ensureRequiredSettings_def)

lemma setDefaults_simps [simp]:
  "UsernameClaim (setDefaults cfg) \<noteq> ''''" "ListenAddr (setDefaults cfg) \<noteq> ''''"
  "Kubeconfig (setDefaults cfg) = Kubeconfig cfg" "ServiceIDs (setDefaults cfg) = ServiceIDs cfg"
  "Username (setDefaults cfg) = Username cfg" "Password (setDefaults cfg) = Password cfg"
  "JWKeyRegister (setDefaults cfg) = JWKeyRegister cfg" "Namespace (setDefaults cfg) = Namespace cfg"
  "MaxHeaderBytes (setDefaults cfg) = MaxHeaderBytes cfg"
  "PlanUpdateSLARule (setDefaults cfg) = PlanUpdateSLARule cfg"
  "PlanUpdateSizeRule (setDefaults cfg) = PlanUpdateSizeRule cfg"
  "EnableMetrics (setDefaults cfg) = EnableMetrics cfg"
  "MetricsDomain (setDefaults cfg) = MetricsDomain cfg"
  by (simp_all add: setDefaults_def Let_def defaultUsernameClaim_def defaultHTTPListenAddr_def)

text \<open>Content is read over https or from a file, and from nowhere else.\<close>

definition trusted_content :: "config_lib \<Rightarrow> string \<Rightarrow> bool" where
  "trusted_content x s \<longleftrightarrow>
     (\<exists>p u. UrlParse x p = Inr u \<and>
        (Scheme u = ''https'' \<and> HttpGet x (Whole u) = Inr (Inr s) \<or>
         Scheme u = ''file'' \<and> ReadFile x (Path u) = Inr s))"

lemma loadContentFromPath_Ok: "loadContentFromPath x path = Ok s \<Longrightarrow> trusted_content x s"
  by (auto simp: loadContentFromPath_def loadContentFromHTTP_def loadContentFromFile_def
      trusted_content_def go_inv split: if_splits)

lemma loadContentFromPath_not_Panic [simp]: "loadContentFromPath x path \<noteq> Panic p"
  by (auto simp: loadContentFromPath_def loadContentFromHTTP_def loadContentFromFile_def go_inv)

lemma loadKeysFromPath_Ok:
  assumes "loadKeysFromPath x getEnv keys v f = Ok keys'"
  shows "keys' = keys \<or> (\<exists>s. keys' = keys @ [f s] \<and> trusted_content x s \<and> LoadKeys x (f s) = Inr ())"
  using assms loadContentFromPath_Ok
  by (fastforce simp: loadKeysFromPath_def Let_def go_inv split: if_splits)

lemma loadKeysFromPath_not_Panic [simp]: "loadKeysFromPath x getEnv keys v f \<noteq> Panic p"
  by (auto simp: loadKeysFromPath_def Let_def go_inv)

lemma loadJWTSigningKeys_Ok:
  assumes "loadJWTSigningKeys x getEnv [] = Ok keys"
  shows "\<forall>d \<in> set keys. LoadKeys x d = Inr () \<and>
    (\<exists>s. trusted_content x s \<and> (d = JWKDocument s \<or> d = PEMDocument s))"
proof -
  from assms obtain keys1 where k1: "loadKeysFromPath x getEnv [] EnvJWTKeyJWKURL JWKDocument = Ok keys1"
    and k2: "loadKeysFromPath x getEnv keys1 EnvJWTKeyPEMURL PEMDocument = Ok keys"
    by (auto simp: loadJWTSigningKeys_def go_inv)
  from loadKeysFromPath_Ok [OF k1] loadKeysFromPath_Ok [OF k2] show ?thesis by auto
qed

lemma loadJWTSigningKeys_not_Panic [simp]: "loadJWTSigningKeys x getEnv keys \<noteq> Panic p"
  by (auto simp: loadJWTSigningKeys_def go_inv)

lemma ReadConfig_Ok:
  assumes "ReadConfig x getEnv = Ok cfg"
  obtains ids bytes keys m d where "getServiceIDs getEnv = Ok ids" "ServiceIDs cfg = ids"
    "getHTTPMaxHeaderBytes getEnv = Ok bytes" "MaxHeaderBytes cfg = bytes"
    "loadJWTSigningKeys x getEnv [] = Ok keys" "JWKeyRegister cfg = keys"
    "getMetricsDomain getEnv m = Ok d" "EnableMetrics cfg = m" "MetricsDomain cfg = d"
    "Username cfg = getEnv EnvUsername" "Password cfg = getEnv EnvPassword"
    "Namespace cfg = getEnv EnvNamespace"
    "Username cfg \<noteq> ''''" "Password cfg \<noteq> ''''" "Namespace cfg \<noteq> ''''"
    "UsernameClaim cfg \<noteq> ''''" "ListenAddr cfg \<noteq> ''''"
    "PlanUpdateSizeRule cfg = getEnv EnvPlanUpdateSize"
    "PlanUpdateSLARule cfg =
       (if getEnv EnvPlanUpdateSLA = '''' then defaultSLAUpdateRules else getEnv EnvPlanUpdateSLA)"
  using assms
  by (auto simp: ReadConfig_def Let_def go_inv dest!: ensureRequiredSettings_Ok split: if_splits)

lemma ReadConfig_not_Panic [simp]: "ReadConfig x getEnv \<noteq> Panic p"
  by (simp add: ReadConfig_def Let_def go_inv)

section \<open>Properties\<close>

text \<open>C28: Reading the configuration never panics, and a configuration that is returned is well-formed: it
  names at least one service and no name is empty or holds a comma, user name, password, namespace,
  user-name claim, listening address and rules for the service level are not empty, the metrics
  domain is set exactly when metrics are enabled, and the header limit fits into 64 bits.\<close>

theorem config_well_formed:
  "(\<forall>p. ReadConfig x getEnv \<noteq> Panic p) \<and>
   (ReadConfig x getEnv = Ok cfg \<longrightarrow>
      ServiceIDs cfg \<noteq> [] \<and> (\<forall>s \<in> set (ServiceIDs cfg). s \<noteq> '''' \<and> CHR '','' \<notin> set s) \<and>
      Username cfg \<noteq> '''' \<and> Password cfg \<noteq> '''' \<and> Namespace cfg \<noteq> '''' \<and>
      UsernameClaim cfg \<noteq> '''' \<and> ListenAddr cfg \<noteq> '''' \<and> PlanUpdateSLARule cfg \<noteq> '''' \<and>
      (EnableMetrics cfg \<longleftrightarrow> MetricsDomain cfg \<noteq> '''') \<and>
      - (2 ^ 63) \<le> MaxHeaderBytes cfg \<and> MaxHeaderBytes cfg < 2 ^ 63)"
proof (intro conjI [of "\<forall>p. P p" for P] allI impI)
  show "ReadConfig x getEnv \<noteq> Panic p" for p by simp
next
  assume "ReadConfig x getEnv = Ok cfg"
  then show "ServiceIDs cfg \<noteq> [] \<and> (\<forall>s \<in> set (ServiceIDs cfg). s \<noteq> '''' \<and> CHR '','' \<notin> set s) \<and>
      Username cfg \<noteq> '''' \<and> Password cfg \<noteq> '''' \<and> Namespace cfg \<noteq> '''' \<and>
      UsernameClaim cfg \<noteq> '''' \<and> ListenAddr cfg \<noteq> '''' \<and> PlanUpdateSLARule cfg \<noteq> '''' \<and>
      (EnableMetrics cfg \<longleftrightarrow> MetricsDomain cfg \<noteq> '''') \<and>
      - (2 ^ 63) \<le> MaxHeaderBytes cfg \<and> MaxHeaderBytes cfg < 2 ^ 63"
  proof (rule ReadConfig_Ok, goal_cases)
    case (1 ids bytes keys m d)
    then show ?case
      using getServiceIDs_Ok [OF 1(1)] getHTTPMaxHeaderBytes_range [OF 1(3)]
        getMetricsDomain_Ok [OF 1(7)] by (auto simp: defaultSLAUpdateRules_def)
  qed
qed

definition ex_env :: "string \<Rightarrow> string" where
  "ex_env k =
     (if k = EnvUsername then ''admin'' else if k = EnvPassword then ''s3cret''
      else if k = EnvNamespace then ''broker'' else if k = EnvServiceIDs then ''svc-a, svc-b,''
      else if k = EnvJWTKeyJWKURL then ''file:///keys.json'' else '''')"

definition ex_config_lib :: config_lib where
  "ex_config_lib =
     \<lparr>ParseDuration = (\<lambda>s. Inl (LibError ''time'')),
      UrlParse = (\<lambda>s. Inr \<lparr>Scheme = ''file'', Path = ''/keys.json'', Whole = s\<rparr>),
      HttpGet = (\<lambda>s. Inl (LibError ''http'')), ReadFile = (\<lambda>s. Inr ''{}''),
      LoadKeys = (\<lambda>d. Inr ())\<rparr>"

lemma ex_config_reads: "\<exists>cfg. ReadConfig ex_config_lib ex_env = Ok cfg \<and> JWKeyRegister cfg \<noteq> []"
proof -
  have "case ReadConfig ex_config_lib ex_env of Ok cfg \<Rightarrow> 0 < length (JWKeyRegister cfg) | _ \<Rightarrow> False"
    by code_simp
  then show ?thesis by (auto split: result.splits)
qed

theorem config_well_formed_witness:
  "\<exists>cfg. ReadConfig ex_config_lib ex_env = Ok cfg \<and> Username cfg \<noteq> '''' \<and> PlanUpdateSLARule cfg \<noteq> ''''"
proof -
  obtain cfg where cfg: "ReadConfig ex_config_lib ex_env = Ok cfg" using ex_config_reads by blast
  with config_well_formed [of ex_config_lib ex_env cfg]
  have "Username cfg \<noteq> ''''" "PlanUpdateSLARule cfg \<noteq> ''''" by simp_all
  with cfg show ?thesis by blast
qed

text \<open>C29: Every document in the key register, against which the tokens of requests are checked, was
  accepted by the register and read over https or from a file: a key URL with the scheme http, or
  any other, ends the start-up with an error.\<close>

theorem keys_from_trusted_content:
  assumes "ReadConfig x getEnv = Ok cfg" and "d \<in> set (JWKeyRegister cfg)"
  shows "LoadKeys x d = Inr () \<and>
    (\<exists>s. (d = JWKDocument s \<or> d = PEMDocument s) \<and>
      (\<exists>p u. UrlParse x p = Inr u \<and>
        (Scheme u = ''https'' \<and> HttpGet x (Whole u) = Inr (Inr s) \<or>
         Scheme u = ''file'' \<and> ReadFile x (Path u) = Inr s)))"
  using assms(1)
proof (rule ReadConfig_Ok, goal_cases)
  case (1 ids bytes keys m e)
  from loadJWTSigningKeys_Ok [OF 1(5)] 1(6) assms(2) obtain s where "LoadKeys x d = Inr ()"
    "trusted_content x s" "d = JWKDocument s \<or> d = PEMDocument s" by blast
  then show ?thesis unfolding trusted_content_def by metis
qed

theorem keys_from_trusted_content_witness:
  "\<exists>cfg d. ReadConfig ex_config_lib ex_env = Ok cfg \<and> d \<in> set (JWKeyRegister cfg) \<and>
     LoadKeys ex_config_lib d = Inr ()"
proof -
  from ex_config_reads obtain cfg d where cfg: "ReadConfig ex_config_lib ex_env = Ok cfg"
    and d: "d \<in> set (JWKeyRegister cfg)" by (metis list.set_intros(1) neq_Nil_conv)
  from keys_from_trusted_content [OF cfg d] cfg d show ?thesis by blast
qed

end
