(* ===== verification/Auth.thy ===== *)
theory Auth
  imports Broker_Config
begin

text \<open>
  \<open>pkg/api/auth\<close>: Basic and Bearer authentication (\<open>basic.go\<close>, \<open>bearer_token.go\<close>), the middleware
  that chooses between them (\<open>middleware.go\<close>), and the principal read back from the request
  context (\<open>principal.go\<close>). The JWT handler and SHA-256 are code outside the repository and
  arguments of the definitions that use them.
\<close>

section \<open>Request contexts\<close>

text \<open>
  \<open>context.Value\<close> distinguishes keys by type and value: \<open>contextKey\<close> is the package's own key type,
  \<open>TokenPropertyName\<close> is a plain string. A value is a string, the claims of a token (by what their
  \<open>String\<close> method answers) or something else.
\<close>

datatype ctx_key = ContextKey string | StringKey string | CorrelationIDKey

datatype ctx_value = VString string | VClaims str_map | VOther

type_synonym ctx = "(ctx_key \<times> ctx_value) list"

definition ctx_Value :: "ctx \<Rightarrow> ctx_key \<Rightarrow> ctx_value option" where
  "ctx_Value ctx k = map_of ctx k"

definition WithValue :: "ctx \<Rightarrow> ctx_key \<Rightarrow> ctx_value \<Rightarrow> ctx" where
  "WithValue ctx k v = (k, v) # ctx"

definition AuthenticationMethodPropertyName :: ctx_key where
  "AuthenticationMethodPropertyName = ContextKey ''authentication-method''"
definition AuthenticationMethodBearerToken :: string where
  "AuthenticationMethodBearerToken = ''Bearer''"
definition AuthenticationMethodBasicAuth :: string where
  "AuthenticationMethodBasicAuth = ''Basic''"
definition UserPropertyName :: ctx_key where
  "UserPropertyName = ContextKey ''user''"
definition TokenPropertyName :: ctx_key where
  "TokenPropertyName = StringKey ''bearer-token''"

lemmas auth_names =
  AuthenticationMethodPropertyName_def AuthenticationMethodBearerToken_def
  AuthenticationMethodBasicAuth_def UserPropertyName_def TokenPropertyName_def

lemma ctx_Value_WithValue [simp]:
  "ctx_Value (WithValue ctx k v) k' = (if k' = k then Some v else ctx_Value ctx k')"
  by (simp add: ctx_Value_def WithValue_def)

section \<open>The principal of a request\<close>

definition getPrincipalFromBasicAuth :: "ctx \<Rightarrow> string result" where
  "getPrincipalFromBasicAuth ctx =
     (case ctx_Value ctx UserPropertyName of
        None \<Rightarrow> Err (Errorf ''principal not set'' [])
      | Some (VString u) \<Rightarrow> Ok u
      | Some _ \<Rightarrow> Err (Errorf ''principal is not a string'' []))"

definition getPrincipalFromBearerToken :: "ctx \<Rightarrow> config \<Rightarrow> string result" where
  "getPrincipalFromBearerToken ctx cfg =
     (case ctx_Value ctx TokenPropertyName of
        None \<Rightarrow> Err (Errorf ''principal token not set'' [])
      | Some (VClaims claims) \<Rightarrow>
          (case claims (UsernameClaim cfg) of
             None \<Rightarrow> Err (Errorf (''principal token contains no claim named '%s'' @ [CHR 0x27])
                            [UsernameClaim cfg])
           | Some u \<Rightarrow> Ok u)
      | Some _ \<Rightarrow> Err (Errorf ''principal token is invalid'' []))"

definition PrincipalFromContext :: "ctx \<Rightarrow> config \<Rightarrow> string result" where
  "PrincipalFromContext ctx cfg =
     (case ctx_Value ctx AuthenticationMethodPropertyName of
        None \<Rightarrow> Err (Errorf ''likely an unauthorized request'' [])
      | Some (VString m) \<Rightarrow>
          if m = AuthenticationMethodBasicAuth then getPrincipalFromBasicAuth ctx
          else if m = AuthenticationMethodBearerToken then getPrincipalFromBearerToken ctx cfg
          else Err (Errorf (''unknown authorication format '%s'' @ [CHR 0x27]) [m])
      | Some _ \<Rightarrow> Err (Errorf ''can't convert authorization method to string'' []))"

lemma PrincipalFromContext_not_Panic [simp]: "PrincipalFromContext ctx cfg \<noteq> Panic p"
  by (simp add: PrincipalFromContext_def getPrincipalFromBasicAuth_def
      getPrincipalFromBearerToken_def split: option.splits ctx_value.splits)

section \<open>Requests, responses and handlers\<close>

type_synonym headers = "string \<Rightarrow> string list option"

record request =
  r_headers :: headers
  r_ctx :: ctx
  r_method :: string
  r_uri :: string

record response =
  resp_status :: int
  resp_headers :: str_map
  resp_body :: string

text \<open>\<open>http.Header.Get\<close>: the first value of a header, or the empty string.\<close>

definition header_Get :: "headers \<Rightarrow> string \<Rightarrow> string" where
  "header_Get h k = (case h k of Some (v # _) \<Rightarrow> v | _ \<Rightarrow> '''')"

text \<open>\<open>http.Error\<close> on the headers written so far.\<close>

definition http_Error :: "str_map \<Rightarrow> string \<Rightarrow> int \<Rightarrow> response" where
  "http_Error h msg code =
     \<lparr>resp_status = code,
      resp_headers = h(''Content-Type'' \<mapsto> ''text/plain; charset=utf-8'',
                       ''X-Content-Type-Options'' \<mapsto> ''nosniff''),
      resp_body = msg @ [CHR 0x0A]\<rparr>"

text \<open>
  What a handler may change: the two counters of the middleware and the state \<open>'s\<close> of the
  application behind it.
\<close>

record 's web =
  totalRequestCounter :: nat
  failedAuthenticationCounter :: nat
  app :: 's

type_synonym 's handler = "request \<Rightarrow> 's web \<Rightarrow> response \<times> 's web"

section \<open>Basic authentication\<close>

text \<open>\<open>base64.StdEncoding.DecodeString\<close>: groups of four, padded with \<open>=\<close>, line breaks ignored.\<close>

definition base64_digit :: "char \<Rightarrow> nat option" where
  "base64_digit c =
     (let n = of_char c :: nat
      in if 65 \<le> n \<and> n \<le> 90 then Some (n - 65)
         else if 97 \<le> n \<and> n \<le> 122 then Some (n - 71)
         else if 48 \<le> n \<and> n \<le> 57 then Some (n + 4)
         else if n = 43 then Some 62
         else if n = 47 then Some 63
         else None)"

fun base64_groups :: "string \<Rightarrow> string option" where
  "base64_groups [] = Some []"
| "base64_groups (a # b # c # d # rest) =
     (case (base64_digit a, base64_digit b) of
        (Some x, Some y) \<Rightarrow>
          let first = char_of (4 * x + y div 16)
          in if c = CHR ''='' \<and> d = CHR ''='' \<and> rest = [] then Some [first]
             else (case base64_digit c of
                 None \<Rightarrow> None
               | Some z \<Rightarrow>
                   let second = char_of (16 * (y mod 16) + z div 4)
                   in if d = CHR ''='' \<and> rest = [] then Some [first, second]
                      else (case base64_digit d of
                          None \<Rightarrow> None
                        | Some u \<Rightarrow>
                            map_option (\<lambda>more. first # second # char_of (64 * (z mod 4) + u) # more)
                              (base64_groups rest)))
      | _ \<Rightarrow> None)"
| "base64_groups _ = None"

definition base64_decode :: "string \<Rightarrow> string option" where
  "base64_decode s = base64_groups (filter (\<lambda>c. c \<noteq> CHR 0x0A \<and> c \<noteq> CHR 0x0D) s)"

text \<open>\<open>strings.Cut(s, ":")\<close>\<close>

fun cut_colon :: "string \<Rightarrow> (string \<times> string) option" where
  "cut_colon [] = None"
| "cut_colon (c # cs) =
     (if c = CHR '':'' then Some ([], cs)
      else map_option (\<lambda>(a, b). (c # a, b)) (cut_colon cs))"

text \<open>\<open>http.Request.BasicAuth\<close>: the user name and the password, if the header holds them.\<close>

definition BasicAuth :: "request \<Rightarrow> (string \<times> string) option" where
  "BasicAuth r =
     (let auth = header_Get (r_headers r) ''Authorization''
      in if map ascii_lower (take 6 auth) \<noteq> ''basic '' then None
         else Option.bind (base64_decode (drop 6 auth)) cut_colon)"

record credential =
  cred_username :: string
  cred_password :: string

definition isAuthorized :: "credential \<Rightarrow> string \<Rightarrow> string \<Rightarrow> bool" where
  "isAuthorized c uChecksum pChecksum =
     (cred_username c = uChecksum \<and> cred_password c = pChecksum)"

definition NewCredential :: "(string \<Rightarrow> string) \<Rightarrow> string \<Rightarrow> string \<Rightarrow> credential" where
  "NewCredential sha256 username password =
     \<lparr>cred_username = sha256 username, cred_password = sha256 password\<rparr>"

definition SingleCredential :: "(string \<Rightarrow> string) \<Rightarrow> string \<Rightarrow> string \<Rightarrow> credential list" where
  "SingleCredential sha256 username password = [NewCredential sha256 username password]"

fun authorized_loop ::
  "credential list \<Rightarrow> string \<Rightarrow> string \<Rightarrow> string \<Rightarrow> request \<Rightarrow> request \<times> bool" where
  "authorized_loop [] u p username r = (r, False)"
| "authorized_loop (c # cs) u p username r =
     (if isAuthorized c u p
      then (r\<lparr>r_ctx := WithValue (r_ctx r) UserPropertyName (VString username)\<rparr>, True)
      else authorized_loop cs u p username r)"

definition authorized ::
  "(string \<Rightarrow> string) \<Rightarrow> credential list \<Rightarrow> request \<Rightarrow> request \<times> bool" where
  "authorized sha256 credentials r =
     (case BasicAuth r of
        None \<Rightarrow> (r, False)
      | Some (username, password) \<Rightarrow>
          authorized_loop credentials (sha256 username) (sha256 password) username r)"

definition Basic_Handler ::
  "(string \<Rightarrow> string) \<Rightarrow> credential list \<Rightarrow> 's handler \<Rightarrow> 's handler" where
  "Basic_Handler sha256 credentials handler r s =
     (case authorized sha256 credentials r of
        (r', ok) \<Rightarrow>
          if \<not> ok
          then (http_Error [''WWW-Authenticate'' \<mapsto> ''Basic''] ''Not Authorized'' 401,
                s\<lparr>failedAuthenticationCounter := Suc (failedAuthenticationCounter s)\<rparr>)
          else handler r' s)"

section \<open>The middleware\<close>

text \<open>
  \<open>jwt.Handler\<close> with the keys and the context key, wrapped around a target, is the argument
  \<open>jwtHandler\<close>.
\<close>

record 's AuthenticationMiddleware =
  bearerTokenAuth :: "'s handler \<Rightarrow> 's handler"
  basicAuth :: "'s handler \<Rightarrow> 's handler"

definition BearerToken_Handler ::
  "(key_document list \<Rightarrow> ctx_key \<Rightarrow> 's handler \<Rightarrow> 's handler) \<Rightarrow> key_document list
    \<Rightarrow> 's handler \<Rightarrow> 's handler" where
  "BearerToken_Handler jwtHandler keys handler = jwtHandler keys TokenPropertyName handler"

definition New_AuthenticationMiddleware ::
  "(string \<Rightarrow> string) \<Rightarrow> (key_document list \<Rightarrow> ctx_key \<Rightarrow> 's handler \<Rightarrow> 's handler)
    \<Rightarrow> credential list \<Rightarrow> key_document list \<Rightarrow> 's AuthenticationMiddleware" where
  "New_AuthenticationMiddleware sha256 jwtHandler credentials keys =
     \<lparr>bearerTokenAuth = BearerToken_Handler jwtHandler keys,
      basicAuth = Basic_Handler sha256 credentials\<rparr>"

definition unauthorized :: "'s web \<Rightarrow> response \<times> 's web" where
  "unauthorized s =
     (http_Error
        [''WWW-Authenticate'' \<mapsto>
           ''Basic realm='' @ [CHR 0x22] @ ''Crossplane Service Broker'' @ [CHR 0x22] @
           '', charset='' @ [CHR 0x22] @ ''UTF-8'' @ [CHR 0x22]]
        ''Not Authorized'' 401,
      s\<lparr>failedAuthenticationCounter := Suc (failedAuthenticationCounter s)\<rparr>)"

definition badRequest :: "'s web \<Rightarrow> response \<times> 's web" where
  "badRequest s =
     (http_Error Map.empty
        ''Unable to determine Authorization method, supported are 'Basic' and 'Bearer'.'' 400, s)"

definition handleBasicAuth ::
  "'s AuthenticationMiddleware \<Rightarrow> 's handler \<Rightarrow> 's handler" where
  "handleBasicAuth a handler r s =
     basicAuth a handler
       (r\<lparr>r_ctx := WithValue (r_ctx r) AuthenticationMethodPropertyName
                    (VString AuthenticationMethodBasicAuth)\<rparr>) s"

definition handleBearerToken ::
  "'s AuthenticationMiddleware \<Rightarrow> 's handler \<Rightarrow> 's handler" where
  "handleBearerToken a handler r s =
     bearerTokenAuth a handler
       (r\<lparr>r_ctx := WithValue (r_ctx r) AuthenticationMethodPropertyName
                    (VString AuthenticationMethodBearerToken)\<rparr>) s"

definition Middleware_Handler ::
  "'s AuthenticationMiddleware \<Rightarrow> 's handler \<Rightarrow> 's handler" where
  "Middleware_Handler a handler r s0 =
     (let s = s0\<lparr>totalRequestCounter := Suc (totalRequestCounter s0)\<rparr>;
          authHeader = header_Get (r_headers r) ''Authorization''
      in if authHeader = '''' then unauthorized s
         else let parts = Fields authHeader
              in if length parts < 2 then badRequest s
                 else if parts ! 0 = ''Bearer'' then handleBearerToken a handler r s
                 else if parts ! 0 = ''Basic'' then handleBasicAuth a handler r s
                 else badRequest s)"

section \<open>Which credentials are accepted\<close>

definition matches :: "(string \<Rightarrow> string) \<Rightarrow> credential list \<Rightarrow> string \<times> string \<Rightarrow> bool" where
  "matches sha256 cs up =
     list_ex (\<lambda>c. cred_username c = sha256 (fst up) \<and> cred_password c = sha256 (snd up)) cs"

lemma authorized_loop_eq:
  "authorized_loop cs u p n r =
     (if list_ex (\<lambda>c. isAuthorized c u p) cs
      then (r\<lparr>r_ctx := WithValue (r_ctx r) UserPropertyName (VString n)\<rparr>, True) else (r, False))"
  by (induction cs) auto

lemma authorized_eq:
  "authorized sha256 cs r =
     (case BasicAuth r of
        None \<Rightarrow> (r, False)
      | Some up \<Rightarrow>
          if matches sha256 cs up
          then (r\<lparr>r_ctx := WithValue (r_ctx r) UserPropertyName (VString (fst up))\<rparr>, True)
          else (r, False))"
  by (auto simp: authorized_def authorized_loop_eq matches_def isAuthorized_def
      split: option.splits prod.splits)

lemma matches_single [simp]:
  "matches sha256 (SingleCredential sha256 user pw) up =
     (sha256 user = sha256 (fst up) \<and> sha256 pw = sha256 (snd up))"
  by (simp add: matches_def SingleCredential_def NewCredential_def)

definition basic_admits ::
  "(string \<Rightarrow> string) \<Rightarrow> credential list \<Rightarrow> request \<Rightarrow> request option" where
  "basic_admits sha256 cs r =
     (case authorized sha256 cs r of (r', ok) \<Rightarrow> if ok then Some r' else None)"

lemma basic_admits_eq:
  "basic_admits sha256 cs r = Some r' \<longleftrightarrow>
     (\<exists>up. BasicAuth r = Some up \<and> matches sha256 cs up \<and>
       r' = r\<lparr>r_ctx := WithValue (r_ctx r) UserPropertyName (VString (fst up))\<rparr>)"
  by (auto simp: basic_admits_def authorized_eq split: option.splits if_splits)

section \<open>The interface \<open>authenticationHandler\<close>\<close>

text \<open>
  What the middleware relies on of either of its two handlers: a request it admits is passed on
  with one more value in its context; a request it does not admit is answered with 401 without
  the wrapped handler having any part in it.
\<close>

locale authentication_handler =
  fixes wrap :: "'s handler \<Rightarrow> 's handler"
    and admits :: "request \<Rightarrow> request option"
    and key :: ctx_key
  assumes admitted: "admits r = Some r' \<Longrightarrow> wrap h r s = h r' s"
    and refused: "admits r = None \<Longrightarrow>
      \<exists>resp s'. (\<forall>h. wrap h r s = (resp, s')) \<and> app s' = app s \<and> resp_status resp = 401"
    and adds_one_value: "admits r = Some r' \<Longrightarrow>
      \<exists>v. r' = r\<lparr>r_ctx := WithValue (r_ctx r) key v\<rparr>"
begin

lemma admitted_context:
  "admits r = Some r' \<Longrightarrow> k \<noteq> key \<Longrightarrow> ctx_Value (r_ctx r') k = ctx_Value (r_ctx r) k"
  using adds_one_value by fastforce

lemma passes_or_refuses:
  obtains (pass) r' where "admits r = Some r'" "\<And>h. wrap h r s = h r' s"
  | (refuse) resp s' where "admits r = None" "\<And>h. wrap h r s = (resp, s')" "app s' = app s"
      "resp_status resp = 401"
  using admitted refused by (metis option.exhaust)

end

interpretation basic: authentication_handler
  "Basic_Handler sha256 cs" "basic_admits sha256 cs" UserPropertyName
  for sha256 :: "string \<Rightarrow> string" and cs :: "credential list"
proof unfold_locales
  fix r r' :: request and h :: "'a handler" and s :: "'a web"
  show "basic_admits sha256 cs r = Some r' \<Longrightarrow> Basic_Handler sha256 cs h r s = h r' s"
    by (auto simp: basic_admits_def Basic_Handler_def split: prod.splits if_splits)
  show "basic_admits sha256 cs r = Some r' \<Longrightarrow>
      \<exists>v. r' = r\<lparr>r_ctx := WithValue (r_ctx r) UserPropertyName v\<rparr>"
    by (auto simp: basic_admits_eq)
  assume "basic_admits sha256 cs r = None"
  then have "\<not> snd (authorized sha256 cs r)"
    by (auto simp: basic_admits_def split: prod.splits if_splits)
  then have "Basic_Handler sha256 cs h r s =
      (http_Error [''WWW-Authenticate'' \<mapsto> ''Basic''] ''Not Authorized'' 401,
       s\<lparr>failedAuthenticationCounter := Suc (failedAuthenticationCounter s)\<rparr>)" for h
    by (auto simp: Basic_Handler_def split: prod.splits)
  then show "\<exists>resp s'. (\<forall>h. Basic_Handler sha256 cs h r s = (resp, s')) \<and> app s' = app s \<and>
      resp_status resp = 401"
    by (simp add: http_Error_def)
qed

section \<open>What the middleware decides\<close>

definition tagged :: "string \<Rightarrow> request \<Rightarrow> request" where
  "tagged m r = r\<lparr>r_ctx := WithValue (r_ctx r) AuthenticationMethodPropertyName (VString m)\<rparr>"

definition counted :: "'s web \<Rightarrow> 's web" where
  "counted s = s\<lparr>totalRequestCounter := Suc (totalRequestCounter s)\<rparr>"

lemma tagged_simps [simp]: "r_headers (tagged m r) = r_headers r" "app (counted s) = app s"
  "failedAuthenticationCounter (counted s) = failedAuthenticationCounter s"
  by (simp_all add: tagged_def counted_def)

lemma BasicAuth_tagged [simp]: "BasicAuth (tagged m r) = BasicAuth r"
  by (simp add: BasicAuth_def)

lemma Middleware_cases:
  "Middleware_Handler (New_AuthenticationMiddleware sha256 jwtHandler cs keys) h r s =
     (let auth = header_Get (r_headers r) ''Authorization''; parts = Fields auth
      in if auth = '''' then unauthorized (counted s)
         else if length parts < 2 then badRequest (counted s)
         else if parts ! 0 = ''Bearer''
         then jwtHandler keys TokenPropertyName h (tagged AuthenticationMethodBearerToken r) (counted s)
         else if parts ! 0 = ''Basic''
         then Basic_Handler sha256 cs h (tagged AuthenticationMethodBasicAuth r) (counted s)
         else badRequest (counted s))"
  by (simp add: Middleware_Handler_def New_AuthenticationMiddleware_def handleBasicAuth_def
      handleBearerToken_def BearerToken_Handler_def tagged_def counted_def Let_def)

text \<open>
  Whatever handler is behind the middleware: the request is refused without it, or it is passed on
  as one of the two authentication handlers admits it.
\<close>

lemma Middleware_outcome:
  fixes s :: "'s web"
  assumes bearer: "authentication_handler
    (jwtHandler keys TokenPropertyName :: 's handler \<Rightarrow> 's handler) adm TokenPropertyName"
  obtains (refused) resp s' where
      "\<And>h. Middleware_Handler (New_AuthenticationMiddleware sha256 jwtHandler cs keys) h r s = (resp, s')"
      "app s' = app s" "resp_status resp \<in> {400, 401}"
    | (admitted) r' where "header_Get (r_headers r) ''Authorization'' \<noteq> ''''"
      "basic_admits sha256 cs (tagged AuthenticationMethodBasicAuth r) = Some r' \<or>
       adm (tagged AuthenticationMethodBearerToken r) = Some r'"
      "r_headers r' = r_headers r"
      "\<And>h. Middleware_Handler (New_AuthenticationMiddleware sha256 jwtHandler cs keys) h r s =
         h r' (counted s)"
proof -
  let ?auth = "header_Get (r_headers r) ''Authorization''"
  let ?parts = "Fields ?auth"
  let ?m = "\<lambda>h. Middleware_Handler (New_AuthenticationMiddleware sha256 jwtHandler cs keys) h r s"
  consider (neither) "?auth = '''' \<or> length ?parts < 2 \<or> ?parts ! 0 \<noteq> ''Bearer'' \<and> ?parts ! 0 \<noteq> ''Basic''"
    | (bearer) "?auth \<noteq> ''''" "\<not> length ?parts < 2" "?parts ! 0 = ''Bearer''"
    | (basic) "?auth \<noteq> ''''" "\<not> length ?parts < 2" "?parts ! 0 = ''Basic''"
    by blast
  then show thesis
  proof cases
    case neither
    let ?answer = "if ?auth = '''' then unauthorized (counted s) else badRequest (counted s)"
    have "?m h = ?answer" for h using neither by (auto simp: Middleware_cases Let_def)
    then show thesis
      by (intro refused [of "fst ?answer" "snd ?answer"])
        (simp_all add: unauthorized_def badRequest_def http_Error_def)
  next
    case bearer
    then have m: "?m h = jwtHandler keys TokenPropertyName h
        (tagged AuthenticationMethodBearerToken r) (counted s)" for h
      by (simp add: Middleware_cases Let_def)
    show thesis
    proof (rule authentication_handler.passes_or_refuses
        [OF assms, of "tagged AuthenticationMethodBearerToken r" "counted s"], goal_cases)
      case (1 r')
      moreover from authentication_handler.adds_one_value [OF assms 1(1)]
      have "r_headers r' = r_headers r" by auto
      ultimately show thesis using admitted [of r'] bearer(1) m by simp
    next
      case (2 resp s')
      then show thesis using refused [of resp s'] m by simp
    qed
  next
    case basic
    then have m: "?m h = Basic_Handler sha256 cs h
        (tagged AuthenticationMethodBasicAuth r) (counted s)" for h
      by (simp add: Middleware_cases Let_def)
    show thesis
    proof (rule basic.passes_or_refuses
        [of sha256 cs "tagged AuthenticationMethodBasicAuth r" "counted s"], goal_cases)
      case (1 r')
      moreover from basic.adds_one_value [OF 1(1)] have "r_headers r' = r_headers r" by auto
      ultimately show thesis using admitted [of r'] basic(1) m by simp
    next
      case (2 resp s')
      then show thesis using refused [of resp s'] m by simp
    qed
  qed
qed

section \<open>Properties\<close>

text \<open>The user name of a request with the configured user name and password, by their checksums.\<close>

definition checked_user :: "(string \<Rightarrow> string) \<Rightarrow> string \<Rightarrow> string \<Rightarrow> request \<Rightarrow> string option" where
  "checked_user sha256 user pw r =
     (case BasicAuth r of
        None \<Rightarrow> None
      | Some (u, p) \<Rightarrow> if sha256 u = sha256 user \<and> sha256 p = sha256 pw then Some u else None)"

lemma authorized_checked:
  "authorized sha256 (SingleCredential sha256 user pw) (tagged m r) =
     (case checked_user sha256 user pw r of
        None \<Rightarrow> (tagged m r, False)
      | Some u \<Rightarrow>
          ((tagged m r)\<lparr>r_ctx := WithValue (r_ctx (tagged m r)) UserPropertyName (VString u)\<rparr>, True))"
  by (auto simp: authorized_eq checked_user_def split: option.splits)

lemma principal_of_user:
  "PrincipalFromContext (WithValue (r_ctx (tagged AuthenticationMethodBasicAuth r)) UserPropertyName
     (VString u)) cfg = Ok u"
  by (simp add: PrincipalFromContext_def getPrincipalFromBasicAuth_def tagged_def auth_names)

text \<open>C22: Basic authentication with the broker's single credential: a request that names the method
  reaches the handler behind the middleware exactly when it carries a user name and a password
  with the checksums of the configured ones, and its principal is then that user name; every other
  such request is answered with 401, without that handler, and counted as failed.\<close>

theorem basic_authentication:
  assumes "Fields (header_Get (r_headers r) ''Authorization'') = ''Basic'' # rest" and "rest \<noteq> []"
  shows "case checked_user sha256 user pw r of
    Some u \<Rightarrow> \<exists>r'. PrincipalFromContext (r_ctx r') cfg = Ok u \<and>
      (\<forall>h. Middleware_Handler (New_AuthenticationMiddleware sha256 jwtHandler
         (SingleCredential sha256 user pw) keys) h r s = h r' (counted s))
  | None \<Rightarrow> \<exists>resp. resp_status resp = 401 \<and>
      (\<forall>h. Middleware_Handler (New_AuthenticationMiddleware sha256 jwtHandler
         (SingleCredential sha256 user pw) keys) h r s =
         (resp, (counted s)\<lparr>failedAuthenticationCounter := Suc (failedAuthenticationCounter s)\<rparr>))"
proof -
  let ?cs = "SingleCredential sha256 user pw"
  have "header_Get (r_headers r) ''Authorization'' \<noteq> ''''"
    using assms(1) by (auto simp: Fields_def)
  with assms have m: "Middleware_Handler (New_AuthenticationMiddleware sha256 jwtHandler ?cs keys) h r s =
      Basic_Handler sha256 ?cs h (tagged AuthenticationMethodBasicAuth r) (counted s)" for h
    by (cases rest) (simp_all add: Middleware_cases Let_def)
  show ?thesis
  proof (cases "checked_user sha256 user pw r")
    case None
    then show ?thesis
      by (simp add: m Basic_Handler_def authorized_checked http_Error_def)
  next
    case (Some u)
    let ?r = "(tagged AuthenticationMethodBasicAuth r)
      \<lparr>r_ctx := WithValue (r_ctx (tagged AuthenticationMethodBasicAuth r)) UserPropertyName (VString u)\<rparr>"
    have "Basic_Handler sha256 ?cs h (tagged AuthenticationMethodBasicAuth r) (counted s) =
        h ?r (counted s)" for h
      by (simp add: Basic_Handler_def authorized_checked Some)
    moreover have "PrincipalFromContext (r_ctx ?r) cfg = Ok u" using principal_of_user by simp
    ultimately show ?thesis unfolding Some m option.case by blast
  qed
qed

definition ex_request :: request where
  "ex_request =
     \<lparr>r_headers = [''Authorization'' \<mapsto> [''Basic YWRtaW46cHc='']], r_ctx = [],
      r_method = ''GET'', r_uri = ''/v2/catalog''\<rparr>"

theorem basic_authentication_witness:
  "\<exists>r'. (\<forall>h. Middleware_Handler (New_AuthenticationMiddleware (\<lambda>t. t) (\<lambda>keys k h. h)
       (SingleCredential (\<lambda>t. t) ''admin'' ''pw'') []) h ex_request
       \<lparr>totalRequestCounter = 0, failedAuthenticationCounter = 0, app = ()\<rparr> =
     h r' \<lparr>totalRequestCounter = 1, failedAuthenticationCounter = 0, app = ()\<rparr>)"
proof -
  have "Fields (header_Get (r_headers ex_request) ''Authorization'') = [''Basic'', ''YWRtaW46cHc='']"
    by code_simp
  moreover have "checked_user (\<lambda>t. t) ''admin'' ''pw'' ex_request = Some ''admin''" by code_simp
  ultimately show ?thesis
    using basic_authentication [where r = ex_request and ?sha256.0 = "\<lambda>t. t" and user = "''admin''"
        and pw = "''pw''" and rest = "[''YWRtaW46cHc='']" and jwtHandler = "\<lambda>keys k h. h" and keys = "[]"
        and s = "\<lparr>totalRequestCounter = 0, failedAuthenticationCounter = 0, app = ()\<rparr>"]
    by (auto simp: counted_def)
qed

end
