(* ===== verification/Client.thy ===== *)
theory Client
  imports Plans Auth
begin

text \<open>
  \<open>pkg/reqcontext\<close>, \<open>pkg/crossplane/instance.go\<close> and the operations of
  \<open>pkg/crossplane/client.go\<close>: finding services, plans and instances in the cluster, and creating,
  updating and deleting instances.
\<close>

section \<open>Request contexts\<close>

record ReqContext =
  rc_Context :: ctx
  rc_CorrelationID :: string

definition NewReqContext :: "ctx \<Rightarrow> ReqContext" where
  "NewReqContext ctx =
     \<lparr>rc_Context = ctx,
      rc_CorrelationID =
        (case ctx_Value ctx CorrelationIDKey of Some (VString i) \<Rightarrow> i | _ \<Rightarrow> ''unknown'')\<rparr>"

section \<open>Instances\<close>

definition instanceParamsParentReferenceName :: string where
  "instanceParamsParentReferenceName = ''parent_reference''"

record inst =
  i_Composite :: composite
  i_Labels :: labels

definition ID :: "inst \<Rightarrow> string" where
  "ID i = c_name (i_Composite i)"

definition Ready :: "inst \<Rightarrow> bool" where
  "Ready i = (cond_Status (c_ready (i_Composite i)) = ''True'')"

definition Parameters :: "inst \<Rightarrow> (string \<times> json) list" where
  "Parameters i = (case c_parameters (i_Composite i) of Some (JObject kvs) \<Rightarrow> kvs | _ \<Rightarrow> [])"

text \<open>The type assertion \<open>p.(string)\<close> panics for every other value, null included.\<close>

definition getParentRef :: "go_map \<Rightarrow> string result" where
  "getParentRef params =
     (case gm_get params instanceParamsParentReferenceName of
        None \<Rightarrow> Err (Errorf ''required param %q not found'' [instanceParamsParentReferenceName])
      | Some (JString p) \<Rightarrow> Ok p
      | Some _ \<Rightarrow> Panic (TypeAssertion ''string''))"

definition ParentReference :: "inst \<Rightarrow> string result" where
  "ParentReference i = getParentRef (GoMap (Parameters i))"

definition newInstance :: "composite \<Rightarrow> inst result" where
  "newInstance c =
     bindR (parseLabels (c_labels c)) (\<lambda>l. Ok \<lparr>i_Composite = c, i_Labels = l\<rparr>)"

definition GetClusterName :: "inst \<Rightarrow> string" where
  "GetClusterName i = sget (c_labels (i_Composite i)) ''service.syn.tools/cluster''"

section \<open>The client\<close>

record 'w Crossplane =
  cp_config :: config
  cp_client :: "'w lib"

record ServiceXRD =
  sx_XRD :: xrd
  sx_Labels :: labels
  sx_Metadata :: string
  sx_Tags :: string
  sx_Description :: string

text \<open>The loops that convert a list and stop at the first error.\<close>

fun mapR :: "('a \<Rightarrow> 'b result) \<Rightarrow> 'a list \<Rightarrow> 'b list result" where
  "mapR f [] = Ok []"
| "mapR f (x # xs) = bindR (f x) (\<lambda>y. bindR (mapR f xs) (\<lambda>ys. Ok (y # ys)))"

definition newServiceXRD :: "xrd \<Rightarrow> ServiceXRD result" where
  "newServiceXRD x =
     bindR (parseLabels (x_labels x)) (\<lambda>l.
     Ok \<lparr>sx_XRD = x, sx_Labels = l, sx_Metadata = sget (x_annotations x) MetadataAnnotation,
         sx_Tags = sget (x_annotations x) TagsAnnotation,
         sx_Description = sget (x_annotations x) DescriptionAnnotation\<rparr>)"

definition ServiceXRDs :: "'w Crossplane \<Rightarrow> 'w \<Rightarrow> ServiceXRD list result" where
  "ServiceXRDs cp w =
     bindR (lib_call (l_newRequirement (cp_client cp) ServiceIDLabel (ServiceIDs (cp_config cp))))
       (\<lambda>_.
     bindR (lib_call (l_listXRDs (cp_client cp) ServiceIDLabel (ServiceIDs (cp_config cp)) w))
       (\<lambda>xrds.
     mapR newServiceXRD xrds))"

text \<open>
  \<open>sort.Slice\<close> by the plan-name label. It leaves the order of equal names open; the model keeps
  the order the API listed them in.
\<close>

definition plan_name_of :: "composition \<Rightarrow> string" where
  "plan_name_of c = sget (co_labels c) PlanNameLabel"

definition Plans :: "'w Crossplane \<Rightarrow> string list \<Rightarrow> 'w \<Rightarrow> plan list result" where
  "Plans cp ids w =
     bindR (lib_call (l_newRequirement (cp_client cp) ServiceIDLabel ids)) (\<lambda>_.
     bindR (lib_call (l_listCompositions (cp_client cp) ServiceIDLabel ids w)) (\<lambda>compositions.
     mapR newPlan (sort_key plan_name_of compositions)))"

definition Plan :: "'w Crossplane \<Rightarrow> string \<Rightarrow> 'w \<Rightarrow> plan result" where
  "Plan cp planID w =
     bindR (lib_call (l_getComposition (cp_client cp) planID w)) newPlan"

text \<open>
  \<open>(inst, ok, err)\<close>: an error is \<open>Err\<close>, \<open>ok = false\<close> without an error is \<open>Ok None\<close>.
\<close>

definition Instance :: "'w Crossplane \<Rightarrow> string \<Rightarrow> plan \<Rightarrow> 'w \<Rightarrow> inst option result" where
  "Instance cp i plan w =
     bindR (GVK (cp_client cp) plan) (\<lambda>g.
     case l_getComposite (cp_client cp) g i w of
       Inl e \<Rightarrow> if IsNotFound e then Ok None else Err e
     | Inr cmp \<Rightarrow>
         bindR (newInstance cmp) (\<lambda>inst.
         bindR (deref ''plan.Labels'' (p_Labels plan)) (\<lambda>pl.
         if PlanName (i_Labels inst) \<noteq> PlanName pl then Err (Sentinel ErrInstanceNotFound)
         else Ok (Some inst))))"

text \<open>The loop of \<open>FindInstanceWithoutPlan\<close>: it skips a plan whose name does not match the instance.\<close>

fun find_instance_loop ::
  "'w Crossplane \<Rightarrow> string \<Rightarrow> plan list \<Rightarrow> 'w \<Rightarrow> (inst \<times> plan) option result" where
  "find_instance_loop cp i [] w = Err (Sentinel ErrInstanceNotFound)"
| "find_instance_loop cp i (plan # plans) w =
     (case Instance cp i plan w of
        Err e \<Rightarrow> if e = Sentinel ErrInstanceNotFound then find_instance_loop cp i plans w else Err e
      | Panic p \<Rightarrow> Panic p
      | Ok None \<Rightarrow> find_instance_loop cp i plans w
      | Ok (Some inst) \<Rightarrow> Ok (Some (inst, plan)))"

definition FindInstanceWithoutPlan ::
  "'w Crossplane \<Rightarrow> string \<Rightarrow> 'w \<Rightarrow> (inst \<times> plan) option result" where
  "FindInstanceWithoutPlan cp i w =
     bindR (Plans cp (ServiceIDs (cp_config cp)) w) (\<lambda>plans. find_instance_loop cp i plans w)"

definition plan_labels :: "string list" where
  "plan_labels = [ServiceIDLabel, ServiceNameLabel, PlanNameLabel, ClusterLabel, SLALabel,
     OwnerApiVersionLabel, OwnerGroupLabel, OwnerKindLabel]"

text \<open>A key the plan does not have is copied as the empty string.\<close>

fun copy_labels :: "string list \<Rightarrow> str_map \<Rightarrow> str_map \<Rightarrow> str_map" where
  "copy_labels [] from l = l"
| "copy_labels (k # ks) from l = copy_labels ks from (l(k \<mapsto> sget from k))"

definition prepareLabels ::
  "'w Crossplane \<Rightarrow> ReqContext \<Rightarrow> string \<Rightarrow> plan \<Rightarrow> go_map \<Rightarrow> str_map result" where
  "prepareLabels cp rctx i plan params =
     bindR (PrincipalFromContext (rc_Context rctx) (cp_config cp)) (\<lambda>principal.
     let l = copy_labels plan_labels (co_labels (p_Composition plan))
               [InstanceIDLabel \<mapsto> i, PrincipalLabel \<mapsto> principal]
     in case gm_get params instanceParamsParentReferenceName of
          None \<Rightarrow> Ok l
        | Some JNull \<Rightarrow> Ok l
        | Some (JString p) \<Rightarrow> Ok (l(ParentIDLabel \<mapsto> p))
        | Some _ \<Rightarrow> Panic (TypeAssertion ''string''))"

definition CreateInstance ::
  "'w Crossplane \<Rightarrow> ReqContext \<Rightarrow> string \<Rightarrow> plan \<Rightarrow> go_map \<Rightarrow> ('w, unit) io" where
  "CreateInstance cp rctx i plan params =
     bindM (liftR (prepareLabels cp rctx i plan params)) (\<lambda>l.
     bindM (liftR (GVK (cp_client cp) plan)) (\<lambda>g.
     let cmp = (new_composite g i)\<lparr>c_compositionRef := Some (co_name (p_Composition plan))\<rparr>
     in bindM (liftR (lib_call (l_setParameters (cp_client cp) (map_value params) cmp))) (\<lambda>cmp1.
        writeM (l_createComposite (cp_client cp) (cmp1\<lparr>c_labels := l\<rparr>)))))"

definition UpdateInstance ::
  "'w Crossplane \<Rightarrow> inst \<Rightarrow> plan \<Rightarrow> go_map \<Rightarrow> ('w, unit) io" where
  "UpdateInstance cp inst plan params =
     bindM (liftR (GVK (cp_client cp) plan)) (\<lambda>g.
     let cmp = (i_Composite inst)\<lparr>c_gvk := g\<rparr>
     in bindM (liftR (lib_call (l_setParameters (cp_client cp) (map_value params) cmp))) (\<lambda>cmp1.
        writeM (l_updateComposite (cp_client cp) cmp1)))"

definition DeleteInstance :: "'w Crossplane \<Rightarrow> string \<Rightarrow> plan \<Rightarrow> ('w, unit) io" where
  "DeleteInstance cp instanceName plan =
     bindM (liftR (GVK (cp_client cp) plan)) (\<lambda>g.
     writeM (l_deleteComposite (cp_client cp) g instanceName False))"

text \<open>The secret an object writes its connection details to; its data is not nil.\<close>

definition GetConnectionDetails ::
  "'w Crossplane \<Rightarrow> composite option \<Rightarrow> 'w \<Rightarrow> secret result" where
  "GetConnectionDetails cp obj w =
     (case obj of
        None \<Rightarrow> Err (Errorf ''composite is nil'' [])
      | Some c \<Rightarrow>
          (case c_secretRef c of
             None \<Rightarrow> Err (Errorf ''instance doesn't contain secret ref %q'' [c_name c])
           | Some ref \<Rightarrow>
               bindR (mapErr (Wrapf ''unable to get secret: %w'' [])
                        (lib_call (l_getSecret (cp_client cp) (sr_Namespace ref) (sr_Name ref) w)))
                 (\<lambda>s.
               if Option.is_none (s_data s) then Err (Errorf ''nil secret data'' []) else Ok s)))"

section \<open>Lemmas on plans and instances\<close>

lemma mapR_Ok_iff: "mapR f xs = Ok ys \<longleftrightarrow> list_all2 (\<lambda>x y. f x = Ok y) xs ys"
  by (induction xs arbitrary: ys) (auto simp: go_inv list_all2_Cons1)

lemma mapR_not_Panic: "(\<And>x p. f x \<noteq> Panic p) \<Longrightarrow> mapR f xs \<noteq> Panic p"
  by (induction xs) (auto simp: go_inv)

lemma newInstance_Ok_iff:
  "newInstance c = Ok i \<longleftrightarrow> i_Composite i = c \<and> parseLabels (c_labels c) = Ok (i_Labels i)"
  by (cases i) (auto simp: newInstance_def go_inv)

lemma newInstance_not_Panic [simp]: "newInstance c \<noteq> Panic p"
  by (auto simp: newInstance_def go_inv)

lemma Plan_OkD:
  assumes "Plan cp n w = Ok p"
  shows "l_getComposition (cp_client cp) n w = Inr (p_Composition p)"
    and "\<exists>l. p_Labels p = Some l \<and> parseLabels (co_labels (p_Composition p)) = Ok l"
  using assms newPlan_OkD by (auto simp: Plan_def go_inv)

lemma Plan_not_Panic [simp]: "Plan cp n w \<noteq> Panic p"
  by (auto simp: Plan_def go_inv)

text \<open>An instance found under a plan: the stored composite, of the plan's kind and plan name.\<close>

lemma Instance_Some_iff:
  assumes "p_Labels plan = Some pl"
  shows "Instance cp i plan w = Ok (Some inst) \<longleftrightarrow>
     (\<exists>g. GVK (cp_client cp) plan = Ok g \<and>
       l_getComposite (cp_client cp) g i w = Inr (i_Composite inst) \<and>
       parseLabels (c_labels (i_Composite inst)) = Ok (i_Labels inst) \<and>
       PlanName (i_Labels inst) = PlanName pl)"
proof (cases "GVK (cp_client cp) plan")
  case (Ok g)
  with assms show ?thesis
    by (cases "l_getComposite (cp_client cp) g i w")
      (auto simp: Instance_def newInstance_Ok_iff go_inv split: if_splits)
qed (simp_all add: Instance_def)

lemma Instance_not_Panic: "p_Labels plan = Some pl \<Longrightarrow> Instance cp i plan w \<noteq> Panic p"
  by (auto simp: Instance_def go_inv split: sum.splits if_splits)

lemma copy_labels_get:
  "sget (copy_labels ks from l) k = (if k \<in> set ks then sget from k else sget l k)"
  by (induction ks arbitrary: l) auto

lemma copy_labels_other: "k \<notin> set ks \<Longrightarrow> copy_labels ks from l k = l k"
  by (induction ks arbitrary: l) auto

lemma find_instance_loop_OkD:
  assumes "find_instance_loop cp i plans w = Ok res"
  obtains inst p before after where "res = Some (inst, p)" "plans = before @ p # after"
    "Instance cp i p w = Ok (Some inst)"
    "\<forall>q \<in> set before. Instance cp i q w \<in> {Ok None, Err (Sentinel ErrInstanceNotFound)}"
proof -
  have "\<exists>inst p before after. res = Some (inst, p) \<and> plans = before @ p # after \<and>
      Instance cp i p w = Ok (Some inst) \<and>
      (\<forall>q \<in> set before. Instance cp i q w \<in> {Ok None, Err (Sentinel ErrInstanceNotFound)})"
    using assms
  proof (induction plans)
    case (Cons q qs)
    have skip: ?case if "Instance cp i q w \<in> {Ok None, Err (Sentinel ErrInstanceNotFound)}"
    proof -
      from that Cons.prems have "find_instance_loop cp i qs w = Ok res" by auto
      then obtain inst p before after where "res = Some (inst, p)" "qs = before @ p # after"
        "Instance cp i p w = Ok (Some inst)"
        "\<forall>x \<in> set before. Instance cp i x w \<in> {Ok None, Err (Sentinel ErrInstanceNotFound)}"
        using Cons.IH by blast
      with that show ?thesis
        by - (rule exI [of _ inst], rule exI [of _ p], rule exI [of _ "q # before"], auto)
    qed
    show ?case
    proof (cases "Instance cp i q w")
      case (Ok found)
      show ?thesis
      proof (cases found)
        case (Some inst)
        with Ok Cons.prems show ?thesis
          by - (rule exI [of _ inst], rule exI [of _ q], rule exI [of _ "[]"], auto)
      qed (use Ok skip in auto)
    qed (use Cons.prems skip in \<open>auto split: if_splits\<close>)
  qed simp
  with that show thesis by blast
qed

lemma Plans_OkD:
  assumes "Plans cp ids w = Ok ps"
  obtains cos where "l_listCompositions (cp_client cp) ServiceIDLabel ids w = Inr cos"
    "map p_Composition ps = sort_key plan_name_of cos"
    "\<forall>p \<in> set ps. newPlan (p_Composition p) = Ok p"
proof -
  from assms obtain cos where cos: "l_listCompositions (cp_client cp) ServiceIDLabel ids w = Inr cos"
    and all: "list_all2 (\<lambda>c p. newPlan c = Ok p) (sort_key plan_name_of cos) ps"
    by (auto simp: Plans_def mapR_Ok_iff go_inv)
  from all have "map p_Composition ps = sort_key plan_name_of cos"
    by (induction rule: list_all2_induct) (auto dest: newPlan_OkD)
  moreover from all have "\<forall>p \<in> set ps. newPlan (p_Composition p) = Ok p"
    by (induction rule: list_all2_induct) (auto dest: newPlan_OkD)
  ultimately show thesis using cos that by blast
qed

lemma Plans_not_Panic [simp]: "Plans cp ids w \<noteq> Panic p"
  by (auto simp: Plans_def go_inv mapR_not_Panic)

lemma newPlan_labels:
  "newPlan c = Ok p \<Longrightarrow> \<exists>l. p_Labels p = Some l \<and> parseLabels (co_labels (p_Composition p)) = Ok l"
  using newPlan_OkD by metis

section \<open>The labels of a new instance\<close>

lemma copy_labels_Some:
  "k \<in> set ks \<Longrightarrow> copy_labels ks from l k = Some (sget from k)"
proof (induction ks arbitrary: l)
  case (Cons a ks)
  show ?case
  proof (cases "k \<in> set ks")
    case False
    with Cons.prems show ?thesis by (simp add: copy_labels_other)
  qed (simp add: Cons.IH)
qed simp

lemma plan_labels_others [simp]:
  "InstanceIDLabel \<notin> set plan_labels" "PrincipalLabel \<notin> set plan_labels"
  "ParentIDLabel \<notin> set plan_labels"
  by (simp_all add: plan_labels_def label_keys)

lemma other_labels_distinct [simp]:
  "InstanceIDLabel \<noteq> ParentIDLabel" "PrincipalLabel \<noteq> ParentIDLabel"
  "InstanceIDLabel \<noteq> PrincipalLabel" "ParentIDLabel \<noteq> InstanceIDLabel"
  "ParentIDLabel \<noteq> PrincipalLabel" "PrincipalLabel \<noteq> InstanceIDLabel"
  by (simp_all add: label_keys)

text \<open>The parent a parameter map names: its \<open>parent_reference\<close>, unless it is missing or null.\<close>

definition parent_of :: "go_map \<Rightarrow> string option" where
  "parent_of params =
     (case gm_get params instanceParamsParentReferenceName of Some (JString p) \<Rightarrow> Some p | _ \<Rightarrow> None)"

definition base_labels :: "string \<Rightarrow> string \<Rightarrow> plan \<Rightarrow> str_map" where
  "base_labels i pr plan =
     copy_labels plan_labels (co_labels (p_Composition plan))
       [InstanceIDLabel \<mapsto> i, PrincipalLabel \<mapsto> pr]"

lemma base_labels_get:
  "base_labels i pr plan InstanceIDLabel = Some i" "base_labels i pr plan PrincipalLabel = Some pr"
  "base_labels i pr plan ParentIDLabel = None"
  "k \<in> set plan_labels \<Longrightarrow> base_labels i pr plan k = Some (sget (co_labels (p_Composition plan)) k)"
  by (simp_all add: base_labels_def copy_labels_other copy_labels_Some)

lemma prepareLabels_eq:
  "prepareLabels cp rctx i plan params =
     bindR (PrincipalFromContext (rc_Context rctx) (cp_config cp)) (\<lambda>pr.
     case gm_get params instanceParamsParentReferenceName of
       None \<Rightarrow> Ok (base_labels i pr plan)
     | Some JNull \<Rightarrow> Ok (base_labels i pr plan)
     | Some (JString p) \<Rightarrow> Ok ((base_labels i pr plan)(ParentIDLabel \<mapsto> p))
     | Some _ \<Rightarrow> Panic (TypeAssertion ''string''))"
  unfolding prepareLabels_def base_labels_def Let_def by (rule refl)

lemma prepareLabels_Ok:
  assumes "prepareLabels cp rctx i plan params = Ok l"
  obtains pr where "PrincipalFromContext (rc_Context rctx) (cp_config cp) = Ok pr"
    "l = (base_labels i pr plan)(ParentIDLabel := parent_of params)"
proof -
  from assms obtain pr where pr: "PrincipalFromContext (rc_Context rctx) (cp_config cp) = Ok pr"
    by (auto simp: prepareLabels_eq go_inv)
  have none: "(base_labels i pr plan)(ParentIDLabel := None) = base_labels i pr plan"
    using base_labels_get(3) [of i pr plan] by (rule fun_upd_idem)
  have "l = (base_labels i pr plan)(ParentIDLabel := parent_of params)"
  proof (cases "gm_get params instanceParamsParentReferenceName")
    case (Some v)
    with assms pr none show ?thesis
      by (cases v) (simp_all add: prepareLabels_eq parent_of_def)
  qed (use assms pr none in \<open>simp add: prepareLabels_eq parent_of_def\<close>)
  with pr that show thesis by blast
qed

lemma prepareLabels_OkD:
  assumes "prepareLabels cp rctx i plan params = Ok l"
  shows "l InstanceIDLabel = Some i"
    and "\<exists>pr. PrincipalFromContext (rc_Context rctx) (cp_config cp) = Ok pr \<and> l PrincipalLabel = Some pr"
    and "k \<in> set plan_labels \<Longrightarrow> l k = Some (sget (co_labels (p_Composition plan)) k)"
    and "l ParentIDLabel = parent_of params"
proof -
  from assms obtain pr where pr: "PrincipalFromContext (rc_Context rctx) (cp_config cp) = Ok pr"
    and l: "l = (base_labels i pr plan)(ParentIDLabel := parent_of params)"
    by (rule prepareLabels_Ok)
  show "l InstanceIDLabel = Some i" "l ParentIDLabel = parent_of params"
    "\<exists>pr. PrincipalFromContext (rc_Context rctx) (cp_config cp) = Ok pr \<and> l PrincipalLabel = Some pr"
    using pr by (simp_all add: l base_labels_get)
  show "l k = Some (sget (co_labels (p_Composition plan)) k)" if "k \<in> set plan_labels"
  proof -
    from that have "k \<noteq> ParentIDLabel" by (metis plan_labels_others(3))
    with that show ?thesis by (simp add: l base_labels_get)
  qed
qed

end
