(* ===== verification/Service_Base.thy ===== *)
theory Service_Base
  imports Client
begin

text \<open>
  What the service implementations share (\<open>pkg/crossplane/services.go\<close> and the package's
  constants): credentials, endpoints, the kinds of the MariaDB objects, and the contract
  \<open>service_binder\<close> of the interface \<open>ServiceBinder\<close>, which the broker calls without knowing the
  service behind it.
\<close>

section \<open>Credentials\<close>

text \<open>
  \<open>Credentials\<close> is a \<open>map[string]interface{}\<close>: an association list without duplicate keys. A Go
  \<open>int\<close> is \<open>CInt\<close> (64 bits, as \<open>strconv.Atoi\<close> bounds it), an \<open>int32\<close> is \<open>CInt32\<close>.
\<close>

datatype cred =
    CString string
  | CInt int
  | CInt32 "32 word"
  | CStrings "string list"
  | CCredentials "(string \<times> cred) list list"

type_synonym Credentials = "(string \<times> cred) list"

record Endpoint =
  Host :: string
  Port :: "32 word"
  Protocol :: string

text \<open>The keys of a connection secret (crossplane-runtime).\<close>

definition SecretEndpointKey :: string where "SecretEndpointKey = ''endpoint''"
definition SecretPortKey :: string where "SecretPortKey = ''port''"
definition SecretUserKey :: string where "SecretUserKey = ''username''"
definition SecretPasswordKey :: string where "SecretPasswordKey = ''password''"

lemmas secret_keys =
  SecretEndpointKey_def SecretPortKey_def SecretUserKey_def SecretPasswordKey_def

text \<open>Reading a secret's data; reading from a nil map finds nothing.\<close>

definition secret_data :: "secret \<Rightarrow> str_map" where
  "secret_data s = (case s_data s of None \<Rightarrow> Map.empty | Some d \<Rightarrow> d)"

section \<open>Kinds and names of the MariaDB objects\<close>

definition errNotImplemented :: go_error where
  "errNotImplemented =
     Failure (NewFailure (Errorf ''not implemented'' []) 501 ''not-implemented''
       (Some ''NotImplemented''))"

definition mariaDBGroupVersionKind :: gvk where
  "mariaDBGroupVersionKind =
     \<lparr>Group = ''syn.tools'', Version = ''v1alpha1'', Kind = ''CompositeMariaDBInstance''\<rparr>"

definition mariaDBUserGroupVersionKind :: gvk where
  "mariaDBUserGroupVersionKind =
     \<lparr>Group = ''syn.tools'', Version = ''v1alpha1'', Kind = ''CompositeMariaDBUserInstance''\<rparr>"

definition mariaDBDatabaseGroupVersionKind :: gvk where
  "mariaDBDatabaseGroupVersionKind =
     \<lparr>Group = ''syn.tools'', Version = ''v1alpha1'',
      Kind = ''CompositeMariaDBDatabaseInstanceList''\<rparr>"

text \<open>The kind of the items of such a list.\<close>

definition mariaDBDatabaseItem :: gvk where
  "mariaDBDatabaseItem =
     \<lparr>Group = ''syn.tools'', Version = ''v1alpha1'', Kind = ''CompositeMariaDBDatabaseInstance''\<rparr>"

lemmas mariadb_kinds =
  mariaDBGroupVersionKind_def mariaDBUserGroupVersionKind_def mariaDBDatabaseGroupVersionKind_def
  mariaDBDatabaseItem_def

lemma database_list_kind:
  "mariaDBDatabaseGroupVersionKind =
     mariaDBDatabaseItem\<lparr>Kind := Kind mariaDBDatabaseItem @ ''List''\<rparr>"
  by (simp add: mariadb_kinds)

definition planName :: string where "planName = ''mariadb-user''"

text \<open>\<open>fmt.Sprintf(secretName, bindingID)\<close>\<close>

definition secretName :: "string \<Rightarrow> string" where
  "secretName bindingID = bindingID @ ''-password''"

lemma secretName_inject [simp]: "secretName a = secretName b \<longleftrightarrow> a = b"
  by (simp add: secretName_def)

section \<open>The ServiceBinder contract\<close>

text \<open>
  What belongs to a binding: the user composite named after it, and the secret with its password.
  \<open>credentials_stored\<close>: no user composite is without its secret.
\<close>

definition binding_composites :: "string \<Rightarrow> (gvk \<times> string) set" where
  "binding_composites bindingID = {(mariaDBUserGroupVersionKind, bindingID)}"

definition binding_secrets :: "string \<Rightarrow> string \<Rightarrow> (string \<times> string) set" where
  "binding_secrets ns bindingID = {(ns, secretName bindingID)}"

definition credentials_stored :: "string \<Rightarrow> cluster \<Rightarrow> bool" where
  "credentials_stored ns cl \<longleftrightarrow>
     (\<forall>b. cl_composites cl (mariaDBUserGroupVersionKind, b) \<noteq> None \<longrightarrow>
          cl_secrets cl (ns, secretName b) \<noteq> None)"

text \<open>
  The interface, by the two methods that write: binding and unbinding touch only what belongs to
  the binding, binding removes nothing, and neither leaves a user composite without its secret.
\<close>

locale service_binder =
  fixes view :: "'w \<Rightarrow> cluster" and ns :: string
    and bind_call :: "inst \<Rightarrow> string \<Rightarrow> ('w, Credentials) io"
    and unbind_call :: "inst \<Rightarrow> string \<Rightarrow> ('w, unit) io"
  assumes bind_frame:
      "writes_only view (binding_composites b) (binding_secrets ns b) (bind_call i b)"
    and unbind_frame:
      "writes_only view (binding_composites b) (binding_secrets ns b) (unbind_call i b)"
    and bind_persists: "keeps (\<lambda>w w'. persists (view w) (view w')) (bind_call i b)"
    and bind_stores:
      "keeps (\<lambda>w w'. credentials_stored ns (view w) \<longrightarrow> credentials_stored ns (view w'))
         (bind_call i b)"
    and unbind_stores:
      "keeps (\<lambda>w w'. credentials_stored ns (view w) \<longrightarrow> credentials_stored ns (view w'))
         (unbind_call i b)"

text \<open>A client of the interface: any sequence of calls, whatever their answers.\<close>

datatype binder_call = CallBind inst string | CallUnbind inst string

fun call_binding :: "binder_call \<Rightarrow> string" where
  "call_binding (CallBind i b) = b"
| "call_binding (CallUnbind i b) = b"

fun run_call ::
  "(inst \<Rightarrow> string \<Rightarrow> ('w, Credentials) io) \<Rightarrow> (inst \<Rightarrow> string \<Rightarrow> ('w, unit) io) \<Rightarrow>
     binder_call \<Rightarrow> 'w \<Rightarrow> 'w" where
  "run_call bc uc (CallBind i b) w = snd (bc i b w)"
| "run_call bc uc (CallUnbind i b) w = snd (uc i b w)"

fun run_calls ::
  "(inst \<Rightarrow> string \<Rightarrow> ('w, Credentials) io) \<Rightarrow> (inst \<Rightarrow> string \<Rightarrow> ('w, unit) io) \<Rightarrow>
     binder_call list \<Rightarrow> 'w \<Rightarrow> 'w" where
  "run_calls bc uc [] w = w"
| "run_calls bc uc (c # cs) w = run_calls bc uc cs (run_call bc uc c w)"

context service_binder
begin

lemma run_call_touches:
  "touches (binding_composites (call_binding c)) (binding_secrets ns (call_binding c))
     (view w) (view (run_call bind_call unbind_call c w))"
  by (cases c) (use bind_frame unbind_frame in \<open>auto simp: writes_only_def keeps_def\<close>)

lemma run_calls_touch:
  "touches (\<Union>c \<in> set cs. binding_composites (call_binding c))
     (\<Union>c \<in> set cs. binding_secrets ns (call_binding c))
     (view w) (view (run_calls bind_call unbind_call cs w))"
proof (induction cs arbitrary: w)
  case (Cons c cs)
  have "touches (\<Union>c \<in> set (c # cs). binding_composites (call_binding c))
      (\<Union>c \<in> set (c # cs). binding_secrets ns (call_binding c))
      (view w) (view (run_call bind_call unbind_call c w))"
    by (rule touches_mono [OF run_call_touches]; simp only: list.set UN_insert Un_upper1)
  moreover have "touches (\<Union>c \<in> set (c # cs). binding_composites (call_binding c))
      (\<Union>c \<in> set (c # cs). binding_secrets ns (call_binding c))
      (view (run_call bind_call unbind_call c w))
      (view (run_calls bind_call unbind_call cs (run_call bind_call unbind_call c w)))"
    by (rule touches_mono [OF Cons.IH]; simp only: list.set UN_insert Un_upper2)
  ultimately show ?case unfolding run_calls.simps by (rule touches_trans)
qed simp

lemma run_calls_store:
  "credentials_stored ns (view w) \<Longrightarrow>
     credentials_stored ns (view (run_calls bind_call unbind_call cs w))"
proof (induction cs arbitrary: w)
  case (Cons c cs)
  have "credentials_stored ns (view (run_call bind_call unbind_call c w))"
    by (cases c) (use bind_stores unbind_stores Cons.prems in \<open>auto simp: keeps_def\<close>)
  with Cons.IH show ?case by simp
qed simp

end

text \<open>A binder that writes nothing meets the contract.\<close>

lemma read_only_binder:
  assumes "\<And>i b. read_only (bc i b)" and "\<And>i b. read_only (uc i b)"
  shows "service_binder view ns bc uc"
proof -
  have "snd (bc i b w) = w" "snd (uc i b w) = w" for i b w
    using assms by (simp_all add: keeps_def)
  then show ?thesis
    by (unfold_locales) (auto simp: keeps_def writes_only_def)
qed

section \<open>The broker's client over a cluster\<close>

locale crossplane_client = k8s_api "cp_client cp" view
  for cp :: "'w Crossplane" and view :: "'w \<Rightarrow> cluster"

locale reliable_client = k8s_reliable "cp_client cp" view
  for cp :: "'w Crossplane" and view :: "'w \<Rightarrow> cluster"

sublocale reliable_client \<subseteq> crossplane_client ..

end
