(* ===== verification/Service_Redis.thy ===== *)
theory Service_Redis
  imports Service_Base
begin

text \<open>
  \<open>pkg/crossplane/service_redis.go\<close>: credentials are read from the instance's connection secret;
  binding and unbinding write nothing.
\<close>

definition SentinelPortKey :: string where "SentinelPortKey = ''sentinelPort''"

definition redis_metrics :: "config \<Rightarrow> inst \<Rightarrow> string list" where
  "redis_metrics cfg inst =
     (let base = ''http://'' @ ID inst @ ''.'' @ GetClusterName inst @ ''.'' @ MetricsDomain cfg
      in [base, base @ ''/redis/0'', base @ ''/redis/1'', base @ ''/redis/2''])"

definition Redis_GetBinding ::
  "'w Crossplane \<Rightarrow> inst \<Rightarrow> string \<Rightarrow> 'w \<Rightarrow> Credentials result" where
  "Redis_GetBinding cp inst bindingID w =
     bindR (GetConnectionDetails cp (Some (i_Composite inst)) w) (\<lambda>s.
     case secret_data s SecretEndpointKey of
       None \<Rightarrow> Err (Failure (LibFailure ErrBindingNotFound))
     | Some endpoint \<Rightarrow>
         bindR (Atoi (sget (secret_data s) SecretPortKey)) (\<lambda>port.
         bindR (Atoi (sget (secret_data s) SentinelPortKey)) (\<lambda>sentinelPort.
         let caCert = sget (secret_data s) ''ca.crt'';
             creds =
               [(''password'', CString (sget (secret_data s) SecretPasswordKey)),
                (''host'', CString endpoint),
                (''port'', CInt port),
                (''master'', CString (''redis://'' @ ID inst)),
                (''sentinels'',
                  CCredentials [[(''host'', CString endpoint), (''port'', CInt sentinelPort)]]),
                (''servers'',
                  CCredentials [[(''host'', CString endpoint), (''port'', CInt port)]]),
                (''ca.crt'', CString caCert)]
         in Ok (if EnableMetrics (cp_config cp)
                then creds @ [(''metricsEndpoints'', CStrings (redis_metrics (cp_config cp) inst))]
                else creds))))"

definition Redis_Bind :: "'w Crossplane \<Rightarrow> inst \<Rightarrow> string \<Rightarrow> ('w, Credentials) io" where
  "Redis_Bind cp inst bindingID = readM (Redis_GetBinding cp inst bindingID)"

definition Redis_Unbind :: "string \<Rightarrow> ('w, unit) io" where
  "Redis_Unbind bindingID = retM ()"

definition Redis_Deprovisionable :: "'w \<Rightarrow> unit result" where
  "Redis_Deprovisionable w = Ok ()"

text \<open>
  The \<open>tls\<close> parameter may arrive as a list of ticked boxes. Only a JSON array is decoded to a
  slice; an entry that is not there, or null, is left alone.
\<close>

fun interfaceIsSlice :: "json \<Rightarrow> bool" where
  "interfaceIsSlice (JArray xs) = True"
| "interfaceIsSlice v = False"

fun slice_Len :: "json \<Rightarrow> nat" where
  "slice_Len (JArray xs) = length xs"
| "slice_Len v = 0"

definition Redis_ValidateProvisionParams :: "raw_json \<Rightarrow> go_map result" where
  "Redis_ValidateProvisionParams params =
     bindR (mapErr (Wrapf ''cannot unmarshal parameters: %w'' []) (unmarshal_map params)) (\<lambda>m.
     case gm_get m ''tls'' of
       None \<Rightarrow> Ok m
     | Some v \<Rightarrow>
         if v \<noteq> JNull \<and> interfaceIsSlice v
         then (if slice_Len v \<ge> 1 then gm_put ''tls'' (JBool True) m
               else gm_put ''tls'' (JBool False) m)
         else Ok m)"

section \<open>Lemmas\<close>

lemma Atoi_not_Panic [simp]: "Atoi s \<noteq> Panic p"
  by (simp add: Atoi_def Let_def)

lemma GetConnectionDetails_not_Panic [simp]: "GetConnectionDetails cp c w \<noteq> Panic p"
  by (auto simp: GetConnectionDetails_def go_inv split: option.splits if_splits)

lemma Redis_GetBinding_not_Panic [simp]: "Redis_GetBinding cp inst b w \<noteq> Panic p"
  by (auto simp: Redis_GetBinding_def go_inv Let_def split: option.splits)

lemma Redis_calls_read_only [go_frame]:
  "read_only (Redis_Bind cp inst b)" "read_only (Redis_Unbind b)"
  by (simp_all add: Redis_Bind_def Redis_Unbind_def go_frame)

interpretation redis: service_binder view "Namespace (cp_config cp)" "Redis_Bind cp"
    "\<lambda>i. Redis_Unbind"
  for cp :: "'w Crossplane" and view
  by (rule read_only_binder) (rule Redis_calls_read_only)+

lemma interfaceIsSlice_iff: "interfaceIsSlice v \<longleftrightarrow> (\<exists>xs. v = JArray xs)"
  by (cases v) auto

text \<open>The parameters after validation: the parameters given, \<open>tls\<close> as a boolean where it was a list.\<close>

definition tls_as_bool :: "json option \<Rightarrow> json option" where
  "tls_as_bool v = (case v of Some (JArray xs) \<Rightarrow> Some (JBool (xs \<noteq> [])) | _ \<Rightarrow> v)"

lemma Redis_ValidateProvisionParams_object:
  "\<exists>m. Redis_ValidateProvisionParams (Json (JObject kvs)) = Ok m \<and>
     gm_get m k = (if k = ''tls'' then tls_as_bool (map_of kvs k) else map_of kvs k)"
proof (cases "map_of kvs ''tls''")
  case (Some v)
  then show ?thesis
    by (cases v) (auto simp: Redis_ValidateProvisionParams_def tls_as_bool_def Suc_le_eq)
qed (auto simp: Redis_ValidateProvisionParams_def tls_as_bool_def)

lemma Redis_ValidateProvisionParams_not_Panic [simp]:
  "Redis_ValidateProvisionParams r \<noteq> Panic p"
proof (cases "unmarshal_map r")
  case (Ok m)
  then show ?thesis
    by (cases m) (auto simp: Redis_ValidateProvisionParams_def split: option.splits)
qed (auto simp: Redis_ValidateProvisionParams_def)

section \<open>Properties\<close>

text \<open>Validating the parameters of a Redis instance accepts every JSON object and changes nothing in
  it but \<open>tls\<close>: a list, as a form with a tick box sends it, becomes the Boolean that says whether
  the list has an entry; any other value stays as it is.\<close>

theorem redis_parameters:
  "\<exists>m. Redis_ValidateProvisionParams (Json (JObject kvs)) = Ok m \<and>
     (\<forall>k. gm_get m k = (if k = ''tls''
        then (case map_of kvs ''tls'' of Some (JArray xs) \<Rightarrow> Some (JBool (xs \<noteq> [])) | v \<Rightarrow> v)
        else map_of kvs k))"
proof -
  obtain m where m: "Redis_ValidateProvisionParams (Json (JObject kvs)) = Ok m"
    using Redis_ValidateProvisionParams_object by blast
  with Redis_ValidateProvisionParams_object [of kvs]
  have "\<forall>k. gm_get m k = (if k = ''tls'' then tls_as_bool (map_of kvs k) else map_of kvs k)"
    by auto
  with m show ?thesis
    by (intro exI [of _ m]) (auto simp: tls_as_bool_def split: option.splits json.splits)
qed

end
