(* ===== verification/Service_Mariadb.thy ===== *)
theory Service_Mariadb
  imports Service_Base
begin

text \<open>
  \<open>pkg/crossplane/service_mariadb.go\<close>: a Galera cluster is not bindable, and it can be
  deprovisioned when no database has it as its parent.
\<close>

definition Mariadb_Bind :: "inst \<Rightarrow> string \<Rightarrow> ('w, Credentials) io" where
  "Mariadb_Bind inst bindingID =
     failM (Failure (NewFailure
       (Errorf (''service MariaDB Galera Cluster is not bindable. You can create a bindable database on this cluster using cf create-service mariadb-k8s-database default my-mariadb-db -c '{'' @
           [CHR 0x22] @ ''%s'' @ [CHR 0x22] @ '': %q}'' @ [CHR 0x27])
         [instanceParamsParentReferenceName, ID inst])
       422 ''binding-not-supported'' (Some ''BindingNotSupported'')))"

definition Mariadb_Unbind :: "string \<Rightarrow> ('w, unit) io" where
  "Mariadb_Unbind bindingID = failM errNotImplemented"

definition in_use_error :: "composite list \<Rightarrow> go_error" where
  "in_use_error cs =
     Failure (NewFailure
       (Errorf ''instance is still in use by %q'' [Join (map c_name cs) '', ''])
       422 ''deprovision-instance-in-use'' (Some ''InUseError''))"

definition Mariadb_Deprovisionable :: "'w Crossplane \<Rightarrow> inst \<Rightarrow> 'w \<Rightarrow> unit result" where
  "Mariadb_Deprovisionable cp inst w =
     bindR (lib_call (l_listComposites (cp_client cp) mariaDBDatabaseGroupVersionKind
              ParentIDLabel (ID inst) w))
       (\<lambda>items. if length items > 0 then Err (in_use_error items) else Ok ())"

definition Mariadb_GetBinding :: "string \<Rightarrow> 'w \<Rightarrow> Credentials result" where
  "Mariadb_GetBinding bindingID w = Err errNotImplemented"

section \<open>Lemmas\<close>

lemma Mariadb_calls_read_only [go_frame]:
  "read_only (Mariadb_Bind inst b)" "read_only (Mariadb_Unbind b)"
  by (simp_all add: Mariadb_Bind_def Mariadb_Unbind_def go_frame)

interpretation mariadb: service_binder view "Namespace (cp_config cp)" Mariadb_Bind
    "\<lambda>i. Mariadb_Unbind"
  for cp :: "'w Crossplane" and view
  by (rule read_only_binder) (rule Mariadb_calls_read_only)+

text \<open>The databases on a cluster: the composites of their kind with its name as parent label.\<close>

definition databases_of :: "string \<Rightarrow> cluster \<Rightarrow> composite set" where
  "databases_of i cl =
     {c. \<exists>n. cl_composites cl (mariaDBDatabaseItem, n) = Some c \<and>
           c_labels c ParentIDLabel = Some i}"

lemma Mariadb_Deprovisionable_not_Panic [simp]: "Mariadb_Deprovisionable cp inst w \<noteq> Panic p"
  by (auto simp: Mariadb_Deprovisionable_def go_inv split: if_splits)

context crossplane_client
begin

lemma database_list:
  assumes "l_listComposites (cp_client cp) mariaDBDatabaseGroupVersionKind ParentIDLabel i w = Inr cs"
  shows "set cs = databases_of i (view w)"
  using list_composites_ok assms unfolding database_list_kind
  by (fastforce simp: databases_of_def)

lemma deprovisionable_free:
  assumes "Mariadb_Deprovisionable cp inst w = Ok ()"
  shows "databases_of (ID inst) (view w) = {}"
  using assms database_list [of "ID inst" w "[]"]
  by (auto simp: Mariadb_Deprovisionable_def go_inv split: if_splits)

lemma deprovisionable_in_use:
  assumes "Mariadb_Deprovisionable cp inst w = Err e"
  shows "l_listComposites (cp_client cp) mariaDBDatabaseGroupVersionKind ParentIDLabel (ID inst) w
           = Inl e \<or>
         (\<exists>cs. e = in_use_error cs \<and> cs \<noteq> [] \<and> set cs = databases_of (ID inst) (view w))"
  using assms database_list by (auto simp: Mariadb_Deprovisionable_def go_inv split: if_splits)

end

context reliable_client
begin

lemma deprovisionable_iff:
  "Mariadb_Deprovisionable cp inst w = Ok () \<longleftrightarrow> databases_of (ID inst) (view w) = {}"
proof
  assume none: "databases_of (ID inst) (view w) = {}"
  obtain cs where cs: "l_listComposites (cp_client cp) mariaDBDatabaseGroupVersionKind
      ParentIDLabel (ID inst) w = Inr cs"
    using list_composites_answers by blast
  with database_list none have "cs = []" by fastforce
  with cs show "Mariadb_Deprovisionable cp inst w = Ok ()"
    by (simp add: Mariadb_Deprovisionable_def)
qed (rule deprovisionable_free)

end

end
