(* ===== verification/Service_Mariadb_Database.thy ===== *)
theory Service_Mariadb_Database
  imports Service_Base
begin

text \<open>
  \<open>pkg/crossplane/service_mariadb_database.go\<close>: a binding of a database is a user composite and a
  secret with its password. Unbinding makes the user object the owner of the secret and deletes
  the composite.
\<close>

section \<open>Creating a binding\<close>

definition binding_labels :: "string \<Rightarrow> string \<Rightarrow> str_map" where
  "binding_labels instanceID parentReference =
     [InstanceIDLabel \<mapsto> instanceID,
      ParentIDLabel \<mapsto> parentReference,
      OwnerApiVersionLabel \<mapsto> Version mariaDBUserGroupVersionKind,
      OwnerGroupLabel \<mapsto> Group mariaDBGroupVersionKind,
      OwnerKindLabel \<mapsto> Kind mariaDBUserGroupVersionKind]"

definition binding_secret :: "string \<Rightarrow> string \<Rightarrow> str_map \<Rightarrow> string \<Rightarrow> secret" where
  "binding_secret ns bindingID lbls pw =
     \<lparr>s_name = secretName bindingID, s_namespace = ns, s_labels = lbls,
      s_data = Some [SecretPasswordKey \<mapsto> pw], s_owners = []\<rparr>"

definition binding_composite :: "string \<Rightarrow> str_map \<Rightarrow> composite" where
  "binding_composite bindingID lbls =
     (new_composite mariaDBUserGroupVersionKind bindingID)
       \<lparr>c_labels := lbls, c_compositionRef := Some planName\<rparr>"

text \<open>
  The secret comes first, and must not be there yet; a user composite that is already there is
  taken as it is.
\<close>

definition createBinding ::
  "'w Crossplane \<Rightarrow> string \<Rightarrow> string \<Rightarrow> string \<Rightarrow> ('w, string) io" where
  "createBinding cp bindingID instanceID parentReference =
     bindM (writeM (l_generatePassword (cp_client cp))) (\<lambda>pw.
     let lbls = binding_labels instanceID parentReference;
         secret = binding_secret (Namespace (cp_config cp)) bindingID lbls pw
     in bindM (writeM (l_createSecret (cp_client cp) secret)) (\<lambda>_.
        bindM (liftR (lib_call (l_setParameter (cp_client cp) instanceParamsParentReferenceName
                 (JString parentReference) (binding_composite bindingID lbls)))) (\<lambda>cmp.
        bindM (handleM (writeM (l_createComposite (cp_client cp) cmp))
                 (\<lambda>e. if IsAlreadyExists e then Ok () else Err e)) (\<lambda>_.
        retM (sget (secret_data secret) SecretPasswordKey)))))"

definition mapMariadbEndpoint :: "str_map \<Rightarrow> Endpoint result" where
  "mapMariadbEndpoint data =
     (case data SecretEndpointKey of
        None \<Rightarrow> Err (Failure (LibFailure ErrBindingNotFound))
      | Some host \<Rightarrow>
          bindR (Atoi (sget data SecretPortKey)) (\<lambda>port.
          Ok \<lparr>Host = host, Port = word_of_int port, Protocol = ''tcp''\<rparr>))"

definition mariadb_metrics :: "string \<Rightarrow> string \<Rightarrow> string \<Rightarrow> string list" where
  "mariadb_metrics databaseParent clusterName metricsDomain =
     (let base = ''http://'' @ databaseParent @ ''.'' @ clusterName @ ''.'' @ metricsDomain
      in [base, base @ ''/mariadb/0'', base @ ''/mariadb/1'', base @ ''/mariadb/2''])"

text \<open>\<open>%d\<close> prints the port as the signed number the \<open>int32\<close> stands for.\<close>

definition createCredentials ::
  "Endpoint \<Rightarrow> string \<Rightarrow> string \<Rightarrow> string \<Rightarrow> string \<Rightarrow> string \<Rightarrow> bool \<Rightarrow> string \<Rightarrow> Credentials" where
  "createCredentials endpoint username password database databaseParent clusterName
       metricsEnabled metricsDomain =
     (let port = show_int (sint (Port endpoint));
          uri = ''mysql://'' @ username @ '':'' @ password @ ''@'' @ Host endpoint @ '':'' @ port @
            ''/'' @ database @ ''?reconnect=true'';
          jdbc = (\<lambda>scheme. ''jdbc:'' @ scheme @ ''://'' @ Host endpoint @ '':'' @ port @ ''/'' @
            database @ ''?user='' @ username @ ''&password='' @ password);
          creds =
            [(''host'', CString (Host endpoint)),
             (''hostname'', CString (Host endpoint)),
             (SecretPortKey, CInt32 (Port endpoint)),
             (''name'', CString database),
             (''database'', CString database),
             (SecretUserKey, CString username),
             (SecretPasswordKey, CString password),
             (''database_uri'', CString uri),
             (''uri'', CString uri),
             (''jdbcUrl'', CString (jdbc ''mysql'')),
             (''jdbcUrlMariaDb'', CString (jdbc ''mariadb''))]
      in if metricsEnabled
         then creds @ [(''metricsEndpoints'',
                CStrings (mariadb_metrics databaseParent clusterName metricsDomain))]
         else creds)"

text \<open>The last step of binding and of reading a binding: the credentials name the parent's cluster.\<close>

definition database_credentials ::
  "'w Crossplane \<Rightarrow> inst \<Rightarrow> string \<Rightarrow> string \<Rightarrow> Endpoint \<Rightarrow> 'w \<Rightarrow> Credentials result" where
  "database_credentials cp inst bindingID pw endpoint w =
     bindR (mapErr (Wrapf ''Could not get parent instance: %w'' [])
              (lib_call (l_getComposite (cp_client cp) mariaDBGroupVersionKind
                 (ParentID (i_Labels inst)) w))) (\<lambda>parent.
     Ok (createCredentials endpoint bindingID pw (ID inst) (ParentID (i_Labels inst))
           (sget (c_labels parent) ''service.syn.tools/cluster'')
           (EnableMetrics (cp_config cp)) (MetricsDomain (cp_config cp))))"

text \<open>A connection secret that is missing means that the object is not ready.\<close>

definition connection_details ::
  "'w Crossplane \<Rightarrow> go_error \<Rightarrow> composite \<Rightarrow> 'w \<Rightarrow> secret result" where
  "connection_details cp not_ready cmp w =
     mapErr (\<lambda>e. if IsNotFound e then not_ready else e) (GetConnectionDetails cp (Some cmp) w)"

definition MariadbDatabase_Bind :: "'w Crossplane \<Rightarrow> inst \<Rightarrow> string \<Rightarrow> ('w, Credentials) io" where
  "MariadbDatabase_Bind cp inst bindingID =
     bindM (liftR (ParentReference inst)) (\<lambda>parentRef.
     bindM (readM (\<lambda>w. mapErr (Wrapf ''could not get parent Galera cluster: %w'' [])
              (lib_call (l_getComposite (cp_client cp) mariaDBGroupVersionKind parentRef w)))) (\<lambda>cmp.
     bindM (createBinding cp bindingID (ID inst) parentRef) (\<lambda>pw.
     bindM (readM (connection_details cp (Sentinel ErrInstanceNotReady) cmp)) (\<lambda>secret.
     bindM (liftR (mapMariadbEndpoint (secret_data secret))) (\<lambda>endpoint.
     readM (database_credentials cp inst bindingID pw endpoint))))))"

section \<open>Removing a binding\<close>

text \<open>The last reference to a \<open>User\<close>; the empty reference where there is none.\<close>

fun user_ref_loop :: "object_ref list \<Rightarrow> object_ref \<Rightarrow> object_ref" where
  "user_ref_loop [] userRef = userRef"
| "user_ref_loop (r # rs) userRef =
     user_ref_loop rs (if or_Kind r = ''User'' then r else userRef)"

definition no_ref :: object_ref where
  "no_ref = \<lparr>or_APIVersion = '''', or_Kind = '''', or_Name = ''''\<rparr>"

definition owner_of :: "kobject \<Rightarrow> owner_ref" where
  "owner_of user =
     \<lparr>ow_APIVersion = k_apiVersion user, ow_Kind = k_kind user, ow_Name = k_name user,
      ow_UID = k_uid user, ow_BlockOwnerDeletion = True\<rparr>"

definition markCredentialsForDeletion :: "'w Crossplane \<Rightarrow> string \<Rightarrow> ('w, unit) io" where
  "markCredentialsForDeletion cp bindingID =
     bindM (readM (\<lambda>w. mapErr (Wrapf ''could not get binding: %w'' [])
              (lib_call (l_getComposite (cp_client cp) mariaDBUserGroupVersionKind bindingID w))))
       (\<lambda>cmp.
     let userRef = user_ref_loop (c_resourceRefs cmp) no_ref
     in if or_Kind userRef = ''''
        then failM (Errorf ''unable to find User object in composite'' [])
        else
          bindM (readM (\<lambda>w. mapErr (Wrapf ''failed to fetch secret: %w'' [])
                   (lib_call (l_getSecret (cp_client cp) (Namespace (cp_config cp))
                      (secretName (c_name cmp)) w)))) (\<lambda>secret.
          bindM (readM (\<lambda>w. mapErr (Wrapf ''failed to fetch user: %w'' [])
                   (lib_call (l_getObject (cp_client cp) (or_APIVersion userRef)
                      (or_Kind userRef) (or_Name userRef) w)))) (\<lambda>user.
          writeM (l_updateSecret (cp_client cp) (secret\<lparr>s_owners := [owner_of user]\<rparr>)))))"

definition MariadbDatabase_Unbind :: "'w Crossplane \<Rightarrow> string \<Rightarrow> ('w, unit) io" where
  "MariadbDatabase_Unbind cp bindingID =
     bindM (handleM (markCredentialsForDeletion cp bindingID)
              (\<lambda>e. Err (Wrapf ''could not mark credentials for deletion: %w'' [] e))) (\<lambda>_.
     writeM (l_deleteComposite (cp_client cp) mariaDBUserGroupVersionKind bindingID True))"

definition MariadbDatabase_Deprovisionable :: "'w \<Rightarrow> unit result" where
  "MariadbDatabase_Deprovisionable w = Ok ()"

section \<open>Reading a binding\<close>

definition MariadbDatabase_GetBinding ::
  "'w Crossplane \<Rightarrow> inst \<Rightarrow> string \<Rightarrow> 'w \<Rightarrow> Credentials result" where
  "MariadbDatabase_GetBinding cp inst bindingID w =
     (case l_getComposite (cp_client cp) mariaDBUserGroupVersionKind bindingID w of
        Inl e \<Rightarrow> if IsNotFound e then Err (Failure (LibFailure ErrBindingDoesNotExist))
                 else Err (Wrapf ''could not get binding: %w'' [] e)
      | Inr cmp \<Rightarrow>
          if cond_Status (c_ready cmp) \<noteq> ''True'' then Err (Sentinel ErrBindingNotReady)
          else
            bindR (connection_details cp (Sentinel ErrBindingNotReady) cmp w) (\<lambda>secret.
            bindR (mapMariadbEndpoint (secret_data secret)) (\<lambda>endpoint.
            database_credentials cp inst bindingID (sget (secret_data secret) SecretPasswordKey)
              endpoint w)))"

definition MariadbDatabase_ValidateProvisionParams ::
  "'w Crossplane \<Rightarrow> raw_json \<Rightarrow> 'w \<Rightarrow> go_map result" where
  "MariadbDatabase_ValidateProvisionParams cp params w =
     bindR (unmarshal_map params) (\<lambda>paramsMap.
     bindR (getParentRef paramsMap) (\<lambda>parentRef.
     bindR (mapErr (Wrapf ''valid %q required: %w'' [instanceParamsParentReferenceName])
              (lib_call (l_getComposite (cp_client cp) mariaDBGroupVersionKind parentRef w))) (\<lambda>_.
     Ok paramsMap)))"

section \<open>What binding leaves in the cluster\<close>

text \<open>The two objects a binding creates, as stored, with the parent reference as parameter.\<close>

definition stored_secret :: "string \<Rightarrow> string \<Rightarrow> string \<Rightarrow> string \<Rightarrow> string \<Rightarrow> secret" where
  "stored_secret ns bindingID instanceID parentReference pw =
     binding_secret ns bindingID (binding_labels instanceID parentReference) pw"

definition stored_user :: "string \<Rightarrow> string \<Rightarrow> string \<Rightarrow> composite" where
  "stored_user bindingID instanceID parentReference =
     (binding_composite bindingID (binding_labels instanceID parentReference))
       \<lparr>c_parameters :=
          Some (JObject [(instanceParamsParentReferenceName, JString parentReference)])\<rparr>"

lemma stored_keys [simp]:
  "s_namespace (stored_secret ns b i p pw) = ns"
  "s_name (stored_secret ns b i p pw) = secretName b"
  "s_data (stored_secret ns b i p pw) = Some [SecretPasswordKey \<mapsto> pw]"
  "c_gvk (stored_user b i p) = mariaDBUserGroupVersionKind"
  "c_name (stored_user b i p) = b"
  by (simp_all add: stored_secret_def binding_secret_def stored_user_def binding_composite_def
      new_composite_def)

lemma stored_user_not_ready [simp]: "cond_Status (c_ready (stored_user b i p)) = ''Unknown''"
  by (simp add: stored_user_def binding_composite_def new_composite_def)

lemma binding_secret_stored:
  "binding_secret ns b (binding_labels i p) pw = stored_secret ns b i p pw"
  by (simp add: stored_secret_def)

lemma secret_data_binding [simp]:
  "sget (secret_data (stored_secret ns b i p pw)) SecretPasswordKey = pw"
  by (simp add: secret_data_def sget_def)

lemma binding_composite_bare:
  "(binding_composite b lbls)\<lparr>c_parameters := None\<rparr> = binding_composite b lbls"
  by (simp add: binding_composite_def new_composite_def)

lemma credentials_stored_updates:
  "credentials_stored ns cl \<Longrightarrow> credentials_stored ns (put_secret s cl)"
  "credentials_stored ns cl \<Longrightarrow> deleted g n cl cl' \<Longrightarrow>
     (\<And>c. cl_composites cl (g, n) = Some c \<Longrightarrow> c_gvk c = g \<and> c_name c = n) \<Longrightarrow>
     credentials_stored ns cl'"
  "credentials_stored ns cl \<Longrightarrow> c_gvk c \<noteq> mariaDBUserGroupVersionKind \<Longrightarrow>
     credentials_stored ns (put_composite c cl)"
  "credentials_stored ns cl \<Longrightarrow>
     credentials_stored ns (put_composite (stored_user b i p) (put_secret (stored_secret ns b i' p' pw) cl))"
  by (auto simp: credentials_stored_def cluster_updates deleted_def split: if_splits)

text \<open>
  How far a binding got: nothing written, the secret alone, or the secret and the composite.
\<close>

definition bound_stage ::
  "string \<Rightarrow> string \<Rightarrow> string \<Rightarrow> string \<Rightarrow> cluster \<Rightarrow> cluster \<Rightarrow> bool" where
  "bound_stage ns b i p cl cl' \<longleftrightarrow>
     cl' = cl \<or>
     (\<exists>pw. cl' = put_secret (stored_secret ns b i p pw) cl \<or>
           cl' = put_composite (stored_user b i p) (put_secret (stored_secret ns b i p pw) cl))"

lemma bound_stage_touches:
  "bound_stage ns b i p cl cl' \<Longrightarrow> touches (binding_composites b) (binding_secrets ns b) cl cl'"
  by (auto simp: bound_stage_def binding_composites_def binding_secrets_def touches_def
      cluster_updates)

lemma bound_stage_persists: "bound_stage ns b i p cl cl' \<Longrightarrow> persists cl cl'"
  by (auto simp: bound_stage_def persists_def cluster_updates)

lemma bound_stage_stores:
  "bound_stage ns b i p cl cl' \<Longrightarrow> credentials_stored ns cl \<Longrightarrow> credentials_stored ns cl'"
  by (auto simp: bound_stage_def intro: credentials_stored_updates)

context crossplane_client
begin

abbreviation namespace :: string where "namespace \<equiv> Namespace (cp_config cp)"

lemma set_parent_reference:
  assumes "l_setParameter (cp_client cp) instanceParamsParentReferenceName (JString p)
             (binding_composite b (binding_labels i p)) = Inr cmp"
  shows "cmp = stored_user b i p"
  using assms set_parameter_ok binding_composite_bare by (metis stored_user_def)

lemma createBinding_stage:
  assumes run: "createBinding cp b i p w = (r, w')"
  shows "bound_stage namespace b i p (view w) (view w')"
proof -
  let ?sec = "\<lambda>pw. stored_secret namespace b i p pw"
  let ?set = "l_setParameter (cp_client cp) instanceParamsParentReferenceName (JString p)
                (binding_composite b (binding_labels i p))"
  obtain r1 w1 where pw: "writeM (l_generatePassword (cp_client cp)) w = (r1, w1)" by fastforce
  then have v1: "view w1 = view w" by (rule generate_password_view)
  show ?thesis
  proof (cases r1)
    case (Ok pw1)
    obtain r2 w2 where sec: "writeM (l_createSecret (cp_client cp) (?sec pw1)) w1 = (r2, w2)"
      by fastforce
    note v2 = create_secret_view [OF sec]
    note run2 = run pw Ok sec
    show ?thesis
    proof (cases r2)
      case Ok2: (Ok u)
      with sec v1 have v2': "view w2 = put_secret (?sec pw1) (view w)"
        by (metis create_secret_ok writeM_Ok_iff old.unit.exhaust)
      show ?thesis
      proof (cases ?set)
        case (Inl e)
        with run2 Ok2 have "w' = w2"
          by (simp add: createBinding_def Let_def binding_secret_stored bindM_step)
        with v2' show ?thesis by (auto simp: bound_stage_def)
      next
        case (Inr cmp)
        then have cmp: "cmp = stored_user b i p" by (rule set_parent_reference)
        obtain r3 w3 where user: "writeM (l_createComposite (cp_client cp) cmp) w2 = (r3, w3)"
          by fastforce
        have "snd (createBinding cp b i p w) = w3"
          using pw Ok sec Ok2 Inr user
          by (simp add: createBinding_def Let_def binding_secret_stored bindM_step)
        with run have "w' = w3" by simp
        with create_composite_view [OF user] v2' cmp show ?thesis by (auto simp: bound_stage_def)
      qed
    qed (use run2 v1 v2 in
        \<open>auto simp: createBinding_def Let_def binding_secret_stored bindM_step bound_stage_def\<close>)
  qed (use run pw v1 in \<open>auto simp: createBinding_def bindM_step bound_stage_def\<close>)
qed

lemma db_Bind_writes:
  assumes run: "MariadbDatabase_Bind cp inst b w = (r, w')"
  shows "w' = w \<or>
     (\<exists>p r1. ParentReference inst = Ok p \<and> createBinding cp b (ID inst) p w = (r1, w'))"
proof (cases "ParentReference inst")
  case (Ok p)
  obtain r1 w1 where cr: "createBinding cp b (ID inst) p w = (r1, w1)" by fastforce
  have "w' = w \<or> w' = w1"
    using run Ok cr
    by (cases r1)
      (auto simp: MariadbDatabase_Bind_def bindM_step split: result.splits)
  with cr Ok show ?thesis by auto
qed (use run in \<open>simp_all add: MariadbDatabase_Bind_def\<close>)

lemma db_Bind_stage:
  assumes "MariadbDatabase_Bind cp inst b w = (r, w')"
  shows "view w' = view w \<or>
     (\<exists>p. ParentReference inst = Ok p \<and> bound_stage namespace b (ID inst) p (view w) (view w'))"
  using db_Bind_writes [OF assms] createBinding_stage by blast

lemma db_Bind_frame:
  "writes_only view (binding_composites b) (binding_secrets namespace b)
     (MariadbDatabase_Bind cp inst b)"
  unfolding writes_only_def
  by (rule keepsI) (use db_Bind_stage bound_stage_touches touches_refl in metis)

lemma db_Bind_persists: "keeps (\<lambda>w w'. persists (view w) (view w')) (MariadbDatabase_Bind cp inst b)"
  by (rule keepsI) (use db_Bind_stage bound_stage_persists persists_refl in metis)

lemma db_Bind_stores:
  "keeps (\<lambda>w w'. credentials_stored namespace (view w) \<longrightarrow> credentials_stored namespace (view w'))
     (MariadbDatabase_Bind cp inst b)"
  by (rule keepsI) (use db_Bind_stage bound_stage_stores in metis)

end

section \<open>What unbinding leaves in the cluster\<close>

lemma user_ref_loop_last:
  "user_ref_loop rs r =
     (if \<exists>x \<in> set rs. or_Kind x = ''User'' then last (filter (\<lambda>x. or_Kind x = ''User'') rs) else r)"
  by (induction rs arbitrary: r) (auto simp: filter_empty_conv)

lemma user_ref_kind: "or_Kind (user_ref_loop rs no_ref) \<in> {''User'', ''''}"
proof (cases "filter (\<lambda>x. or_Kind x = ''User'') rs")
  case (Cons u us)
  then have "last (filter (\<lambda>x. or_Kind x = ''User'') rs) \<in> set (filter (\<lambda>x. or_Kind x = ''User'') rs)"
    by (intro last_in_set) simp
  then show ?thesis by (auto simp: user_ref_loop_last no_ref_def)
qed (auto simp: user_ref_loop_last no_ref_def filter_empty_conv)

lemma user_ref_loop_user:
  assumes "ref = user_ref_loop rs no_ref" and "or_Kind ref = ''User''"
  shows "ref \<in> set rs \<and> ref = last (filter (\<lambda>r. or_Kind r = ''User'') rs)"
proof -
  let ?us = "filter (\<lambda>r. or_Kind r = ''User'') rs"
  have "\<exists>r \<in> set rs. or_Kind r = ''User''"
    using assms by (auto simp: user_ref_loop_last no_ref_def split: if_splits)
  then have "?us \<noteq> []" and "ref = last ?us"
    using assms(1) by (auto simp: user_ref_loop_last filter_empty_conv)
  then show ?thesis using last_in_set [of ?us] by auto
qed

text \<open>The secret with the user object as its only owner.\<close>

definition owned_by :: "kobject \<Rightarrow> secret \<Rightarrow> secret" where
  "owned_by user s = s\<lparr>s_owners := [owner_of user]\<rparr>"

lemma owned_by_simps [simp]:
  "s_namespace (owned_by u s) = s_namespace s" "s_name (owned_by u s) = s_name s"
  "s_data (owned_by u s) = s_data s" "s_owners (owned_by u s) = [owner_of u]"
  by (simp_all add: owned_by_def)

text \<open>
  How far unbinding got: nothing, the secret handed over, or the composite deleted after that.
\<close>

definition unbound_stage :: "string \<Rightarrow> string \<Rightarrow> cluster \<Rightarrow> cluster \<Rightarrow> bool" where
  "unbound_stage ns b cl cl' \<longleftrightarrow>
     cl' = cl \<or>
     (\<exists>s u. cl_secrets cl (ns, secretName b) = Some s \<and>
        (cl' = put_secret (owned_by u s) cl \<or>
         deleted mariaDBUserGroupVersionKind b (put_secret (owned_by u s) cl) cl'))"

context crossplane_client
begin

lemma mark_stage:
  assumes run: "markCredentialsForDeletion cp b w = (r, w')"
  shows "view w' = view w \<and> r \<noteq> Ok () \<or>
     (\<exists>cmp s u. cl_composites (view w) (mariaDBUserGroupVersionKind, b) = Some cmp \<and>
        cl_secrets (view w) (namespace, secretName b) = Some s \<and>
        (let ref = user_ref_loop (c_resourceRefs cmp) no_ref
         in or_Kind ref = ''User'' \<and>
            l_getObject (cp_client cp) (or_APIVersion ref) (or_Kind ref) (or_Name ref) w = Inr u) \<and>
        (view w' = view w \<and> r \<noteq> Ok () \<or> view w' = put_secret (owned_by u s) (view w)))"
proof (cases "l_getComposite (cp_client cp) mariaDBUserGroupVersionKind b w")
  case (Inr cmp)
  then have cmp: "cl_composites (view w) (mariaDBUserGroupVersionKind, b) = Some cmp"
    by (rule get_composite_ok)
  then have name: "c_name cmp = b" using composite_key by blast
  let ?ref = "user_ref_loop (c_resourceRefs cmp) no_ref"
  show ?thesis
  proof (cases "or_Kind ?ref = ''''")
    case False
    then have kind: "or_Kind ?ref = ''User''" using user_ref_kind [of "c_resourceRefs cmp"] by auto
    show ?thesis
    proof (cases "l_getSecret (cp_client cp) namespace (secretName b) w")
      case sec: (Inr s)
      then have s: "cl_secrets (view w) (namespace, secretName b) = Some s" by (rule get_secret_ok)
      show ?thesis
      proof (cases "l_getObject (cp_client cp) (or_APIVersion ?ref) (or_Kind ?ref) (or_Name ?ref) w")
        case obj: (Inr u)
        have upd: "writeM (l_updateSecret (cp_client cp) (owned_by u s)) w = (r, w')"
          using run Inr name kind sec obj
          by (simp add: markCredentialsForDeletion_def Let_def owned_by_def)
        have "view w' = view w \<and> r \<noteq> Ok () \<or> view w' = put_secret (owned_by u s) (view w)"
          using update_secret_view [OF upd] update_secret_ok upd
          by (cases "r = Ok ()") (auto simp: go_inv)
        with cmp s obj kind show ?thesis by (auto simp: Let_def)
      qed (use run Inr name kind sec in \<open>auto simp: markCredentialsForDeletion_def Let_def\<close>)
    qed (use run Inr name kind in \<open>auto simp: markCredentialsForDeletion_def Let_def\<close>)
  qed (use run Inr in \<open>auto simp: markCredentialsForDeletion_def Let_def\<close>)
qed (use run in \<open>auto simp: markCredentialsForDeletion_def\<close>)

lemma db_Unbind_run:
  assumes "MariadbDatabase_Unbind cp b w = (r, w')"
  obtains (marked) w1 where "markCredentialsForDeletion cp b w = (Ok (), w1)"
      "writeM (l_deleteComposite (cp_client cp) mariaDBUserGroupVersionKind b True) w1 = (r, w')"
    | (failed) e where "markCredentialsForDeletion cp b w = (Err e, w')"
      "r = Err (Wrapf ''could not mark credentials for deletion: %w'' [] e)"
    | (panic) p where "markCredentialsForDeletion cp b w = (Panic p, w')" "r = Panic p"
proof -
  obtain r1 w1 where "markCredentialsForDeletion cp b w = (r1, w1)" by fastforce
  with assms show thesis
    by (cases r1)
      (auto simp: MariadbDatabase_Unbind_def handleM_step bindM_step
        intro: marked failed panic)
qed

lemma db_Unbind_stage:
  assumes run: "MariadbDatabase_Unbind cp b w = (r, w')"
  shows "unbound_stage namespace b (view w) (view w')"
  using run
proof (cases rule: db_Unbind_run)
  case (marked w1)
  from mark_stage [OF marked(1)] obtain s u
    where "cl_secrets (view w) (namespace, secretName b) = Some s"
      "view w1 = put_secret (owned_by u s) (view w)" by auto
  with delete_composite_view [OF marked(2)] show ?thesis by (auto simp: unbound_stage_def)
next
  case (failed e)
  from mark_stage [OF failed(1)] show ?thesis by (auto simp: unbound_stage_def)
next
  case (panic p)
  from mark_stage [OF panic(1)] show ?thesis by (auto simp: unbound_stage_def)
qed

text \<open>A successful unbind handed the secret over and then deleted the composite.\<close>

lemma db_Unbind_Ok:
  assumes run: "MariadbDatabase_Unbind cp b w = (Ok (), w')"
  obtains cmp s u ref where "cl_composites (view w) (mariaDBUserGroupVersionKind, b) = Some cmp"
    "cl_secrets (view w) (namespace, secretName b) = Some s"
    "ref = user_ref_loop (c_resourceRefs cmp) no_ref" "or_Kind ref = ''User''"
    "l_getObject (cp_client cp) (or_APIVersion ref) (or_Kind ref) (or_Name ref) w = Inr u"
    "deleted mariaDBUserGroupVersionKind b (put_secret (owned_by u s) (view w)) (view w')"
  using run
proof (cases rule: db_Unbind_run)
  case (marked w1)
  from mark_stage [OF marked(1)] obtain cmp s u
    where "cl_composites (view w) (mariaDBUserGroupVersionKind, b) = Some cmp"
      "cl_secrets (view w) (namespace, secretName b) = Some s"
      "or_Kind (user_ref_loop (c_resourceRefs cmp) no_ref) = ''User''"
      "l_getObject (cp_client cp) (or_APIVersion (user_ref_loop (c_resourceRefs cmp) no_ref))
         (or_Kind (user_ref_loop (c_resourceRefs cmp) no_ref))
         (or_Name (user_ref_loop (c_resourceRefs cmp) no_ref)) w = Inr u"
      "view w1 = put_secret (owned_by u s) (view w)" by (auto simp: Let_def)
  moreover have "deleted mariaDBUserGroupVersionKind b (view w1) (view w')"
    using marked(2) delete_composite_ok by (auto simp: go_inv)
  ultimately show thesis using that by metis
qed auto

lemma unbound_stage_touches:
  assumes "unbound_stage namespace b (view w) cl'"
  shows "touches (binding_composites b) (binding_secrets namespace b) (view w) cl'"
proof -
  have key: "s_namespace s = namespace \<and> s_name s = secretName b"
    if "cl_secrets (view w) (namespace, secretName b) = Some s" for s
    using that by (rule secret_key)
  have "c_gvk c = mariaDBUserGroupVersionKind \<and> c_name c = b"
    if "cl_composites (view w) (mariaDBUserGroupVersionKind, b) = Some c" for c
    using that by (rule composite_key)
  with assms key show ?thesis
    by (fastforce simp: unbound_stage_def touches_def deleted_def cluster_updates
        binding_composites_def binding_secrets_def)
qed

lemma unbound_stage_stores:
  assumes "unbound_stage namespace b (view w) cl'" and "credentials_stored namespace (view w)"
  shows "credentials_stored namespace cl'"
proof -
  have key: "c_gvk c = mariaDBUserGroupVersionKind \<and> c_name c = b"
    if "cl_composites (put_secret x (view w)) (mariaDBUserGroupVersionKind, b) = Some c" for c x
    using that composite_key by (simp add: put_secret_def)
  from assms(1) show ?thesis
    unfolding unbound_stage_def
    by (elim disjE exE conjE)
      (simp_all add: assms(2) credentials_stored_updates(1)
        credentials_stored_updates(2) [OF credentials_stored_updates(1) [OF assms(2)] _ key])
qed

lemma db_Unbind_frame:
  "writes_only view (binding_composites b) (binding_secrets namespace b)
     (MariadbDatabase_Unbind cp b)"
  unfolding writes_only_def by (rule keepsI) (use db_Unbind_stage unbound_stage_touches in metis)

lemma db_Unbind_stores:
  "keeps (\<lambda>w w'. credentials_stored namespace (view w) \<longrightarrow> credentials_stored namespace (view w'))
     (MariadbDatabase_Unbind cp b)"
  by (rule keepsI) (use db_Unbind_stage unbound_stage_stores in metis)

end

sublocale crossplane_client \<subseteq> mariadb_database: service_binder view "Namespace (cp_config cp)"
    "MariadbDatabase_Bind cp" "\<lambda>i. MariadbDatabase_Unbind cp"
  by unfold_locales (rule db_Bind_frame db_Unbind_frame db_Bind_persists db_Bind_stores db_Unbind_stores)+

section \<open>What a successful bind achieves\<close>

lemma createCredentials_get:
  "map_of (createCredentials e u pw db par cn m md) SecretPasswordKey = Some (CString pw)"
  "map_of (createCredentials e u pw db par cn m md) SecretUserKey = Some (CString u)"
  "map_of (createCredentials e u pw db par cn m md) ''database'' = Some (CString db)"
  "map_of (createCredentials e u pw db par cn m md) ''host'' = Some (CString (Host e))"
  "map_of (createCredentials e u pw db par cn m md) SecretPortKey = Some (CInt32 (Port e))"
  by (simp_all add: createCredentials_def Let_def secret_keys)

lemma GetConnectionDetails_OkD:
  assumes "GetConnectionDetails cp (Some c) w = Ok s"
  obtains ref d where "c_secretRef c = Some ref" "s_data s = Some d"
    "l_getSecret (cp_client cp) (sr_Namespace ref) (sr_Name ref) w = Inr s"
  using assms
  by (auto simp: GetConnectionDetails_def Option.is_none_def go_inv split: option.splits if_splits)

context crossplane_client
begin

lemma createBinding_Ok:
  assumes run: "createBinding cp b i p w = (Ok pw, w')"
  shows "cl_secrets (view w) (namespace, secretName b) = None"
    and "cl_secrets (view w') (namespace, secretName b) = Some (stored_secret namespace b i p pw)"
    and "cl_composites (view w') (mariaDBUserGroupVersionKind, b) =
      (case cl_composites (view w) (mariaDBUserGroupVersionKind, b) of
         None \<Rightarrow> Some (stored_user b i p)
       | Some c \<Rightarrow> cl_composites (view w') (mariaDBUserGroupVersionKind, b))"
    and "cl_composites (view w') (mariaDBUserGroupVersionKind, b) \<noteq> None"
proof -
  let ?set = "l_setParameter (cp_client cp) instanceParamsParentReferenceName (JString p)
                (binding_composite b (binding_labels i p))"
  obtain cmp where set: "?set = Inr cmp"
    using run by (cases ?set) (auto simp: createBinding_def Let_def go_inv)
  from set have cmp: "cmp = stored_user b i p" by (rule set_parent_reference)
  from run set obtain w1 w2 where
    pw: "writeM (l_generatePassword (cp_client cp)) w = (Ok pw, w1)" and
    sec: "writeM (l_createSecret (cp_client cp) (stored_secret namespace b i p pw)) w1 = (Ok (), w2)" and
    user: "l_createComposite (cp_client cp) cmp w2 = (Inr (), w') \<or>
      (\<exists>e. l_createComposite (cp_client cp) cmp w2 = (Inl e, w') \<and> IsAlreadyExists e)"
    by (auto simp: createBinding_def Let_def binding_secret_stored go_inv split: if_splits)
  have v1: "view w1 = view w" using pw by (rule generate_password_view)
  have v2: "view w2 = put_secret (stored_secret namespace b i p pw) (view w)"
    and none: "cl_secrets (view w) (namespace, secretName b) = None"
    using sec create_secret_ok v1 by (fastforce simp: go_inv)+
  from user cmp have v3: "view w' = put_composite (stored_user b i p) (view w2) \<and>
        cl_composites (view w2) (mariaDBUserGroupVersionKind, b) = None \<or>
      view w' = view w2 \<and> cl_composites (view w2) (mariaDBUserGroupVersionKind, b) \<noteq> None"
    by (auto dest: create_composite_ok create_composite_exists)
  show "cl_secrets (view w) (namespace, secretName b) = None" by (rule none)
  show "cl_secrets (view w') (namespace, secretName b) = Some (stored_secret namespace b i p pw)"
    "cl_composites (view w') (mariaDBUserGroupVersionKind, b) \<noteq> None"
    "cl_composites (view w') (mariaDBUserGroupVersionKind, b) =
      (case cl_composites (view w) (mariaDBUserGroupVersionKind, b) of
         None \<Rightarrow> Some (stored_user b i p)
       | Some c \<Rightarrow> cl_composites (view w') (mariaDBUserGroupVersionKind, b))"
    using v2 v3 by (auto simp: cluster_updates split: option.splits)
qed

end

context crossplane_client
begin

text \<open>
  A successful bind: the password is stored for the binding and handed out, the user composite is
  there, and the endpoint is the one in the connection secret of the parent cluster.
\<close>

lemma db_Bind_Ok:
  assumes run: "MariadbDatabase_Bind cp inst b w = (Ok creds, w')"
  obtains p pw cluster_inst s e par where "ParentReference inst = Ok p"
    "cl_composites (view w) (mariaDBGroupVersionKind, p) = Some cluster_inst"
    "createBinding cp b (ID inst) p w = (Ok pw, w')"
    "GetConnectionDetails cp (Some cluster_inst) w' = Ok s"
    "mapMariadbEndpoint (secret_data s) = Ok e"
    "creds = createCredentials e b pw (ID inst) (ParentID (i_Labels inst))
       (sget (c_labels (par :: composite)) ''service.syn.tools/cluster'')
       (EnableMetrics (cp_config cp)) (MetricsDomain (cp_config cp))"
proof -
  from run obtain p where p: "ParentReference inst = Ok p"
    by (cases "ParentReference inst") (auto simp: MariadbDatabase_Bind_def)
  from run p obtain c where c: "l_getComposite (cp_client cp) mariaDBGroupVersionKind p w = Inr c"
    by (cases "l_getComposite (cp_client cp) mariaDBGroupVersionKind p w")
      (auto simp: MariadbDatabase_Bind_def)
  obtain r1 w1 where cr: "createBinding cp b (ID inst) p w = (r1, w1)" by fastforce
  from run p c cr obtain pw where r1: "r1 = Ok pw"
    by (cases r1) (auto simp: MariadbDatabase_Bind_def bindM_step)
  from run p c cr r1 have rest: "w' = w1"
    "bindR (connection_details cp (Sentinel ErrInstanceNotReady) c w1) (\<lambda>s.
     bindR (mapMariadbEndpoint (secret_data s)) (\<lambda>e.
     database_credentials cp inst b pw e w1)) = Ok creds"
    by (auto simp: MariadbDatabase_Bind_def bindM_step split: result.splits)
  from rest(2) obtain s e where "GetConnectionDetails cp (Some c) w1 = Ok s"
    "mapMariadbEndpoint (secret_data s) = Ok e" "database_credentials cp inst b pw e w1 = Ok creds"
    by (auto simp: connection_details_def go_inv)
  moreover from this(3) obtain par where
    "creds = createCredentials e b pw (ID inst) (ParentID (i_Labels inst))
       (sget (c_labels (par :: composite)) ''service.syn.tools/cluster'')
       (EnableMetrics (cp_config cp)) (MetricsDomain (cp_config cp))"
    by (auto simp: database_credentials_def go_inv)
  ultimately show thesis using that [OF p get_composite_ok [OF c]] cr r1 rest(1) by blast
qed

lemma mark_absent:
  assumes "l_getComposite (cp_client cp) mariaDBUserGroupVersionKind b w = Inl e" and "IsNotFound e"
  shows "\<exists>e'. MariadbDatabase_Unbind cp b w = (Err e', w) \<and> IsNotFound e'"
  using assms
  by (simp add: MariadbDatabase_Unbind_def markCredentialsForDeletion_def handleM_step bindM_step)

end

context reliable_client
begin

text \<open>The secret of an earlier attempt makes every later bind fail, and nothing changes.\<close>

lemma createBinding_again:
  assumes "cl_secrets (view w) (namespace, secretName b) \<noteq> None"
  shows "\<exists>e w'. createBinding cp b i p w = (Err e, w') \<and> IsAlreadyExists e \<and> view w' = view w"
proof -
  obtain pw w1 where pw: "l_generatePassword (cp_client cp) w = (Inr pw, w1)"
    using password_answers by blast
  with password_keeps have v1: "view w1 = view w" by blast
  let ?s = "stored_secret namespace b i p pw"
  obtain e w2 where e: "l_createSecret (cp_client cp) ?s w1 = (Inl e, w2)" "IsAlreadyExists e"
    "view w2 = view w1"
    using create_secret_refused [of w1 ?s] assms v1 by auto
  then have "createBinding cp b i p w = (Err e, w2)"
    by (simp add: createBinding_def Let_def binding_secret_stored bindM_def writeM_def pw)
  with e v1 show ?thesis by auto
qed

lemma db_Bind_again:
  assumes "ParentReference inst = Ok p"
    and "cl_composites (view w) (mariaDBGroupVersionKind, p) \<noteq> None"
    and "cl_secrets (view w) (namespace, secretName b) \<noteq> None"
  shows "\<exists>e w'. MariadbDatabase_Bind cp inst b w = (Err e, w') \<and> IsAlreadyExists e \<and>
    view w' = view w"
proof -
  from assms(2) obtain c where "l_getComposite (cp_client cp) mariaDBGroupVersionKind p w = Inr c"
    using get_composite_found by blast
  moreover from createBinding_again [OF assms(3)] obtain e w'
    where "createBinding cp b (ID inst) p w = (Err e, w')" "IsAlreadyExists e" "view w' = view w"
    by blast
  ultimately show ?thesis using assms(1) by (simp add: MariadbDatabase_Bind_def bindM_step)
qed

lemma db_Unbind_absent:
  assumes "cl_composites (view w) (mariaDBUserGroupVersionKind, b) = None"
  shows "\<exists>e. MariadbDatabase_Unbind cp b w = (Err e, w) \<and> IsNotFound e"
  using get_composite_missing [OF assms] mark_absent by blast

text \<open>A user composite that is not ready answers for its binding that it is not ready.\<close>

lemma db_GetBinding_not_ready:
  assumes "cl_composites (view w) (mariaDBUserGroupVersionKind, b) = Some c"
    and "cond_Status (c_ready c) \<noteq> ''True''"
  shows "MariadbDatabase_GetBinding cp inst b w = Err (Sentinel ErrBindingNotReady)"
  using get_composite_found [OF assms(1)] assms(2) by (simp add: MariadbDatabase_GetBinding_def)

end

section \<open>Ports\<close>

text \<open>An \<open>int32\<close> keeps a port as it is, and keeps any number modulo \<open>2 ^ 32\<close>.\<close>

lemma sint_port:
  assumes "- (2 ^ 31) \<le> n" and "n < 2 ^ 31"
  shows "sint (word_of_int n :: 32 word) = n"
  using assms by (simp add: signed_of_int signed_take_bit_int_eq_self)

lemma mapMariadbEndpoint_port:
  assumes "data SecretEndpointKey = Some host" and "data SecretPortKey = Some (show_int n)"
    and "- (2 ^ 63) \<le> n" and "n < 2 ^ 63"
  shows "mapMariadbEndpoint data = Ok \<lparr>Host = host, Port = word_of_int n, Protocol = ''tcp''\<rparr>"
  using assms by (simp add: mapMariadbEndpoint_def sget_def Atoi_show_int)

lemma sint_word_of_int:
  "sint (word_of_int n :: 32 word) = (n + 2 ^ 31) mod 2 ^ 32 - 2 ^ 31"
  by (simp add: signed_of_int signed_take_bit_eq_take_bit_shift take_bit_eq_mod)

lemma Atoi_out_of_range:
  assumes "n < - (2 ^ 63) \<or> 2 ^ 63 \<le> n"
  shows "Atoi (show_int n) = Err (LibError ''strconv.Atoi'')"
proof (cases "n < 0")
  case True
  with assms show ?thesis
    using show_nat_digits [of "nat (- n)"]
    by (simp add: Atoi_def show_int_def Let_def digits_value_show_nat)
next
  case False
  with assms show ?thesis
    using hd_show_nat [of "nat n"] show_nat_digits [of "nat n"]
    by (simp add: Atoi_def show_int_def Let_def digits_value_show_nat)
qed

lemma createCredentials_uri:
  "map_of (createCredentials e u pw db par cn m md) ''uri'' =
     Some (CString (''mysql://'' @ u @ '':'' @ pw @ ''@'' @ Host e @ '':'' @ show_int (sint (Port e)) @
       ''/'' @ db @ ''?reconnect=true''))"
  by (simp add: createCredentials_def Let_def secret_keys)

section \<open>Properties\<close>

text \<open>C32: The port of a MariaDB endpoint, for every number the connection secret may hold in decimal:
  a number of 64 bits is cut to 32 bits and read as a signed one, so a port is kept, in the
  endpoint and in the URI of the credentials, whenever it fits into 32 bits; a number beyond 64
  bits is an error.\<close>

theorem endpoint_port:
  assumes "data SecretEndpointKey = Some host" and "data SecretPortKey = Some (show_int n)"
  shows "if - (2 ^ 63) \<le> n \<and> n < 2 ^ 63
    then \<exists>e. mapMariadbEndpoint data = Ok e \<and> Host e = host \<and>
      sint (Port e) = (n + 2 ^ 31) mod 2 ^ 32 - 2 ^ 31 \<and>
      map_of (createCredentials e u pw db par cn m md) ''uri'' =
        Some (CString (''mysql://'' @ u @ '':'' @ pw @ ''@'' @ host @ '':'' @
          show_int ((n + 2 ^ 31) mod 2 ^ 32 - 2 ^ 31) @ ''/'' @ db @ ''?reconnect=true''))
    else \<exists>err. mapMariadbEndpoint data = Err err"
proof (cases "- (2 ^ 63) \<le> n \<and> n < 2 ^ 63")
  case True
  then have "mapMariadbEndpoint data = Ok \<lparr>Host = host, Port = word_of_int n, Protocol = ''tcp''\<rparr>"
    using mapMariadbEndpoint_port [of data host n] assms by simp
  moreover have "sint (word_of_int n :: 32 word) = (n + 2 ^ 31) mod 2 ^ 32 - 2 ^ 31"
    by (simp add: sint_word_of_int)
  ultimately show ?thesis using True createCredentials_uri by simp
next
  case False
  then have "Atoi (show_int n) = Err (LibError ''strconv.Atoi'')"
    using Atoi_out_of_range [of n] by linarith
  with False assms show ?thesis by (simp add: mapMariadbEndpoint_def sget_def)
qed

theorem endpoint_port_witness:
  "\<exists>e. mapMariadbEndpoint [SecretEndpointKey \<mapsto> ''10.0.0.1'', SecretPortKey \<mapsto> ''3306''] = Ok e \<and>
     sint (Port e) = 3306"
proof -
  have "show_int 3306 = ''3306''" by code_simp
  with endpoint_port [where data = "[SecretEndpointKey \<mapsto> ''10.0.0.1'', SecretPortKey \<mapsto> ''3306'']"
      and host = "''10.0.0.1''" and n = 3306 and u = "''''" and pw = "''''" and db = "''''"
      and par = "''''" and cn = "''''" and m = False and md = "''''"]
  show ?thesis by (auto simp: secret_keys)
qed

end
