(* ===== verification/Services.thy ===== *)
theory Services
  imports Service_Redis Service_Mariadb Service_Mariadb_Database
begin

text \<open>
  \<open>ServiceBinderFactory\<close> and the calls through the interfaces \<open>ServiceBinder\<close> and
  \<open>ProvisionValidater\<close> (\<open>pkg/crossplane/services.go\<close>). A binder holds a pointer to the instance,
  which is nil while a new instance is being provisioned; the methods that read the instance go
  through that pointer.
\<close>

datatype ServiceBinder =
    RedisServiceBinder "inst option"
  | MariadbServiceBinder "inst option"
  | MariadbDatabaseServiceBinder "inst option"

definition NewRedisServiceBinder :: "inst option \<Rightarrow> ServiceBinder" where
  [simp]: "NewRedisServiceBinder inst = RedisServiceBinder inst"

definition NewMariadbServiceBinder :: "inst option \<Rightarrow> ServiceBinder" where
  [simp]: "NewMariadbServiceBinder inst = MariadbServiceBinder inst"

definition NewMariadbDatabaseServiceBinder :: "inst option \<Rightarrow> ServiceBinder" where
  [simp]: "NewMariadbDatabaseServiceBinder inst = MariadbDatabaseServiceBinder inst"

definition ServiceBinderFactory :: "string \<Rightarrow> inst option \<Rightarrow> ServiceBinder result" where
  "ServiceBinderFactory serviceName inst =
     (if serviceName = RedisService then Ok (NewRedisServiceBinder inst)
      else if serviceName = MariaDBService then Ok (NewMariadbServiceBinder inst)
      else if serviceName = MariaDBDatabaseService then Ok (NewMariadbDatabaseServiceBinder inst)
      else Err (Errorf ''service binder %q not implemented'' [serviceName]))"

fun sb_Bind :: "'w Crossplane \<Rightarrow> ServiceBinder \<Rightarrow> string \<Rightarrow> ('w, Credentials) io" where
  "sb_Bind cp (RedisServiceBinder i) b =
     bindM (liftR (deref ''instance'' i)) (\<lambda>inst. Redis_Bind cp inst b)"
| "sb_Bind cp (MariadbServiceBinder i) b =
     bindM (liftR (deref ''instance'' i)) (\<lambda>inst. Mariadb_Bind inst b)"
| "sb_Bind cp (MariadbDatabaseServiceBinder i) b =
     bindM (liftR (deref ''instance'' i)) (\<lambda>inst. MariadbDatabase_Bind cp inst b)"

fun sb_Unbind :: "'w Crossplane \<Rightarrow> ServiceBinder \<Rightarrow> string \<Rightarrow> ('w, unit) io" where
  "sb_Unbind cp (RedisServiceBinder i) b = Redis_Unbind b"
| "sb_Unbind cp (MariadbServiceBinder i) b = Mariadb_Unbind b"
| "sb_Unbind cp (MariadbDatabaseServiceBinder i) b = MariadbDatabase_Unbind cp b"

fun sb_Deprovisionable :: "'w Crossplane \<Rightarrow> ServiceBinder \<Rightarrow> 'w \<Rightarrow> unit result" where
  "sb_Deprovisionable cp (RedisServiceBinder i) w = Redis_Deprovisionable w"
| "sb_Deprovisionable cp (MariadbServiceBinder i) w =
     bindR (deref ''instance'' i) (\<lambda>inst. Mariadb_Deprovisionable cp inst w)"
| "sb_Deprovisionable cp (MariadbDatabaseServiceBinder i) w =
     MariadbDatabase_Deprovisionable w"

fun sb_GetBinding :: "'w Crossplane \<Rightarrow> ServiceBinder \<Rightarrow> string \<Rightarrow> 'w \<Rightarrow> Credentials result" where
  "sb_GetBinding cp (RedisServiceBinder i) b w =
     bindR (deref ''instance'' i) (\<lambda>inst. Redis_GetBinding cp inst b w)"
| "sb_GetBinding cp (MariadbServiceBinder i) b w = Mariadb_GetBinding b w"
| "sb_GetBinding cp (MariadbDatabaseServiceBinder i) b w =
     bindR (deref ''instance'' i) (\<lambda>inst. MariadbDatabase_GetBinding cp inst b w)"

text \<open>
  The type assertion \<open>sb.(ProvisionValidater)\<close>: \<open>None\<close> for the Galera cluster's binder, which has no
  such method. The validators do not read the instance.
\<close>

fun as_ProvisionValidater ::
  "'w Crossplane \<Rightarrow> ServiceBinder \<Rightarrow> (raw_json \<Rightarrow> 'w \<Rightarrow> go_map result) option" where
  "as_ProvisionValidater cp (RedisServiceBinder i) =
     Some (\<lambda>params w. Redis_ValidateProvisionParams params)"
| "as_ProvisionValidater cp (MariadbServiceBinder i) = None"
| "as_ProvisionValidater cp (MariadbDatabaseServiceBinder i) =
     Some (MariadbDatabase_ValidateProvisionParams cp)"

section \<open>Lemmas\<close>

text \<open>The factory and the label parser agree on which services there are.\<close>

lemma ServiceBinderFactory_Ok_iff:
  "(\<exists>sb. ServiceBinderFactory name i = Ok sb) \<longleftrightarrow> IsValid name"
  by (simp add: ServiceBinderFactory_def IsValid_def)

lemma ServiceBinderFactory_cases:
  assumes "ServiceBinderFactory name i = Ok sb"
  obtains (redis) "name = RedisService" "sb = RedisServiceBinder i"
    | (mariadb) "name = MariaDBService" "sb = MariadbServiceBinder i"
    | (database) "name = MariaDBDatabaseService" "sb = MariadbDatabaseServiceBinder i"
  using assms by (auto simp: ServiceBinderFactory_def split: if_splits)

lemma ServiceBinderFactory_simps [simp]:
  "ServiceBinderFactory RedisService i = Ok (RedisServiceBinder i)"
  "ServiceBinderFactory MariaDBService i = Ok (MariadbServiceBinder i)"
  "ServiceBinderFactory MariaDBDatabaseService i = Ok (MariadbDatabaseServiceBinder i)"
  by (simp_all add: ServiceBinderFactory_def)

lemma ServiceBinderFactory_not_Panic [simp]: "ServiceBinderFactory name i \<noteq> Panic p"
  by (simp add: ServiceBinderFactory_def)

text \<open>The binder for an instance, whichever service it is of, as the broker uses it.\<close>

definition instance_Bind :: "'w Crossplane \<Rightarrow> inst \<Rightarrow> string \<Rightarrow> ('w, Credentials) io" where
  "instance_Bind cp inst b =
     bindM (liftR (ServiceBinderFactory (ServiceName (i_Labels inst)) (Some inst)))
       (\<lambda>sb. sb_Bind cp sb b)"

definition instance_Unbind :: "'w Crossplane \<Rightarrow> inst \<Rightarrow> string \<Rightarrow> ('w, unit) io" where
  "instance_Unbind cp inst b =
     bindM (liftR (ServiceBinderFactory (ServiceName (i_Labels inst)) (Some inst)))
       (\<lambda>sb. sb_Unbind cp sb b)"

lemma instance_Bind_cases:
  "instance_Bind cp inst b =
     (if ServiceName (i_Labels inst) = RedisService then Redis_Bind cp inst b
      else if ServiceName (i_Labels inst) = MariaDBService then Mariadb_Bind inst b
      else if ServiceName (i_Labels inst) = MariaDBDatabaseService
      then MariadbDatabase_Bind cp inst b
      else failM (Errorf ''service binder %q not implemented'' [ServiceName (i_Labels inst)]))"
  by (rule ext) (simp add: instance_Bind_def ServiceBinderFactory_def)

lemma instance_Unbind_cases:
  "instance_Unbind cp inst b =
     (if ServiceName (i_Labels inst) = RedisService then Redis_Unbind b
      else if ServiceName (i_Labels inst) = MariaDBService then Mariadb_Unbind b
      else if ServiceName (i_Labels inst) = MariaDBDatabaseService
      then MariadbDatabase_Unbind cp b
      else failM (Errorf ''service binder %q not implemented'' [ServiceName (i_Labels inst)]))"
  by (rule ext) (simp add: instance_Unbind_def ServiceBinderFactory_def)

text \<open>The contract holds through the factory: each case is one of the three implementations.\<close>

lemma instance_Bind_by_service:
  assumes "P (MariadbDatabase_Bind cp i b)" and "\<And>m. read_only m \<Longrightarrow> P m"
  shows "P (instance_Bind cp i b)"
  unfolding instance_Bind_cases using assms(1)
  by (auto intro!: assms(2) Redis_calls_read_only Mariadb_calls_read_only read_only_basic)

lemma instance_Unbind_by_service:
  assumes "P (MariadbDatabase_Unbind cp b)" and "\<And>m. read_only m \<Longrightarrow> P m"
  shows "P (instance_Unbind cp i b)"
  unfolding instance_Unbind_cases using assms(1)
  by (auto intro!: assms(2) Redis_calls_read_only Mariadb_calls_read_only read_only_basic)

sublocale crossplane_client \<subseteq> any_service: service_binder view "Namespace (cp_config cp)"
    "instance_Bind cp" "instance_Unbind cp"
proof (unfold_locales, goal_cases)
  case (1 b i)
  show ?case
    by (rule instance_Bind_by_service) (rule mariadb_database.bind_frame writes_only_read_only; assumption?)+
next
  case (2 b i)
  show ?case
    by (rule instance_Unbind_by_service) (rule mariadb_database.unbind_frame writes_only_read_only; assumption?)+
next
  case (3 i b)
  show ?case
    by (rule instance_Bind_by_service)
      (use mariadb_database.bind_persists in \<open>auto simp: keeps_def\<close>)
next
  case (4 i b)
  show ?case
    by (rule instance_Bind_by_service)
      (use mariadb_database.bind_stores in \<open>auto simp: keeps_def\<close>)
next
  case (5 i b)
  show ?case
    by (rule instance_Unbind_by_service)
      (use mariadb_database.unbind_stores in \<open>auto simp: keeps_def\<close>)
qed

end
