(* ===== verification/Broker.thy ===== *)
theory Broker
  imports Services
begin

text \<open>
  \<open>pkg/brokerapi/broker.go\<close> and \<open>pkg/brokerapi/domain.go\<close>: the broker's ten operations over the
  crossplane client, and the catalog entries it builds.
\<close>

section \<open>The catalog\<close>

text \<open>
  Decoding the JSON in the metadata and tags annotations is left to library functions: each
  answers what it decoded, and the error if there is one (what was decoded before an error stays).
\<close>

record ('m, 'pm) catalog_lib =
  DecodeMetadata :: "string \<Rightarrow> 'm \<times> go_error option"
  SetDisplayName :: "string \<Rightarrow> 'm \<Rightarrow> 'm"
  DecodePlanMetadata :: "string \<Rightarrow> 'pm \<times> go_error option"
  SetPlanDisplayName :: "string \<Rightarrow> 'pm \<Rightarrow> 'pm"
  DecodeTags :: "string \<Rightarrow> string list \<times> go_error option"

record 'pm ServicePlan =
  sp_ID :: string
  sp_Name :: string
  sp_Description :: string
  sp_Free :: bool
  sp_Bindable :: bool
  sp_Metadata :: 'pm

text \<open>\<open>sv_Plans\<close> is \<open>None\<close> for the nil slice.\<close>

record ('m, 'pm) Service =
  sv_ID :: string
  sv_Name :: string
  sv_Description :: string
  sv_Bindable :: bool
  sv_InstancesRetrievable :: bool
  sv_BindingsRetrievable :: bool
  sv_PlanUpdatable :: bool
  sv_Plans :: "'pm ServicePlan list option"
  sv_Metadata :: 'm
  sv_Tags :: "string list"

definition newService ::
  "('m, 'pm) catalog_lib \<Rightarrow> ServiceXRD \<Rightarrow> 'pm ServicePlan list option \<Rightarrow> ('m, 'pm) Service" where
  "newService x service plans =
     (let (m, err) = DecodeMetadata x (sx_Metadata service);
          md = (if err \<noteq> None then SetDisplayName x (ServiceName (sx_Labels service)) m else m)
      in \<lparr>sv_ID = ServiceID (sx_Labels service), sv_Name = ServiceName (sx_Labels service),
          sv_Description = sx_Description service, sv_Bindable = Bindable (sx_Labels service),
          sv_InstancesRetrievable = True, sv_BindingsRetrievable = Bindable (sx_Labels service),
          sv_PlanUpdatable = Updatable (sx_Labels service), sv_Plans = plans, sv_Metadata = md,
          sv_Tags = fst (DecodeTags x (sx_Tags service))\<rparr>)"

definition newServicePlan ::
  "('m, 'pm) catalog_lib \<Rightarrow> plan \<Rightarrow> 'pm ServicePlan result" where
  "newServicePlan x plan =
     bindR (deref ''plan.Labels'' (p_Labels plan)) (\<lambda>l.
     let (m, err) = DecodePlanMetadata x (p_Metadata plan);
         md = (if err \<noteq> None then SetPlanDisplayName x (PlanName l) m else m)
     in Ok \<lparr>sp_ID = co_name (p_Composition plan), sp_Name = PlanName l,
            sp_Description = p_Description plan, sp_Free = False, sp_Bindable = Bindable l,
            sp_Metadata = md\<rparr>)"

section \<open>The broker\<close>

record 'w Broker =
  br_cp :: "'w Crossplane"
  br_planComparer :: PlanUpdateChecker

definition NewBroker :: "'w Crossplane \<Rightarrow> PlanUpdateChecker \<Rightarrow> 'w Broker" where
  "NewBroker cp pc = \<lparr>br_cp = cp, br_planComparer = pc\<rparr>"

definition servicePlans ::
  "'w Broker \<Rightarrow> ('m, 'pm) catalog_lib \<Rightarrow> string list \<Rightarrow> 'w \<Rightarrow> 'pm ServicePlan list result" where
  "servicePlans b x serviceIDs w =
     bindR (Plans (br_cp b) serviceIDs w) (\<lambda>compositions. mapR (newServicePlan x) compositions)"

text \<open>A service whose plans cannot be retrieved stays in the catalog, without plans.\<close>

fun services_loop ::
  "'w Broker \<Rightarrow> ('m, 'pm) catalog_lib \<Rightarrow> ServiceXRD list \<Rightarrow> 'w \<Rightarrow> ('m, 'pm) Service list result" where
  "services_loop b x [] w = Ok []"
| "services_loop b x (xrd # xrds) w =
     bindR (case servicePlans b x [ServiceID (sx_Labels xrd)] w of
              Ok plans \<Rightarrow> Ok (Some plans)
            | Err e \<Rightarrow> Ok None
            | Panic p \<Rightarrow> Panic p) (\<lambda>plans.
     bindR (services_loop b x xrds w) (\<lambda>services.
     Ok (newService x xrd plans # services)))"

definition Services ::
  "'w Broker \<Rightarrow> ('m, 'pm) catalog_lib \<Rightarrow> 'w \<Rightarrow> ('m, 'pm) Service list result" where
  "Services b x w = bindR (ServiceXRDs (br_cp b) w) (\<lambda>xrds. services_loop b x xrds w)"

definition getPlanInstance :: "'w Broker \<Rightarrow> string \<Rightarrow> string \<Rightarrow> 'w \<Rightarrow> (plan \<times> inst) result" where
  "getPlanInstance b planID instanceID w =
     (if planID = ''''
      then bindR (FindInstanceWithoutPlan (br_cp b) instanceID w) (\<lambda>found.
           case found of
             None \<Rightarrow> Err (Failure (LibFailure ErrInstanceDoesNotExist))
           | Some (inst, p) \<Rightarrow> Ok (p, inst))
      else bindR (Plan (br_cp b) planID w) (\<lambda>p.
           bindR (Instance (br_cp b) instanceID p w) (\<lambda>found.
           case found of
             None \<Rightarrow> Err (Failure (LibFailure ErrInstanceDoesNotExist))
           | Some inst \<Rightarrow> Ok (p, inst))))"

definition validateParams ::
  "'w Broker \<Rightarrow> inst option \<Rightarrow> string \<Rightarrow> raw_json \<Rightarrow> 'w \<Rightarrow> go_map result" where
  "validateParams b inst name rawParameters w =
     bindR (ServiceBinderFactory name inst) (\<lambda>sb.
     case as_ProvisionValidater (br_cp b) sb of
       None \<Rightarrow> Ok (GoMap [])
     | Some validate \<Rightarrow>
         mapErr (\<lambda>e. Failure (NewFailure e 400 ''validate-update-failed'' None))
           (validate rawParameters w))"

section \<open>Provisioning\<close>

record ProvisionedServiceSpec =
  ps_IsAsync :: bool
  ps_AlreadyExists :: bool

definition Provision ::
  "'w Broker \<Rightarrow> ReqContext \<Rightarrow> string \<Rightarrow> string \<Rightarrow> raw_json option \<Rightarrow>
     ('w, ProvisionedServiceSpec) io" where
  "Provision b rctx instanceID planID params =
     bindM (readM (Plan (br_cp b) planID)) (\<lambda>plan.
     bindM (readM (Instance (br_cp b) instanceID plan)) (\<lambda>found.
     case found of
       Some inst \<Rightarrow>
         if params = None then retM \<lparr>ps_IsAsync = False, ps_AlreadyExists = True\<rparr>
         else failM (Failure (LibFailure ErrInstanceAlreadyExists))
     | None \<Rightarrow>
         bindM (case params of
                  None \<Rightarrow> retM (GoMap [])
                | Some raw \<Rightarrow>
                    bindM (liftR (deref ''plan.Labels'' (p_Labels plan))) (\<lambda>pl.
                    readM (validateParams b None (ServiceName pl) raw))) (\<lambda>ap.
         bindM (CreateInstance (br_cp b) rctx instanceID plan ap) (\<lambda>_.
         retM \<lparr>ps_IsAsync = True, ps_AlreadyExists = False\<rparr>))))"

record DeprovisionServiceSpec =
  ds_IsAsync :: bool

definition Deprovision ::
  "'w Broker \<Rightarrow> string \<Rightarrow> string \<Rightarrow> ('w, DeprovisionServiceSpec) io" where
  "Deprovision b instanceID planID =
     bindM (readM (getPlanInstance b planID instanceID)) (\<lambda>(p, inst).
     bindM (liftR (ServiceBinderFactory (ServiceName (i_Labels inst)) (Some inst))) (\<lambda>sb.
     bindM (readM (sb_Deprovisionable (br_cp b) sb)) (\<lambda>_.
     bindM (DeleteInstance (br_cp b) (c_name (i_Composite inst)) p) (\<lambda>_.
     retM \<lparr>ds_IsAsync = False\<rparr>))))"

section \<open>Binding\<close>

record Binding =
  bi_IsAsync :: bool
  bi_Credentials :: Credentials

record UnbindSpec =
  ub_IsAsync :: bool

definition Bind ::
  "'w Broker \<Rightarrow> string \<Rightarrow> string \<Rightarrow> string \<Rightarrow> bool \<Rightarrow> ('w, Binding) io" where
  "Bind b instanceID bindingID planID asyncAllowed =
     bindM (readM (getPlanInstance b planID instanceID)) (\<lambda>(_, inst).
     if \<not> Ready inst then failM (Failure (LibFailure ErrConcurrentInstanceAccess))
     else
       bindM (liftR (ServiceBinderFactory (ServiceName (i_Labels inst)) (Some inst))) (\<lambda>sb.
       bindM (sb_Bind (br_cp b) sb bindingID) (\<lambda>creds.
       retM \<lparr>bi_IsAsync = asyncAllowed, bi_Credentials = creds\<rparr>)))"

definition Unbind ::
  "'w Broker \<Rightarrow> string \<Rightarrow> string \<Rightarrow> string \<Rightarrow> ('w, UnbindSpec) io" where
  "Unbind b instanceID bindingID planID =
     bindM (readM (getPlanInstance b planID instanceID)) (\<lambda>(_, inst).
     if \<not> Ready inst then failM (Failure (LibFailure ErrConcurrentInstanceAccess))
     else
       bindM (liftR (ServiceBinderFactory (ServiceName (i_Labels inst)) (Some inst))) (\<lambda>sb.
       bindM (handleM (sb_Unbind (br_cp b) sb bindingID)
                (\<lambda>e. if IsNotFound e then Err (Failure (LibFailure ErrBindingDoesNotExist))
                     else Err e)) (\<lambda>_.
       retM \<lparr>ub_IsAsync = False\<rparr>)))"

record GetBindingSpec =
  gb_Credentials :: Credentials

definition GetBinding ::
  "'w Broker \<Rightarrow> string \<Rightarrow> string \<Rightarrow> string \<Rightarrow> 'w \<Rightarrow> GetBindingSpec result" where
  "GetBinding b instanceID bindingID planID w =
     bindR (getPlanInstance b planID instanceID w) (\<lambda>(_, inst).
     if \<not> Ready inst then Err (Failure (LibFailure ErrConcurrentInstanceAccess))
     else
       bindR (ServiceBinderFactory (ServiceName (i_Labels inst)) (Some inst)) (\<lambda>sb.
       bindR (sb_GetBinding (br_cp b) sb bindingID w) (\<lambda>creds.
       Ok \<lparr>gb_Credentials = creds\<rparr>)))"

section \<open>Polling\<close>

datatype LastOperationState = InProgress | Succeeded | Failed

text \<open>A description is a text, or the text of an error (\<open>err.Error()\<close>).\<close>

datatype description = Text string | ErrorText go_error

record LastOperationSpec =
  lo_State :: LastOperationState
  lo_Description :: description

definition ReasonAvailable :: string where "ReasonAvailable = ''Available''"
definition ReasonUnavailable :: string where "ReasonUnavailable = ''Unavailable''"
definition ReasonCreating :: string where "ReasonCreating = ''Creating''"
definition ReasonDeleting :: string where "ReasonDeleting = ''Deleting''"

lemmas reasons =
  ReasonAvailable_def ReasonUnavailable_def ReasonCreating_def ReasonDeleting_def

definition reason_state :: "string \<Rightarrow> LastOperationState" where
  "reason_state reason =
     (if reason = ReasonAvailable then Succeeded
      else if reason = ReasonCreating then InProgress
      else if reason = ReasonUnavailable \<or> reason = ReasonDeleting then Failed
      else InProgress)"

definition LastOperation :: "'w Broker \<Rightarrow> string \<Rightarrow> string \<Rightarrow> 'w \<Rightarrow> LastOperationSpec result" where
  "LastOperation b instanceID planID w =
     bindR (getPlanInstance b planID instanceID w) (\<lambda>(_, inst).
     let reason = cond_Reason (c_ready (i_Composite inst))
     in Ok \<lparr>lo_State = reason_state reason,
            lo_Description = Text (if length reason > 0 then reason else ''Unknown'')\<rparr>)"

definition LastBindingOperation ::
  "'w Broker \<Rightarrow> string \<Rightarrow> string \<Rightarrow> string \<Rightarrow> 'w \<Rightarrow> LastOperationSpec result" where
  "LastBindingOperation b instanceID planID bindingID w =
     bindR (getPlanInstance b planID instanceID w) (\<lambda>(_, inst).
     bindR (ServiceBinderFactory (ServiceName (i_Labels inst)) (Some inst)) (\<lambda>sb.
     case sb_GetBinding (br_cp b) sb bindingID w of
       Ok creds \<Rightarrow> Ok \<lparr>lo_State = Succeeded, lo_Description = Text ''''\<rparr>
     | Panic p \<Rightarrow> Panic p
     | Err e \<Rightarrow>
         if is_sentinel ErrBindingNotReady e
         then Ok \<lparr>lo_State = InProgress, lo_Description = Text ''''\<rparr>
         else case as_failure e of
             Some f \<Rightarrow> Err (Failure f)
           | None \<Rightarrow> Ok \<lparr>lo_State = Failed, lo_Description = ErrorText e\<rparr>))"

section \<open>Reading and updating an instance\<close>

record GetInstanceDetailsSpec =
  gi_ServiceID :: string
  gi_PlanID :: string
  gi_Parameters :: "(string \<times> json) list option"

definition GetInstance ::
  "'w Broker \<Rightarrow> string \<Rightarrow> string \<Rightarrow> 'w \<Rightarrow> GetInstanceDetailsSpec result" where
  "GetInstance b instanceID planID w =
     bindR (getPlanInstance b planID instanceID w) (\<lambda>(p, inst).
     bindR (deref ''p.Labels'' (p_Labels p)) (\<lambda>pl.
     let params = Parameters inst
     in Ok \<lparr>gi_ServiceID = ServiceID pl, gi_PlanID = co_name (p_Composition p),
            gi_Parameters = (if length params > 0 then Some params else None)\<rparr>))"

text \<open>
  The composite of the instance on its new plan. Its label map is not nil here: the labels of an
  instance have been parsed, and parsing needs the service name.
\<close>

definition on_plan :: "plan \<Rightarrow> composite \<Rightarrow> composite" where
  "on_plan np c =
     c\<lparr>c_compositionRef := Some (co_name (p_Composition np)),
       c_labels := (c_labels c)
         (PlanNameLabel \<mapsto> sget (co_labels (p_Composition np)) PlanNameLabel,
          SLALabel \<mapsto> sget (co_labels (p_Composition np)) SLALabel)\<rparr>"

definition Update ::
  "'w Broker \<Rightarrow> string \<Rightarrow> string \<Rightarrow> string \<Rightarrow> string \<Rightarrow> raw_json option \<Rightarrow> ('w, unit) io" where
  "Update b instanceID serviceID oldPlanID newPlanID rawParameters =
     bindM (readM (getPlanInstance b oldPlanID instanceID)) (\<lambda>(p, inst).
     if ServiceID (i_Labels inst) \<noteq> serviceID then failM (Sentinel ErrServiceUpdateNotPermitted)
     else
       bindM (readM (Plan (br_cp b) newPlanID)) (\<lambda>np.
       bindM (liftR (AllowUpdate (br_planComparer b) p np)) (\<lambda>ok.
       if \<not> ok then failM (Sentinel ErrPlanChangeNotPermitted)
       else
         let inst1 = inst\<lparr>i_Composite := on_plan np (i_Composite inst)\<rparr>
         in bindM (case rawParameters of
                     None \<Rightarrow> retM (GoMap [])
                   | Some raw \<Rightarrow>
                       if raw_is_empty rawParameters then retM (GoMap [])
                       else readM (validateParams b (Some inst1) (ServiceName (i_Labels inst)) raw))
              (\<lambda>ap. UpdateInstance (br_cp b) inst1 np ap))))"

end
