(* ===== verification/Broker_API.thy ===== *)
theory Broker_API
  imports Broker
begin

text \<open>
  \<open>pkg/brokerapi/brokerapi.go\<close>: the operations as the OSB API calls them. Each sets up its request
  context, calls the broker, and turns an error into a failure response with the request's
  correlation id. Logging is left out.
\<close>

section \<open>Errors of the API\<close>

text \<open>
  \<open>AppendErrorMessage f i\<close> stands for \<open>f.AppendErrorMessage\<close> with the text
  \<open>(correlation-id: %q)\<close> on \<open>i\<close>.
\<close>

definition APIResponseError :: "ReqContext \<Rightarrow> go_error \<Rightarrow> go_error" where
  "APIResponseError rctx err =
     (case as_failure err of
        Some apiErr \<Rightarrow> Failure (AppendErrorMessage apiErr (rc_CorrelationID rctx))
      | None \<Rightarrow>
          let err1 = (case as_status err of
                 Some kErr \<Rightarrow>
                   Failure (NewFailure (StatusError kErr) (se_code kErr) ''invalid''
                     (Some (se_reason kErr)))
               | None \<Rightarrow> err)
          in Failure (NewFailure
               (Wrapf ''%w (correlation-id: %q)'' [rc_CorrelationID rctx] err1)
               500 ''internal-server-error'' None))"

text \<open>\<open>return res, APIResponseError(rctx, err)\<close>, for an operation that reads and one that writes.\<close>

definition api_result :: "ReqContext \<Rightarrow> 'a result \<Rightarrow> 'a result" where
  "api_result rctx r = mapErr (APIResponseError rctx) r"

definition api_call :: "ReqContext \<Rightarrow> ('w, 'a) io \<Rightarrow> ('w, 'a) io" where
  "api_call rctx m = handleM m (\<lambda>e. Err (APIResponseError rctx e))"

text \<open>
  The HTTP status of a failure response: the one it was built with. The statuses of the predefined
  responses belong to the library and are the argument \<open>predefined\<close>; appending a message keeps
  the status.
\<close>

fun failure_status :: "(lib_failure \<Rightarrow> int) \<Rightarrow> failure_response \<Rightarrow> int" where
  "failure_status predefined (LibFailure f) = predefined f"
| "failure_status predefined (NewFailure e code action key) = code"
| "failure_status predefined (AppendErrorMessage f m) = failure_status predefined f"

section \<open>Details of the requests\<close>

record ProvisionDetails =
  pd_ServiceID :: string
  pd_PlanID :: string
  pd_RawParameters :: "raw_json option"

record UpdateDetails =
  ud_ServiceID :: string
  ud_PlanID :: string
  ud_PreviousPlanID :: string
  ud_RawParameters :: "raw_json option"

text \<open>The details of the other requests, which name a service and a plan.\<close>

record PlanDetails =
  d_ServiceID :: string
  d_PlanID :: string

section \<open>The operations\<close>

record 'w BrokerAPI =
  ba_broker :: "'w Broker"

definition New_BrokerAPI :: "'w Crossplane \<Rightarrow> PlanUpdateChecker \<Rightarrow> 'w BrokerAPI" where
  "New_BrokerAPI cp pc = \<lparr>ba_broker = NewBroker cp pc\<rparr>"

definition API_Services ::
  "'w BrokerAPI \<Rightarrow> ('m, 'pm) catalog_lib \<Rightarrow> ctx \<Rightarrow> 'w \<Rightarrow> ('m, 'pm) Service list result" where
  "API_Services b x ctx w = api_result (NewReqContext ctx) (Services (ba_broker b) x w)"

definition API_Provision ::
  "'w BrokerAPI \<Rightarrow> ctx \<Rightarrow> string \<Rightarrow> ProvisionDetails \<Rightarrow> bool \<Rightarrow> ('w, ProvisionedServiceSpec) io" where
  "API_Provision b ctx instanceID details asyncAllowed =
     (let rctx = NewReqContext ctx
      in if \<not> asyncAllowed
         then failM (APIResponseError rctx (Failure (LibFailure ErrAsyncRequired)))
         else api_call rctx
                (Provision (ba_broker b) rctx instanceID (pd_PlanID details)
                   (pd_RawParameters details)))"

definition API_Deprovision ::
  "'w BrokerAPI \<Rightarrow> ctx \<Rightarrow> string \<Rightarrow> PlanDetails \<Rightarrow> bool \<Rightarrow> ('w, DeprovisionServiceSpec) io" where
  "API_Deprovision b ctx instanceID details asyncAllowed =
     api_call (NewReqContext ctx) (Deprovision (ba_broker b) instanceID (d_PlanID details))"

definition API_GetInstance ::
  "'w BrokerAPI \<Rightarrow> ctx \<Rightarrow> string \<Rightarrow> PlanDetails \<Rightarrow> 'w \<Rightarrow> GetInstanceDetailsSpec result" where
  "API_GetInstance b ctx instanceID details w =
     api_result (NewReqContext ctx) (GetInstance (ba_broker b) instanceID (d_PlanID details) w)"

text \<open>The \<open>switch\<close> on the two errors of a refused update.\<close>

definition update_failure :: "go_error \<Rightarrow> go_error" where
  "update_failure err =
     (if err = Sentinel ErrPlanChangeNotPermitted \<or> err = Sentinel ErrServiceUpdateNotPermitted
      then Failure (NewFailure err 422 ''update-instance-failed'' None) else err)"

definition API_Update ::
  "'w BrokerAPI \<Rightarrow> ctx \<Rightarrow> string \<Rightarrow> UpdateDetails \<Rightarrow> bool \<Rightarrow> ('w, unit) io" where
  "API_Update b ctx instanceID details asyncAllowed =
     handleM
       (Update (ba_broker b) instanceID (ud_ServiceID details) (ud_PreviousPlanID details)
          (ud_PlanID details) (ud_RawParameters details))
       (\<lambda>err. Err (APIResponseError (NewReqContext ctx) (update_failure err)))"

definition API_LastOperation ::
  "'w BrokerAPI \<Rightarrow> ctx \<Rightarrow> string \<Rightarrow> PlanDetails \<Rightarrow> 'w \<Rightarrow> LastOperationSpec result" where
  "API_LastOperation b ctx instanceID details w =
     api_result (NewReqContext ctx) (LastOperation (ba_broker b) instanceID (d_PlanID details) w)"

definition API_Bind ::
  "'w BrokerAPI \<Rightarrow> ctx \<Rightarrow> string \<Rightarrow> string \<Rightarrow> PlanDetails \<Rightarrow> bool \<Rightarrow> ('w, Binding) io" where
  "API_Bind b ctx instanceID bindingID details asyncAllowed =
     api_call (NewReqContext ctx)
       (Bind (ba_broker b) instanceID bindingID (d_PlanID details) asyncAllowed)"

definition API_Unbind ::
  "'w BrokerAPI \<Rightarrow> ctx \<Rightarrow> string \<Rightarrow> string \<Rightarrow> PlanDetails \<Rightarrow> bool \<Rightarrow> ('w, UnbindSpec) io" where
  "API_Unbind b ctx instanceID bindingID details asyncAllowed =
     api_call (NewReqContext ctx)
       (Unbind (ba_broker b) instanceID bindingID (d_PlanID details))"

definition API_GetBinding ::
  "'w BrokerAPI \<Rightarrow> ctx \<Rightarrow> string \<Rightarrow> string \<Rightarrow> PlanDetails \<Rightarrow> 'w \<Rightarrow> GetBindingSpec result" where
  "API_GetBinding b ctx instanceID bindingID details w =
     api_result (NewReqContext ctx)
       (GetBinding (ba_broker b) instanceID bindingID (d_PlanID details) w)"

definition API_LastBindingOperation ::
  "'w BrokerAPI \<Rightarrow> ctx \<Rightarrow> string \<Rightarrow> string \<Rightarrow> PlanDetails \<Rightarrow> 'w \<Rightarrow> LastOperationSpec result" where
  "API_LastBindingOperation b ctx instanceID bindingID details w =
     api_result (NewReqContext ctx)
       (LastBindingOperation (ba_broker b) instanceID (d_PlanID details) bindingID w)"

section \<open>Lemmas\<close>

text \<open>Every error leaves as a failure response.\<close>

lemma APIResponseError_failure:
  obtains f where "APIResponseError rctx e = Failure f"
  by (cases "as_failure e") (auto simp: APIResponseError_def Let_def)

lemma APIResponseError_Some:
  "as_failure e = Some f \<Longrightarrow>
     APIResponseError rctx e = Failure (AppendErrorMessage f (rc_CorrelationID rctx))"
  by (simp add: APIResponseError_def)

lemma APIResponseError_None:
  "as_failure e = None \<Longrightarrow>
     \<exists>e'. APIResponseError rctx e = Failure (NewFailure e' 500 ''internal-server-error'' None)"
  by (auto simp: APIResponseError_def Let_def)

lemma api_result_Ok_iff [go_inv]: "api_result rctx r = Ok a \<longleftrightarrow> r = Ok a"
  by (simp add: api_result_def go_inv)

lemma snd_api_call [simp]: "snd (api_call rctx m w) = snd (m w)"
  by (simp add: api_call_def)

text \<open>
  A failure response keeps its status, and only gets the correlation id of the request appended;
  every other error becomes an internal server error, and the code of a Kubernetes error ends up
  inside its text only.
\<close>

lemma api_error_status:
  "\<exists>f. APIResponseError rctx e = Failure f \<and>
     failure_status predefined f =
       (case as_failure e of Some f' \<Rightarrow> failure_status predefined f' | None \<Rightarrow> 500) \<and>
     (case as_failure e of
        Some f' \<Rightarrow> f = AppendErrorMessage f' (rc_CorrelationID rctx)
      | None \<Rightarrow> \<exists>e'. f = NewFailure (Wrapf ''%w (correlation-id: %q)'' [rc_CorrelationID rctx] e')
          500 ''internal-server-error'' None \<and>
          (case as_status e of
             Some k \<Rightarrow> e' = Failure (NewFailure (StatusError k) (se_code k) ''invalid'' (Some (se_reason k)))
           | None \<Rightarrow> e' = e))"
  by (cases "as_failure e"; cases "as_status e") (simp_all add: APIResponseError_def Let_def)

section \<open>What the API answers\<close>

text \<open>
  The status that an error of the broker deserves, here and for an update; and the answer \<open>r'\<close> of
  the API to the outcome \<open>r\<close> of an operation: values and panics pass, an error becomes a failure
  response with its status.
\<close>

definition error_status :: "(lib_failure \<Rightarrow> int) \<Rightarrow> go_error \<Rightarrow> int" where
  "error_status predefined e =
     (case as_failure e of Some f \<Rightarrow> failure_status predefined f | None \<Rightarrow> 500)"

definition update_status :: "(lib_failure \<Rightarrow> int) \<Rightarrow> go_error \<Rightarrow> int" where
  "update_status predefined e =
     (if e = Sentinel ErrPlanChangeNotPermitted \<or> e = Sentinel ErrServiceUpdateNotPermitted then 422
      else error_status predefined e)"

fun answers :: "(lib_failure \<Rightarrow> int) \<Rightarrow> (go_error \<Rightarrow> int) \<Rightarrow> 'a result \<Rightarrow> 'a result \<Rightarrow> bool" where
  "answers predefined st (Ok a) r' = (r' = Ok a)"
| "answers predefined st (Panic p) r' = (r' = Panic p)"
| "answers predefined st (Err e) (Err (Failure f)) = (failure_status predefined f = st e)"
| "answers predefined st (Err e) r' = False"

lemma answers_Err: "answers predefined (error_status predefined) (Err e) (Err (APIResponseError rctx e))"
proof -
  from api_error_status [of rctx e predefined] obtain f
    where "APIResponseError rctx e = Failure f" "failure_status predefined f = error_status predefined e"
    unfolding error_status_def by blast
  then show ?thesis by simp
qed

lemma answers_update_failure:
  "answers predefined (update_status predefined) (Err e) (Err (APIResponseError rctx (update_failure e)))"
proof (cases "e = Sentinel ErrPlanChangeNotPermitted \<or> e = Sentinel ErrServiceUpdateNotPermitted")
  case True
  then show ?thesis by (auto simp: update_failure_def update_status_def APIResponseError_def)
next
  case False
  with answers_Err [of predefined e rctx] show ?thesis
    by (cases "APIResponseError rctx e") (simp_all add: update_failure_def update_status_def)
qed

lemma answers_api_result: "answers predefined (error_status predefined) r (api_result rctx r)"
  by (cases r) (simp_all add: api_result_def answers_Err)

lemma answers_handleM:
  assumes "\<And>e. answers predefined st (Err e) (h e)"
  shows "answers predefined st (fst (m w)) (fst (handleM m h w))"
  using assms by (cases "m w"; cases "fst (m w)") (auto simp: handleM_def)

lemma answers_api_call: "answers predefined (error_status predefined) (fst (m w)) (fst (api_call rctx m w))"
  unfolding api_call_def by (rule answers_handleM) (rule answers_Err)

lemma answers_api_update:
  "answers predefined (update_status predefined) (fst (m w))
     (fst (handleM m (\<lambda>e. Err (APIResponseError rctx (update_failure e))) w))"
  by (rule answers_handleM) (rule answers_update_failure)

section \<open>Properties\<close>

text \<open>C25: The API answers what the broker does: a value or a panic of the operation is passed on, and
  every error becomes a failure response, with the status of the failure response that the error
  holds and 500 for any other, those of the Kubernetes API included; only a refused update is
  a 422, and a provision that may not be asynchronous is refused before it starts. Turning the
  outcome into an answer changes nothing in the cluster.\<close>

theorem api_answers:
  "answers pre (error_status pre) (Services (ba_broker b) x w) (API_Services b x ctx w) \<and>
   (if async
    then answers pre (error_status pre)
        (fst (Provision (ba_broker b) (NewReqContext ctx) i (pd_PlanID pd) (pd_RawParameters pd) w))
        (fst (API_Provision b ctx i pd async w)) \<and>
      snd (API_Provision b ctx i pd async w) =
        snd (Provision (ba_broker b) (NewReqContext ctx) i (pd_PlanID pd) (pd_RawParameters pd) w)
    else API_Provision b ctx i pd async w =
      (Err (Failure (AppendErrorMessage (LibFailure ErrAsyncRequired)
         (rc_CorrelationID (NewReqContext ctx)))), w)) \<and>
   answers pre (error_status pre) (fst (Deprovision (ba_broker b) i (d_PlanID d) w))
     (fst (API_Deprovision b ctx i d async w)) \<and>
   snd (API_Deprovision b ctx i d async w) = snd (Deprovision (ba_broker b) i (d_PlanID d) w) \<and>
   answers pre (error_status pre) (GetInstance (ba_broker b) i (d_PlanID d) w) (API_GetInstance b ctx i d w) \<and>
   answers pre (update_status pre)
     (fst (Update (ba_broker b) i (ud_ServiceID ud) (ud_PreviousPlanID ud) (ud_PlanID ud)
        (ud_RawParameters ud) w))
     (fst (API_Update b ctx i ud async w)) \<and>
   snd (API_Update b ctx i ud async w) =
     snd (Update (ba_broker b) i (ud_ServiceID ud) (ud_PreviousPlanID ud) (ud_PlanID ud)
        (ud_RawParameters ud) w) \<and>
   answers pre (error_status pre) (LastOperation (ba_broker b) i (d_PlanID d) w)
     (API_LastOperation b ctx i d w) \<and>
   answers pre (error_status pre) (fst (Bind (ba_broker b) i bid (d_PlanID d) async w))
     (fst (API_Bind b ctx i bid d async w)) \<and>
   snd (API_Bind b ctx i bid d async w) = snd (Bind (ba_broker b) i bid (d_PlanID d) async w) \<and>
   answers pre (error_status pre) (fst (Unbind (ba_broker b) i bid (d_PlanID d) w))
     (fst (API_Unbind b ctx i bid d async w)) \<and>
   snd (API_Unbind b ctx i bid d async w) = snd (Unbind (ba_broker b) i bid (d_PlanID d) w) \<and>
   answers pre (error_status pre) (GetBinding (ba_broker b) i bid (d_PlanID d) w)
     (API_GetBinding b ctx i bid d w) \<and>
   answers pre (error_status pre) (LastBindingOperation (ba_broker b) i (d_PlanID d) bid w)
     (API_LastBindingOperation b ctx i bid d w)"
  unfolding API_Services_def API_Provision_def API_Deprovision_def API_GetInstance_def API_Update_def
    API_LastOperation_def API_Bind_def API_Unbind_def API_GetBinding_def API_LastBindingOperation_def Let_def
  by (simp add: answers_api_result answers_api_call answers_api_update
      APIResponseError_Some)

end
