(* ===== verification/Http_Api.thy ===== *)
theory Http_Api
  imports Broker_API
begin

text \<open>
  \<open>pkg/api/api.go\<close> and the wiring of \<open>cmd/crossplane-service-broker/main.go\<close>: which requests
  reach the broker, what the debug log sees of them, and how the parts are put together. The
  routers are gorilla/mux; what is used of the outer one is that a request whose path is not clean
  is redirected before any route is looked at (the argument \<open>redirect\<close>), that routes are tried in
  the order they were added, and that a route without matchers takes every request. The inner one
  is made by brokerapi; \<open>osb_router\<close> below says what is used of it.
\<close>

section \<open>The routes\<close>

definition path_of :: "(string \<Rightarrow> string) \<Rightarrow> request \<Rightarrow> string" where
  "path_of url_path r = url_path (r_uri r)"

definition healthz :: "'s handler" where
  "healthz r s =
     (\<lparr>resp_status = 200, resp_headers = [''Content-Type'' \<mapsto> ''application/json''],
       resp_body = ''{'' @ [CHR 0x22] @ ''status'' @ [CHR 0x22] @ '': '' @ [CHR 0x22] @ ''ok'' @
         [CHR 0x22] @ ''}''\<rparr>, s)"

text \<open>
  A route: its method and path where it has them. \<open>serve_routes\<close> is the router's first match; the
  last route of the broker takes whatever is left.
\<close>

datatype 's route = Route "(string \<times> string) option" "'s handler"

fun route_matches :: "string \<Rightarrow> string \<Rightarrow> 's route \<Rightarrow> bool" where
  "route_matches verb path (Route None h) = True"
| "route_matches verb path (Route (Some (v, p)) h) = (v = verb \<and> p = path)"

fun route_handler :: "'s route \<Rightarrow> 's handler" where
  "route_handler (Route m h) = h"

fun serve_routes ::
  "(string \<Rightarrow> string) \<Rightarrow> 's handler \<Rightarrow> 's route list \<Rightarrow> 's handler" where
  "serve_routes url_path notFound [] r s = notFound r s"
| "serve_routes url_path notFound (t # ts) r s =
     (if route_matches (r_method r) (path_of url_path r) t then route_handler t r s
      else serve_routes url_path notFound ts r s)"

text \<open>\<open>ServeHTTP\<close> of the \<open>API\<close>, which hands the request to its router.\<close>

definition API_ServeHTTP ::
  "(request \<Rightarrow> response option) \<Rightarrow> (string \<Rightarrow> string) \<Rightarrow> 's handler \<Rightarrow> 's route list \<Rightarrow> 's handler" where
  "API_ServeHTTP redirect url_path notFound a r s =
     (case redirect r of
        Some resp \<Rightarrow> (resp, s)
      | None \<Rightarrow> serve_routes url_path notFound a r s)"

section \<open>The log\<close>

record debug_entry =
  de_headers :: headers
  de_uri :: string
  de_method :: string
  de_correlation :: string

text \<open>What \<open>LoggerMiddleware\<close> hands to the logger for a request.\<close>

definition debug_headers :: "request \<Rightarrow> debug_entry" where
  "debug_headers r =
     \<lparr>de_headers =
        (if header_Get (r_headers r) ''Authorization'' \<noteq> ''''
         then (r_headers r)(''Authorization'' \<mapsto> [''****'']) else r_headers r),
      de_uri = r_uri r, de_method = r_method r,
      de_correlation = rc_CorrelationID (NewReqContext (r_ctx r))\<rparr>"

definition LoggerMiddleware ::
  "(debug_entry \<Rightarrow> 's web \<Rightarrow> 's web) \<Rightarrow> 's handler \<Rightarrow> 's handler" where
  "LoggerMiddleware log next_handler r s = next_handler r (log (debug_headers r) s)"

section \<open>The API\<close>

text \<open>
  \<open>New\<close>: the argument \<open>osb\<close> is the router that \<open>brokerapi.NewWithCustomAuth\<close> makes for the broker; it
  is given the authentication middleware and then, by \<open>Use\<close>, the list of those added afterwards.
  \<open>metrics\<close> is the Prometheus handler.
\<close>

definition New_API ::
  "(('s handler \<Rightarrow> 's handler) \<Rightarrow> ('s handler \<Rightarrow> 's handler) list \<Rightarrow> 's handler) \<Rightarrow>
     (debug_entry \<Rightarrow> 's web \<Rightarrow> 's web) \<Rightarrow> 's handler \<Rightarrow> (string \<Rightarrow> string) \<Rightarrow>
     (key_document list \<Rightarrow> ctx_key \<Rightarrow> 's handler \<Rightarrow> 's handler) \<Rightarrow>
     credential list \<Rightarrow> key_document list \<Rightarrow> 's route list" where
  "New_API osb log metrics sha256 jwtHandler brokerCredentials jwtSigningKeys =
     (let a = New_AuthenticationMiddleware sha256 jwtHandler brokerCredentials jwtSigningKeys
      in [Route (Some (''GET'', ''/healthz'')) healthz,
          Route (Some (''GET'', ''/metrics'')) metrics,
          Route None (osb (Middleware_Handler a) [LoggerMiddleware log])])"

section \<open>Start-up\<close>

text \<open>
  \<open>run\<close> of \<open>main.go\<close>, up to the server: the configuration, the client for the cluster (the
  library's REST configuration is \<open>buildConfig\<close>, the controller-runtime client \<open>newClient\<close>), the
  update rules and the handler. \<open>crossplane.New\<close> registers the types of the objects, and keeps the
  client and the configuration.
\<close>

text \<open>What the libraries register in a scheme: their types, and the group the composites are of.\<close>

record 's scheme_lib =
  sl_NewScheme :: 's
  sl_AddClientGo :: "'s \<Rightarrow> go_error + 's"
  sl_AddToGroupVersion :: "string \<Rightarrow> string \<Rightarrow> 's \<Rightarrow> 's"
  sl_AddCrossplane :: "'s \<Rightarrow> go_error + 's"

definition Register :: "'s scheme_lib \<Rightarrow> 's \<Rightarrow> 's result" where
  "Register x scheme =
     bindR (lib_call (sl_AddClientGo x scheme)) (\<lambda>scheme.
     lib_call (sl_AddCrossplane x (sl_AddToGroupVersion x ''syn.tools'' ''v1alpha1'' scheme)))"

record http_server =
  hs_Addr :: string
  hs_ReadTimeout :: int
  hs_WriteTimeout :: int
  hs_MaxHeaderBytes :: int

definition New_Crossplane ::
  "'s scheme_lib \<Rightarrow> ('s \<Rightarrow> 'rest \<Rightarrow> go_error + 'w lib) \<Rightarrow> config \<Rightarrow> 'rest \<Rightarrow> 'w Crossplane result" where
  "New_Crossplane sl newClient cfg restConfig =
     bindR (Register sl (sl_NewScheme sl)) (\<lambda>scheme.
     bindR (lib_call (newClient scheme restConfig)) (\<lambda>k. Ok \<lparr>cp_config = cfg, cp_client = k\<rparr>))"

definition run_setup ::
  "config_lib \<Rightarrow> GetEnv \<Rightarrow> (string \<Rightarrow> go_error + 'rest) \<Rightarrow> 's scheme_lib \<Rightarrow>
     ('s \<Rightarrow> 'rest \<Rightarrow> go_error + 'w lib) \<Rightarrow> (string \<Rightarrow> string) \<Rightarrow>
     ('w BrokerAPI \<times> credential list \<times> key_document list \<times> http_server) result" where
  "run_setup x getEnv buildConfig sl newClient sha256 =
     bindR (mapErr (Wrapf ''unable to read app env: %w'' []) (ReadConfig x getEnv)) (\<lambda>cfg.
     bindR (mapErr (Wrapf ''unable to load k8s REST config: %w'' [])
              (lib_call (buildConfig (Kubeconfig cfg)))) (\<lambda>rConfig.
     bindR (New_Crossplane sl newClient cfg rConfig) (\<lambda>cp.
     bindR (ParsePlanUpdateRules (PlanUpdateSizeRule cfg) (PlanUpdateSLARule cfg)) (\<lambda>pc.
     Ok (New_BrokerAPI cp pc, SingleCredential sha256 (Username cfg) (Password cfg),
         JWKeyRegister cfg,
         \<lparr>hs_Addr = ListenAddr cfg, hs_ReadTimeout = ReadTimeout cfg,
          hs_WriteTimeout = WriteTimeout cfg, hs_MaxHeaderBytes = MaxHeaderBytes cfg\<rparr>)))))"

section \<open>Lemmas\<close>

text \<open>Which requests the broker's routes see: all but the two open paths.\<close>

definition open_path :: "(string \<Rightarrow> string) \<Rightarrow> request \<Rightarrow> bool" where
  "open_path url_path r =
     (r_method r = ''GET'' \<and> path_of url_path r \<in> {''/healthz'', ''/metrics''})"

lemma New_API_serves:
  "serve_routes url_path notFound (New_API osb log metrics sha256 jwtHandler cs keys) r s =
     (if r_method r = ''GET'' \<and> path_of url_path r = ''/healthz'' then healthz r s
      else if r_method r = ''GET'' \<and> path_of url_path r = ''/metrics'' then metrics r s
      else osb (Middleware_Handler (New_AuthenticationMiddleware sha256 jwtHandler cs keys))
             [LoggerMiddleware log] r s)"
  by (auto simp: New_API_def Let_def)

text \<open>
  What is used of the router brokerapi makes. It runs its middlewares only on a request one of its
  routes matches (then with the route and its variables put into the request's context); any other
  is answered with 404 or 405 by the router itself. On a matched request the authentication
  middleware it is given runs first, then brokerapi's own middlewares (\<open>defaults\<close>: the check of the
  API version, which answers 412, and those that put identifiers into the context), then those
  added with \<open>Use\<close>, and then the handler of the route. Neither the matching nor the middlewares of
  brokerapi change the headers of a request.
\<close>

definition osb_router ::
  "(request \<Rightarrow> request option) \<Rightarrow> (request \<Rightarrow> response) \<Rightarrow> ('s handler \<Rightarrow> 's handler) \<Rightarrow> 's handler \<Rightarrow>
     (('s handler \<Rightarrow> 's handler) \<Rightarrow> ('s handler \<Rightarrow> 's handler) list \<Rightarrow> 's handler) \<Rightarrow> bool" where
  "osb_router matched unmatched defaults routes osb \<longleftrightarrow>
     (\<forall>auth ms r s. osb auth ms r s =
        (case matched r of
           None \<Rightarrow> (unmatched r, s)
         | Some r1 \<Rightarrow> auth (defaults (foldr (\<lambda>m h. m h) ms routes)) r1 s)) \<and>
     (\<forall>r. resp_status (unmatched r) \<in> {404, 405}) \<and>
     (\<forall>r r1. matched r = Some r1 \<longrightarrow> r_headers r1 = r_headers r) \<and>
     (\<forall>h h' r s. (\<forall>r' s'. r_headers r' = r_headers r \<longrightarrow> h r' s' = h' r' s') \<longrightarrow>
        defaults h r s = defaults h' r s)"

lemma osb_router_unmatched:
  "osb_router matched unmatched defaults routes osb \<Longrightarrow> matched r = None \<Longrightarrow>
     osb auth ms r s = (unmatched r, s) \<and> resp_status (unmatched r) \<in> {404, 405}"
  by (simp add: osb_router_def)

lemma osb_router_matched:
  "osb_router matched unmatched defaults routes osb \<Longrightarrow> matched r = Some r1 \<Longrightarrow>
     osb auth ms r s = auth (defaults (foldr (\<lambda>m h. m h) ms routes)) r1 s \<and>
     r_headers r1 = r_headers r"
  by (simp add: osb_router_def)

lemma osb_router_defaults:
  "osb_router matched unmatched defaults routes osb \<Longrightarrow>
     (\<And>r' s'. r_headers r' = r_headers r \<Longrightarrow> h r' s' = h' r' s') \<Longrightarrow>
     defaults h r s = defaults h' r s"
  unfolding osb_router_def by blast

lemma API_serves_osb:
  assumes "redirect r = None" and "\<not> open_path url_path r"
  shows "API_ServeHTTP redirect url_path notFound (New_API osb log metrics sha256 jwtHandler cs keys) r s =
    osb (Middleware_Handler (New_AuthenticationMiddleware sha256 jwtHandler cs keys))
      [LoggerMiddleware log] r s"
  using assms by (auto simp: API_ServeHTTP_def New_API_serves open_path_def)

text \<open>
  For the examples: a JWT handler that admits no request, and a router that knows the catalog's path
  only and wants an API version.
\<close>

definition deny_all :: "key_document list \<Rightarrow> ctx_key \<Rightarrow> 's handler \<Rightarrow> 's handler" where
  "deny_all keys k h r s = (http_Error Map.empty ''jwt: no claims'' 401, s)"

lemma deny_all_handler: "authentication_handler (deny_all keys k) (\<lambda>r. None) k'"
  by unfold_locales (simp_all add: deny_all_def http_Error_def)

definition ex_matched :: "request \<Rightarrow> request option" where
  "ex_matched r = (if r_uri r = ''/v2/catalog'' then Some r else None)"

definition ex_unmatched :: "request \<Rightarrow> response" where
  "ex_unmatched r = http_Error Map.empty ''404 page not found'' 404"

definition ex_defaults :: "'s handler \<Rightarrow> 's handler" where
  "ex_defaults h r s =
     (if header_Get (r_headers r) ''X-Broker-Api-Version'' = ''''
      then (http_Error Map.empty ''version not set'' 412, s) else h r s)"

definition ex_osb ::
  "'s handler \<Rightarrow> ('s handler \<Rightarrow> 's handler) \<Rightarrow> ('s handler \<Rightarrow> 's handler) list \<Rightarrow> 's handler" where
  "ex_osb routes auth ms r s =
     (case ex_matched r of
        None \<Rightarrow> (ex_unmatched r, s)
      | Some r1 \<Rightarrow> auth (ex_defaults (foldr (\<lambda>m h. m h) ms routes)) r1 s)"

lemma ex_osb_router: "osb_router ex_matched ex_unmatched ex_defaults routes (ex_osb routes)"
  by (simp add: osb_router_def ex_osb_def ex_matched_def ex_unmatched_def ex_defaults_def
      http_Error_def)

definition ex_catalog_request :: request where
  "ex_catalog_request = ex_request\<lparr>r_headers :=
     (r_headers ex_request)(''X-Broker-Api-Version'' \<mapsto> [''2.14''])\<rparr>"

section \<open>Properties\<close>

text \<open>C10: On every path but the two open ones, a request has one of four ends. The router redirects it
  to its clean path; or no route of the broker matches it and it is answered with 404 or 405; or the
  authentication middleware answers it with 400 or 401; in none of these has the broker or its state
  any part. Or it reaches the routes of the broker, behind brokerapi's own middlewares and the
  logger, as one of the two authentication handlers admitted it, with the context that handler gave
  it and with the headers it came with, and counted.\<close>

theorem requests_are_authenticated:
  assumes "authentication_handler (jwtHandler keys TokenPropertyName) adm TokenPropertyName"
    and "osb_router matched unmatched defaults routes osb" and "\<not> open_path url_path r"
  shows "let serve = API_ServeHTTP redirect url_path notFound
    (New_API osb log metrics sha256 jwtHandler cs keys) r s
  in case redirect r of
    Some resp \<Rightarrow> serve = (resp, s)
  | None \<Rightarrow>
      (case matched r of
         None \<Rightarrow> serve = (unmatched r, s) \<and> resp_status (unmatched r) \<in> {404, 405}
       | Some r1 \<Rightarrow>
           (\<exists>resp s'. serve = (resp, s') \<and> app s' = app s \<and> resp_status resp \<in> {400, 401}) \<or>
           (\<exists>r'. (basic_admits sha256 cs (tagged AuthenticationMethodBasicAuth r1) = Some r' \<or>
                 adm (tagged AuthenticationMethodBearerToken r1) = Some r') \<and>
              r_headers r' = r_headers r \<and>
              serve = defaults (LoggerMiddleware log routes) r' (counted s)))"
proof (cases "redirect r")
  case None
  note serves = API_serves_osb [of redirect r url_path, OF None assms(3)]
  show ?thesis
  proof (cases "matched r")
    case None': None
    with None osb_router_unmatched [OF assms(2) None'] show ?thesis
      by (simp add: serves)
  next
    case (Some r1)
    note osb = osb_router_matched [OF assms(2) Some]
    show ?thesis
    proof (rule Middleware_outcome [of jwtHandler keys adm sha256 cs r1 s, OF assms(1)], goal_cases)
      case (1 resp s')
      with None Some show ?case by (simp add: serves osb)
    next
      case (2 r')
      with None Some show ?case by (auto simp: serves osb Let_def)
    qed
  qed
qed (simp add: API_ServeHTTP_def)

theorem requests_are_authenticated_witness:
  "API_ServeHTTP (\<lambda>r. None) (\<lambda>u. u) (\<lambda>r s. (ex_unmatched r, s))
      (New_API (ex_osb (\<lambda>r s. (http_Error Map.empty ''broken'' 500, s\<lparr>app := True\<rparr>)))
         (\<lambda>e s. s) healthz (\<lambda>t. t) deny_all (SingleCredential (\<lambda>t. t) ''admin'' ''other'') [])
      (ex_catalog_request\<lparr>r_uri := ''/health''\<rparr>)
      \<lparr>totalRequestCounter = 0, failedAuthenticationCounter = 0, app = False\<rparr> =
    (ex_unmatched ex_catalog_request,
     \<lparr>totalRequestCounter = 0, failedAuthenticationCounter = 0, app = False\<rparr>) \<and>
   (\<exists>resp s'. API_ServeHTTP (\<lambda>r. None) (\<lambda>u. u) (\<lambda>r s. (ex_unmatched r, s))
      (New_API (ex_osb (\<lambda>r s. (http_Error Map.empty ''broken'' 500, s\<lparr>app := True\<rparr>)))
         (\<lambda>e s. s) healthz (\<lambda>t. t) deny_all (SingleCredential (\<lambda>t. t) ''admin'' ''other'') [])
      ex_catalog_request
      \<lparr>totalRequestCounter = 0, failedAuthenticationCounter = 0, app = False\<rparr> = (resp, s') \<and>
     \<not> app s' \<and> resp_status resp \<in> {400, 401})"
proof -
  let ?routes = "\<lambda>r s. (http_Error Map.empty ''broken'' 500, s\<lparr>app := True\<rparr>)"
  let ?cs = "SingleCredential (\<lambda>t. t) ''admin'' ''other''"
  have open1: "\<not> open_path (\<lambda>u. u) (ex_catalog_request\<lparr>r_uri := ''/health''\<rparr>)"
    and open2: "\<not> open_path (\<lambda>u. u) ex_catalog_request"
    by (simp_all add: open_path_def path_of_def ex_catalog_request_def ex_request_def)
  have m1: "ex_matched (ex_catalog_request\<lparr>r_uri := ''/health''\<rparr>) = None"
    and m2: "ex_matched ex_catalog_request = Some ex_catalog_request"
    by (simp_all add: ex_matched_def ex_catalog_request_def ex_request_def)
  have "BasicAuth ex_catalog_request = Some (''admin'', ''pw'')" by code_simp
  then have no: "basic_admits (\<lambda>t. t) ?cs (tagged AuthenticationMethodBasicAuth ex_catalog_request) = None"
    by (simp add: basic_admits_def authorized_eq)
  note requests = requests_are_authenticated [where jwtHandler = deny_all and redirect = "\<lambda>r. None" and url_path = "\<lambda>u. u" and notFound = "\<lambda>r s. (ex_unmatched r, s)"
      and log = "\<lambda>e s. s" and metrics = healthz and ?sha256.0 = "\<lambda>t. t" and keys = "[]" and cs = ?cs
      and s = "\<lparr>totalRequestCounter = 0, failedAuthenticationCounter = 0, app = False\<rparr>",
      OF deny_all_handler ex_osb_router [of ?routes]]
  from requests [OF open1] requests [OF open2] show ?thesis
    by (auto simp: m1 m2 no ex_unmatched_def split: prod.splits)
qed

text \<open>C21: The log never sees a credential: the answer to a request and the state it leaves do not depend
  on what the logger does with an entry, except for entries whose authorization header has been
  replaced by asterisks.\<close>

theorem log_sees_no_credentials:
  assumes "authentication_handler (jwtHandler keys TokenPropertyName) adm TokenPropertyName"
    and "osb_router matched unmatched defaults routes osb"
    and "\<And>e s. de_headers e ''Authorization'' = Some [''****''] \<Longrightarrow> log e s = log' e s"
  shows "API_ServeHTTP redirect url_path notFound (New_API osb log metrics sha256 jwtHandler cs keys) r s =
    API_ServeHTTP redirect url_path notFound (New_API osb log' metrics sha256 jwtHandler cs keys) r s"
proof (cases "redirect r = None \<and> \<not> open_path url_path r")
  case False
  then show ?thesis
    by (cases "redirect r") (auto simp: API_ServeHTTP_def New_API_serves open_path_def)
next
  case True
  then have closed: "redirect r = None" "\<not> open_path url_path r" by simp_all
  note serves = API_serves_osb [of redirect r url_path, OF closed]
  show ?thesis
  proof (cases "matched r")
    case None
    with osb_router_unmatched [OF assms(2) None] show ?thesis by (simp add: serves)
  next
    case (Some r1)
    note osb = osb_router_matched [OF assms(2) Some]
    show ?thesis
    proof (rule Middleware_outcome [of jwtHandler keys adm sha256 cs r1 s, OF assms(1)], goal_cases)
      case (1 resp s')
      then show ?case by (simp add: serves osb)
    next
      case (2 r')
      have "LoggerMiddleware log routes r'' s' = LoggerMiddleware log' routes r'' s'"
        if "r_headers r'' = r_headers r'" for r'' s'
        using 2 assms(3) that by (simp add: LoggerMiddleware_def debug_headers_def)
      then have "defaults (LoggerMiddleware log routes) r' (counted s) =
          defaults (LoggerMiddleware log' routes) r' (counted s)"
        by (rule osb_router_defaults [OF assms(2)])
      with 2 show ?case by (simp add: serves osb)
    qed
  qed
qed

definition leaking_log :: "debug_entry \<Rightarrow> headers web \<Rightarrow> headers web" where
  "leaking_log e s =
     (if de_headers e ''Authorization'' = Some [''****''] then s else s\<lparr>app := de_headers e\<rparr>)"

theorem log_sees_no_credentials_witness:
  "API_ServeHTTP (\<lambda>r. None) (\<lambda>u. u) (\<lambda>r s. (ex_unmatched r, s))
     (New_API (ex_osb healthz) leaking_log healthz (\<lambda>t. t) deny_all
        (SingleCredential (\<lambda>t. t) ''admin'' ''pw'') []) ex_catalog_request
     \<lparr>totalRequestCounter = 0, failedAuthenticationCounter = 0, app = Map.empty\<rparr> =
   API_ServeHTTP (\<lambda>r. None) (\<lambda>u. u) (\<lambda>r s. (ex_unmatched r, s))
     (New_API (ex_osb healthz) (\<lambda>e s. s) healthz (\<lambda>t. t) deny_all
        (SingleCredential (\<lambda>t. t) ''admin'' ''pw'') []) ex_catalog_request
     \<lparr>totalRequestCounter = 0, failedAuthenticationCounter = 0, app = Map.empty\<rparr>"
  by (rule log_sees_no_credentials [OF deny_all_handler ex_osb_router])
    (simp add: leaking_log_def)

end
