(* ===== verification/Kube_Memory.thy ===== *)
theory Kube_Memory
  imports Kube
begin

text \<open>
  An API server in memory: lists of objects searched by their keys. It is an instance of
  \<open>k8s_api\<close> and \<open>k8s_reliable\<close>, so what is proved from those contracts can be run on it.
\<close>

record mem =
  m_compositions :: "composition list"
  m_xrds :: "xrd list"
  m_composites :: "composite list"
  m_secrets :: "secret list"
  m_objects :: "kobject list"
  m_seed :: nat

definition composite_key_of :: "composite \<Rightarrow> gvk \<times> string" where
  "composite_key_of c = (c_gvk c, c_name c)"

definition secret_key_of :: "secret \<Rightarrow> string \<times> string" where
  "secret_key_of s = (s_namespace s, s_name s)"

definition object_key_of :: "kobject \<Rightarrow> string \<times> string \<times> string" where
  "object_key_of k = (k_apiVersion k, k_kind k, k_name k)"

definition mem_view :: "mem \<Rightarrow> cluster" where
  "mem_view m =
     \<lparr>cl_compositions = m_compositions m, cl_xrds = m_xrds m,
      cl_composites = lookup_by composite_key_of (m_composites m),
      cl_secrets = lookup_by secret_key_of (m_secrets m)\<rparr>"

text \<open>
  The names of the resources in the server's error texts: the kind in lower case, in the plural,
  with the group; \<open>object_gvk\<close> takes the group from the \<open>apiVersion\<close> of an object.
\<close>

definition resource_name :: "gvk \<Rightarrow> string" where
  "resource_name g =
     (let k = map ascii_lower (Kind g)
      in (if k = [] then [] else if last k = CHR ''s'' then k @ ''es''
          else if last k = CHR ''y'' then butlast k @ ''ies'' else k @ ''s'')) @
     (if Group g = [] then [] else CHR ''.'' # Group g)"

definition composition_gvk :: gvk where
  "composition_gvk =
     \<lparr>Group = ''apiextensions.crossplane.io'', Version = ''v1'', Kind = ''Composition''\<rparr>"

definition xrd_gvk :: gvk where
  "xrd_gvk = \<lparr>Group = ''apiextensions.crossplane.io'', Version = ''v1'',
     Kind = ''CompositeResourceDefinition''\<rparr>"

definition secret_gvk :: gvk where
  "secret_gvk = \<lparr>Group = [], Version = ''v1'', Kind = ''Secret''\<rparr>"

definition object_gvk :: "string \<Rightarrow> string \<Rightarrow> gvk" where
  "object_gvk apiVersion kind =
     (if CHR ''/'' \<in> set apiVersion
      then \<lparr>Group = takeWhile (\<lambda>c. c \<noteq> CHR ''/'') apiVersion,
            Version = tl (dropWhile (\<lambda>c. c \<noteq> CHR ''/'') apiVersion), Kind = kind\<rparr>
      else \<lparr>Group = [], Version = apiVersion, Kind = kind\<rparr>)"

definition not_found :: "gvk \<Rightarrow> string \<Rightarrow> go_error" where
  "not_found g n = StatusError
     \<lparr>se_class = ClassNotFound, se_code = 404, se_reason = ''NotFound'',
      se_message = resource_name g @ '' '' @ [CHR 0x22] @ n @ [CHR 0x22] @ '' not found''\<rparr>"

definition already_exists :: "gvk \<Rightarrow> string \<Rightarrow> go_error" where
  "already_exists g n = StatusError
     \<lparr>se_class = ClassAlreadyExists, se_code = 409, se_reason = ''AlreadyExists'',
      se_message = resource_name g @ '' '' @ [CHR 0x22] @ n @ [CHR 0x22] @ '' already exists''\<rparr>"

lemma mem_errors [simp]:
  "IsNotFound (not_found g n)" "IsAlreadyExists (already_exists g n)"
  "\<not> IsNotFound (already_exists g n)" "\<not> IsAlreadyExists (not_found g n)"
  by (simp_all add: not_found_def already_exists_def)

definition answer :: "gvk \<Rightarrow> string \<Rightarrow> 'a option \<Rightarrow> go_error + 'a" where
  "answer g n x = (case x of None \<Rightarrow> Inl (not_found g n) | Some a \<Rightarrow> Inr a)"

lemma answer_simps [simp]:
  "answer g n (Some a) = Inr a" "answer g n None = Inl (not_found g n)"
  "answer g n x = Inr a \<longleftrightarrow> x = Some a" "answer g n x = Inl e \<longleftrightarrow> x = None \<and> e = not_found g n"
  by (auto simp: answer_def split: option.splits)

text \<open>\<open>schema.ParseGroupVersion\<close>: a version alone, or a group and a version.\<close>

definition mem_parseGroupVersion :: "string \<Rightarrow> go_error + string \<times> string" where
  "mem_parseGroupVersion s =
     (if s = '''' \<or> s = ''/'' then Inr ('''', '''')
      else case Split s CHR ''/'' of
          [v] \<Rightarrow> Inr ('''', v)
        | [g, v] \<Rightarrow> Inr (g, v)
        | _ \<Rightarrow> Inl (LibError ''unexpected GroupVersion string''))"

definition labelled :: "str_map \<Rightarrow> string \<Rightarrow> string list \<Rightarrow> bool" where
  "labelled l k vs = (case l k of None \<Rightarrow> False | Some v \<Rightarrow> v \<in> set vs)"

text \<open>The composites the server answers with, one for each key.\<close>

definition stored_composites :: "composite list \<Rightarrow> composite list" where
  "stored_composites cs =
     List.map_filter (lookup_by composite_key_of cs) (remdups (map composite_key_of cs))"

definition mem_listComposites ::
  "gvk \<Rightarrow> string \<Rightarrow> string \<Rightarrow> mem \<Rightarrow> go_error + composite list" where
  "mem_listComposites g k v m =
     Inr (filter (\<lambda>c. c_gvk c\<lparr>Kind := Kind (c_gvk c) @ ''List''\<rparr> = g \<and> c_labels c k = Some v)
            (stored_composites (m_composites m)))"

definition mem_createComposite :: "composite \<Rightarrow> mem \<Rightarrow> (go_error + unit) \<times> mem" where
  "mem_createComposite c m =
     (if \<not> Option.is_none (lookup_by composite_key_of (m_composites m) (composite_key_of c))
      then (Inl (already_exists (c_gvk c) (c_name c)), m)
      else (Inr (), m\<lparr>m_composites := store_by composite_key_of c (m_composites m)\<rparr>))"

definition mem_updateComposite :: "composite \<Rightarrow> mem \<Rightarrow> (go_error + unit) \<times> mem" where
  "mem_updateComposite c m =
     (if Option.is_none (lookup_by composite_key_of (m_composites m) (composite_key_of c))
      then (Inl (not_found (c_gvk c) (c_name c)), m)
      else (Inr (), m\<lparr>m_composites := store_by composite_key_of c (m_composites m)\<rparr>))"

text \<open>A foreground deletion waits for what the composite owns, which nobody removes here.\<close>

definition mem_deleteComposite :: "gvk \<Rightarrow> string \<Rightarrow> bool \<Rightarrow> mem \<Rightarrow> (go_error + unit) \<times> mem" where
  "mem_deleteComposite g n fg m =
     (if Option.is_none (lookup_by composite_key_of (m_composites m) (g, n))
      then (Inl (not_found g n), m)
      else (Inr (), m\<lparr>m_composites :=
        (case lookup_by composite_key_of (m_composites m) (g, n) of
           Some c \<Rightarrow> if fg then store_by composite_key_of (c\<lparr>c_terminating := True\<rparr>) (m_composites m)
                     else delete_by composite_key_of (g, n) (m_composites m)
         | None \<Rightarrow> m_composites m)\<rparr>))"

definition mem_createSecret :: "secret \<Rightarrow> mem \<Rightarrow> (go_error + unit) \<times> mem" where
  "mem_createSecret s m =
     (if \<not> Option.is_none (lookup_by secret_key_of (m_secrets m) (secret_key_of s))
      then (Inl (already_exists secret_gvk (s_name s)), m)
      else (Inr (), m\<lparr>m_secrets := store_by secret_key_of s (m_secrets m)\<rparr>))"

definition mem_updateSecret :: "secret \<Rightarrow> mem \<Rightarrow> (go_error + unit) \<times> mem" where
  "mem_updateSecret s m =
     (if Option.is_none (lookup_by secret_key_of (m_secrets m) (secret_key_of s))
      then (Inl (not_found secret_gvk (s_name s)), m)
      else (Inr (), m\<lparr>m_secrets := store_by secret_key_of s (m_secrets m)\<rparr>))"

text \<open>The other calls. They are named so that evaluating \<open>mem_lib\<close> does not evaluate them.\<close>

definition mem_newRequirement :: "string \<Rightarrow> string list \<Rightarrow> go_error + unit" where
  [simp]: "mem_newRequirement k vs = (if vs = [] then Inl (LibError ''labels'') else Inr ())"

definition mem_setParameters :: "json \<Rightarrow> composite \<Rightarrow> go_error + composite" where
  [simp]: "mem_setParameters v c = Inr (c\<lparr>c_parameters := Some v\<rparr>)"

definition mem_setParameter :: "string \<Rightarrow> json \<Rightarrow> composite \<Rightarrow> go_error + composite" where
  [simp]: "mem_setParameter k v c = Inr (c\<lparr>c_parameters :=
     Some (JObject (case c_parameters c of Some (JObject kvs) \<Rightarrow> put k v kvs | _ \<Rightarrow> [(k, v)]))\<rparr>)"

definition mem_listXRDs :: "string \<Rightarrow> string list \<Rightarrow> mem \<Rightarrow> go_error + xrd list" where
  [simp]: "mem_listXRDs k vs m = Inr (filter (\<lambda>x. labelled (x_labels x) k vs) (m_xrds m))"

definition mem_listCompositions ::
  "string \<Rightarrow> string list \<Rightarrow> mem \<Rightarrow> go_error + composition list" where
  [simp]: "mem_listCompositions k vs m =
     Inr (filter (\<lambda>co. labelled (co_labels co) k vs) (m_compositions m))"

definition mem_getComposition :: "string \<Rightarrow> mem \<Rightarrow> go_error + composition" where
  [simp]: "mem_getComposition n m = answer composition_gvk n (lookup_by co_name (m_compositions m) n)"

definition mem_getComposite :: "gvk \<Rightarrow> string \<Rightarrow> mem \<Rightarrow> go_error + composite" where
  [simp]: "mem_getComposite g n m = answer g n (lookup_by composite_key_of (m_composites m) (g, n))"

definition mem_getSecret :: "string \<Rightarrow> string \<Rightarrow> mem \<Rightarrow> go_error + secret" where
  [simp]: "mem_getSecret ns n m = answer secret_gvk n (lookup_by secret_key_of (m_secrets m) (ns, n))"

definition mem_getObject :: "string \<Rightarrow> string \<Rightarrow> string \<Rightarrow> mem \<Rightarrow> go_error + kobject" where
  [simp]: "mem_getObject a k n m = answer (object_gvk a k) n (lookup_by object_key_of (m_objects m) (a, k, n))"

definition mem_generatePassword :: "mem \<Rightarrow> (go_error + string) \<times> mem" where
  [simp]: "mem_generatePassword m =
     (Inr (''password-'' @ show_nat (m_seed m)), m\<lparr>m_seed := Suc (m_seed m)\<rparr>)"

definition mem_lib :: "mem lib" where
  "mem_lib =
     \<lparr>l_newRequirement = mem_newRequirement,
      l_parseGroupVersion = mem_parseGroupVersion,
      l_setParameters = mem_setParameters,
      l_setParameter = mem_setParameter,
      l_listXRDs = mem_listXRDs,
      l_listCompositions = mem_listCompositions,
      l_getComposition = mem_getComposition,
      l_getComposite = mem_getComposite,
      l_listComposites = mem_listComposites,
      l_getSecret = mem_getSecret,
      l_getObject = mem_getObject,
      l_createComposite = mem_createComposite,
      l_updateComposite = mem_updateComposite,
      l_deleteComposite = mem_deleteComposite,
      l_createSecret = mem_createSecret,
      l_updateSecret = mem_updateSecret,
      l_generatePassword = mem_generatePassword\<rparr>"

lemmas mem_calls =
  mem_lib_def mem_listComposites_def mem_createComposite_def mem_updateComposite_def
  mem_deleteComposite_def mem_createSecret_def mem_updateSecret_def Option.is_none_def

lemmas mem_keys = composite_key_of_def secret_key_of_def object_key_of_def

lemma gvk_list_inject:
  "(g\<lparr>Kind := Kind g @ ''List''\<rparr> = h\<lparr>Kind := Kind h @ ''List''\<rparr>) \<longleftrightarrow> g = (h :: gvk)"
  by (cases g, cases h) auto

lemma lookup_compositeD:
  "lookup_by composite_key_of cs (g, n) = Some c \<Longrightarrow> c \<in> set cs \<and> c_gvk c = g \<and> c_name c = n"
  by (auto simp: composite_key_of_def dest: lookup_by_SomeD)

lemma lookup_secretD:
  "lookup_by secret_key_of ss (ns, n) = Some s \<Longrightarrow> s_namespace s = ns \<and> s_name s = n"
  by (auto simp: secret_key_of_def dest: lookup_by_SomeD)

text \<open>What a list call answers: the stored composites of the kind, whatever duplicates the list has.\<close>

lemma set_stored_composites:
  "set (stored_composites cs) = {c. lookup_by composite_key_of cs (composite_key_of c) = Some c}"
proof -
  have key: "k \<in> composite_key_of ` set cs" "composite_key_of c = k"
    if "lookup_by composite_key_of cs k = Some c" for k c
    using lookup_by_SomeD [OF that] by auto
  have mem: "c \<in> set (stored_composites cs) \<longleftrightarrow>
      (\<exists>k \<in> composite_key_of ` set cs. lookup_by composite_key_of cs k = Some c)" for c
    by (force simp: stored_composites_def map_filter_def)
  show ?thesis
  proof (intro set_eqI iffI)
    fix c assume "c \<in> set (stored_composites cs)"
    with mem obtain k where "lookup_by composite_key_of cs k = Some c" by blast
    with key(2) show "c \<in> {c. lookup_by composite_key_of cs (composite_key_of c) = Some c}" by simp
  next
    fix c assume "c \<in> {c. lookup_by composite_key_of cs (composite_key_of c) = Some c}"
    then show "c \<in> set (stored_composites cs)" using mem key(1) by blast
  qed
qed

lemma mem_list_set:
  "{x \<in> set (stored_composites cs). c_gvk x\<lparr>Kind := Kind (c_gvk x) @ ''List''\<rparr> =
       g\<lparr>Kind := Kind g @ ''List''\<rparr> \<and> P x}
   = {c. (\<exists>n. lookup_by composite_key_of cs (g, n) = Some c) \<and> P c}"
proof -
  have "lookup_by composite_key_of cs (composite_key_of c) = Some c \<and> c_gvk c = g \<longleftrightarrow>
      (\<exists>n. lookup_by composite_key_of cs (g, n) = Some c)" (is "?L \<longleftrightarrow> ?R") for c
  proof
    assume ?R
    then obtain n where n: "lookup_by composite_key_of cs (g, n) = Some c" by blast
    with lookup_compositeD [OF n] show ?L by (simp add: composite_key_of_def)
  qed (auto simp: composite_key_of_def)
  then show ?thesis unfolding gvk_list_inject set_stored_composites by blast
qed

lemma mem_composition_found:
  "co \<in> set cos \<Longrightarrow> \<exists>co'. lookup_by co_name cos (co_name co) = Some co'"
  by (metis lookup_by_None_iff option.exhaust)

lemmas mem_cluster = mem_view_def cluster_updates deleted_def lookup_by_store lookup_by_delete

interpretation mem: k8s_reliable mem_lib mem_view
  by (unfold_locales;
      (simp add: mem_calls mem_cluster mem_keys labelled_def mem_composition_found mem_list_set length_filter_le
        lookup_by_None_iff split: if_splits)?;
      (auto simp: lookup_by_store lookup_by_delete mem_keys split: option.splits
        dest: lookup_compositeD lookup_secretD lookup_by_SomeD)?)

end
