(* ===== verification/Server_Run.thy ===== *)
theory Server_Run
  imports Http_Api Kube_Memory
begin

text \<open>
  \<open>run\<close> and \<open>main\<close> in \<open>main.go\<close> as a process: after the set-up the server runs in a goroutine of its
  own, and \<open>run\<close> waits on a channel that the operating system and the goroutine send to; after a
  signal it shuts the server down, with ten seconds for the connections in use. A step is one action
  of one of them, or the passing of a second; the server's and the library's answers are events with
  any outcome they may have.
\<close>

section \<open>State and steps\<close>

datatype signal = SIGINT | SIGTERM | SIGABRT

text \<open>
  The goroutine: not there yet, in \<open>ListenAndServe\<close> (which returns \<open>ErrServerClosed\<close> once \<open>Shutdown\<close>
  was called, also when it had not started listening yet), about to send after another error, or
  past its last statement.
\<close>

datatype goroutine = NotStarted | Serving | Failing go_error | Ended

text \<open>
  \<open>run\<close> itself: in the set-up (\<open>run_setup\<close>), at the receive, after it, in \<open>Shutdown\<close>, or returned.
\<close>

datatype waiter = Starting | Waiting | GotSignal signal | InShutdown | Returned "unit result"

text \<open>
  \<open>pr_open\<close> counts the connections in use, for which \<open>Shutdown\<close> waits; \<open>pr_left\<close> is what is left of the
  time of \<open>graceCtx\<close>, in seconds, from the call of \<open>WithTimeout\<close> to the deferred \<open>cancel\<close>.
\<close>

record process =
  pr_chan :: "signal list"
  pr_server :: goroutine
  pr_main :: waiter
  pr_shutdown :: bool
  pr_open :: nat
  pr_left :: "nat option"

text \<open>\<open>make(chan os.Signal, 1)\<close>, and the timeout of \<open>graceCtx\<close>.\<close>

definition chan_capacity :: nat where "chan_capacity = 1"

definition grace_seconds :: nat where "grace_seconds = 10"

definition start :: process where
  "start = \<lparr>pr_chan = [], pr_server = NotStarted, pr_main = Starting, pr_shutdown = False,
     pr_open = 0, pr_left = None\<rparr>"

datatype event =
    Setup
  | OsSignal signal
  | ConnBusy
  | ConnIdle
  | ListenFails go_error
  | ListenClosed
  | SendAbort
  | Receive
  | CallShutdown
  | Tick
  | ShutdownDone "go_error option"
  | ShutdownTimeout

definition unable_to_start :: go_error where
  "unable_to_start = Errorf ''unable to start server'' []"

definition deadline_exceeded :: go_error where
  "deadline_exceeded = LibError ''context deadline exceeded''"

text \<open>
  The argument \<open>init\<close> is how the set-up ends: the goroutine is only started when it does without an
  error, which \<open>run\<close> returns otherwise. \<open>signal.Notify\<close>, which \<open>main\<close> called before \<open>run\<close>, relays the
  two signals it was asked for and drops one when the channel is full; the goroutine's send waits
  for room instead. A client can use a connection as long as the server has not closed it, and holds
  it for as long as it likes. \<open>Shutdown\<close> returns when no connection is in use any more, with the error
  that closing the listeners gave if there was one, or when the time of its context is over, with
  the error of the context; it has no other way to return.
\<close>

fun run_step :: "unit result \<Rightarrow> event \<Rightarrow> process \<Rightarrow> process option" where
  "run_step init Setup p =
     (if pr_main p = Starting
      then Some (if init = Ok () then p\<lparr>pr_main := Waiting, pr_server := Serving\<rparr>
                 else p\<lparr>pr_main := Returned init\<rparr>)
      else None)"
| "run_step init (OsSignal s) p =
     (if s = SIGABRT then None
      else if length (pr_chan p) < chan_capacity then Some (p\<lparr>pr_chan := pr_chan p @ [s]\<rparr>)
      else Some p)"
| "run_step init ConnBusy p =
     (if pr_server p \<noteq> NotStarted then Some (p\<lparr>pr_open := Suc (pr_open p)\<rparr>) else None)"
| "run_step init ConnIdle p =
     (if pr_open p > 0 then Some (p\<lparr>pr_open := pr_open p - 1\<rparr>) else None)"
| "run_step init (ListenFails e) p =
     (if pr_server p = Serving then Some (p\<lparr>pr_server := Failing e\<rparr>) else None)"
| "run_step init ListenClosed p =
     (if pr_server p = Serving \<and> pr_shutdown p then Some (p\<lparr>pr_server := Ended\<rparr>) else None)"
| "run_step init SendAbort p =
     (case pr_server p of
        Failing e \<Rightarrow>
          if length (pr_chan p) < chan_capacity
          then Some (p\<lparr>pr_chan := pr_chan p @ [SIGABRT], pr_server := Ended\<rparr>) else None
      | _ \<Rightarrow> None)"
| "run_step init Receive p =
     (case (pr_main p, pr_chan p) of
        (Waiting, s # rest) \<Rightarrow>
          Some (p\<lparr>pr_chan := rest,
                  pr_main := (if s = SIGABRT then Returned (Err unable_to_start) else GotSignal s)\<rparr>)
      | _ \<Rightarrow> None)"
| "run_step init CallShutdown p =
     (case pr_main p of
        GotSignal s \<Rightarrow>
          Some (p\<lparr>pr_main := InShutdown, pr_shutdown := True, pr_left := Some grace_seconds\<rparr>)
      | _ \<Rightarrow> None)"
| "run_step init Tick p =
     (case pr_left p of Some (Suc n) \<Rightarrow> Some (p\<lparr>pr_left := Some n\<rparr>) | _ \<Rightarrow> None)"
| "run_step init (ShutdownDone err) p =
     (if pr_main p = InShutdown \<and> pr_open p = 0
      then Some (p\<lparr>pr_main := Returned (case err of None \<Rightarrow> Ok () | Some e \<Rightarrow> Err e), pr_left := None\<rparr>)
      else None)"
| "run_step init ShutdownTimeout p =
     (if pr_main p = InShutdown \<and> pr_left p = Some 0
      then Some (p\<lparr>pr_main := Returned (Err deadline_exceeded), pr_left := None\<rparr>) else None)"

text \<open>
  The exit status of the process for what \<open>run\<close> returned; a panic ends it with the status of the Go
  runtime.
\<close>

definition exitCodeErr :: int where "exitCodeErr = 1"

definition exit_code :: "unit result \<Rightarrow> int" where
  "exit_code r = (case r of Ok u \<Rightarrow> 0 | Err e \<Rightarrow> exitCodeErr | Panic x \<Rightarrow> 2)"

text \<open>When \<open>run\<close> has returned, \<open>main\<close> ends the process.\<close>

definition returned :: "process \<Rightarrow> bool" where
  "returned p = (case pr_main p of Returned r \<Rightarrow> True | _ \<Rightarrow> False)"

inductive run_reaches :: "unit result \<Rightarrow> event list \<Rightarrow> process \<Rightarrow> bool" for init where
  run_start: "run_reaches init [] start"
| run_next: "run_reaches init es p \<Longrightarrow> \<not> returned p \<Longrightarrow> run_step init e p = Some p' \<Longrightarrow>
    run_reaches init (es @ [e]) p'"

section \<open>Lemmas\<close>

definition server_failed :: "event list \<Rightarrow> bool" where
  "server_failed es = list_ex (\<lambda>e. case e of ListenFails x \<Rightarrow> True | _ \<Rightarrow> False) es"

definition signalled :: "event list \<Rightarrow> bool" where
  "signalled es = list_ex (\<lambda>e. case e of OsSignal s \<Rightarrow> True | _ \<Rightarrow> False) es"

definition seconds :: "event list \<Rightarrow> nat" where
  "seconds es = count_list es Tick"

lemma server_failed_snoc [simp]:
  "server_failed (es @ [e]) \<longleftrightarrow> server_failed es \<or> (\<exists>x. e = ListenFails x)"
  by (cases e) (auto simp: server_failed_def)

lemma signalled_snoc [simp]: "signalled (es @ [e]) \<longleftrightarrow> signalled es \<or> (\<exists>s. e = OsSignal s)"
  by (cases e) (auto simp: signalled_def)

lemma seconds_snoc [simp]: "seconds (es @ [e]) = seconds es + (if e = Tick then 1 else 0)"
  by (simp add: seconds_def)

text \<open>What ties the channel, the goroutine and \<open>run\<close> together.\<close>

definition chan_ok :: "event list \<Rightarrow> process \<Rightarrow> bool" where
  "chan_ok es p \<longleftrightarrow>
     length (pr_chan p) \<le> chan_capacity \<and>
     (\<forall>s \<in> set (pr_chan p). if s = SIGABRT then pr_server p = Ended \<and> server_failed es
        else signalled es)"

definition server_ok :: "unit result \<Rightarrow> event list \<Rightarrow> process \<Rightarrow> bool" where
  "server_ok init es p \<longleftrightarrow>
     (case pr_server p of
        NotStarted \<Rightarrow> pr_main p = Starting \<or> pr_main p = Returned init \<and> init \<noteq> Ok ()
      | Serving \<Rightarrow> init = Ok () \<and> pr_main p \<noteq> Starting
      | Failing e \<Rightarrow> init = Ok () \<and> pr_main p \<noteq> Starting \<and> server_failed es
      | Ended \<Rightarrow> init = Ok () \<and> pr_main p \<noteq> Starting \<and>
          (pr_main p = Waiting \<longrightarrow> SIGABRT \<in> set (pr_chan p)))"

text \<open>How \<open>run\<close> may have returned after the server was started.\<close>

definition run_result :: "event list \<Rightarrow> process \<Rightarrow> unit result \<Rightarrow> bool" where
  "run_result es p r \<longleftrightarrow>
     (if pr_shutdown p
      then signalled es \<and>
        (pr_open p = 0 \<and> (r = Ok () \<or> (\<exists>e. r = Err e)) \<or>
         r = Err deadline_exceeded \<and> seconds es = grace_seconds)
      else r = Err unable_to_start \<and> server_failed es \<and> pr_server p = Ended)"

definition main_ok :: "event list \<Rightarrow> process \<Rightarrow> bool" where
  "main_ok es p \<longleftrightarrow>
     (case pr_main p of
        InShutdown \<Rightarrow> signalled es \<and> pr_shutdown p \<and>
          (\<exists>n. pr_left p = Some n \<and> seconds es + n = grace_seconds)
      | Returned r \<Rightarrow> pr_server p = NotStarted \<or> run_result es p r
      | GotSignal s \<Rightarrow> signalled es \<and> \<not> pr_shutdown p \<and> pr_left p = None \<and> seconds es = 0
      | _ \<Rightarrow> \<not> pr_shutdown p \<and> pr_left p = None \<and> seconds es = 0)"

definition run_ok :: "unit result \<Rightarrow> event list \<Rightarrow> process \<Rightarrow> bool" where
  "run_ok init es p \<longleftrightarrow> chan_ok es p \<and> server_ok init es p \<and> main_ok es p"

lemmas run_ok_defs = chan_ok_def server_ok_def main_ok_def run_result_def

text \<open>More events keep what they tied together, as long as no second passes.\<close>

lemma ok_later:
  "chan_ok es p \<Longrightarrow> chan_ok (es @ [e]) p"
  "server_ok init es p \<Longrightarrow> server_ok init (es @ [e]) p"
  "main_ok es p \<Longrightarrow> e \<noteq> Tick \<Longrightarrow> main_ok (es @ [e]) p"
    apply (auto simp: chan_ok_def split: if_splits)[1]
   apply (cases "pr_server p"; simp add: server_ok_def)
  apply (cases "pr_main p"; auto simp: main_ok_def run_result_def split: if_splits)
  done

lemma ok_sent:
  "server_ok init es p \<Longrightarrow> server_ok init es (p\<lparr>pr_chan := pr_chan p @ [s]\<rparr>)"
  "main_ok es (p\<lparr>pr_chan := ss\<rparr>) \<longleftrightarrow> main_ok es p"
  by (cases "pr_server p"; simp add: server_ok_def)
    (cases "pr_main p"; simp add: main_ok_def run_result_def)

lemma ok_connections:
  "chan_ok es (p\<lparr>pr_open := n\<rparr>) \<longleftrightarrow> chan_ok es p"
  "server_ok init es (p\<lparr>pr_open := n\<rparr>) \<longleftrightarrow> server_ok init es p"
  "\<not> returned p \<Longrightarrow> main_ok es (p\<lparr>pr_open := n\<rparr>) \<longleftrightarrow> main_ok es p"
    apply (simp add: chan_ok_def)
   apply (cases "pr_server p"; simp add: server_ok_def)
  apply (cases "pr_main p"; simp add: main_ok_def returned_def)
  done

lemma ok_clock:
  "chan_ok es (p\<lparr>pr_left := n\<rparr>) \<longleftrightarrow> chan_ok es p"
  "server_ok init es (p\<lparr>pr_left := n\<rparr>) \<longleftrightarrow> server_ok init es p"
  by (simp add: chan_ok_def) (cases "pr_server p"; simp add: server_ok_def)

text \<open>What a step of \<open>run\<close> itself may change.\<close>

lemma ok_main:
  "chan_ok es (p\<lparr>pr_main := m, pr_shutdown := b, pr_left := n\<rparr>) \<longleftrightarrow> chan_ok es p"
  "chan_ok es (p\<lparr>pr_main := m, pr_left := n\<rparr>) \<longleftrightarrow> chan_ok es p"
  by (simp_all add: chan_ok_def)

lemma ok_running:
  "server_ok init es p \<Longrightarrow> pr_main p = GotSignal s \<or> pr_main p = InShutdown \<Longrightarrow>
     m \<noteq> Starting \<Longrightarrow> m \<noteq> Waiting \<Longrightarrow>
     server_ok init es (p\<lparr>pr_main := m, pr_shutdown := b, pr_left := n\<rparr>) \<and>
     server_ok init es (p\<lparr>pr_main := m, pr_left := n\<rparr>)"
  by (cases "pr_server p") (auto simp: server_ok_def)

lemma run_step_ok:
  assumes "run_step init e p = Some p'" and "run_ok init es p" and running: "\<not> returned p"
  shows "run_ok init (es @ [e]) p'"
proof -
  from assms(2) have ok: "chan_ok es p" "server_ok init es p" "main_ok es p"
    by (simp_all add: run_ok_def)
  note later = ok_later(1) [OF ok(1), of e] ok_later(2) [OF ok(2), of e] ok_later(3) [OF ok(3), of e]
  show ?thesis
  proof (cases e)
    case Setup
    with assms(1) have starting: "pr_main p = Starting"
      and p': "p' = (if init = Ok () then p\<lparr>pr_main := Waiting, pr_server := Serving\<rparr>
        else p\<lparr>pr_main := Returned init\<rparr>)"
      by (simp_all split: if_splits)
    moreover from starting ok(2) have "pr_server p = NotStarted"
      by (cases "pr_server p") (simp_all add: server_ok_def)
    ultimately show ?thesis
      using later Setup by (auto simp: run_ok_def run_ok_defs split: if_splits)
  next
    case (OsSignal s)
    with assms(1) have s: "s \<noteq> SIGABRT"
      and p': "p' = p \<or> length (pr_chan p) < chan_capacity \<and> p' = p\<lparr>pr_chan := pr_chan p @ [s]\<rparr>"
      by (auto split: if_splits)
    from p' show ?thesis
    proof
      assume sent: "length (pr_chan p) < chan_capacity \<and> p' = p\<lparr>pr_chan := pr_chan p @ [s]\<rparr>"
      with s OsSignal later(1) have "chan_ok (es @ [e]) p'" by (auto simp: chan_ok_def)
      with sent later OsSignal show ?thesis by (simp add: run_ok_def ok_sent)
    qed (use later OsSignal in \<open>simp add: run_ok_def\<close>)
  next
    case ConnBusy
    with assms(1) later running show ?thesis
      by (auto simp: run_ok_def ok_connections split: if_splits)
  next
    case ConnIdle
    with assms(1) later running show ?thesis
      by (auto simp: run_ok_def ok_connections split: if_splits)
  next
    case (ListenFails x)
    with assms(1) have serving: "pr_server p = Serving" and p': "p' = p\<lparr>pr_server := Failing x\<rparr>"
      by (auto split: if_splits)
    from ok(1) serving have "chan_ok (es @ [e]) p'" by (auto simp: chan_ok_def p' split: if_splits)
    moreover from ok(2) serving have "server_ok init (es @ [e]) p'"
      by (simp add: server_ok_def p' ListenFails)
    moreover from later(3) running ListenFails have "main_ok (es @ [e]) p'"
      by (cases "pr_main p") (simp_all add: main_ok_def p' returned_def)
    ultimately show ?thesis by (simp add: run_ok_def)
  next
    case ListenClosed
    with assms(1) have serving: "pr_server p = Serving" "pr_shutdown p"
      and p': "p' = p\<lparr>pr_server := Ended\<rparr>"
      by (auto split: if_splits)
    from ok(1) serving have "chan_ok (es @ [e]) p'" by (auto simp: chan_ok_def p' split: if_splits)
    moreover from ok(3) serving(2) have "pr_main p \<noteq> Waiting" by (auto simp: main_ok_def)
    with ok(2) serving(1) have "server_ok init (es @ [e]) p'" by (simp add: server_ok_def p')
    moreover from later(3) running ListenClosed have "main_ok (es @ [e]) p'"
      by (cases "pr_main p") (simp_all add: main_ok_def p' returned_def)
    ultimately show ?thesis by (simp add: run_ok_def)
  next
    case SendAbort
    with assms(1) obtain x where failing: "pr_server p = Failing x"
      and room: "length (pr_chan p) < chan_capacity"
      and p': "p' = p\<lparr>pr_chan := pr_chan p @ [SIGABRT], pr_server := Ended\<rparr>"
      by (auto split: if_splits goroutine.splits)
    from room have "pr_chan p = []" by (simp add: chan_capacity_def)
    with ok(2) failing have "chan_ok (es @ [e]) p'"
      by (simp add: chan_ok_def server_ok_def p' SendAbort chan_capacity_def)
    moreover from ok(2) failing have "server_ok init (es @ [e]) p'" by (simp add: server_ok_def p')
    moreover from later(3) running SendAbort have "main_ok (es @ [e]) p'"
      by (cases "pr_main p") (simp_all add: main_ok_def p' returned_def)
    ultimately show ?thesis by (simp add: run_ok_def)
  next
    case Receive
    with assms(1) obtain s rest where waiting: "pr_main p = Waiting" and chan: "pr_chan p = s # rest"
      and p': "p' = p\<lparr>pr_chan := rest,
        pr_main := (if s = SIGABRT then Returned (Err unable_to_start) else GotSignal s)\<rparr>"
      by (auto split: waiter.splits list.splits)
    from ok(1) chan have "rest = []" by (simp add: chan_ok_def chan_capacity_def)
    then have "chan_ok (es @ [e]) p'" by (simp add: chan_ok_def p')
    moreover from ok(1,2) waiting chan have "server_ok init (es @ [e]) p'"
      by (cases "pr_server p") (auto simp: server_ok_def chan_ok_def p' Receive)
    moreover from ok(1,3) waiting chan have "main_ok (es @ [e]) p'"
      by (auto simp: main_ok_def chan_ok_def run_result_def p' Receive split: if_splits)
    ultimately show ?thesis by (simp add: run_ok_def)
  next
    case CallShutdown
    with assms(1) obtain s where got: "pr_main p = GotSignal s"
      and p': "p' = p\<lparr>pr_main := InShutdown, pr_shutdown := True, pr_left := Some grace_seconds\<rparr>"
      by (auto split: waiter.splits)
    from ok(3) got have "main_ok (es @ [e]) p'" by (simp add: main_ok_def p' CallShutdown)
    with later(1) ok_running [OF later(2) disjI1 [OF got]] show ?thesis
      by (simp add: run_ok_def p' ok_main)
  next
    case Tick
    with assms(1) obtain n where left: "pr_left p = Some (Suc n)" and p': "p' = p\<lparr>pr_left := Some n\<rparr>"
      by (auto split: option.splits nat.splits)
    from ok(3) left running have "main_ok (es @ [e]) p'"
      by (cases "pr_main p") (simp_all add: main_ok_def p' Tick returned_def)
    with later show ?thesis by (simp add: run_ok_def p' ok_clock)
  next
    case (ShutdownDone x)
    with assms(1) have "pr_main p = InShutdown" "pr_open p = 0"
      and p': "p' = p\<lparr>pr_main := Returned (case x of None \<Rightarrow> Ok () | Some e \<Rightarrow> Err e), pr_left := None\<rparr>"
      by (auto split: if_splits)
    with ok(3) have "main_ok (es @ [e]) p'"
      by (simp add: main_ok_def run_result_def ShutdownDone split: option.splits)
    with later(1) ok_running [OF later(2) disjI2 [OF \<open>pr_main p = InShutdown\<close>]] show ?thesis
      by (simp add: run_ok_def p' ok_main)
  next
    case ShutdownTimeout
    with assms(1) have "pr_main p = InShutdown" "pr_left p = Some 0"
      and p': "p' = p\<lparr>pr_main := Returned (Err deadline_exceeded), pr_left := None\<rparr>"
      by (auto split: if_splits)
    with ok(3) have "main_ok (es @ [e]) p'" by (simp add: main_ok_def run_result_def ShutdownTimeout)
    with later(1) ok_running [OF later(2) disjI2 [OF \<open>pr_main p = InShutdown\<close>]] show ?thesis
      by (simp add: run_ok_def p' ok_main)
  qed
qed

lemma run_reaches_ok: "run_reaches init es p \<Longrightarrow> run_ok init es p"
proof (induction rule: run_reaches.induct)
  case run_start
  show ?case
    by (simp add: run_ok_def chan_ok_def server_ok_def main_ok_def start_def seconds_def)
next
  case (run_next es p e p')
  then show ?case
    using run_step_ok by blast
qed

text \<open>Once something happened, there is something to do.\<close>

definition noticed :: "process \<Rightarrow> bool" where
  "noticed p \<longleftrightarrow> pr_chan p \<noteq> [] \<or> pr_main p \<notin> {Starting, Waiting} \<or> pr_main p \<noteq> Starting \<and> (\<exists>e. pr_server p = Failing e)"

lemma run_step_noticed: "run_step init e p = Some p' \<Longrightarrow> noticed p \<Longrightarrow> noticed p'"
  by (cases e)
    (auto simp: noticed_def split: if_splits goroutine.splits waiter.splits list.splits option.splits nat.splits)

lemma run_reaches_noticed:
  "run_reaches init es p \<Longrightarrow> server_failed es \<or> signalled es \<Longrightarrow> noticed p"
proof (induction rule: run_reaches.induct)
  case run_start
  then show ?case by (simp add: server_failed_def signalled_def)
next
  case (run_next es p e p')
  show ?case
  proof (cases "server_failed es \<or> signalled es")
    case True
    with run_next run_step_noticed show ?thesis by blast
  next
    case False
    with run_next.prems have "(\<exists>x. e = ListenFails x) \<or> (\<exists>s. e = OsSignal s)" by auto
    moreover from run_reaches_ok [OF run_next(1)] have "pr_server p = Serving \<Longrightarrow> pr_main p \<noteq> Starting"
      by (simp add: run_ok_def server_ok_def)
    ultimately show ?thesis
      using run_next(3) by (auto simp: noticed_def chan_capacity_def split: if_splits)
  qed
qed

text \<open>
  The steps that need nothing from outside: those of \<open>run\<close>, of the goroutine and of the clock; and
  how many of them can still be taken.
\<close>

definition internal :: "event \<Rightarrow> bool" where
  "internal e =
     (case e of OsSignal s \<Rightarrow> False | ListenFails x \<Rightarrow> False | ConnBusy \<Rightarrow> False | ConnIdle \<Rightarrow> False
      | _ \<Rightarrow> True)"

definition steps_left :: "process \<Rightarrow> nat" where
  "steps_left p =
     (if pr_server p = Ended then 0 else 1) + (case pr_left p of None \<Rightarrow> 0 | Some n \<Rightarrow> n) +
     (case pr_main p of Starting \<Rightarrow> 15 | Waiting \<Rightarrow> 13 | GotSignal s \<Rightarrow> 12 | InShutdown \<Rightarrow> 1 | Returned r \<Rightarrow> 0)"

lemma steps_left_decreases:
  "run_step init e p = Some p' \<Longrightarrow> steps_left p' + (if internal e then 1 else 0) \<le> steps_left p"
proof (cases e)
  case Setup
  then show "run_step init e p = Some p' \<Longrightarrow> ?thesis"
    by (auto simp: steps_left_def internal_def split: if_splits)
next
  case ShutdownTimeout
  then show "run_step init e p = Some p' \<Longrightarrow> ?thesis"
    by (auto simp: steps_left_def internal_def split: if_splits)
next
  case (ShutdownDone x)
  then show "run_step init e p = Some p' \<Longrightarrow> ?thesis"
    by (auto simp: steps_left_def internal_def split: if_splits)
next
  case Tick
  then show "run_step init e p = Some p' \<Longrightarrow> ?thesis"
    by (auto simp: steps_left_def internal_def split: option.splits nat.splits)
next
  case CallShutdown
  then show "run_step init e p = Some p' \<Longrightarrow> ?thesis"
    by (auto simp: steps_left_def internal_def grace_seconds_def split: waiter.splits)
next
  case Receive
  then show "run_step init e p = Some p' \<Longrightarrow> ?thesis"
    by (auto simp: steps_left_def internal_def split: waiter.splits list.splits if_splits)
next
  case SendAbort
  then show "run_step init e p = Some p' \<Longrightarrow> ?thesis"
    by (auto simp: steps_left_def internal_def split: goroutine.splits if_splits)
next
  case ListenClosed
  then show "run_step init e p = Some p' \<Longrightarrow> ?thesis"
    by (auto simp: steps_left_def internal_def split: if_splits)
qed (auto simp: steps_left_def internal_def split: if_splits)

lemma steps_left_bound:
  assumes "main_ok es p" and "pr_main p \<noteq> Starting" and "\<not> returned p"
  shows "steps_left p \<le> 14"
  using assms
  by (cases "pr_main p") (auto simp: steps_left_def main_ok_def returned_def grace_seconds_def)

lemma run_setup_not_Panic: "run_setup x getEnv buildConfig sl newClient sha256 \<noteq> Panic p"
  by (simp add: run_setup_def New_Crossplane_def Register_def go_inv)

section \<open>Properties\<close>

text \<open>C26: The process never hangs: once the set-up is over and the server has failed or a signal has
  arrived, and until \<open>run\<close> returns, a step that needs nothing from outside is always possible, in
  whatever order the steps so far were taken and however many connections are in use; at most
  fourteen such steps are left (ten of them the seconds a shutdown may take), each uses one up, and
  nothing from outside, no signal and no connection, adds any.\<close>

theorem run_never_hangs:
  assumes "run_reaches init es p" and "server_failed es \<or> signalled es"
    and "pr_main p \<noteq> Starting" and "\<not> returned p"
  shows "(\<exists>e p'. internal e \<and> run_step init e p = Some p') \<and>
    (\<forall>e p'. run_step init e p = Some p' \<longrightarrow>
       steps_left p' + (if internal e then 1 else 0) \<le> steps_left p) \<and> steps_left p \<le> 14"
proof -
  from run_reaches_noticed [OF assms(1,2)] have noticed: "noticed p" .
  from run_reaches_ok [OF assms(1)] have main: "main_ok es p" by (simp add: run_ok_def)
  have "\<exists>e p'. internal e \<and> run_step init e p = Some p'"
  proof (cases "pr_main p")
    case Waiting
    show ?thesis
    proof (cases "pr_chan p")
      case Nil
      with noticed Waiting obtain x where "pr_server p = Failing x" by (auto simp: noticed_def)
      with Nil show ?thesis by (intro exI [of _ SendAbort]) (simp add: internal_def chan_capacity_def)
    next
      case (Cons s rest)
      with Waiting show ?thesis by (intro exI [of _ Receive]) (simp add: internal_def)
    qed
  next
    case (GotSignal s)
    then show ?thesis by (intro exI [of _ CallShutdown]) (simp add: internal_def)
  next
    case InShutdown
    with main obtain n where "pr_left p = Some n" by (auto simp: main_ok_def)
    with InShutdown show ?thesis
      by (cases n) (auto intro: exI [of _ ShutdownTimeout] exI [of _ Tick] simp: internal_def)
  qed (use assms(3,4) in \<open>simp_all add: returned_def\<close>)
  with steps_left_decreases steps_left_bound [OF main assms(3,4)] show ?thesis by blast
qed

text \<open>For the examples: a shutdown that a connection in use keeps waiting for ten seconds.\<close>

fun run_steps :: "unit result \<Rightarrow> event list \<Rightarrow> process \<Rightarrow> process option" where
  "run_steps init [] p = Some p"
| "run_steps init (e # es) p =
     (if returned p then None
      else case run_step init e p of None \<Rightarrow> None | Some p' \<Rightarrow> run_steps init es p')"

lemma run_steps_reaches:
  "run_reaches init ds p \<Longrightarrow> run_steps init es p = Some p' \<Longrightarrow> run_reaches init (ds @ es) p'"
proof (induction es arbitrary: ds p)
  case (Cons e es)
  then obtain q where "\<not> returned p" "run_step init e p = Some q" "run_steps init es q = Some p'"
    by (auto split: if_splits option.splits)
  with Cons.IH [OF run_next [OF Cons.prems(1)]] show ?case by simp
qed simp

definition ex_busy :: "event list" where
  "ex_busy = [OsSignal SIGTERM, Setup, ConnBusy, Receive, CallShutdown]"

definition ex_waiting :: process where
  "ex_waiting = \<lparr>pr_chan = [], pr_server = Serving, pr_main = InShutdown, pr_shutdown = True,
     pr_open = 1, pr_left = Some 10\<rparr>"

lemma ex_busy_reaches: "run_reaches (Ok ()) ex_busy ex_waiting"
proof -
  have "run_steps (Ok ()) ex_busy start = Some ex_waiting" by code_simp
  from run_steps_reaches [OF run_start this] show ?thesis by simp
qed

theorem run_never_hangs_witness:
  "\<exists>e p'. internal e \<and> run_step (Ok ()) e ex_waiting = Some p' \<and> steps_left p' < 12"
proof -
  have "signalled ex_busy" "pr_main ex_waiting \<noteq> Starting" "\<not> returned ex_waiting" "steps_left ex_waiting = 12"
    by code_simp+
  with run_never_hangs [OF ex_busy_reaches] obtain e p' where
    e: "internal e" "run_step (Ok ()) e ex_waiting = Some p'"
    by blast
  moreover from this run_never_hangs [OF ex_busy_reaches] \<open>signalled ex_busy\<close>
    \<open>pr_main ex_waiting \<noteq> Starting\<close> \<open>\<not> returned ex_waiting\<close> \<open>steps_left ex_waiting = 12\<close>
  have "steps_left p' + (if internal e then 1 else 0) \<le> 12" by metis
  ultimately show ?thesis by (intro exI [of _ e] exI [of _ p']) simp
qed

text \<open>C27: How \<open>run\<close> ends, with the set-up of \<open>main.go\<close>: never in a panic of its own; when the
  set-up fails, with its error and exit status 1, and the server is never started; otherwise either
  because the server failed, with the error that says so and exit status 1, or after a signal and a
  shutdown. The shutdown ends with status 0, when no connection is in use any more, or with an
  error and status 1: one that closing the listeners gave, or that of the deadline, when the ten
  seconds are over.\<close>

theorem run_outcome:
  fixes x :: config_lib and sl :: "'s scheme_lib" and newClient :: "'s \<Rightarrow> 'rest \<Rightarrow> go_error + 'w lib"
  assumes "run_reaches (bindR (run_setup x getEnv buildConfig sl newClient sha256) (\<lambda>_. Ok ())) es p"
    and "pr_main p = Returned r"
  shows "case run_setup x getEnv buildConfig sl newClient sha256 of
    Panic v \<Rightarrow> False
  | Err e \<Rightarrow> r = Err e \<and> exit_code r = 1 \<and> pr_server p = NotStarted
  | Ok y \<Rightarrow>
      if pr_shutdown p
      then signalled es \<and>
        (r = Ok () \<and> exit_code r = 0 \<and> pr_open p = 0 \<or>
         (\<exists>e. r = Err e \<and> exit_code r = 1 \<and>
           (pr_open p = 0 \<or> e = deadline_exceeded \<and> seconds es = 10)))
      else r = Err unable_to_start \<and> exit_code r = 1 \<and> server_failed es \<and> pr_server p = Ended"
proof (cases "run_setup x getEnv buildConfig sl newClient sha256")
  case (Ok y)
  with run_reaches_ok [OF assms(1)] assms(2) have "pr_server p \<noteq> NotStarted" "run_result es p r"
    by (auto simp: run_ok_def server_ok_def main_ok_def)
  with Ok show ?thesis
    by (auto simp: run_result_def exit_code_def exitCodeErr_def grace_seconds_def)
next
  case (Err e)
  with run_reaches_ok [OF assms(1)] assms(2) show ?thesis
    by (cases "pr_server p") (auto simp: run_ok_def server_ok_def exit_code_def exitCodeErr_def)
next
  case (Panic v)
  then show ?thesis by (simp add: run_setup_not_Panic)
qed

text \<open>
  Two runs: without any setting the set-up fails; with the settings of the examples the connection
  in use lets the shutdown run into its deadline.
\<close>

definition ex_setup ::
  "GetEnv \<Rightarrow> (mem BrokerAPI \<times> credential list \<times> key_document list \<times> http_server) result" where
  "ex_setup env = run_setup ex_config_lib env (\<lambda>kubeconfig. Inr ())
     \<lparr>sl_NewScheme = (), sl_AddClientGo = Inr, sl_AddToGroupVersion = (\<lambda>g v s. s),
      sl_AddCrossplane = Inr\<rparr> (\<lambda>scheme rest. Inr mem_lib) (\<lambda>s. s)"

definition ex_timeout :: "event list" where
  "ex_timeout = ex_busy @ replicate 10 Tick @ [ShutdownTimeout]"

theorem run_outcome_witness:
  "(\<exists>e. run_reaches (bindR (ex_setup (\<lambda>k. '''')) (\<lambda>_. Ok ())) [Setup] (start\<lparr>pr_main := Returned (Err e)\<rparr>) \<and>
     ex_setup (\<lambda>k. '''') = Err e \<and> exit_code (Err e) = 1) \<and>
   (\<exists>p r. run_reaches (bindR (ex_setup ex_env) (\<lambda>_. Ok ())) ex_timeout p \<and> pr_main p = Returned r \<and>
     pr_open p = 1 \<and> r = Err deadline_exceeded \<and> seconds ex_timeout = 10)"
proof
  have "case ex_setup (\<lambda>k. '''') of Err e \<Rightarrow> True | _ \<Rightarrow> False" by code_simp
  then obtain e where e: "ex_setup (\<lambda>k. '''') = Err e" by (auto split: result.splits)
  have reached: "run_reaches (bindR (ex_setup (\<lambda>k. '''')) (\<lambda>_. Ok ())) [Setup]
      (start\<lparr>pr_main := Returned (Err e)\<rparr>)"
    using run_steps_reaches [OF run_start, of "Err e" "[Setup]"] e by (simp add: start_def returned_def)
  from run_outcome [OF reached [unfolded ex_setup_def]] e
  have "exit_code (Err e) = 1" by (simp add: ex_setup_def)
  with reached e show "\<exists>e. run_reaches (bindR (ex_setup (\<lambda>k. '''')) (\<lambda>_. Ok ())) [Setup]
      (start\<lparr>pr_main := Returned (Err e)\<rparr>) \<and> ex_setup (\<lambda>k. '''') = Err e \<and> exit_code (Err e) = 1"
    by blast
next
  have "case ex_setup ex_env of Ok y \<Rightarrow> True | _ \<Rightarrow> False" by code_simp
  then obtain y where y: "ex_setup ex_env = Ok y" by (auto split: result.splits)
  have "case run_steps (Ok ()) ex_timeout start of
      Some p \<Rightarrow> pr_open p = 1 \<and> returned p \<and> pr_shutdown p | None \<Rightarrow> False" by code_simp
  then obtain p where p: "run_steps (Ok ()) ex_timeout start = Some p" "pr_open p = 1" "returned p"
    "pr_shutdown p"
    by (auto split: option.splits)
  then obtain r where r: "pr_main p = Returned r" by (auto simp: returned_def split: waiter.splits)
  from run_steps_reaches [OF run_start p(1)] y
  have reached: "run_reaches (bindR (ex_setup ex_env) (\<lambda>_. Ok ())) ex_timeout p" by simp
  from run_outcome [OF reached [unfolded ex_setup_def] r] y p(2,4)
  have "r = Err deadline_exceeded" "seconds ex_timeout = 10" by (auto simp: ex_setup_def)
  with reached r p(2) show "\<exists>p r. run_reaches (bindR (ex_setup ex_env) (\<lambda>_. Ok ())) ex_timeout p \<and>
      pr_main p = Returned r \<and> pr_open p = 1 \<and> r = Err deadline_exceeded \<and> seconds ex_timeout = 10"
    by blast
qed

end
