(* ===== verification/Broker_Effects.thy ===== *)
theory Broker_Effects
  imports Broker_API
begin

text \<open>
  What each operation of the broker leaves in the cluster, for every outcome: the library's
  contract \<open>k8s_api\<close> and the binder contract carried through the handlers. The locale
  \<open>broker_client\<close> is a broker whose client meets the contract.
\<close>

locale broker_client = crossplane_client "br_cp b" view
  for b :: "'w Broker" and view :: "'w \<Rightarrow> cluster"

locale reliable_broker = reliable_client "br_cp b" view
  for b :: "'w Broker" and view :: "'w \<Rightarrow> cluster"

sublocale reliable_broker \<subseteq> broker_client ..

lemma reliable_is_client: "reliable_broker b view \<Longrightarrow> broker_client b view"
  by (simp add: reliable_broker_def reliable_client_def broker_client_def crossplane_client_def
      k8s_reliable_def)

section \<open>The client's writes\<close>

text \<open>The composite \<open>CreateInstance\<close> asks for, and the one \<open>UpdateInstance\<close> writes.\<close>

definition instance_composite ::
  "gvk \<Rightarrow> string \<Rightarrow> plan \<Rightarrow> str_map \<Rightarrow> go_map \<Rightarrow> composite" where
  "instance_composite g i plan l params =
     (new_composite g i)
       \<lparr>c_compositionRef := Some (co_name (p_Composition plan)),
        c_parameters := Some (map_value params), c_labels := l\<rparr>"

definition updated_composite :: "gvk \<Rightarrow> inst \<Rightarrow> go_map \<Rightarrow> composite" where
  "updated_composite g inst params =
     (i_Composite inst)\<lparr>c_gvk := g, c_parameters := Some (map_value params)\<rparr>"

lemma instance_composite_simps [simp]:
  "c_gvk (instance_composite g i plan l params) = g"
  "c_name (instance_composite g i plan l params) = i"
  "c_labels (instance_composite g i plan l params) = l"
  "c_parameters (instance_composite g i plan l params) = Some (map_value params)"
  "c_compositionRef (instance_composite g i plan l params) = Some (co_name (p_Composition plan))"
  "c_secretRef (instance_composite g i plan l params) = None"
  "c_terminating (instance_composite g i plan l params) = False"
  by (simp_all add: instance_composite_def new_composite_def)

lemma updated_composite_simps [simp]:
  "c_gvk (updated_composite g inst params) = g"
  "c_name (updated_composite g inst params) = ID inst"
  "c_labels (updated_composite g inst params) = c_labels (i_Composite inst)"
  "c_parameters (updated_composite g inst params) = Some (map_value params)"
  "c_compositionRef (updated_composite g inst params) = c_compositionRef (i_Composite inst)"
  by (simp_all add: updated_composite_def ID_def)

context crossplane_client
begin

lemma CreateInstance_run:
  assumes "prepareLabels cp rctx i plan params = Ok l" and "GVK (cp_client cp) plan = Ok g"
    and "l_setParameters (cp_client cp) (map_value params)
           ((new_composite g i)\<lparr>c_compositionRef := Some (co_name (p_Composition plan))\<rparr>) = Inr c"
  shows "CreateInstance cp rctx i plan params w =
           writeM (l_createComposite (cp_client cp) (instance_composite g i plan l params)) w"
  using assms set_parameters_ok [OF assms(3)]
  by (simp add: CreateInstance_def Let_def instance_composite_def)

lemma CreateInstance_effect:
  assumes run: "CreateInstance cp rctx i plan params w = (r, w')"
  shows "view w' = view w \<and> r \<noteq> Ok () \<or>
     (\<exists>l g. prepareLabels cp rctx i plan params = Ok l \<and> GVK (cp_client cp) plan = Ok g \<and>
        view w' = put_composite (instance_composite g i plan l params) (view w) \<and>
        (r = Ok () \<longrightarrow> cl_composites (view w) (g, i) = None))"
proof (cases "prepareLabels cp rctx i plan params")
  case l: (Ok l)
  show ?thesis
  proof (cases "GVK (cp_client cp) plan")
    case g: (Ok g)
    let ?c = "(new_composite g i)\<lparr>c_compositionRef := Some (co_name (p_Composition plan))\<rparr>"
    show ?thesis
    proof (cases "l_setParameters (cp_client cp) (map_value params) ?c")
      case (Inr c)
      note cr = CreateInstance_run [OF l g Inr, of w, unfolded run, symmetric]
      show ?thesis
        using create_composite_view [OF cr] cr l g
        by (cases "r = Ok ()") (auto simp: go_inv dest: create_composite_ok)
    qed (use run l g in \<open>auto simp: CreateInstance_def Let_def\<close>)
  qed (use run l in \<open>auto simp: CreateInstance_def\<close>)
qed (use run in \<open>auto simp: CreateInstance_def\<close>)

lemma UpdateInstance_effect:
  assumes run: "UpdateInstance cp inst plan params w = (r, w')"
  shows "view w' = view w \<and> r \<noteq> Ok () \<or>
     (\<exists>g. GVK (cp_client cp) plan = Ok g \<and>
        view w' = put_composite (updated_composite g inst params) (view w) \<and>
        (r = Ok () \<longrightarrow> cl_composites (view w) (g, ID inst) \<noteq> None))"
proof (cases "GVK (cp_client cp) plan")
  case g: (Ok g)
  let ?c = "(i_Composite inst)\<lparr>c_gvk := g\<rparr>"
  show ?thesis
  proof (cases "l_setParameters (cp_client cp) (map_value params) ?c")
    case (Inr c)
    then have "c = updated_composite g inst params"
      using set_parameters_ok [OF Inr] by (simp add: updated_composite_def)
    then have upd: "writeM (l_updateComposite (cp_client cp) (updated_composite g inst params)) w
        = (r, w')"
      using run g Inr by (simp add: UpdateInstance_def Let_def)
    show ?thesis
      using update_composite_view [OF upd] upd g
      by (cases "r = Ok ()") (auto simp: go_inv dest: update_composite_ok)
  qed (use run g in \<open>auto simp: UpdateInstance_def Let_def\<close>)
qed (use run in \<open>auto simp: UpdateInstance_def\<close>)

lemma DeleteInstance_effect:
  assumes run: "DeleteInstance cp i plan w = (r, w')"
  shows "view w' = view w \<and> r \<noteq> Ok () \<or>
     (\<exists>g. GVK (cp_client cp) plan = Ok g \<and> deleted g i (view w) (view w') \<and>
        (r = Ok () \<longrightarrow> cl_composites (view w) (g, i) \<noteq> None))"
proof (cases "GVK (cp_client cp) plan")
  case (Ok g)
  with run have del: "writeM (l_deleteComposite (cp_client cp) g i False) w = (r, w')"
    by (simp add: DeleteInstance_def)
  show ?thesis
    using delete_composite_view [OF del] delete_composite_ok del Ok
    by (cases "r = Ok ()") (auto simp: go_inv)
qed (use run in \<open>auto simp: DeleteInstance_def\<close>)

end

section \<open>Finding the instance\<close>

text \<open>The plan and the instance an operation works on, as they are in the cluster.\<close>

definition found_instance ::
  "'w Broker \<Rightarrow> string \<Rightarrow> cluster \<Rightarrow> plan \<Rightarrow> inst \<Rightarrow> bool" where
  "found_instance b i cl p inst \<longleftrightarrow>
     p_Composition p \<in> set (cl_compositions cl) \<and> newPlan (p_Composition p) = Ok p \<and>
     (\<exists>g. GVK (cp_client (br_cp b)) p = Ok g \<and> cl_composites cl (g, i) = Some (i_Composite inst)) \<and>
     newInstance (i_Composite inst) = Ok inst \<and>
     (\<exists>pl. p_Labels p = Some pl \<and> PlanName (i_Labels inst) = PlanName pl)"

context broker_client
begin

lemma Plan_stored:
  assumes "Plan (br_cp b) n w = Ok p"
  shows "p_Composition p \<in> set (cl_compositions (view w))" "co_name (p_Composition p) = n"
    "newPlan (p_Composition p) = Ok p"
proof -
  from Plan_OkD(1) [OF assms] show "p_Composition p \<in> set (cl_compositions (view w))"
    "co_name (p_Composition p) = n"
    using get_composition_ok by blast+
  from assms show "newPlan (p_Composition p) = Ok p"
    by (auto simp: Plan_def go_inv dest: newPlan_OkD)
qed

lemma Instance_stored:
  assumes "Instance (br_cp b) i p w = Ok (Some inst)" and p: "newPlan (p_Composition p) = Ok p"
    and "p_Composition p \<in> set (cl_compositions (view w))"
  shows "found_instance b i (view w) p inst"
proof -
  from newPlan_labels [OF p] obtain pl where "p_Labels p = Some pl" by blast
  with assms get_composite_ok show ?thesis
    by (auto simp: found_instance_def Instance_Some_iff newInstance_Ok_iff)
qed

lemma Plans_stored:
  assumes "Plans (br_cp b) ids w = Ok ps" and "p \<in> set ps"
  shows "p_Composition p \<in> set (cl_compositions (view w))" "newPlan (p_Composition p) = Ok p"
proof -
  from Plans_OkD [OF assms(1)] obtain cos
    where cos: "l_listCompositions (cp_client (br_cp b)) ServiceIDLabel ids w = Inr cos"
      and ps: "map p_Composition ps = sort_key plan_name_of cos"
      and new: "\<forall>p \<in> set ps. newPlan (p_Composition p) = Ok p" by blast
  from new assms(2) show "newPlan (p_Composition p) = Ok p" by blast
  from assms(2) have "p_Composition p \<in> set (map p_Composition ps)" by simp
  then have "p_Composition p \<in> set cos" by (simp add: ps)
  with list_compositions_ok [OF cos] show "p_Composition p \<in> set (cl_compositions (view w))" by simp
qed

lemma getPlanInstance_found:
  assumes run: "getPlanInstance b planID i w = Ok (p, inst)"
  shows "found_instance b i (view w) p inst" "planID \<noteq> '''' \<Longrightarrow> co_name (p_Composition p) = planID"
proof -
  have "found_instance b i (view w) p inst \<and>
    (planID \<noteq> '''' \<longrightarrow> co_name (p_Composition p) = planID)"
  proof (cases "planID = ''''")
    case True
    with run obtain plans where plans: "Plans (br_cp b) (ServiceIDs (cp_config (br_cp b))) w = Ok plans"
      and loop: "find_instance_loop (br_cp b) i plans w = Ok (Some (inst, p))"
      by (auto simp: getPlanInstance_def FindInstanceWithoutPlan_def go_inv split: option.splits)
    from loop obtain before after where split: "plans = before @ p # after"
      and inst: "Instance (br_cp b) i p w = Ok (Some inst)"
      by (rule find_instance_loop_OkD) auto
    then have "p \<in> set plans" by simp
    with Plans_stored [OF plans] Instance_stored [OF inst] True show ?thesis by blast
  next
    case False
    with run have plan: "Plan (br_cp b) planID w = Ok p"
      and inst: "Instance (br_cp b) i p w = Ok (Some inst)"
      by (auto simp: getPlanInstance_def go_inv split: option.splits)
    from Plan_stored [OF plan] Instance_stored [OF inst] show ?thesis by blast
  qed
  then show "found_instance b i (view w) p inst"
    "planID \<noteq> '''' \<Longrightarrow> co_name (p_Composition p) = planID" by blast+
qed

lemma found_instance_name: "found_instance b i (view w) p inst \<Longrightarrow> ID inst = i"
  unfolding found_instance_def ID_def using composite_key by blast

end

section \<open>Provisioning and deprovisioning\<close>

definition provision_params ::
  "'w Broker \<Rightarrow> plan \<Rightarrow> raw_json option \<Rightarrow> 'w \<Rightarrow> go_map result" where
  "provision_params b p params w =
     (case params of
        None \<Rightarrow> Ok (GoMap [])
      | Some raw \<Rightarrow> bindR (deref ''plan.Labels'' (p_Labels p)) (\<lambda>pl.
                    validateParams b None (ServiceName pl) raw w))"

text \<open>A run of \<open>Provision\<close> ends without a write, or with the outcome of its one create call.\<close>

lemma Provision_run:
  assumes run: "Provision b rctx i planID params w = (r, w')"
  obtains (err) e where "r = Err e" "w' = w"
    | (panic) x where "r = Panic x" "w' = w"
    | (existing) p inst where "Plan (br_cp b) planID w = Ok p"
        "Instance (br_cp b) i p w = Ok (Some inst)" "params = None"
        "r = Ok \<lparr>ps_IsAsync = False, ps_AlreadyExists = True\<rparr>" "w' = w"
    | (create) p ap r1 where "Plan (br_cp b) planID w = Ok p" "Instance (br_cp b) i p w = Ok None"
        "provision_params b p params w = Ok ap"
        "CreateInstance (br_cp b) rctx i p ap w = (r1, w')"
        "r = bindR r1 (\<lambda>_. Ok \<lparr>ps_IsAsync = True, ps_AlreadyExists = False\<rparr>)"
proof (cases "Plan (br_cp b) planID w")
  case plan: (Ok p)
  show thesis
  proof (cases "Instance (br_cp b) i p w")
    case inst: (Ok found)
    show thesis
    proof (cases found)
      case None
      let ?pm = "case params of None \<Rightarrow> retM (GoMap [])
        | Some raw \<Rightarrow> bindM (liftR (deref ''plan.Labels'' (p_Labels p))) (\<lambda>pl.
            readM (validateParams b None (ServiceName pl) raw))"
      have pm: "?pm w = (provision_params b p params w, w)"
        by (cases params; cases "p_Labels p") (simp_all add: provision_params_def)
      have eq: "(r, w') = bindM ?pm (\<lambda>ap. bindM (CreateInstance (br_cp b) rctx i p ap)
          (\<lambda>_. retM \<lparr>ps_IsAsync = True, ps_AlreadyExists = False\<rparr>)) w"
        using run plan inst None by (simp add: Provision_def)
      show thesis
      proof (cases "provision_params b p params w")
        case (Ok ap)
        obtain r1 w1 where cr: "CreateInstance (br_cp b) rctx i p ap w = (r1, w1)" by fastforce
        have "(r, w') = (bindR r1 (\<lambda>_. Ok \<lparr>ps_IsAsync = True, ps_AlreadyExists = False\<rparr>), w1)"
          unfolding eq using pm Ok cr by (cases r1) (simp_all add: bindM_step)
        then have eqs: "w1 = w'"
          "r = bindR r1 (\<lambda>_. Ok \<lparr>ps_IsAsync = True, ps_AlreadyExists = False\<rparr>)" by simp_all
        show thesis
          by (rule create [OF plan _ Ok cr [unfolded eqs(1)] eqs(2)]) (simp add: inst None)
      next
        case (Err e)
        with eq pm have "r = Err e \<and> w' = w" by (simp add: bindM_step)
        with err show thesis by blast
      next
        case (Panic x)
        with eq pm have "r = Panic x \<and> w' = w" by (simp add: bindM_step)
        with panic show thesis by blast
      qed
    next
      case (Some inst0)
      have eq: "(r, w') = (if params = None
          then retM \<lparr>ps_IsAsync = False, ps_AlreadyExists = True\<rparr>
          else failM (Failure (LibFailure ErrInstanceAlreadyExists))) w"
        using run plan inst Some by (simp add: Provision_def)
      show thesis
      proof (cases "params = None")
        case True
        with eq existing [OF plan _ True] inst Some show thesis by simp
      next
        case False
        with eq err show thesis by simp
      qed
    qed
  qed (use run plan err panic in \<open>auto simp: Provision_def\<close>)
qed (use run err panic in \<open>auto simp: Provision_def\<close>)

lemma Deprovision_run:
  assumes run: "Deprovision b i planID w = (r, w')"
  obtains (err) e where "r = Err e" "w' = w"
    | (panic) x where "r = Panic x" "w' = w"
    | (delete) p inst sb r1 where "getPlanInstance b planID i w = Ok (p, inst)"
        "ServiceBinderFactory (ServiceName (i_Labels inst)) (Some inst) = Ok sb"
        "sb_Deprovisionable (br_cp b) sb w = Ok ()"
        "DeleteInstance (br_cp b) (ID inst) p w = (r1, w')"
        "r = bindR r1 (\<lambda>_. Ok \<lparr>ds_IsAsync = False\<rparr>)"
proof (cases "getPlanInstance b planID i w")
  case pi: (Ok pi)
  obtain p inst where pi': "pi = (p, inst)" by fastforce
  show thesis
  proof (cases "ServiceBinderFactory (ServiceName (i_Labels inst)) (Some inst)")
    case sb: (Ok sb)
    show thesis
    proof (cases "sb_Deprovisionable (br_cp b) sb w")
      case dep: (Ok u)
      obtain r1 w1 where del: "DeleteInstance (br_cp b) (ID inst) p w = (r1, w1)" by fastforce
      have "(r, w') = (bindR r1 (\<lambda>_. Ok \<lparr>ds_IsAsync = False\<rparr>), w1)"
        using run pi pi' sb dep del
        by (cases r1) (simp_all add: Deprovision_def bindM_step ID_def)
      then have eqs: "w1 = w'" "r = bindR r1 (\<lambda>_. Ok \<lparr>ds_IsAsync = False\<rparr>)" by simp_all
      show thesis
        by (rule delete [OF _ sb _ del [unfolded eqs(1)] eqs(2)]) (simp_all add: pi pi' dep)
    qed (use run pi pi' sb err panic in \<open>auto simp: Deprovision_def\<close>)
  qed (use run pi pi' err panic in \<open>auto simp: Deprovision_def\<close>)
qed (use run err panic in \<open>auto simp: Deprovision_def\<close>)

section \<open>Binding and unbinding\<close>

lemma Bind_run:
  assumes run: "Bind b i bid planID async w = (r, w')"
  obtains (err) e where "r = Err e" "w' = w"
    | (panic) x where "r = Panic x" "w' = w"
    | (bound) p inst r1 where "getPlanInstance b planID i w = Ok (p, inst)" "Ready inst"
        "instance_Bind (br_cp b) inst bid w = (r1, w')"
        "r = bindR r1 (\<lambda>creds. Ok \<lparr>bi_IsAsync = async, bi_Credentials = creds\<rparr>)"
proof (cases "getPlanInstance b planID i w")
  case pi: (Ok pi)
  obtain p inst where pi': "pi = (p, inst)" by fastforce
  show thesis
  proof (cases "Ready inst")
    case True
    obtain r1 w1 where bind: "instance_Bind (br_cp b) inst bid w = (r1, w1)" by fastforce
    have "(r, w') = (bindR r1 (\<lambda>creds. Ok \<lparr>bi_IsAsync = async, bi_Credentials = creds\<rparr>), w1)"
      using run pi pi' True bind
      by (cases "ServiceBinderFactory (ServiceName (i_Labels inst)) (Some inst)"; cases r1)
        (auto simp: Bind_def instance_Bind_def bindM_step)
    then have eqs: "w1 = w'"
      "r = bindR r1 (\<lambda>creds. Ok \<lparr>bi_IsAsync = async, bi_Credentials = creds\<rparr>)" by simp_all
    show thesis
      by (rule bound [OF _ True bind [unfolded eqs(1)] eqs(2)]) (simp add: pi pi')
  qed (use run pi pi' err in \<open>auto simp: Bind_def\<close>)
qed (use run err panic in \<open>auto simp: Bind_def\<close>)

definition unbind_error :: "go_error \<Rightarrow> go_error" where
  "unbind_error e = (if IsNotFound e then Failure (LibFailure ErrBindingDoesNotExist) else e)"

lemma Unbind_run:
  assumes run: "Unbind b i bid planID w = (r, w')"
  obtains (err) e where "r = Err e" "w' = w"
    | (panic) x where "r = Panic x" "w' = w"
    | (unbound) p inst r1 where "getPlanInstance b planID i w = Ok (p, inst)" "Ready inst"
        "instance_Unbind (br_cp b) inst bid w = (r1, w')"
        "r = bindR (mapErr unbind_error r1) (\<lambda>_. Ok \<lparr>ub_IsAsync = False\<rparr>)"
proof (cases "getPlanInstance b planID i w")
  case pi: (Ok pi)
  obtain p inst where pi': "pi = (p, inst)" by fastforce
  show thesis
  proof (cases "Ready inst")
    case True
    obtain r1 w1 where ub: "instance_Unbind (br_cp b) inst bid w = (r1, w1)" by fastforce
    have "(r, w') = (bindR (mapErr unbind_error r1) (\<lambda>_. Ok \<lparr>ub_IsAsync = False\<rparr>), w1)"
    proof (cases "ServiceBinderFactory (ServiceName (i_Labels inst)) (Some inst)")
      case (Ok sb)
      with ub have "sb_Unbind (br_cp b) sb bid w = (r1, w1)" by (simp add: instance_Unbind_def)
      with run pi pi' True Ok show ?thesis
        by (cases r1)
          (auto simp: Unbind_def bindM_step bindM_def handleM_def unbind_error_def)
    next
      case (Err e)
      then have "\<not> IsNotFound e" by (auto simp: ServiceBinderFactory_def split: if_splits)
      with run pi pi' True Err ub show ?thesis
        by (auto simp: Unbind_def instance_Unbind_def unbind_error_def)
    qed simp
    then have eqs: "w1 = w'"
      "r = bindR (mapErr unbind_error r1) (\<lambda>_. Ok \<lparr>ub_IsAsync = False\<rparr>)" by simp_all
    show thesis
      by (rule unbound [OF _ True ub [unfolded eqs(1)] eqs(2)]) (simp add: pi pi')
  qed (use run pi pi' err in \<open>auto simp: Unbind_def\<close>)
qed (use run err panic in \<open>auto simp: Unbind_def\<close>)

section \<open>Updating\<close>

definition update_params ::
  "'w Broker \<Rightarrow> inst \<Rightarrow> raw_json option \<Rightarrow> 'w \<Rightarrow> go_map result" where
  "update_params b inst raw w =
     (case raw of
        None \<Rightarrow> Ok (GoMap [])
      | Some j \<Rightarrow> if raw_is_empty raw then Ok (GoMap [])
                  else validateParams b (Some inst) (ServiceName (i_Labels inst)) j w)"

lemma Update_run:
  assumes run: "Update b i serviceID oldPlanID newPlanID raw w = (r, w')"
  obtains (err) e where "r = Err e" "w' = w"
    | (panic) x where "r = Panic x" "w' = w"
    | (stored) p inst np ap where "getPlanInstance b oldPlanID i w = Ok (p, inst)"
        "ServiceID (i_Labels inst) = serviceID" "Plan (br_cp b) newPlanID w = Ok np"
        "AllowUpdate (br_planComparer b) p np = Ok True"
        "update_params b (inst\<lparr>i_Composite := on_plan np (i_Composite inst)\<rparr>) raw w = Ok ap"
        "UpdateInstance (br_cp b) (inst\<lparr>i_Composite := on_plan np (i_Composite inst)\<rparr>) np ap w
           = (r, w')"
proof (cases "getPlanInstance b oldPlanID i w")
  case pi: (Ok pi)
  obtain p inst where pi': "pi = (p, inst)" by fastforce
  show thesis
  proof (cases "ServiceID (i_Labels inst) = serviceID")
    case sid: True
    show thesis
    proof (cases "Plan (br_cp b) newPlanID w")
      case np: (Ok np)
      show thesis
      proof (cases "AllowUpdate (br_planComparer b) p np")
        case allow: (Ok ok)
        show thesis
        proof (cases ok)
          case ok: True
          let ?inst = "inst\<lparr>i_Composite := on_plan np (i_Composite inst)\<rparr>"
          let ?pm = "case raw of None \<Rightarrow> retM (GoMap []) | Some j \<Rightarrow>
              if raw_is_empty raw then retM (GoMap [])
              else readM (validateParams b (Some ?inst) (ServiceName (i_Labels inst)) j)"
          have pm: "?pm w = (update_params b ?inst raw w, w)"
            by (cases raw) (simp_all add: update_params_def)
          have eq: "(r, w') = bindM ?pm (UpdateInstance (br_cp b) ?inst np) w"
            using run pi pi' sid np allow ok by (simp add: Update_def Let_def cong: option.case_cong)
          show thesis
          proof (cases "update_params b ?inst raw w")
            case (Ok ap)
            with eq pm have "UpdateInstance (br_cp b) ?inst np ap w = (r, w')"
              by (simp add: bindM_step)
            with stored [OF _ sid np _ Ok] pi pi' allow ok show thesis by simp
          qed (use eq pm err panic in \<open>auto simp: bindM_step\<close>)
        qed (use run pi pi' sid np allow err in \<open>auto simp: Update_def\<close>)
      qed (use run pi pi' sid np err panic in \<open>auto simp: Update_def\<close>)
    qed (use run pi pi' sid err panic in \<open>auto simp: Update_def\<close>)
  qed (use run pi pi' err in \<open>auto simp: Update_def\<close>)
qed (use run err panic in \<open>auto simp: Update_def\<close>)

end
