(* ===== verification/Broker_Steps.thy ===== *)
theory Broker_Steps
  imports Broker_Effects
begin

text \<open>
  The broker as a state machine: a step is one call of an operation that may write, with any
  arguments and whatever outcome. What holds in every reachable state of the cluster is proved by
  rule induction. The operations that only read have no step: by their types they leave the world
  as it is.
\<close>

section \<open>Steps\<close>

inductive broker_step :: "'w Broker \<Rightarrow> 'w \<Rightarrow> 'w \<Rightarrow> bool" for b :: "'w Broker" where
  step_Provision: "Provision b rctx i planID params w = (r, w') \<Longrightarrow> broker_step b w w'"
| step_Deprovision: "Deprovision b i planID w = (r', w') \<Longrightarrow> broker_step b w w'"
| step_Bind: "Bind b i bid planID async w = (r'', w') \<Longrightarrow> broker_step b w w'"
| step_Unbind: "Unbind b i bid planID w = (ru, w') \<Longrightarrow> broker_step b w w'"
| step_Update: "Update b i serviceID oldPlanID newPlanID raw w = (rd, w') \<Longrightarrow> broker_step b w w'"

inductive broker_reaches :: "'w Broker \<Rightarrow> 'w \<Rightarrow> 'w \<Rightarrow> bool" for b :: "'w Broker" where
  reaches_start: "broker_reaches b w w"
| reaches_step: "broker_reaches b w w1 \<Longrightarrow> broker_step b w1 w2 \<Longrightarrow> broker_reaches b w w2"

lemma reaches_invariant:
  assumes "broker_reaches b w w'" and "I w" and "\<And>u v. I u \<Longrightarrow> broker_step b u v \<Longrightarrow> I v"
  shows "I w'"
  using assms(1,2) by (induction rule: broker_reaches.induct) (auto intro: assms(3))

section \<open>What an operation may touch\<close>

definition instance_keys :: "string \<Rightarrow> (gvk \<times> string) set" where
  "instance_keys i = {k. snd k = i}"

lemma instance_keys_iff [simp]: "(g, n) \<in> instance_keys i \<longleftrightarrow> n = i"
  by (simp add: instance_keys_def)

context broker_client
begin

lemma Provision_touches:
  assumes "Provision b rctx i planID params w = (r, w')"
  shows "touches (instance_keys i) {} (view w) (view w')"
  using assms
proof (cases rule: Provision_run)
  case (create p ap r1)
  from CreateInstance_effect [OF create(4)] show ?thesis by (auto intro!: touches_updates)
qed simp_all

lemma Deprovision_touches:
  assumes "Deprovision b i planID w = (r, w')"
  shows "touches (instance_keys i) {} (view w) (view w')"
  using assms
proof (cases rule: Deprovision_run)
  case (delete p inst sb r1)
  from getPlanInstance_found(1) [OF delete(1)] have "ID inst = i" by (rule found_instance_name)
  with DeleteInstance_effect [OF delete(4)] show ?thesis by (auto intro: touches_deleted)
qed simp_all

lemma Bind_touches:
  assumes "Bind b i bid planID async w = (r, w')"
  shows "touches (binding_composites bid) (binding_secrets namespace bid) (view w) (view w')"
  using assms
proof (cases rule: Bind_run)
  case (bound p inst r1)
  from any_service.bind_frame bound(3) show ?thesis by (rule writes_onlyD)
qed simp_all

lemma Unbind_touches:
  assumes "Unbind b i bid planID w = (r, w')"
  shows "touches (binding_composites bid) (binding_secrets namespace bid) (view w) (view w')"
  using assms
proof (cases rule: Unbind_run)
  case (unbound p inst r1)
  from any_service.unbind_frame unbound(3) show ?thesis by (rule writes_onlyD)
qed simp_all

lemma Update_touches:
  assumes "Update b i serviceID oldPlanID newPlanID raw w = (r, w')"
  shows "touches (instance_keys i) {} (view w) (view w')"
  using assms
proof (cases rule: Update_run)
  case (stored p inst np ap)
  let ?inst = "inst\<lparr>i_Composite := on_plan np (i_Composite inst)\<rparr>"
  from getPlanInstance_found(1) [OF stored(1)] have "ID inst = i" by (rule found_instance_name)
  then have "ID ?inst = i" by (simp add: ID_def on_plan_def)
  with UpdateInstance_effect [OF stored(6)] show ?thesis by (auto intro!: touches_updates)
qed simp_all

lemma step_keeps_compositions:
  assumes "broker_step b w w'"
  shows "cl_compositions (view w') = cl_compositions (view w)"
  using assms
  by (cases rule: broker_step.cases)
    (auto dest!: Provision_touches Deprovision_touches Bind_touches Unbind_touches Update_touches
      simp: touches_def)

end

section \<open>No user without its secret\<close>

text \<open>No plan has the kind of the MariaDB users the broker manages itself.\<close>

definition no_user_plans :: "'w Broker \<Rightarrow> cluster \<Rightarrow> bool" where
  "no_user_plans b cl \<longleftrightarrow>
     (\<forall>co \<in> set (cl_compositions cl). \<forall>p. newPlan co = Ok p \<longrightarrow>
        GVK (cp_client (br_cp b)) p \<noteq> Ok mariaDBUserGroupVersionKind)"

lemma no_user_plansI:
  assumes "list_all (\<lambda>co. co_typeRefKind co \<noteq> Kind mariaDBUserGroupVersionKind) (cl_compositions cl)"
  shows "no_user_plans b cl"
  unfolding no_user_plans_def
proof (intro ballI allI impI)
  fix co p assume "co \<in> set (cl_compositions cl)" and "newPlan co = Ok p"
  with assms have "co_typeRefKind (p_Composition p) \<noteq> Kind mariaDBUserGroupVersionKind"
    by (auto simp: list_all_iff dest: newPlan_OkD)
  then show "GVK (cp_client (br_cp b)) p \<noteq> Ok mariaDBUserGroupVersionKind"
    using GVK_kind by metis
qed

context broker_client
begin

lemma credentials_stored_put:
  "credentials_stored namespace (view w) \<Longrightarrow> c_gvk c \<noteq> mariaDBUserGroupVersionKind \<Longrightarrow>
     credentials_stored namespace (put_composite c (view w))"
  by (rule credentials_stored_updates(3))

lemma credentials_stored_deleted:
  "credentials_stored namespace (view w) \<Longrightarrow> deleted g n (view w) cl' \<Longrightarrow>
     credentials_stored namespace cl'"
  by (rule credentials_stored_updates(2)) (auto dest: composite_key)

lemma step_credentials_stored:
  assumes "broker_step b w w'" and "credentials_stored namespace (view w)"
    and "no_user_plans b (view w)"
  shows "credentials_stored namespace (view w')"
  using assms(1)
proof (cases rule: broker_step.cases)
  case (step_Provision rctx i planID params r)
  from this show ?thesis
  proof (cases rule: Provision_run)
    case (create p ap r1)
    from Plan_stored [OF create(1)] assms(3)
    have "GVK (cp_client (br_cp b)) p \<noteq> Ok mariaDBUserGroupVersionKind"
      by (auto simp: no_user_plans_def)
    with CreateInstance_effect [OF create(4)] assms(2) show ?thesis
      by (auto intro!: credentials_stored_put)
  qed (use assms(2) in simp_all)
next
  case (step_Deprovision i planID r)
  from this show ?thesis
  proof (cases rule: Deprovision_run)
    case (delete p inst sb r1)
    from DeleteInstance_effect [OF delete(4)] assms(2) show ?thesis
      by (auto intro: credentials_stored_deleted)
  qed (use assms(2) in simp_all)
next
  case (step_Bind i bid planID async r)
  from this show ?thesis
  proof (cases rule: Bind_run)
    case (bound p inst r1)
    with any_service.bind_stores assms(2) show ?thesis by (metis keepsD)
  qed (use assms(2) in simp_all)
next
  case (step_Unbind i bid planID r)
  from this show ?thesis
  proof (cases rule: Unbind_run)
    case (unbound p inst r1)
    with any_service.unbind_stores assms(2) show ?thesis by (metis keepsD)
  qed (use assms(2) in simp_all)
next
  case (step_Update i serviceID oldPlanID newPlanID raw r)
  from this show ?thesis
  proof (cases rule: Update_run)
    case (stored p inst np ap)
    from Plan_stored [OF stored(3)] assms(3)
    have "GVK (cp_client (br_cp b)) np \<noteq> Ok mariaDBUserGroupVersionKind"
      by (auto simp: no_user_plans_def)
    with UpdateInstance_effect [OF stored(6)] assms(2) show ?thesis
      by (auto intro!: credentials_stored_put)
  qed (use assms(2) in simp_all)
qed

lemma reaches_credentials_stored:
  assumes "broker_reaches b w w'" and "credentials_stored namespace (view w)"
    and "no_user_plans b (view w)"
  shows "credentials_stored namespace (view w')"
proof -
  have "credentials_stored namespace (view w') \<and> no_user_plans b (view w')"
    using assms
  proof (induction rule: broker_reaches.induct)
    case (reaches_step w w1 w2)
    then show ?case
      using step_credentials_stored step_keeps_compositions by (auto simp: no_user_plans_def)
  qed simp
  then show ?thesis ..
qed

end

section \<open>Instances agree with their plan\<close>

text \<open>
  The broker marks what it creates with the principal label. Such an instance carries its own name
  as instance label, and the plan name and service level of the composition it refers to.
\<close>

definition plan_agrees :: "cluster \<Rightarrow> composite \<Rightarrow> bool" where
  "plan_agrees cl c \<longleftrightarrow>
     (\<exists>co \<in> set (cl_compositions cl). c_compositionRef c = Some (co_name co) \<and>
        c_labels c PlanNameLabel = Some (sget (co_labels co) PlanNameLabel) \<and>
        c_labels c SLALabel = Some (sget (co_labels co) SLALabel))"

definition instances_agree :: "cluster \<Rightarrow> bool" where
  "instances_agree cl \<longleftrightarrow>
     (\<forall>g n c. cl_composites cl (g, n) = Some c \<longrightarrow> c_labels c PrincipalLabel \<noteq> None \<longrightarrow>
        c_labels c InstanceIDLabel = Some n \<and> plan_agrees cl c)"

lemma instances_agree_put:
  assumes "instances_agree cl"
    and "c_labels c PrincipalLabel \<noteq> None \<Longrightarrow>
      c_labels c InstanceIDLabel = Some (c_name c) \<and> plan_agrees cl c"
  shows "instances_agree (put_composite c cl)"
  using assms
  by (auto simp: instances_agree_def plan_agrees_def put_composite_def split: if_splits)

lemma instances_agree_deleted:
  assumes "instances_agree cl" and "deleted g n cl cl'"
    and "\<And>c. cl_composites cl (g, n) = Some c \<Longrightarrow> c_gvk c = g \<and> c_name c = n"
  shows "instances_agree cl'"
  using assms
  by (auto simp: instances_agree_def plan_agrees_def deleted_def cluster_updates split: if_splits)

lemma instances_agree_secret: "instances_agree cl \<Longrightarrow> instances_agree (put_secret s cl)"
  by (auto simp: instances_agree_def plan_agrees_def put_secret_def)

lemma on_plan_labels [simp]:
  "c_labels (on_plan np c) PlanNameLabel = Some (sget (co_labels (p_Composition np)) PlanNameLabel)"
  "c_labels (on_plan np c) SLALabel = Some (sget (co_labels (p_Composition np)) SLALabel)"
  "c_labels (on_plan np c) PrincipalLabel = c_labels c PrincipalLabel"
  "c_labels (on_plan np c) InstanceIDLabel = c_labels c InstanceIDLabel"
  "c_compositionRef (on_plan np c) = Some (co_name (p_Composition np))"
  "c_name (on_plan np c) = c_name c" "c_gvk (on_plan np c) = c_gvk c"
  by (simp_all add: on_plan_def label_keys)

lemma plan_labels_members:
  "PlanNameLabel \<in> set plan_labels" "SLALabel \<in> set plan_labels"
  "ServiceIDLabel \<in> set plan_labels" "ServiceNameLabel \<in> set plan_labels"
  by (simp_all add: plan_labels_def)

lemma stored_user_no_principal: "c_labels (stored_user b i p) PrincipalLabel = None"
  by (simp add: stored_user_def binding_composite_def binding_labels_def label_keys)

lemma bound_stage_agree:
  "bound_stage ns b i p cl cl' \<Longrightarrow> instances_agree cl \<Longrightarrow> instances_agree cl'"
  by (auto simp: bound_stage_def stored_user_no_principal
      intro!: instances_agree_put instances_agree_secret)

context broker_client
begin

lemma unbound_stage_agree:
  assumes "unbound_stage namespace bid (view w) cl'" and "instances_agree (view w)"
  shows "instances_agree cl'"
proof -
  have key: "c_gvk c = mariaDBUserGroupVersionKind \<and> c_name c = bid"
    if "cl_composites (put_secret x (view w)) (mariaDBUserGroupVersionKind, bid) = Some c" for c x
    using that composite_key by (simp add: put_secret_def)
  from assms(1) show ?thesis
    unfolding unbound_stage_def
    by (elim disjE exE conjE)
      (simp_all add: assms(2) instances_agree_secret
        instances_agree_deleted [OF instances_agree_secret [OF assms(2)] _ key])
qed

lemma instance_Bind_agree:
  "keeps (\<lambda>w w'. instances_agree (view w) \<longrightarrow> instances_agree (view w')) (instance_Bind (br_cp b) i bid)"
proof (rule instance_Bind_by_service)
  show "keeps (\<lambda>w w'. instances_agree (view w) \<longrightarrow> instances_agree (view w'))
      (MariadbDatabase_Bind (br_cp b) i bid)"
    by (rule keepsI) (use db_Bind_stage bound_stage_agree in metis)
qed (auto simp: keeps_def)

lemma instance_Unbind_agree:
  "keeps (\<lambda>w w'. instances_agree (view w) \<longrightarrow> instances_agree (view w'))
     (instance_Unbind (br_cp b) i bid)"
proof (rule instance_Unbind_by_service)
  show "keeps (\<lambda>w w'. instances_agree (view w) \<longrightarrow> instances_agree (view w'))
      (MariadbDatabase_Unbind (br_cp b) bid)"
    by (rule keepsI) (use db_Unbind_stage unbound_stage_agree in metis)
qed (auto simp: keeps_def)

lemma created_agrees:
  assumes "prepareLabels (br_cp b) rctx i p params = Ok l"
    and "p_Composition p \<in> set (cl_compositions cl)"
  shows "plan_agrees cl (instance_composite g i p l params)"
  using prepareLabels_OkD(3) [OF assms(1)] assms(2) plan_labels_members
  by (auto simp: plan_agrees_def)

lemma updated_agrees:
  assumes "p_Composition np \<in> set (cl_compositions cl)"
  shows "plan_agrees cl (updated_composite g (inst\<lparr>i_Composite := on_plan np c\<rparr>) params)"
  using assms by (auto simp: plan_agrees_def)

lemma step_instances_agree:
  assumes "broker_step b w w'" and "instances_agree (view w)"
  shows "instances_agree (view w')"
  using assms(1)
proof (cases rule: broker_step.cases)
  case (step_Provision rctx i planID params r)
  from this show ?thesis
  proof (cases rule: Provision_run)
    case (create p ap r1)
    from Plan_stored(1) [OF create(1)]
    have co: "p_Composition p \<in> set (cl_compositions (view w))" .
    have "instances_agree (put_composite (instance_composite g i p l ap) (view w))"
      if l: "prepareLabels (br_cp b) rctx i p ap = Ok l" for g l
      by (rule instances_agree_put [OF assms(2)])
        (simp add: prepareLabels_OkD(1) [OF l] created_agrees [OF l co])
    with CreateInstance_effect [OF create(4)] assms(2) show ?thesis by auto
  qed (use assms(2) in simp_all)
next
  case (step_Deprovision i planID r)
  from this show ?thesis
  proof (cases rule: Deprovision_run)
    case (delete p inst sb r1)
    from DeleteInstance_effect [OF delete(4)] assms(2) show ?thesis
      by (auto intro: instances_agree_deleted dest: composite_key)
  qed (use assms(2) in simp_all)
next
  case (step_Bind i bid planID async r)
  from this show ?thesis
  proof (cases rule: Bind_run)
    case (bound p inst r1)
    with instance_Bind_agree assms(2) show ?thesis by (metis keepsD)
  qed (use assms(2) in simp_all)
next
  case (step_Unbind i bid planID r)
  from this show ?thesis
  proof (cases rule: Unbind_run)
    case (unbound p inst r1)
    with instance_Unbind_agree assms(2) show ?thesis by (metis keepsD)
  qed (use assms(2) in simp_all)
next
  case (step_Update i serviceID oldPlanID newPlanID raw r)
  from this show ?thesis
  proof (cases rule: Update_run)
    case (stored p inst np ap)
    let ?inst = "inst\<lparr>i_Composite := on_plan np (i_Composite inst)\<rparr>"
    from getPlanInstance_found(1) [OF stored(1)] obtain g0
      where old: "cl_composites (view w) (g0, i) = Some (i_Composite inst)"
      by (auto simp: found_instance_def)
    then have "c_name (i_Composite inst) = i" by (auto dest: composite_key)
    with old assms(2) have own: "c_labels (i_Composite inst) PrincipalLabel \<noteq> None \<Longrightarrow>
        c_labels (i_Composite inst) InstanceIDLabel = Some (ID ?inst)"
      by (auto simp: instances_agree_def ID_def)
    from Plan_stored(1) [OF stored(3)] have np: "p_Composition np \<in> set (cl_compositions (view w))" .
    have "instances_agree (put_composite (updated_composite g ?inst ap) (view w))" for g
      by (rule instances_agree_put [OF assms(2)]) (use own updated_agrees [OF np] in auto)
    with UpdateInstance_effect [OF stored(6)] assms(2) show ?thesis by auto
  qed (use assms(2) in simp_all)
qed

lemma reaches_instances_agree:
  "broker_reaches b w w' \<Longrightarrow> instances_agree (view w) \<Longrightarrow> instances_agree (view w')"
  by (rule reaches_invariant [where I = "\<lambda>w. instances_agree (view w)"])
    (auto intro: step_instances_agree)

end

end
