(* ===== verification/Broker_Correct.thy ===== *)
theory Broker_Correct
  imports Broker_Steps
begin

text \<open>
  What the operations achieve: the outcome and the cluster after each operation of the broker, over
  a client that meets \<open>k8s_api\<close> or \<open>k8s_reliable\<close>.
\<close>

section \<open>Provision\<close>

text \<open>The composite of a freshly provisioned instance.\<close>

definition fresh_instance ::
  "'w Broker \<Rightarrow> ReqContext \<Rightarrow> string \<Rightarrow> plan \<Rightarrow> go_map \<Rightarrow> composite \<Rightarrow> bool" where
  "fresh_instance b rctx i p ap c \<longleftrightarrow>
     GVK (cp_client (br_cp b)) p = Ok (c_gvk c) \<and> c_name c = i \<and>
     c_compositionRef c = Some (co_name (p_Composition p)) \<and>
     c_parameters c = Some (map_value ap) \<and>
     c_labels c InstanceIDLabel = Some i \<and>
     (\<exists>pr. PrincipalFromContext (rc_Context rctx) (cp_config (br_cp b)) = Ok pr \<and>
        c_labels c PrincipalLabel = Some pr) \<and>
     c_labels c ParentIDLabel = parent_of ap \<and>
     (\<forall>k \<in> set plan_labels. c_labels c k = Some (sget (co_labels (p_Composition p)) k))"

lemma fresh_instance_composite:
  "prepareLabels (br_cp b) rctx i p ap = Ok l \<Longrightarrow> GVK (cp_client (br_cp b)) p = Ok g \<Longrightarrow>
     fresh_instance b rctx i p ap (instance_composite g i p l ap)"
  using prepareLabels_OkD [of "br_cp b" rctx i p ap l] by (simp add: fresh_instance_def)

lemma sget_Some: "l k = Some v \<Longrightarrow> sget l k = v"
  by (simp add: sget_def)

text \<open>Its labels parse, and to the plan's name: the instance will be found under its plan.\<close>

lemma plan_label_keys: "{ServiceNameLabel, PlanNameLabel, SLALabel, ServiceIDLabel} \<subseteq> set plan_labels"
  by (simp add: plan_labels_def)

lemma fresh_labels_parse:
  assumes "prepareLabels cp rctx i p ap = Ok l" and "parseLabels (co_labels (p_Composition p)) = Ok pl"
  shows "\<exists>il. parseLabels l = Ok il \<and> PlanName il = PlanName pl \<and> ServiceName il = ServiceName pl \<and>
    ServiceID il = ServiceID pl"
proof -
  from assms(1) obtain pr where l: "l = (base_labels i pr p)(ParentIDLabel := parent_of ap)"
    by (rule prepareLabels_Ok)
  have none: "l k = None" if "k \<in> {BindableLabel, UpdatableLabel, DeletedLabel}" for k
  proof -
    have k: "k \<notin> set plan_labels" "k \<noteq> InstanceIDLabel" "k \<noteq> PrincipalLabel" "k \<noteq> ParentIDLabel"
      using that by (auto simp: plan_labels_def label_keys)
    then show ?thesis by (simp add: l base_labels_def copy_labels_other)
  qed
  have same: "sget l k = sget (co_labels (p_Composition p)) k" if "k \<in> set plan_labels" for k
    using prepareLabels_OkD(3) [OF assms(1) that] by (simp add: sget_def)
  from none have bools: "sget l BindableLabel = ''''" "sget l UpdatableLabel = ''''"
    "sget l DeletedLabel = ''''" by (simp_all add: sget_def)
  have "IsValid (sget l ServiceNameLabel)"
    using parseLabels_OkD(1,8) [OF assms(2)] same [of ServiceNameLabel] plan_label_keys by auto
  then obtain il where il: "parseLabels l = Ok il"
    by (auto simp: parseLabels_def Let_def bools parseBoolLabel_def)
  from parseLabels_OkD(1-3) [OF il] parseLabels_OkD(1-3) [OF assms(2)] same plan_label_keys il
  show ?thesis by auto
qed

context broker_client
begin

lemma Provision_Ok:
  assumes run: "Provision b rctx i planID params w = (Ok res, w')"
  obtains (created) p c ap where "res = \<lparr>ps_IsAsync = True, ps_AlreadyExists = False\<rparr>"
      "p_Composition p \<in> set (cl_compositions (view w))" "co_name (p_Composition p) = planID"
      "newPlan (p_Composition p) = Ok p" "provision_params b p params w = Ok ap"
      "fresh_instance b rctx i p ap c" "cl_composites (view w) (c_gvk c, i) = None"
      "view w' = put_composite c (view w)" "Plan (br_cp b) planID w = Ok p"
    | (existing) p inst where "res = \<lparr>ps_IsAsync = False, ps_AlreadyExists = True\<rparr>"
      "params = None" "w' = w" "found_instance b i (view w) p inst"
      "co_name (p_Composition p) = planID"
  using run
proof (cases rule: Provision_run)
  case (existing p inst)
  from Plan_stored [OF existing(1)] Instance_stored [OF existing(2)]
  have "found_instance b i (view w) p inst" "co_name (p_Composition p) = planID" by blast+
  with existing that(2) show thesis by simp
next
  case (create p ap r1)
  from create(5) have r1: "r1 = Ok ()" by (cases r1) simp_all
  from CreateInstance_effect [OF create(4)] r1 obtain l g
    where l: "prepareLabels (br_cp b) rctx i p ap = Ok l"
      and g: "GVK (cp_client (br_cp b)) p = Ok g"
      and v: "view w' = put_composite (instance_composite g i p l ap) (view w)"
      and new: "cl_composites (view w) (g, i) = None" by auto
  from create(5) r1 have res: "res = \<lparr>ps_IsAsync = True, ps_AlreadyExists = False\<rparr>" by simp
  from Plan_stored [OF create(1)]
    that(1) [OF res _ _ _ create(3) fresh_instance_composite [OF l g] _ v create(1)] new
  show thesis by simp
qed simp_all

end

lemma Instance_NoneD:
  assumes "Instance cp i p w = Ok None"
  shows "\<exists>g e. GVK (cp_client cp) p = Ok g \<and> l_getComposite (cp_client cp) g i w = Inl e \<and> IsNotFound e"
proof (cases "GVK (cp_client cp) p")
  case (Ok g)
  with assms show ?thesis
    by (cases "l_getComposite (cp_client cp) g i w") (auto simp: Instance_def go_inv split: if_splits)
qed (use assms in \<open>simp_all add: Instance_def\<close>)

text \<open>Provisioning an instance that is not there yet: validation, and one create call.\<close>

lemma Provision_new:
  assumes "Plan (br_cp b) planID w = Ok p" and "Instance (br_cp b) i p w = Ok None"
  shows "Provision b rctx i planID params w =
    bindM (readM (provision_params b p params)) (\<lambda>ap.
    bindM (CreateInstance (br_cp b) rctx i p ap) (\<lambda>_.
    retM \<lparr>ps_IsAsync = True, ps_AlreadyExists = False\<rparr>)) w"
proof (cases params)
  case None
  with assms show ?thesis by (simp add: Provision_def provision_params_def)
next
  case (Some raw)
  with assms show ?thesis
    by (cases "p_Labels p")
      (simp_all add: Provision_def provision_params_def bindM_def split: result.splits)
qed

context reliable_broker
begin

lemma CreateInstance_succeeds:
  assumes new: "Instance (br_cp b) i p w = Ok None"
    and l: "prepareLabels (br_cp b) rctx i p ap = Ok l"
  shows "\<exists>w'. CreateInstance (br_cp b) rctx i p ap w = (Ok (), w')"
proof -
  from Instance_NoneD [OF new] obtain g e where g: "GVK (cp_client (br_cp b)) p = Ok g"
    and e: "l_getComposite (cp_client (br_cp b)) g i w = Inl e" "IsNotFound e" by blast
  from get_composite_absent [OF e] have none: "cl_composites (view w) (g, i) = None" .
  obtain c where c: "l_setParameters (cp_client (br_cp b)) (map_value ap)
      ((new_composite g i)\<lparr>c_compositionRef := Some (co_name (p_Composition p))\<rparr>) = Inr c"
    using set_parameters_answers by blast
  obtain w' where "l_createComposite (cp_client (br_cp b)) (instance_composite g i p l ap) w = (Inr (), w')"
    using create_composite_succeeds [of w "instance_composite g i p l ap"] none by auto
  with CreateInstance_run [OF l g c] show ?thesis by (simp add: writeM_simps)
qed

text \<open>On a cluster that answers, an operation that fails to provision changes nothing.\<close>

lemma CreateInstance_err_keeps:
  assumes run: "CreateInstance (br_cp b) rctx i p ap w = (r, w')" and "r \<noteq> Ok ()"
  shows "view w' = view w"
proof (cases "\<exists>l g c. prepareLabels (br_cp b) rctx i p ap = Ok l \<and>
    GVK (cp_client (br_cp b)) p = Ok g \<and> l_setParameters (cp_client (br_cp b)) (map_value ap)
      ((new_composite g i)\<lparr>c_compositionRef := Some (co_name (p_Composition p))\<rparr>) = Inr c")
  case True
  then obtain l g c where l: "prepareLabels (br_cp b) rctx i p ap = Ok l"
    and g: "GVK (cp_client (br_cp b)) p = Ok g"
    and c: "l_setParameters (cp_client (br_cp b)) (map_value ap)
      ((new_composite g i)\<lparr>c_compositionRef := Some (co_name (p_Composition p))\<rparr>) = Inr c" by blast
  let ?c = "instance_composite g i p l ap"
  from CreateInstance_run [OF l g c] run
  have cr: "writeM (l_createComposite (cp_client (br_cp b)) ?c) w = (r, w')" by simp
  have "cl_composites (view w) (c_gvk ?c, c_name ?c) \<noteq> None"
  proof
    assume "cl_composites (view w) (c_gvk ?c, c_name ?c) = None"
    with create_composite_succeeds obtain w1
      where "l_createComposite (cp_client (br_cp b)) ?c w = (Inr (), w1)" by blast
    with cr assms(2) show False by (simp add: writeM_simps)
  qed
  then obtain e w1 where "l_createComposite (cp_client (br_cp b)) ?c w = (Inl e, w1)"
    "IsAlreadyExists e" using create_composite_refused by blast
  with cr create_composite_exists show ?thesis by (fastforce simp: writeM_simps)
next
  case False
  obtain c where "\<And>g. \<exists>c. l_setParameters (cp_client (br_cp b)) (map_value ap)
      ((new_composite g i)\<lparr>c_compositionRef := Some (co_name (p_Composition p))\<rparr>) = Inr c"
    using set_parameters_answers by blast
  with False run show ?thesis
    by (cases "prepareLabels (br_cp b) rctx i p ap"; cases "GVK (cp_client (br_cp b)) p")
      (auto simp: CreateInstance_def Let_def)
qed

lemma Provision_err_keeps:
  assumes "Provision b rctx i planID params w = (r, w')" and "\<nexists>res. r = Ok res"
  shows "view w' = view w"
  using assms(1)
proof (cases rule: Provision_run)
  case (create p ap r1)
  with assms(2) have "r1 \<noteq> Ok ()" by auto
  with create(4) show ?thesis by (rule CreateInstance_err_keeps)
qed (use assms(2) in simp_all)

text \<open>Asking again for what was provisioned.\<close>

lemma Plan_again:
  assumes "Plan (br_cp b) n w = Ok p" and "cl_compositions (view w') = cl_compositions (view w)"
    and "\<And>co co'. co \<in> set (cl_compositions (view w)) \<Longrightarrow> co' \<in> set (cl_compositions (view w)) \<Longrightarrow>
      co_name co = co_name co' \<Longrightarrow> co = co'"
  shows "Plan (br_cp b) n w' = Ok p"
proof -
  note st = Plan_stored [OF assms(1)]
  from st(1,2) assms(2) get_composition_found obtain co
    where co: "l_getComposition (cp_client (br_cp b)) n w' = Inr co" by metis
  with get_composition_ok assms(2) st assms(3) have "co = p_Composition p" by metis
  with co st(3) show ?thesis by (simp add: Plan_def)
qed

lemma Provision_again:
  assumes run: "Provision b rctx i planID params w = (Ok res, w')" and "ps_IsAsync res"
    and names: "\<And>co co'. co \<in> set (cl_compositions (view w)) \<Longrightarrow>
      co' \<in> set (cl_compositions (view w)) \<Longrightarrow> co_name co = co_name co' \<Longrightarrow> co = co'"
  shows "Provision b rctx' i planID again w' =
    (if again = None then Ok \<lparr>ps_IsAsync = False, ps_AlreadyExists = True\<rparr>
     else Err (Failure (LibFailure ErrInstanceAlreadyExists)), w')"
  using run
proof (cases rule: Provision_run)
  case (create p ap r1)
  from create(5) have r1: "r1 = Ok ()" by (cases r1) simp_all
  from CreateInstance_effect [OF create(4)] r1 obtain l g
    where l: "prepareLabels (br_cp b) rctx i p ap = Ok l"
      and g: "GVK (cp_client (br_cp b)) p = Ok g"
      and v: "view w' = put_composite (instance_composite g i p l ap) (view w)" by auto
  have plan: "Plan (br_cp b) planID w' = Ok p"
    by (rule Plan_again [OF create(1) _ names]) (simp_all add: v put_composite_def)
  from newPlan_labels [OF Plan_stored(3) [OF create(1)]] obtain pl
    where pl: "p_Labels p = Some pl" "parseLabels (co_labels (p_Composition p)) = Ok pl" by blast
  from fresh_labels_parse [OF l pl(2)] obtain il
    where il: "parseLabels l = Ok il" "PlanName il = PlanName pl" by blast
  have get: "l_getComposite (cp_client (br_cp b)) g i w' = Inr (instance_composite g i p l ap)"
    by (rule get_composite_found) (simp add: v put_composite_def)
  then have "Instance (br_cp b) i p w' =
      Ok (Some \<lparr>i_Composite = instance_composite g i p l ap, i_Labels = il\<rparr>)"
    by (simp add: Instance_def newInstance_def g il pl)
  with plan show ?thesis by (simp add: Provision_def)
qed (use assms(2) in auto)

end

section \<open>Deprovision\<close>

context broker_client
begin

text \<open>What was deprovisioned was the instance; a Galera cluster had no databases left.\<close>

lemma Deprovision_Ok:
  assumes run: "Deprovision b i planID w = (Ok res, w')"
  obtains p inst g where "found_instance b i (view w) p inst" "GVK (cp_client (br_cp b)) p = Ok g"
    "deleted g i (view w) (view w')"
    "ServiceName (i_Labels inst) = MariaDBService \<Longrightarrow> databases_of i (view w) = {}"
  using run
proof (cases rule: Deprovision_run)
  case (delete p inst sb r1)
  from getPlanInstance_found(1) [OF delete(1)] have found: "found_instance b i (view w) p inst" .
  then have name: "ID inst = i" by (rule found_instance_name)
  from delete(5) have r1: "r1 = Ok ()" by (cases r1) simp_all
  from DeleteInstance_effect [OF delete(4)] r1 obtain g where "GVK (cp_client (br_cp b)) p = Ok g"
    "deleted g (ID inst) (view w) (view w')" by auto
  moreover have "databases_of i (view w) = {}" if "ServiceName (i_Labels inst) = MariaDBService"
    using delete(2,3) that name deprovisionable_free [of inst w] by auto
  ultimately show thesis using found name that by blast
qed simp_all

end

context reliable_broker
begin

lemma Deprovision_in_use:
  assumes found: "getPlanInstance b planID i w = Ok (p, inst)"
    and svc: "ServiceName (i_Labels inst) = MariaDBService"
    and used: "databases_of i (view w) \<noteq> {}"
  shows "\<exists>cs. Deprovision b i planID w = (Err (in_use_error cs), w) \<and> set cs = databases_of i (view w)"
proof -
  from getPlanInstance_found(1) [OF found] have name: "ID inst = i" by (rule found_instance_name)
  obtain cs where cs: "l_listComposites (cp_client (br_cp b)) mariaDBDatabaseGroupVersionKind
      ParentIDLabel i w = Inr cs" using list_composites_answers by blast
  with database_list have set: "set cs = databases_of i (view w)" by blast
  with used have "cs \<noteq> []" by auto
  with found svc cs name set show ?thesis
    by (auto simp: Deprovision_def Mariadb_Deprovisionable_def)
qed

lemma Deprovision_deletes:
  assumes run: "Deprovision b i planID w = (Ok res, w')"
    and found: "getPlanInstance b planID i w = Ok (p, inst)"
  shows "\<exists>g. GVK (cp_client (br_cp b)) p = Ok g \<and> deleted g i (view w) (view w')"
  using run
proof (cases rule: Deprovision_run)
  case (delete p' inst' sb r1)
  with found have eq: "p' = p" "inst' = inst" by simp_all
  have name: "ID inst = i" by (rule found_instance_name [OF getPlanInstance_found(1) [OF found]])
  from delete(5) have "r1 = Ok ()" by (cases r1) simp_all
  with DeleteInstance_effect [OF delete(4)] name show ?thesis by (auto simp: eq)
qed simp_all

text \<open>Otherwise nothing is in the way: the instance has a binder, and its composite is there.\<close>

lemma found_instance_valid: "found_instance b i cl p inst \<Longrightarrow> IsValid (ServiceName (i_Labels inst))"
  by (auto simp: found_instance_def newInstance_Ok_iff dest: parseLabels_OkD)

lemma Deprovision_free:
  assumes found: "getPlanInstance b planID i w = Ok (p, inst)"
    and free: "ServiceName (i_Labels inst) = MariaDBService \<Longrightarrow> databases_of i (view w) = {}"
  shows "\<exists>w'. Deprovision b i planID w = (Ok \<lparr>ds_IsAsync = False\<rparr>, w')"
proof -
  from getPlanInstance_found(1) [OF found] have stored: "found_instance b i (view w) p inst" .
  then have name: "ID inst = i" by (rule found_instance_name)
  from stored obtain g where g: "GVK (cp_client (br_cp b)) p = Ok g"
    and there: "cl_composites (view w) (g, i) \<noteq> None" by (auto simp: found_instance_def)
  obtain sb where sb: "ServiceBinderFactory (ServiceName (i_Labels inst)) (Some inst) = Ok sb"
    and ok: "sb_Deprovisionable (br_cp b) sb w = Ok ()"
    using found_instance_valid [OF stored] free deprovisionable_iff [of inst w] name
    by (auto simp: IsValid_def ServiceBinderFactory_def service_names Redis_Deprovisionable_def
        MariadbDatabase_Deprovisionable_def)
  from delete_composite_succeeds [OF there] obtain w'
    where "l_deleteComposite (cp_client (br_cp b)) g i False w = (Inr (), w')" by blast
  with found sb ok g name show ?thesis
    by (auto simp: Deprovision_def DeleteInstance_def bindM_def writeM_def ID_def)
qed

end

section \<open>Bind and Unbind\<close>

text \<open>Neither works on an instance that is not ready, whatever the service.\<close>

lemma Bind_not_ready:
  assumes "getPlanInstance b planID i w = Ok (p, inst)" and "\<not> Ready inst"
  shows "Bind b i bid planID async w = (Err (Failure (LibFailure ErrConcurrentInstanceAccess)), w)"
    and "Unbind b i bid planID w = (Err (Failure (LibFailure ErrConcurrentInstanceAccess)), w)"
    and "GetBinding b i bid planID w = Err (Failure (LibFailure ErrConcurrentInstanceAccess))"
  using assms by (simp_all add: Bind_def Unbind_def GetBinding_def)

context broker_client
begin

lemma Bind_database_Ok:
  assumes run: "Bind b i bid planID async w = (Ok res, w')"
    and inst: "getPlanInstance b planID i w = Ok (p, inst)"
    and svc: "ServiceName (i_Labels inst) = MariaDBDatabaseService"
  obtains parent pw where "found_instance b i (view w) p inst" "Ready inst"
    "ParentReference inst = Ok parent"
    "cl_composites (view w) (mariaDBGroupVersionKind, parent) \<noteq> None"
    "cl_secrets (view w) (namespace, secretName bid) = None"
    "cl_secrets (view w') (namespace, secretName bid) = Some (stored_secret namespace bid i parent pw)"
    "cl_composites (view w') (mariaDBUserGroupVersionKind, bid) \<noteq> None"
    "cl_composites (view w) (mariaDBUserGroupVersionKind, bid) = None \<Longrightarrow>
       cl_composites (view w') (mariaDBUserGroupVersionKind, bid) = Some (stored_user bid i parent)"
    "map_of (bi_Credentials res) SecretPasswordKey = Some (CString pw)"
    "map_of (bi_Credentials res) SecretUserKey = Some (CString bid)"
    "map_of (bi_Credentials res) ''database'' = Some (CString i)"
  using run
proof (cases rule: Bind_run)
  case (bound p' inst' r1)
  with inst have same: "p' = p" "inst' = inst" by simp_all
  note bound = bound [unfolded same]
  from getPlanInstance_found(1) [OF inst] have found: "found_instance b i (view w) p inst" .
  then have name: "ID inst = i" by (rule found_instance_name)
  from bound(4) obtain creds where r1: "r1 = Ok creds" and res: "bi_Credentials res = creds"
    by (cases r1) auto
  from bound(3) r1 svc
  have "MariadbDatabase_Bind (br_cp b) inst bid w = (Ok creds, w')"
    by (simp add: instance_Bind_cases)
  then show thesis
  proof (rule db_Bind_Ok)
    fix parent pw cl s e and par :: composite
    assume parent: "ParentReference inst = Ok parent"
      "cl_composites (view w) (mariaDBGroupVersionKind, parent) = Some cl"
      and cr: "createBinding (br_cp b) bid (ID inst) parent w = (Ok pw, w')"
      and creds: "creds = createCredentials e bid pw (ID inst) (ParentID (i_Labels inst))
        (sget (c_labels par) ''service.syn.tools/cluster'') (EnableMetrics (cp_config (br_cp b)))
        (MetricsDomain (cp_config (br_cp b)))"
    note made = createBinding_Ok [OF cr]
    from made(2) name have
      "cl_secrets (view w') (namespace, secretName bid) = Some (stored_secret namespace bid i parent pw)"
      by simp
    moreover from made(3) name have
      "cl_composites (view w) (mariaDBUserGroupVersionKind, bid) = None \<Longrightarrow>
       cl_composites (view w') (mariaDBUserGroupVersionKind, bid) = Some (stored_user bid i parent)"
      by simp
    ultimately show thesis
      using that [OF found bound(2) parent(1)] parent(2) made(1,4) res creds name
      by (simp add: createCredentials_get)
  qed
qed simp_all

lemma object_answered:
  "l_getObject (cp_client (br_cp b)) a k n w = Inr u \<Longrightarrow> k_apiVersion u = a \<and> k_kind u = k \<and> k_name u = n"
  by (rule get_object_ok)

text \<open>Unbinding a database hands the secret to the user object and deletes the composite.\<close>

lemma Unbind_database_Ok:
  assumes run: "Unbind b i bid planID w = (Ok res, w')"
    and inst: "getPlanInstance b planID i w = Ok (p, inst)"
    and svc: "ServiceName (i_Labels inst) = MariaDBDatabaseService"
  obtains c s u ref where "cl_composites (view w) (mariaDBUserGroupVersionKind, bid) = Some c"
    "cl_secrets (view w) (namespace, secretName bid) = Some s"
    "ref = user_ref_loop (c_resourceRefs c) no_ref" "or_Kind ref = ''User''"
    "l_getObject (cp_client (br_cp b)) (or_APIVersion ref) (or_Kind ref) (or_Name ref) w = Inr u"
    "deleted mariaDBUserGroupVersionKind bid (put_secret (owned_by u s) (view w)) (view w')"
  using run
proof (cases rule: Unbind_run)
  case (unbound p' inst' r1)
  with inst have same: "inst' = inst" by simp
  from unbound(4) have r1: "r1 = Ok ()" by (cases r1) auto
  from unbound(3) r1 svc same
  have "MariadbDatabase_Unbind (br_cp b) bid w = (Ok (), w')" by (simp add: instance_Unbind_cases)
  then show thesis by (rule db_Unbind_Ok) (rule that)
qed simp_all

end

context reliable_broker
begin

lemma Unbind_database_absent:
  assumes "getPlanInstance b planID i w = Ok (p, inst)" and "Ready inst"
    and "ServiceName (i_Labels inst) = MariaDBDatabaseService"
    and "cl_composites (view w) (mariaDBUserGroupVersionKind, bid) = None"
  shows "Unbind b i bid planID w = (Err (Failure (LibFailure ErrBindingDoesNotExist)), w)"
  using db_Unbind_absent [OF assms(4)] assms(1-3)
  by (auto simp: Unbind_def handleM_step bindM_step)

text \<open>The secret of an attempt that came that far makes binding fail from then on.\<close>

lemma Bind_again:
  assumes "getPlanInstance b planID i w = Ok (p, inst)" and "Ready inst"
    and "ServiceName (i_Labels inst) = MariaDBDatabaseService"
    and "ParentReference inst = Ok parent"
    and "cl_composites (view w) (mariaDBGroupVersionKind, parent) \<noteq> None"
    and "cl_secrets (view w) (namespace, secretName bid) \<noteq> None"
  shows "\<exists>e w'. Bind b i bid planID async w = (Err e, w') \<and> IsAlreadyExists e \<and> view w' = view w"
  using db_Bind_again [OF assms(4-6)] assms(1-3) by (auto simp: Bind_def bindM_step)

text \<open>Polling a binding whose user composite is not ready.\<close>

lemma LastBindingOperation_in_progress:
  assumes "getPlanInstance b planID i w = Ok (p, inst)"
    and "ServiceName (i_Labels inst) = MariaDBDatabaseService"
    and "cl_composites (view w) (mariaDBUserGroupVersionKind, bid) = Some c"
    and "cond_Status (c_ready c) \<noteq> ''True''"
  shows "LastBindingOperation b i planID bid w = Ok \<lparr>lo_State = InProgress, lo_Description = Text ''''\<rparr>"
  using db_GetBinding_not_ready [OF assms(3,4)] assms(1,2)
  by (simp add: LastBindingOperation_def)

end

section \<open>Update\<close>

context broker_client
begin

lemma Update_Ok:
  assumes run: "Update b i serviceID oldPlanID newPlanID raw w = (Ok (), w')"
  obtains p np inst g ap where "found_instance b i (view w) p inst"
    "p_Composition np \<in> set (cl_compositions (view w))" "co_name (p_Composition np) = newPlanID"
    "newPlan (p_Composition np) = Ok np"
    "ServiceID (i_Labels inst) = serviceID" "AllowUpdate (br_planComparer b) p np = Ok True"
    "update_params b (inst\<lparr>i_Composite := on_plan np (i_Composite inst)\<rparr>) raw w = Ok ap"
    "GVK (cp_client (br_cp b)) np = Ok g" "cl_composites (view w) (g, i) \<noteq> None"
    "view w' = put_composite
       (updated_composite g (inst\<lparr>i_Composite := on_plan np (i_Composite inst)\<rparr>) ap) (view w)"
  using run
proof (cases rule: Update_run)
  case (stored p inst np ap)
  let ?inst = "inst\<lparr>i_Composite := on_plan np (i_Composite inst)\<rparr>"
  from getPlanInstance_found(1) [OF stored(1)] have found: "found_instance b i (view w) p inst" .
  then have "ID ?inst = i" using found_instance_name by (simp add: ID_def)
  with UpdateInstance_effect [OF stored(6)] obtain g where "GVK (cp_client (br_cp b)) np = Ok g"
    "cl_composites (view w) (g, i) \<noteq> None" "view w' = put_composite (updated_composite g ?inst ap) (view w)"
    by auto
  with that [OF found _ _ _ stored(2,4,5)] Plan_stored [OF stored(3)] show thesis by blast
qed simp_all

end

section \<open>When provisioning and updating succeed\<close>

definition provision_admissible ::
  "'w Broker \<Rightarrow> ReqContext \<Rightarrow> string \<Rightarrow> string \<Rightarrow> raw_json option \<Rightarrow> 'w \<Rightarrow> bool" where
  "provision_admissible b rctx i planID params w =
     (case Plan (br_cp b) planID w of
        Ok p \<Rightarrow>
          (case Instance (br_cp b) i p w of
             Ok None \<Rightarrow>
               (case provision_params b p params w of
                  Ok ap \<Rightarrow> (case prepareLabels (br_cp b) rctx i p ap of Ok l \<Rightarrow> True | _ \<Rightarrow> False)
                | _ \<Rightarrow> False)
           | Ok (Some inst) \<Rightarrow> params = None
           | _ \<Rightarrow> False)
      | _ \<Rightarrow> False)"

definition update_admissible ::
  "'w Broker \<Rightarrow> string \<Rightarrow> string \<Rightarrow> string \<Rightarrow> string \<Rightarrow> raw_json option \<Rightarrow> 'w \<Rightarrow> bool" where
  "update_admissible b i serviceID oldPlanID newPlanID raw w =
     (case getPlanInstance b oldPlanID i w of
        Ok (p, inst) \<Rightarrow>
          (case Plan (br_cp b) newPlanID w of
             Ok np \<Rightarrow>
               ServiceID (i_Labels inst) = serviceID \<and> AllowUpdate (br_planComparer b) p np = Ok True \<and>
               (case update_params b (inst\<lparr>i_Composite := on_plan np (i_Composite inst)\<rparr>) raw w of
                  Ok ap \<Rightarrow>
                    (case GVK (cp_client (br_cp b)) np of
                       Ok g \<Rightarrow> (case l_getComposite (cp_client (br_cp b)) g i w of Inr c \<Rightarrow> True | Inl e \<Rightarrow> False)
                     | _ \<Rightarrow> False)
                | _ \<Rightarrow> False)
           | _ \<Rightarrow> False)
      | _ \<Rightarrow> False)"

lemma case_answer_iff:
  "(case r of Ok a \<Rightarrow> P a | Err e \<Rightarrow> False | Panic x \<Rightarrow> False) \<longleftrightarrow> (\<exists>a. r = Ok a \<and> P a)"
  "(case s of Inl e \<Rightarrow> False | Inr c \<Rightarrow> True) \<longleftrightarrow> (\<exists>c. s = Inr c)"
  by (cases r; simp) (cases s; simp)

context reliable_broker
begin

lemma Provision_succeeds:
  "(\<exists>res w'. Provision b rctx i planID params w = (Ok res, w')) =
    provision_admissible b rctx i planID params w"
proof
  assume "\<exists>res w'. Provision b rctx i planID params w = (Ok res, w')"
  then obtain res w' where run: "Provision b rctx i planID params w = (Ok res, w')" by blast
  then show "provision_admissible b rctx i planID params w"
  proof (cases rule: Provision_run)
    case (create p ap r1)
    then obtain l where "prepareLabels (br_cp b) rctx i p ap = Ok l"
      by (cases "prepareLabels (br_cp b) rctx i p ap") (auto simp: CreateInstance_def)
    with create show ?thesis by (simp add: provision_admissible_def)
  qed (simp_all add: provision_admissible_def)
next
  assume ok: "provision_admissible b rctx i planID params w"
  then obtain p found where plan: "Plan (br_cp b) planID w = Ok p"
    and inst: "Instance (br_cp b) i p w = Ok found"
    by (auto simp: provision_admissible_def split: result.splits)
  show "\<exists>res w'. Provision b rctx i planID params w = (Ok res, w')"
  proof (cases found)
    case (Some x)
    with ok plan inst show ?thesis by (simp add: provision_admissible_def Provision_def)
  next
    case None
    with ok plan inst obtain ap l where ap: "provision_params b p params w = Ok ap"
      and l: "prepareLabels (br_cp b) rctx i p ap = Ok l"
      by (auto simp: provision_admissible_def split: result.splits)
    from CreateInstance_succeeds [OF inst [unfolded None] l] obtain w'
      where "CreateInstance (br_cp b) rctx i p ap w = (Ok (), w')" by blast
    with plan inst None ap show ?thesis by (simp add: Provision_new bindM_step)
  qed
qed

lemma UpdateInstance_succeeds:
  assumes "GVK (cp_client (br_cp b)) np = Ok g" and "cl_composites (view w) (g, ID inst) \<noteq> None"
  shows "\<exists>w'. UpdateInstance (br_cp b) inst np ap w = (Ok (), w')"
proof -
  obtain c where c: "l_setParameters (cp_client (br_cp b)) (map_value ap) ((i_Composite inst)\<lparr>c_gvk := g\<rparr>) = Inr c"
    using set_parameters_answers by blast
  from set_parameters_ok [OF c] have "c_gvk c = g" "c_name c = ID inst" by (simp_all add: ID_def)
  with update_composite_succeeds [of w c] assms(2) obtain w'
    where "l_updateComposite (cp_client (br_cp b)) c w = (Inr (), w')" by auto
  with assms(1) c show ?thesis by (simp add: UpdateInstance_def Let_def writeM_def)
qed

lemma Update_succeeds:
  "(\<exists>w'. Update b i serviceID oldPlanID newPlanID raw w = (Ok (), w')) =
    update_admissible b i serviceID oldPlanID newPlanID raw w"
proof
  assume "\<exists>w'. Update b i serviceID oldPlanID newPlanID raw w = (Ok (), w')"
  then obtain w' where run: "Update b i serviceID oldPlanID newPlanID raw w = (Ok (), w')" ..
  then show "update_admissible b i serviceID oldPlanID newPlanID raw w"
  proof (cases rule: Update_run)
    case (stored p inst np ap)
    let ?inst = "inst\<lparr>i_Composite := on_plan np (i_Composite inst)\<rparr>"
    have name: "ID ?inst = i"
      using found_instance_name [OF getPlanInstance_found(1) [OF stored(1)]] by (simp add: ID_def on_plan_def)
    from UpdateInstance_effect [OF stored(6)] name obtain g c
      where g: "GVK (cp_client (br_cp b)) np = Ok g" and c: "cl_composites (view w) (g, i) = Some c" by auto
    with get_composite_found [OF c] stored show ?thesis by (simp add: update_admissible_def)
  qed simp_all
next
  assume "update_admissible b i serviceID oldPlanID newPlanID raw w"
  then obtain p inst np ap g c where found: "getPlanInstance b oldPlanID i w = Ok (p, inst)"
    and ok: "ServiceID (i_Labels inst) = serviceID" "Plan (br_cp b) newPlanID w = Ok np"
      "AllowUpdate (br_planComparer b) p np = Ok True"
      "update_params b (inst\<lparr>i_Composite := on_plan np (i_Composite inst)\<rparr>) raw w = Ok ap"
    and g: "GVK (cp_client (br_cp b)) np = Ok g" and c: "l_getComposite (cp_client (br_cp b)) g i w = Inr c"
    unfolding update_admissible_def by (auto simp: case_answer_iff)
  let ?inst = "inst\<lparr>i_Composite := on_plan np (i_Composite inst)\<rparr>"
  have "ID ?inst = i"
    using found_instance_name [OF getPlanInstance_found(1) [OF found]] by (simp add: ID_def on_plan_def)
  with UpdateInstance_succeeds [OF g, of w ?inst ap] get_composite_ok [OF c] obtain w'
    where upd: "UpdateInstance (br_cp b) ?inst np ap w = (Ok (), w')" by auto
  have "(case raw of None \<Rightarrow> retM (GoMap []) | Some j \<Rightarrow>
      if raw_is_empty raw then retM (GoMap [])
      else readM (validateParams b (Some ?inst) (ServiceName (i_Labels inst)) j)) w = (Ok ap, w)"
    using ok(4) by (cases raw) (simp_all add: update_params_def split: if_splits)
  with found ok upd show "\<exists>w'. Update b i serviceID oldPlanID newPlanID raw w = (Ok (), w')"
    by (simp add: Update_def Let_def bindM_step cong: option.case_cong)
qed

end

section \<open>Plans and parameters\<close>

text \<open>The service of a plan, and whether an update is one the broker must refuse.\<close>

definition plan_service :: "'w Broker \<Rightarrow> string \<Rightarrow> string \<Rightarrow> 'w \<Rightarrow> bool" where
  "plan_service b planID s w =
     (case Plan (br_cp b) planID w of
        Ok p \<Rightarrow> (case p_Labels p of None \<Rightarrow> False | Some l \<Rightarrow> ServiceName l = s)
      | _ \<Rightarrow> False)"

definition instance_is_new :: "'w Broker \<Rightarrow> string \<Rightarrow> string \<Rightarrow> 'w \<Rightarrow> bool" where
  "instance_is_new b planID i w =
     (case Plan (br_cp b) planID w of
        Ok p \<Rightarrow> (case Instance (br_cp b) i p w of Ok found \<Rightarrow> Option.is_none found | _ \<Rightarrow> False)
      | _ \<Rightarrow> False)"

definition update_refused ::
  "'w Broker \<Rightarrow> string \<Rightarrow> string \<Rightarrow> string \<Rightarrow> string \<Rightarrow> 'w \<Rightarrow> bool" where
  "update_refused b i serviceID oldPlanID newPlanID w =
     (case getPlanInstance b oldPlanID i w of
        Ok (p, inst) \<Rightarrow>
          ServiceID (i_Labels inst) \<noteq> serviceID \<or>
          (case Plan (br_cp b) newPlanID w of
             Ok np \<Rightarrow> (case AllowUpdate (br_planComparer b) p np of Ok ok \<Rightarrow> \<not> ok | _ \<Rightarrow> False)
           | _ \<Rightarrow> False)
      | _ \<Rightarrow> False)"

lemma plan_serviceE:
  assumes "plan_service b planID s w"
  obtains p l where "Plan (br_cp b) planID w = Ok p" "p_Labels p = Some l" "ServiceName l = s"
  using assms by (auto simp: plan_service_def split: result.splits option.splits)

lemma Update_refused:
  assumes "update_refused b i serviceID oldPlanID newPlanID w"
  shows "\<exists>s. Update b i serviceID oldPlanID newPlanID raw w = (Err (Sentinel s), w) \<and>
    s \<in> {ErrServiceUpdateNotPermitted, ErrPlanChangeNotPermitted}"
  using assms by (auto simp: update_refused_def Update_def split: result.splits)

text \<open>What validation returns, by the service of the plan.\<close>

lemma provision_params_galera:
  assumes "p_Labels p = Some l" and "ServiceName l = MariaDBService"
  shows "provision_params b p params w = Ok (GoMap [])"
  using assms by (simp add: provision_params_def validateParams_def split: option.splits)

lemma provision_params_redis:
  assumes "p_Labels p = Some l" and "ServiceName l = RedisService"
  shows "provision_params b p (Some raw) w =
    mapErr (\<lambda>e. Failure (NewFailure e 400 ''validate-update-failed'' None))
      (Redis_ValidateProvisionParams raw)"
  using assms by (simp add: provision_params_def validateParams_def)

lemma provision_params_database:
  assumes "p_Labels p = Some l" and "ServiceName l = MariaDBDatabaseService"
    and "provision_params b p (Some raw) w = Ok ap"
  shows "unmarshal_map raw = Ok ap" and "getParentRef ap = Ok parent \<Longrightarrow>
      \<exists>c. l_getComposite (cp_client (br_cp b)) mariaDBGroupVersionKind parent w = Inr c"
    and "\<exists>parent. getParentRef ap = Ok parent"
  using assms
  by (auto simp: provision_params_def validateParams_def MariadbDatabase_ValidateProvisionParams_def
      go_inv)

lemma getParentRef_parent_of: "getParentRef ap = Ok parent \<Longrightarrow> parent_of ap = Some parent"
  by (auto simp: getParentRef_def parent_of_def split: option.splits json.splits)

text \<open>A parent reference that is neither a string nor null makes \<open>prepareLabels\<close> panic.\<close>

lemma prepareLabels_panics:
  assumes "PrincipalFromContext (rc_Context rctx) (cp_config cp) = Ok pr"
    and "gm_get params instanceParamsParentReferenceName = Some v"
    and "v \<noteq> JNull" and "\<nexists>s. v = JString s"
  shows "prepareLabels cp rctx i plan params = Panic (TypeAssertion ''string'')"
  using assms by (cases v) (simp_all add: prepareLabels_eq)

section \<open>Reading never panics\<close>

lemma newPlan_has_labels: "newPlan c = Ok p \<Longrightarrow> \<exists>l. p_Labels p = Some l"
  using newPlan_OkD by blast

lemma find_instance_loop_not_Panic:
  assumes "\<forall>p \<in> set plans. \<exists>l. p_Labels p = Some l"
  shows "find_instance_loop cp i plans w \<noteq> Panic x"
  using assms
proof (induction plans)
  case (Cons p ps)
  then obtain l where "p_Labels p = Some l" by auto
  then have "Instance cp i p w \<noteq> Panic x" by (rule Instance_not_Panic)
  with Cons show ?case by (auto split: result.splits option.splits)
qed simp

lemma getPlanInstance_not_Panic [simp]: "getPlanInstance b planID i w \<noteq> Panic x"
proof (cases "planID = ''''")
  case True
  show ?thesis
  proof (cases "Plans (br_cp b) (ServiceIDs (cp_config (br_cp b))) w")
    case (Ok plans)
    have "\<forall>p \<in> set plans. \<exists>l. p_Labels p = Some l"
      using Plans_OkD [OF Ok] newPlan_has_labels by metis
    then have "find_instance_loop (br_cp b) i plans w \<noteq> Panic y" for y
      by (rule find_instance_loop_not_Panic)
    with True Ok show ?thesis
      by (auto simp: getPlanInstance_def FindInstanceWithoutPlan_def go_inv split: option.splits)
  qed (use True in \<open>auto simp: getPlanInstance_def FindInstanceWithoutPlan_def\<close>)
next
  case False
  show ?thesis
  proof (cases "Plan (br_cp b) planID w")
    case (Ok p)
    from Plan_OkD(2) [OF this] obtain l where "p_Labels p = Some l" by blast
    with Ok False Instance_not_Panic [OF this, of "br_cp b" i w x] show ?thesis
      by (auto simp: getPlanInstance_def go_inv split: option.splits)
  qed (use False in \<open>auto simp: getPlanInstance_def\<close>)
qed

lemma mapMariadbEndpoint_not_Panic [simp]: "mapMariadbEndpoint data \<noteq> Panic p"
  by (auto simp: mapMariadbEndpoint_def go_inv split: option.splits)

lemma MariadbDatabase_GetBinding_not_Panic [simp]:
  "MariadbDatabase_GetBinding cp inst bid w \<noteq> Panic p"
  by (auto simp: MariadbDatabase_GetBinding_def connection_details_def database_credentials_def
      go_inv split: sum.splits if_splits)

lemma sb_GetBinding_not_Panic:
  "ServiceBinderFactory s (Some inst) = Ok sb \<Longrightarrow> sb_GetBinding cp sb bid w \<noteq> Panic p"
  by (erule ServiceBinderFactory_cases) (auto simp: Mariadb_GetBinding_def)

section \<open>The catalog\<close>

lemma newServicePlan_name:
  assumes "newServicePlan x p = Ok sp" and "newPlan (p_Composition p) = Ok p"
  shows "sp_Name sp = plan_name_of (p_Composition p)" and "sp_ID sp = co_name (p_Composition p)"
proof -
  from newPlan_OkD(2) [OF assms(2)] obtain l where l: "p_Labels p = Some l"
    "parseLabels (co_labels (p_Composition p)) = Ok l" by blast
  with assms(1) parseLabels_OkD(3) [OF l(2)] show "sp_Name sp = plan_name_of (p_Composition p)"
    "sp_ID sp = co_name (p_Composition p)"
    by (auto simp: newServicePlan_def plan_name_of_def Let_def split: prod.splits)
qed

lemma servicePlans_sorted:
  assumes "servicePlans b x ids w = Ok sps"
  shows "sorted (map sp_Name sps)"
proof -
  from assms obtain ps where ps: "Plans (br_cp b) ids w = Ok ps"
    and all: "list_all2 (\<lambda>p sp. newServicePlan x p = Ok sp) ps sps"
    by (auto simp: servicePlans_def mapR_Ok_iff go_inv)
  from Plans_OkD [OF ps] obtain cos where order: "map p_Composition ps = sort_key plan_name_of cos"
    and new: "\<forall>p \<in> set ps. newPlan (p_Composition p) = Ok p" by blast
  from all new have "map sp_Name sps = map plan_name_of (map p_Composition ps)"
    by (induction rule: list_all2_induct) (auto simp: newServicePlan_name)
  then show ?thesis by (simp add: order)
qed

lemma newService_simps [simp]:
  "sv_ID (newService x xrd plans) = ServiceID (sx_Labels xrd)"
  "sv_Plans (newService x xrd plans) = plans" "sv_Name (newService x xrd plans) = ServiceName (sx_Labels xrd)"
  by (simp_all add: newService_def Let_def split: prod.splits)

lemma services_loop_Ok:
  "services_loop b x xrds w = Ok svs \<Longrightarrow>
     map (\<lambda>s. (sv_ID s, sv_Name s)) svs =
       map (\<lambda>xrd. (ServiceID (sx_Labels xrd), ServiceName (sx_Labels xrd))) xrds"
  by (induction xrds arbitrary: svs) (auto simp: go_inv split: result.splits)

lemma newServicePlan_not_Err: "newServicePlan x p \<noteq> Err e"
  by (cases "p_Labels p") (auto simp: newServicePlan_def go_inv Let_def split: prod.splits)

lemma servicePlans_Err:
  assumes "servicePlans b x ids w = Err e"
  shows "Plans (br_cp b) ids w = Err e"
proof -
  have "mapR (newServicePlan x) ps \<noteq> Err e" for ps
    by (induction ps) (auto simp: go_inv newServicePlan_not_Err)
  with assms show ?thesis by (auto simp: servicePlans_def go_inv)
qed

lemma servicePlans_not_Panic [simp]: "servicePlans b x ids w \<noteq> Panic p"
proof (cases "Plans (br_cp b) ids w")
  case (Ok ps)
  have "\<forall>p \<in> set ps. \<exists>l. p_Labels p = Some l"
    using Plans_OkD [OF Ok] newPlan_has_labels by metis
  then have "mapR (newServicePlan x) ps \<noteq> Panic q" for q
    by (induction ps) (auto simp: newServicePlan_def go_inv Let_def split: prod.splits)
  with Ok show ?thesis by (simp add: servicePlans_def)
qed (simp_all add: servicePlans_def)

lemma services_loop_not_Panic [simp]: "services_loop b x xrds w \<noteq> Panic p"
  by (induction xrds) (auto simp: go_inv split: result.splits)

lemma Services_not_Panic [simp]: "Services b x w \<noteq> Panic p"
  by (auto simp: Services_def ServiceXRDs_def newServiceXRD_def go_inv mapR_not_Panic)

lemma LastBindingOperation_not_Panic [simp]: "LastBindingOperation b i planID bid w \<noteq> Panic x"
  by (auto simp: LastBindingOperation_def go_inv sb_GetBinding_not_Panic
      split: result.splits option.splits)

lemma GetInstance_not_Panic [simp]: "GetInstance b i planID w \<noteq> Panic x"
proof
  assume "GetInstance b i planID w = Panic x"
  then obtain p inst where found: "getPlanInstance b planID i w = Ok (p, inst)"
    and "p_Labels p = None"
    by (auto simp: GetInstance_def go_inv Let_def)
  moreover from found have "\<exists>l. p_Labels p = Some l"
  proof (cases "planID = ''''")
    case True
    with found obtain plans where plans: "Plans (br_cp b) (ServiceIDs (cp_config (br_cp b))) w = Ok plans"
      and loop: "find_instance_loop (br_cp b) i plans w = Ok (Some (inst, p))"
      by (auto simp: getPlanInstance_def FindInstanceWithoutPlan_def go_inv split: option.splits)
    from loop obtain before after where "plans = before @ p # after"
      by (rule find_instance_loop_OkD) auto
    then have "p \<in> set plans" by simp
    with Plans_OkD [OF plans] newPlan_has_labels show ?thesis by metis
  next
    case False
    with found have "Plan (br_cp b) planID w = Ok p"
      by (auto simp: getPlanInstance_def go_inv split: option.splits)
    from Plan_OkD(2) [OF this] show ?thesis by blast
  qed
  ultimately show False by simp
qed

lemma services_loop_plans:
  "services_loop b x xrds w = Ok svs \<Longrightarrow> s \<in> set svs \<Longrightarrow>
     sv_Plans s = (case servicePlans b x [sv_ID s] w of Ok sps \<Rightarrow> Some sps | _ \<Rightarrow> None)"
  by (induction xrds arbitrary: svs) (auto simp: go_inv split: result.splits)

context broker_client
begin

lemma composite_there:
  "l_getComposite (cp_client (br_cp b)) g n w = Inr c \<Longrightarrow> cl_composites (view w) (g, n) = Some c"
  by (rule get_composite_ok)

text \<open>The plans of a service are all the compositions with its id, and no others.\<close>

lemma servicePlans_all:
  assumes "servicePlans b x [sid] w = Ok sps"
  shows "(\<lambda>sp. (sp_ID sp, sp_Name sp)) ` set sps =
    (\<lambda>co. (co_name co, plan_name_of co)) `
      {co \<in> set (cl_compositions (view w)). co_labels co ServiceIDLabel = Some sid}"
proof -
  from assms obtain ps where ps: "Plans (br_cp b) [sid] w = Ok ps"
    and all: "list_all2 (\<lambda>p sp. newServicePlan x p = Ok sp) ps sps"
    by (auto simp: servicePlans_def mapR_Ok_iff go_inv)
  from Plans_OkD [OF ps] obtain cos
    where cos: "l_listCompositions (cp_client (br_cp b)) ServiceIDLabel [sid] w = Inr cos"
      and order: "map p_Composition ps = sort_key plan_name_of cos"
      and new: "\<forall>p \<in> set ps. newPlan (p_Composition p) = Ok p" by blast
  let ?entry = "\<lambda>co. (co_name co, plan_name_of co)"
  from all new have "map (\<lambda>sp. (sp_ID sp, sp_Name sp)) sps = map ?entry (map p_Composition ps)"
    by (induction rule: list_all2_induct) (auto simp: newServicePlan_name)
  then have "set (map (\<lambda>sp. (sp_ID sp, sp_Name sp)) sps) = set (map ?entry (sort_key plan_name_of cos))"
    by (simp only: order)
  then have "(\<lambda>sp. (sp_ID sp, sp_Name sp)) ` set sps = ?entry ` set cos" by simp
  with list_compositions_ok [OF cos] show ?thesis by simp
qed

lemma ServiceXRDs_all:
  assumes "ServiceXRDs (br_cp b) w = Ok xrds"
  shows "\<exists>ds. l_listXRDs (cp_client (br_cp b)) ServiceIDLabel (ServiceIDs (cp_config (br_cp b))) w = Inr ds \<and>
    set ds = {d \<in> set (cl_xrds (view w)).
      \<exists>v. x_labels d ServiceIDLabel = Some v \<and> v \<in> set (ServiceIDs (cp_config (br_cp b)))} \<and>
    map (\<lambda>xrd. (ServiceID (sx_Labels xrd), ServiceName (sx_Labels xrd))) xrds =
      map (\<lambda>d. (sget (x_labels d) ServiceIDLabel, sget (x_labels d) ServiceNameLabel)) ds"
proof -
  from assms obtain ds
    where ds: "l_listXRDs (cp_client (br_cp b)) ServiceIDLabel (ServiceIDs (cp_config (br_cp b))) w = Inr ds"
      and all: "list_all2 (\<lambda>d xrd. newServiceXRD d = Ok xrd) ds xrds"
    by (auto simp: ServiceXRDs_def mapR_Ok_iff go_inv)
  from all have "map (\<lambda>xrd. (ServiceID (sx_Labels xrd), ServiceName (sx_Labels xrd))) xrds =
      map (\<lambda>d. (sget (x_labels d) ServiceIDLabel, sget (x_labels d) ServiceNameLabel)) ds"
    by (induction rule: list_all2_induct) (auto simp: newServiceXRD_def go_inv dest: parseLabels_OkD)
  with ds list_xrds_ok [OF ds] show ?thesis by blast
qed

end

lemma returns_iff: "returns r \<longleftrightarrow> (\<forall>x. r \<noteq> Panic x)"
  by (cases r) auto

section \<open>Properties\<close>

text \<open>C38: The operations that only read never panic: no label map, plan, connection secret or
  parameter a cluster may hold makes the catalog, the details of an instance or a binding, or
  either poll fail with anything but an error.\<close>

theorem reading_never_panics:
  "returns (Services b x w) \<and> returns (GetInstance b i planID w) \<and>
   returns (LastOperation b i planID w) \<and> returns (GetBinding b i bid planID w) \<and>
   returns (LastBindingOperation b i planID bid w)"
  unfolding returns_iff
  by (intro conjI allI)
    (auto simp: LastOperation_def GetBinding_def go_inv Let_def sb_GetBinding_not_Panic
      split: if_splits)

end
