(* ===== verification/Broker_Memory.thy ===== *)
theory Broker_Memory
  imports Broker_Correct Kube_Memory
begin

text \<open>
  A broker over the in-memory API server, the instance of every contract of the development, and
  a small cluster to run it on: three services, a Galera cluster with a database, and a Redis
  instance.
\<close>

definition mem_crossplane :: "config \<Rightarrow> mem Crossplane" where
  "mem_crossplane cfg = \<lparr>cp_config = cfg, cp_client = mem_lib\<rparr>"

definition mem_broker :: "config \<Rightarrow> PlanUpdateChecker \<Rightarrow> mem Broker" where
  "mem_broker cfg pc = NewBroker (mem_crossplane cfg) pc"

lemma mem_broker_client [simp]: "cp_client (br_cp (mem_broker cfg pc)) = mem_lib"
  by (simp add: mem_broker_def NewBroker_def mem_crossplane_def)

interpretation in_memory: reliable_broker "mem_broker cfg pc" mem_view
  for cfg :: config and pc :: PlanUpdateChecker
  unfolding reliable_broker_def reliable_client_def mem_broker_client
  by (rule mem.k8s_reliable_axioms)

lemmas mem_is_reliable = in_memory.reliable_broker_axioms
lemmas mem_is_client = in_memory.broker_client_axioms

section \<open>A cluster\<close>

definition ex_config :: config where
  "ex_config =
     \<lparr>Kubeconfig = '''', ServiceIDs = [''svc-galera'', ''svc-db'', ''svc-redis''],
      ListenAddr = '':8080'', Username = ''admin'', Password = ''pw'', UsernameClaim = ''sub'',
      JWKeyRegister = [], Namespace = ''broker'', ReadTimeout = 0, WriteTimeout = 0,
      MaxHeaderBytes = 0, PlanUpdateSizeRule = '''', PlanUpdateSLARule = '''',
      EnableMetrics = False, MetricsDomain = ''''\<rparr>"

definition ex_rules :: PlanUpdateChecker where
  "ex_rules =
     \<lparr>sizeRules = [],
      slaRules = [\<lparr>oldPlan = ''standard'', newPlanName = ''premium''\<rparr>,
                  \<lparr>oldPlan = ''premium'', newPlanName = ''standard''\<rparr>]\<rparr>"

definition ex_broker :: "mem Broker" where
  "ex_broker = mem_broker ex_config ex_rules"

definition ex_ctx :: ctx where
  "ex_ctx =
     WithValue (WithValue [] AuthenticationMethodPropertyName (VString AuthenticationMethodBasicAuth))
       UserPropertyName (VString ''admin'')"

definition ex_rctx :: ReqContext where
  "ex_rctx = NewReqContext ex_ctx"

definition ex_composition ::
  "string \<Rightarrow> string \<Rightarrow> string \<Rightarrow> string \<Rightarrow> string \<Rightarrow> string \<Rightarrow> composition" where
  "ex_composition n service sid p level k =
     \<lparr>co_name = n,
      co_labels = [ServiceNameLabel \<mapsto> service, ServiceIDLabel \<mapsto> sid, PlanNameLabel \<mapsto> p,
                   SLALabel \<mapsto> level],
      co_annotations = Map.empty, co_typeRefAPIVersion = ''syn.tools/v1alpha1'',
      co_typeRefKind = k\<rparr>"

definition ex_compositions :: "composition list" where
  "ex_compositions =
     [ex_composition ''plan-galera'' MariaDBService ''svc-galera'' ''small-standard'' ''standard''
        ''CompositeMariaDBInstance'',
      ex_composition ''plan-db'' MariaDBDatabaseService ''svc-db'' ''default'' ''standard''
        ''CompositeMariaDBDatabaseInstance'',
      ex_composition ''plan-redis'' RedisService ''svc-redis'' ''small-standard'' ''standard''
        ''CompositeRedisInstance'',
      ex_composition ''plan-redis-premium'' RedisService ''svc-redis'' ''small-premium'' ''premium''
        ''CompositeRedisInstance'']"

definition ex_gvk :: "string \<Rightarrow> gvk" where
  "ex_gvk k = \<lparr>Group = ''syn.tools'', Version = ''v1alpha1'', Kind = k\<rparr>"

definition ready_condition :: condition where
  "ready_condition = \<lparr>cond_Status = ''True'', cond_Reason = ReasonAvailable\<rparr>"

definition ex_galera :: composite where
  "ex_galera =
     (new_composite (ex_gvk ''CompositeMariaDBInstance'') ''galera-1'')
       \<lparr>c_labels := [ServiceNameLabel \<mapsto> MariaDBService, ServiceIDLabel \<mapsto> ''svc-galera'',
          PlanNameLabel \<mapsto> ''small-standard'', SLALabel \<mapsto> ''standard'',
          InstanceIDLabel \<mapsto> ''galera-1''],
        c_ready := ready_condition,
        c_secretRef := Some \<lparr>sr_Name = ''galera-conn'', sr_Namespace = ''conn''\<rparr>\<rparr>"

definition ex_database :: composite where
  "ex_database =
     (new_composite (ex_gvk ''CompositeMariaDBDatabaseInstance'') ''db-1'')
       \<lparr>c_labels := [ServiceNameLabel \<mapsto> MariaDBDatabaseService, ServiceIDLabel \<mapsto> ''svc-db'',
          PlanNameLabel \<mapsto> ''default'', SLALabel \<mapsto> ''standard'', InstanceIDLabel \<mapsto> ''db-1'',
          ParentIDLabel \<mapsto> ''galera-1''],
        c_parameters := Some (JObject [(''parent_reference'', JString ''galera-1'')]),
        c_ready := ready_condition\<rparr>"

definition ex_redis :: "condition \<Rightarrow> composite" where
  "ex_redis ready =
     (new_composite (ex_gvk ''CompositeRedisInstance'') ''redis-1'')
       \<lparr>c_labels := [ServiceNameLabel \<mapsto> RedisService, ServiceIDLabel \<mapsto> ''svc-redis'',
          PlanNameLabel \<mapsto> ''small-standard'', SLALabel \<mapsto> ''standard'',
          InstanceIDLabel \<mapsto> ''redis-1''],
        c_parameters := Some (JObject [(''tls'', JBool True)]), c_ready := ready\<rparr>"

definition ex_connection :: secret where
  "ex_connection =
     \<lparr>s_name = ''galera-conn'', s_namespace = ''conn'', s_labels = Map.empty,
      s_data = Some [SecretEndpointKey \<mapsto> ''10.0.0.1'', SecretPortKey \<mapsto> ''3306''],
      s_owners = []\<rparr>"

definition ex_empty :: mem where
  "ex_empty =
     \<lparr>m_compositions = ex_compositions, m_xrds = [], m_composites = [], m_secrets = [],
      m_objects = [], m_seed = 0\<rparr>"

definition ex_world :: mem where
  "ex_world =
     ex_empty\<lparr>m_composites := [ex_galera, ex_database, ex_redis ready_condition],
              m_secrets := [ex_connection]\<rparr>"

text \<open>The same while Redis is being set up.\<close>

definition ex_creating :: mem where
  "ex_creating =
     ex_empty\<lparr>m_composites :=
       [ex_redis \<lparr>cond_Status = ''False'', cond_Reason = ReasonCreating\<rparr>]\<rparr>"

text \<open>A binding whose user is there.\<close>

definition ex_user :: composite where
  "ex_user =
     (stored_user ''bind-1'' ''db-1'' ''galera-1'')
       \<lparr>c_resourceRefs := [\<lparr>or_APIVersion = ''mysql/v1'', or_Kind = ''Grant'', or_Name = ''g''\<rparr>,
          \<lparr>or_APIVersion = ''mysql/v1'', or_Kind = ''User'', or_Name = ''u''\<rparr>]\<rparr>"

definition ex_bound :: mem where
  "ex_bound =
     ex_world\<lparr>m_composites := ex_user # m_composites ex_world,
       m_secrets := stored_secret ''broker'' ''bind-1'' ''db-1'' ''galera-1'' ''s3cret'' #
         m_secrets ex_world,
       m_objects := [\<lparr>k_apiVersion = ''mysql/v1'', k_kind = ''User'', k_name = ''u'', k_uid = ''uid-7''\<rparr>]\<rparr>"

text \<open>The instance an operation finds, tested by a predicate.\<close>

definition instance_is ::
  "'w Broker \<Rightarrow> string \<Rightarrow> string \<Rightarrow> (inst \<Rightarrow> bool) \<Rightarrow> 'w \<Rightarrow> bool" where
  "instance_is b planID i P w =
     (case getPlanInstance b planID i w of Ok (p, inst) \<Rightarrow> P inst | _ \<Rightarrow> False)"

lemma instance_isE:
  assumes "instance_is b planID i P w"
  obtains p inst where "getPlanInstance b planID i w = Ok (p, inst)" "P inst"
  using assms by (auto simp: instance_is_def split: result.splits)

definition service_is :: "string \<Rightarrow> inst \<Rightarrow> bool" where
  "service_is s inst = (ServiceName (i_Labels inst) = s)"

end
