(* ===== verification/Instance_Operations.thy ===== *)
theory Instance_Operations
  imports Broker_Memory
begin

text \<open>
  What the operations on instances achieve: provisioning, deprovisioning, updating, polling, and the
  catalog that offers the plans.
\<close>

section \<open>Provisioning and deprovisioning\<close>

text \<open>C7: A provision call that reports an asynchronous operation has created exactly one object: a
  composite of the plan's kind that was not there before, named after the instance, referring to
  the requested plan, with the caller's principal, the labels of the plan, and the parent its
  parameters name.\<close>

theorem provision_creates_the_instance:
  assumes "broker_client b view"
    and "Provision b rctx i planID params w = (Ok res, w')" and "ps_IsAsync res"
  shows "\<exists>p ap c. p_Composition p \<in> set (cl_compositions (view w)) \<and>
    co_name (p_Composition p) = planID \<and> newPlan (p_Composition p) = Ok p \<and>
    provision_params b p params w = Ok ap \<and> fresh_instance b rctx i p ap c \<and>
    cl_composites (view w) (c_gvk c, i) = None \<and> view w' = put_composite c (view w)"
proof (rule broker_client.Provision_Ok [OF assms(1,2)], goal_cases)
  case (1 p c ap)
  then show ?case by blast
next
  case (2 p inst)
  with assms(3) show ?case by simp
qed

theorem provision_creates_the_instance_witness:
  "\<exists>p ap c. provision_params ex_broker p None ex_empty = Ok ap \<and>
     fresh_instance ex_broker ex_rctx ''new'' p ap c \<and>
     mem_view (snd (Provision ex_broker ex_rctx ''new'' ''plan-redis'' None ex_empty)) =
       put_composite c (mem_view ex_empty)"
proof -
  have "(case fst (Provision ex_broker ex_rctx ''new'' ''plan-redis'' None ex_empty) of
      Ok r \<Rightarrow> ps_IsAsync r | _ \<Rightarrow> False)" by code_simp
  then obtain res where "fst (Provision ex_broker ex_rctx ''new'' ''plan-redis'' None ex_empty) = Ok res"
    "ps_IsAsync res" by (auto split: result.splits)
  then show ?thesis
    using provision_creates_the_instance [of ex_broker mem_view ex_rctx "''new''" "''plan-redis''" None
        ex_empty res] mem_is_client
    by (metis ex_broker_def prod.collapse)
qed

text \<open>On a cluster that answers, provisioning again what has just been provisioned changes
  nothing: it reports that the instance exists when the repeated request has no parameters, and
  the conflict error when it has any, for whatever caller and parameters.\<close>

theorem provision_again:
  assumes "reliable_broker b view"
    and "Provision b rctx i planID params w = (Ok res, w')" and "ps_IsAsync res"
    and "distinct (map co_name (cl_compositions (view w)))"
  shows "Provision b rctx' i planID again w' =
    (if again = None then Ok \<lparr>ps_IsAsync = False, ps_AlreadyExists = True\<rparr>
     else Err (Failure (LibFailure ErrInstanceAlreadyExists)), w')"
  by (rule reliable_broker.Provision_again [OF assms(1-3)])
    (use assms(4) in \<open>auto simp: distinct_map inj_on_def\<close>)

theorem provision_again_witness:
  "Provision ex_broker ex_rctx ''new'' ''plan-redis'' (Some (Json JNull))
      (snd (Provision ex_broker ex_rctx ''new'' ''plan-redis'' None ex_empty)) =
    (Err (Failure (LibFailure ErrInstanceAlreadyExists)),
     snd (Provision ex_broker ex_rctx ''new'' ''plan-redis'' None ex_empty))"
proof -
  have "(case fst (Provision ex_broker ex_rctx ''new'' ''plan-redis'' None ex_empty) of
      Ok r \<Rightarrow> ps_IsAsync r | _ \<Rightarrow> False)" by code_simp
  then obtain res where res: "fst (Provision ex_broker ex_rctx ''new'' ''plan-redis'' None ex_empty) = Ok res"
    "ps_IsAsync res" by (auto split: result.splits)
  have "distinct (map co_name (cl_compositions (mem_view ex_empty)))" by code_simp
  with provision_again [of ex_broker mem_view ex_rctx "''new''" "''plan-redis''" None ex_empty res
      "snd (Provision ex_broker ex_rctx ''new'' ''plan-redis'' None ex_empty)" ex_rctx
      "Some (Json JNull)"] mem_is_reliable res
  show ?thesis by (simp add: ex_broker_def prod_eq_iff)
qed

text \<open>C16: On a cluster that answers, a provision call that ends in an error (or a panic) has
  written nothing.\<close>

theorem failed_provision_writes_nothing:
  assumes "reliable_broker b view"
    and "Provision b rctx i planID params w = (r, w')" and "\<And>res. r \<noteq> Ok res"
  shows "view w' = view w"
  using reliable_broker.Provision_err_keeps [OF assms(1,2)] assms(3) by blast

theorem failed_provision_writes_nothing_witness:
  "mem_view (snd (Provision ex_broker ex_rctx ''new'' ''no-such-plan'' None ex_world)) = mem_view ex_world"
proof -
  have "(case fst (Provision ex_broker ex_rctx ''new'' ''no-such-plan'' None ex_world) of
      Ok r \<Rightarrow> False | _ \<Rightarrow> True)" by code_simp
  then have "fst (Provision ex_broker ex_rctx ''new'' ''no-such-plan'' None ex_world) \<noteq> Ok res" for res
    by auto
  with failed_provision_writes_nothing [of ex_broker mem_view ex_rctx "''new''" "''no-such-plan''" None
      ex_world, OF _ prod.collapse [symmetric]] mem_is_reliable
  show ?thesis by (simp add: ex_broker_def)
qed

text \<open>C5: A deprovision call that succeeds has deleted the composite of the instance, or marked it
  for deletion, and nothing else; and if the instance was a Galera cluster, no database named it
  as its parent.\<close>

theorem deprovision_deletes_the_instance:
  assumes "broker_client b view" and "Deprovision b i planID w = (Ok res, w')"
  shows "\<exists>p inst g. found_instance b i (view w) p inst \<and> GVK (cp_client (br_cp b)) p = Ok g \<and>
    deleted g i (view w) (view w') \<and>
    (ServiceName (i_Labels inst) \<noteq> MariaDBService \<or> databases_of i (view w) = {})"
proof -
  obtain p inst g where "found_instance b i (view w) p inst" "GVK (cp_client (br_cp b)) p = Ok g"
    "deleted g i (view w) (view w')"
    "ServiceName (i_Labels inst) = MariaDBService \<Longrightarrow> databases_of i (view w) = {}"
    using broker_client.Deprovision_Ok [OF assms] by blast
  then show ?thesis by blast
qed

theorem deprovision_deletes_the_instance_witness:
  "\<exists>g. deleted g ''redis-1'' (mem_view ex_world)
     (mem_view (snd (Deprovision ex_broker ''redis-1'' ''plan-redis'' ex_world)))"
proof -
  have "(case fst (Deprovision ex_broker ''redis-1'' ''plan-redis'' ex_world) of
      Ok r \<Rightarrow> True | _ \<Rightarrow> False)" by code_simp
  then obtain res where "fst (Deprovision ex_broker ''redis-1'' ''plan-redis'' ex_world) = Ok res"
    by (auto split: result.splits)
  then show ?thesis
    using deprovision_deletes_the_instance [of ex_broker mem_view "''redis-1''" "''plan-redis''"
        ex_world res] mem_is_client
    by (metis ex_broker_def prod.collapse)
qed

text \<open>C17: On a cluster that answers, deprovisioning is decided by what is there: the error of the
  lookup when the instance or its plan cannot be found; the in-use error, which names the databases,
  for a Galera cluster that databases have as their parent, and nothing is changed in both cases;
  and otherwise the call succeeds and deletes the composite of the instance.\<close>

theorem deprovision_decision:
  assumes "reliable_broker b view"
  shows "case getPlanInstance b planID i w of
    Err e \<Rightarrow> Deprovision b i planID w = (Err e, w)
  | Panic x \<Rightarrow> False
  | Ok (p, inst) \<Rightarrow>
      if ServiceName (i_Labels inst) = MariaDBService \<and> databases_of i (view w) \<noteq> {}
      then \<exists>cs. Deprovision b i planID w = (Err (in_use_error cs), w) \<and> set cs = databases_of i (view w)
      else \<exists>w' g. Deprovision b i planID w = (Ok \<lparr>ds_IsAsync = False\<rparr>, w') \<and>
        GVK (cp_client (br_cp b)) p = Ok g \<and> deleted g i (view w) (view w')"
proof (cases "getPlanInstance b planID i w")
  case (Ok pi)
  obtain p inst where pi: "pi = (p, inst)" by fastforce
  note found = Ok [unfolded pi]
  show ?thesis
  proof (cases "ServiceName (i_Labels inst) = MariaDBService \<and> databases_of i (view w) \<noteq> {}")
    case True
    with reliable_broker.Deprovision_in_use [OF assms found] found show ?thesis by simp
  next
    case False
    with reliable_broker.Deprovision_free [OF assms found] obtain w'
      where run: "Deprovision b i planID w = (Ok \<lparr>ds_IsAsync = False\<rparr>, w')" by blast
    from reliable_broker.Deprovision_deletes [OF assms run found] obtain g
      where "GVK (cp_client (br_cp b)) p = Ok g" "deleted g i (view w) (view w')" by blast
    with run found False show ?thesis by auto
  qed
qed (simp_all add: Deprovision_def)

theorem deprovision_decision_witness:
  "(\<exists>cs. Deprovision ex_broker ''galera-1'' ''plan-galera'' ex_world = (Err (in_use_error cs), ex_world)) \<and>
   (\<exists>w'. Deprovision ex_broker ''redis-1'' ''plan-redis'' ex_world = (Ok \<lparr>ds_IsAsync = False\<rparr>, w'))"
proof
  have decision: "reliable_broker ex_broker mem_view" using mem_is_reliable by (simp add: ex_broker_def)
  have "instance_is ex_broker ''plan-galera'' ''galera-1'' (service_is MariaDBService) ex_world"
    by code_simp
  then obtain p inst where "getPlanInstance ex_broker ''plan-galera'' ''galera-1'' ex_world = Ok (p, inst)"
    "ServiceName (i_Labels inst) = MariaDBService" by (auto elim: instance_isE simp: service_is_def)
  moreover have "ex_database \<in> databases_of ''galera-1'' (mem_view ex_world)"
    by (simp add: databases_of_def mem_view_def ex_world_def ex_empty_def ex_galera_def
        ex_database_def ex_redis_def ex_gvk_def mariadb_kinds new_composite_def composite_key_of_def
        label_keys)
  ultimately show "\<exists>cs. Deprovision ex_broker ''galera-1'' ''plan-galera'' ex_world =
      (Err (in_use_error cs), ex_world)"
    using deprovision_decision [OF decision, where planID = "''plan-galera''" and i = "''galera-1''" and w = ex_world]
    by (auto split: if_splits)
  have "instance_is ex_broker ''plan-redis'' ''redis-1'' (service_is RedisService) ex_world"
    by code_simp
  then obtain p inst where "getPlanInstance ex_broker ''plan-redis'' ''redis-1'' ex_world = Ok (p, inst)"
    "ServiceName (i_Labels inst) = RedisService" by (auto elim: instance_isE simp: service_is_def)
  then show "\<exists>w'. Deprovision ex_broker ''redis-1'' ''plan-redis'' ex_world = (Ok \<lparr>ds_IsAsync = False\<rparr>, w')"
    using deprovision_decision [OF decision, where planID = "''plan-redis''" and i = "''redis-1''" and w = ex_world]
    by (auto simp: service_names)
qed

text \<open>C11: On a cluster that answers, provisioning succeeds exactly when the request is admissible: the
  plan is there and either there is no such instance, the parameters validate and the labels of the
  new composite can be made, or the instance is there and no parameters were sent; and updating
  succeeds exactly when the instance is there as one of the named service, the new plan is there and
  the update permitted, the parameters validate, and the kind of the new plan has a composite of
  that name.\<close>

theorem provision_and_update_succeed:
  assumes "reliable_broker b view"
  shows "((\<exists>res w'. Provision b rctx i planID params w = (Ok res, w')) =
      provision_admissible b rctx i planID params w) \<and>
    ((\<exists>w'. Update b i serviceID planID newPlanID params w = (Ok (), w')) =
      update_admissible b i serviceID planID newPlanID params w)"
  using reliable_broker.Provision_succeeds [OF assms] reliable_broker.Update_succeeds [OF assms] by blast

theorem provision_and_update_succeed_witness:
  "(\<exists>res w'. Provision ex_broker ex_rctx ''new'' ''plan-redis''
     (Some (Json (JObject [(''tls'', JArray [])]))) ex_world = (Ok res, w')) \<and>
   (\<exists>w'. Update ex_broker ''redis-1'' ''svc-redis'' ''plan-redis'' ''plan-redis-premium'' None ex_world =
     (Ok (), w'))"
proof -
  have "provision_admissible ex_broker ex_rctx ''new'' ''plan-redis''
     (Some (Json (JObject [(''tls'', JArray [])]))) ex_world" by code_simp
  moreover have "update_admissible ex_broker ''redis-1'' ''svc-redis'' ''plan-redis'' ''plan-redis-premium''
     None ex_world" by code_simp
  moreover have reliable: "reliable_broker ex_broker mem_view" using mem_is_reliable by (simp add: ex_broker_def)
  ultimately show ?thesis using provision_and_update_succeed [OF reliable] by blast
qed

text \<open>C37: A parent reference that is neither a string nor null makes provisioning a new Redis instance or
  a new database panic instead of answering with an error; nothing was written by then.\<close>

theorem provision_panics_on_bad_parent:
  assumes "plan_service b planID s w" and "s = RedisService \<or> s = MariaDBDatabaseService"
    and "instance_is_new b planID i w"
    and "PrincipalFromContext (rc_Context rctx) (cp_config (br_cp b)) = Ok pr"
    and "map_of kvs instanceParamsParentReferenceName = Some v"
    and "v \<noteq> JNull" and "\<nexists>t. v = JString t"
  shows "Provision b rctx i planID (Some (Json (JObject kvs))) w = (Panic (TypeAssertion ''string''), w)"
proof -
  from assms(1) obtain p l where p: "Plan (br_cp b) planID w = Ok p" "p_Labels p = Some l"
    "ServiceName l = s" by (rule plan_serviceE)
  from assms(3) p(1) have new: "Instance (br_cp b) i p w = Ok None"
    by (auto simp: instance_is_new_def Option.is_none_def split: result.splits option.splits)
  show ?thesis
  proof (cases "s = RedisService")
    case True
    obtain m where m: "Redis_ValidateProvisionParams (Json (JObject kvs)) = Ok m"
      and get: "gm_get m instanceParamsParentReferenceName = Some v"
      using Redis_ValidateProvisionParams_object [of kvs instanceParamsParentReferenceName] assms(5)
      by (auto simp: instanceParamsParentReferenceName_def)
    from m have "provision_params b p (Some (Json (JObject kvs))) w = Ok m"
      using p(3) True by (simp add: provision_params_redis [OF p(2)])
    moreover have "CreateInstance (br_cp b) rctx i p m w = (Panic (TypeAssertion ''string''), w)"
      using prepareLabels_panics [OF assms(4) get assms(6,7)] by (simp add: CreateInstance_def)
    ultimately show ?thesis using p(1) new by (simp add: Provision_new bindM_step)
  next
    case False
    with assms(2) p(3) have svc: "ServiceName l = MariaDBDatabaseService" by simp
    have "getParentRef (GoMap kvs) = Panic (TypeAssertion ''string'')"
      using assms(5-7) by (cases v) (simp_all add: getParentRef_def)
    then have "provision_params b p (Some (Json (JObject kvs))) w = Panic (TypeAssertion ''string'')"
      by (simp add: provision_params_def validateParams_def p(2) svc
          MariadbDatabase_ValidateProvisionParams_def)
    with p(1) new show ?thesis by (simp add: Provision_new)
  qed
qed

theorem provision_panics_on_bad_parent_witness:
  "Provision ex_broker ex_rctx ''new'' ''plan-redis''
      (Some (Json (JObject [(''parent_reference'', JBool True)]))) ex_world =
    (Panic (TypeAssertion ''string''), ex_world)"
proof (rule provision_panics_on_bad_parent [where v = "JBool True" and s = RedisService])
  show "plan_service ex_broker ''plan-redis'' RedisService ex_world" by code_simp
  show "instance_is_new ex_broker ''plan-redis'' ''new'' ex_world" by code_simp
  show "PrincipalFromContext (rc_Context ex_rctx) (cp_config (br_cp ex_broker)) = Ok ''admin''"
    by code_simp
qed (simp_all add: instanceParamsParentReferenceName_def)

text \<open>C15: A database that was provisioned with parameters has a parent: the request named, as a string, a
  Galera cluster that was there, and the new composite carries its name in the parent label, where
  the check before deprovisioning that cluster looks.\<close>

theorem database_has_its_parent:
  assumes "broker_client b view"
    and "Provision b rctx i planID (Some raw) w = (Ok res, w')"
    and "plan_service b planID MariaDBDatabaseService w"
  shows "\<exists>parent c. cl_composites (view w) (mariaDBGroupVersionKind, parent) \<noteq> None \<and>
    cl_composites (view w') (c_gvk c, i) = Some c \<and> c_labels c ParentIDLabel = Some parent \<and>
    (c_gvk c = mariaDBDatabaseItem \<longrightarrow> c \<in> databases_of parent (view w'))"
proof (rule broker_client.Provision_Ok [OF assms(1,2)], goal_cases)
  case (1 p c ap)
  from assms(3) obtain p' l where p': "Plan (br_cp b) planID w = Ok p'" "p_Labels p' = Some l"
    "ServiceName l = MariaDBDatabaseService" by (rule plan_serviceE)
  with 1(9) have labels: "p_Labels p = Some l" "ServiceName l = MariaDBDatabaseService" by simp_all
  note params = provision_params_database [OF labels 1(5)]
  from params(3) obtain parent where parent: "getParentRef ap = Ok parent" by blast
  from params(2) [OF this] obtain cl
    where "l_getComposite (cp_client (br_cp b)) mariaDBGroupVersionKind parent w = Inr cl" by blast
  then have "cl_composites (view w) (mariaDBGroupVersionKind, parent) \<noteq> None"
    using broker_client.composite_there [OF assms(1)] by fastforce
  moreover from 1(6) parent have "c_labels c ParentIDLabel = Some parent" "c_name c = i"
    by (simp_all add: fresh_instance_def getParentRef_parent_of)
  moreover from this 1(8) have "cl_composites (view w') (c_gvk c, i) = Some c"
    by (simp add: put_composite_def)
  ultimately show ?case
    by (intro exI [of _ parent] exI [of _ c]) (auto simp: databases_of_def)
next
  case (2 p inst)
  then show ?case by simp
qed

theorem database_has_its_parent_witness:
  "\<exists>parent c. cl_composites (mem_view (snd (Provision ex_broker ex_rctx ''db-2'' ''plan-db''
      (Some (Json (JObject [(''parent_reference'', JString ''galera-1'')]))) ex_world))) (c_gvk c, ''db-2'') = Some c \<and>
     c_labels c ParentIDLabel = Some parent"
proof -
  let ?raw = "Json (JObject [(''parent_reference'', JString ''galera-1'')])"
  have "case fst (Provision ex_broker ex_rctx ''db-2'' ''plan-db'' (Some ?raw) ex_world) of
      Ok r \<Rightarrow> True | _ \<Rightarrow> False" by code_simp
  then obtain res where run: "Provision ex_broker ex_rctx ''db-2'' ''plan-db'' (Some ?raw) ex_world =
      (Ok res, snd (Provision ex_broker ex_rctx ''db-2'' ''plan-db'' (Some ?raw) ex_world))"
    by (auto simp: prod_eq_iff split: result.splits)
  have svc: "plan_service ex_broker ''plan-db'' MariaDBDatabaseService ex_world" by code_simp
  have "broker_client ex_broker mem_view" using mem_is_client by (simp add: ex_broker_def)
  from database_has_its_parent [OF this run svc] show ?thesis by blast
qed

section \<open>Updating\<close>

text \<open>C13: An update that succeeds was one the rules permit, for the service of the instance, and it moved
  the instance to the new plan: reference, plan name and service level are the new plan's, every
  other label is as it was, and the parameters are the validated ones of the request. It writes
  that one composite and nothing else.\<close>

theorem update_moves_to_the_new_plan:
  assumes "broker_client b view"
    and "Update b i serviceID oldPlanID newPlanID raw w = (Ok (), w')"
  shows "\<exists>p np inst ap c. found_instance b i (view w) p inst \<and>
    ServiceID (i_Labels inst) = serviceID \<and>
    p_Composition np \<in> set (cl_compositions (view w)) \<and> co_name (p_Composition np) = newPlanID \<and>
    AllowUpdate (br_planComparer b) p np = Ok True \<and>
    update_params b (inst\<lparr>i_Composite := on_plan np (i_Composite inst)\<rparr>) raw w = Ok ap \<and>
    view w' = put_composite c (view w) \<and> cl_composites (view w) (c_gvk c, i) \<noteq> None \<and>
    GVK (cp_client (br_cp b)) np = Ok (c_gvk c) \<and> c_name c = i \<and>
    c_compositionRef c = Some newPlanID \<and> c_parameters c = Some (map_value ap) \<and>
    c_labels c = (c_labels (i_Composite inst))
      (PlanNameLabel \<mapsto> sget (co_labels (p_Composition np)) PlanNameLabel,
       SLALabel \<mapsto> sget (co_labels (p_Composition np)) SLALabel)"
proof (rule broker_client.Update_Ok [OF assms], goal_cases)
  case (1 p np inst g ap)
  let ?inst = "inst\<lparr>i_Composite := on_plan np (i_Composite inst)\<rparr>"
  from broker_client.found_instance_name [OF assms(1) 1(1)] have "ID ?inst = i" by (simp add: ID_def)
  moreover have "c_labels (on_plan np (i_Composite inst)) = (c_labels (i_Composite inst))
      (PlanNameLabel \<mapsto> sget (co_labels (p_Composition np)) PlanNameLabel,
       SLALabel \<mapsto> sget (co_labels (p_Composition np)) SLALabel)" by (simp add: on_plan_def)
  ultimately show ?case
    using 1 by (intro exI [of _ p] exI [of _ np] exI [of _ inst] exI [of _ ap]
        exI [of _ "updated_composite g ?inst ap"]) simp
qed

lemma ex_update:
  "\<exists>w'. Update ex_broker ''redis-1'' ''svc-redis'' ''plan-redis'' ''plan-redis-premium'' None ex_world =
     (Ok (), w')"
proof -
  have "case fst (Update ex_broker ''redis-1'' ''svc-redis'' ''plan-redis'' ''plan-redis-premium'' None ex_world)
      of Ok u \<Rightarrow> True | _ \<Rightarrow> False" by code_simp
  then show ?thesis by (auto simp: prod_eq_iff split: result.splits)
qed

theorem update_moves_to_the_new_plan_witness:
  "\<exists>c w'. Update ex_broker ''redis-1'' ''svc-redis'' ''plan-redis'' ''plan-redis-premium'' None ex_world =
       (Ok (), w') \<and>
     mem_view w' = put_composite c (mem_view ex_world) \<and> c_name c = ''redis-1'' \<and>
     c_compositionRef c = Some ''plan-redis-premium''"
proof -
  from ex_update obtain w' where run: "Update ex_broker ''redis-1'' ''svc-redis'' ''plan-redis''
      ''plan-redis-premium'' None ex_world = (Ok (), w')" by blast
  have "broker_client ex_broker mem_view" using mem_is_client by (simp add: ex_broker_def)
  from update_moves_to_the_new_plan [OF this run] run show ?thesis by blast
qed

text \<open>A refused update, for another service or against the rules, is answered with status 422 and
  changes nothing, whatever the request's parameters.\<close>

theorem refused_update_is_422:
  assumes "update_refused (ba_broker a) i (ud_ServiceID d) (ud_PreviousPlanID d) (ud_PlanID d) w"
  shows "\<exists>f. API_Update a ctx i d async w = (Err (Failure f), w) \<and>
    failure_status predefined f = 422"
proof -
  from Update_refused [OF assms] obtain s
    where "Update (ba_broker a) i (ud_ServiceID d) (ud_PreviousPlanID d) (ud_PlanID d)
        (ud_RawParameters d) w = (Err (Sentinel s), w)"
      "s \<in> {ErrServiceUpdateNotPermitted, ErrPlanChangeNotPermitted}" by blast
  then show ?thesis
    by (auto simp: API_Update_def handleM_step update_failure_def APIResponseError_def)
qed

theorem refused_update_is_422_witness:
  "\<exists>f. API_Update \<lparr>ba_broker = ex_broker\<rparr> ex_ctx ''redis-1''
       \<lparr>ud_ServiceID = ''svc-redis'', ud_PlanID = ''plan-galera'', ud_PreviousPlanID = ''plan-redis'',
        ud_RawParameters = None\<rparr> True ex_world = (Err (Failure f), ex_world) \<and>
     failure_status (\<lambda>_. 500) f = 422"
proof -
  have "update_refused ex_broker ''redis-1'' ''svc-redis'' ''plan-redis'' ''plan-galera'' ex_world"
    by code_simp
  then show ?thesis by (intro refused_update_is_422) simp
qed

text \<open>C24: An update without parameters loses the ones the instance had: a database that was updated
  without repeating its parent reference cannot be bound any more. Every bind of it fails for want
  of the reference, and changes nothing.\<close>

theorem update_without_parameters_forgets_the_parent:
  assumes "broker_client b view"
    and "Update b i serviceID oldPlanID newPlanID None w = (Ok (), w')"
    and "distinct (map co_name (cl_compositions (view w)))" and "newPlanID \<noteq> ''''"
    and "instance_is b newPlanID i (\<lambda>inst. service_is MariaDBDatabaseService inst \<and> Ready inst) w'"
  shows "\<exists>e. Bind b i bid newPlanID async w' = (Err e, w')"
proof -
  from assms(5) obtain p' inst' where found: "getPlanInstance b newPlanID i w' = Ok (p', inst')"
    and inst': "ServiceName (i_Labels inst') = MariaDBDatabaseService" "Ready inst'"
    by (auto elim: instance_isE simp: service_is_def)
  show ?thesis
  proof (rule broker_client.Update_Ok [OF assms(1,2)], goal_cases)
    case (1 p np inst g ap)
    let ?c = "updated_composite g (inst\<lparr>i_Composite := on_plan np (i_Composite inst)\<rparr>) ap"
    note f' = broker_client.getPlanInstance_found [OF assms(1) found]
    have same: "cl_compositions (view w') = cl_compositions (view w)"
      by (simp add: 1(10) put_composite_def)
    from f'(1) have "p_Composition p' \<in> set (cl_compositions (view w))" "newPlan (p_Composition p') = Ok p'"
      by (simp_all add: found_instance_def same)
    with f'(2) [OF assms(4)] 1(2-4) assms(3) have "p' = np"
      by (metis distinct_map inj_on_eq_iff result.inject(1))
    with f'(1) 1(8) have get: "cl_composites (view w') (g, i) = Some (i_Composite inst')"
      by (auto simp: found_instance_def)
    from broker_client.found_instance_name [OF assms(1) 1(1)] have "c_name ?c = i" by (simp add: ID_def)
    with get have "i_Composite inst' = ?c" by (simp add: 1(10) put_composite_def)
    moreover from 1(7) have "ap = GoMap []" by (simp add: update_params_def)
    ultimately have "Parameters inst' = []" by (simp add: Parameters_def)
    then have "ParentReference inst' = Err (Errorf ''required param %q not found'' [instanceParamsParentReferenceName])"
      by (simp add: ParentReference_def getParentRef_def)
    with found inst' show ?case
      by (simp add: Bind_def MariadbDatabase_Bind_def bindM_step)
  qed
qed

theorem update_without_parameters_forgets_the_parent_witness:
  "\<exists>e w'. Update ex_broker ''db-1'' ''svc-db'' ''plan-db'' ''plan-db'' None ex_world = (Ok (), w') \<and>
     Bind ex_broker ''db-1'' ''b'' ''plan-db'' True w' = (Err e, w')"
proof -
  let ?w = "snd (Update ex_broker ''db-1'' ''svc-db'' ''plan-db'' ''plan-db'' None ex_world)"
  have "case fst (Update ex_broker ''db-1'' ''svc-db'' ''plan-db'' ''plan-db'' None ex_world)
      of Ok u \<Rightarrow> True | _ \<Rightarrow> False" by code_simp
  then have run: "Update ex_broker ''db-1'' ''svc-db'' ''plan-db'' ''plan-db'' None ex_world = (Ok (), ?w)"
    by (auto simp: prod_eq_iff split: result.splits)
  have names: "distinct (map co_name (cl_compositions (mem_view ex_world)))" by code_simp
  have db: "instance_is ex_broker ''plan-db'' ''db-1''
      (\<lambda>inst. service_is MariaDBDatabaseService inst \<and> Ready inst) ?w" by code_simp
  have "broker_client ex_broker mem_view" using mem_is_client by (simp add: ex_broker_def)
  from update_without_parameters_forgets_the_parent [OF this run names _ db] run
  show ?thesis by (metis list.distinct(1))
qed

section \<open>Polling\<close>

text \<open>The last operation of an instance is, for every condition its composite can have: succeeded
  exactly when the reason is Available, failed exactly when it is Unavailable or Deleting, and in
  progress otherwise; the description is never empty.\<close>

theorem last_operation_state:
  "instance_is b planID i P w \<Longrightarrow>
   \<exists>p inst res. getPlanInstance b planID i w = Ok (p, inst) \<and> P inst \<and>
     LastOperation b i planID w = Ok res \<and>
     (lo_State res = Succeeded \<longleftrightarrow> cond_Reason (c_ready (i_Composite inst)) = ReasonAvailable) \<and>
     (lo_State res = Failed \<longleftrightarrow>
        cond_Reason (c_ready (i_Composite inst)) \<in> {ReasonUnavailable, ReasonDeleting}) \<and>
     lo_Description res \<noteq> Text ''''"
  by (erule instance_isE) (auto simp: LastOperation_def Let_def reason_state_def reasons)

theorem last_operation_state_witness:
  "\<exists>res. LastOperation ex_broker ''redis-1'' ''plan-redis'' ex_creating = Ok res \<and> lo_State res = InProgress"
proof -
  have "instance_is ex_broker ''plan-redis'' ''redis-1''
      (\<lambda>inst. cond_Reason (c_ready (i_Composite inst)) = ReasonCreating) ex_creating" by code_simp
  from last_operation_state [OF this] obtain res where
    "LastOperation ex_broker ''redis-1'' ''plan-redis'' ex_creating = Ok res"
    "lo_State res \<noteq> Succeeded" "lo_State res \<noteq> Failed" by (auto simp: reasons)
  then show ?thesis by (metis LastOperationState.exhaust)
qed

definition absent_everywhere :: "'w Broker \<Rightarrow> string \<Rightarrow> 'w \<Rightarrow> bool" where
  "absent_everywhere b i w =
     (case Plans (br_cp b) (ServiceIDs (cp_config (br_cp b))) w of
        Ok ps \<Rightarrow> list_all (\<lambda>p. case Instance (br_cp b) i p w of
            Ok found \<Rightarrow> Option.is_none found
          | Err e \<Rightarrow> e = Sentinel ErrInstanceNotFound
          | Panic x \<Rightarrow> False) ps
      | _ \<Rightarrow> False)"

lemma absent_not_found:
  assumes "absent_everywhere b i w"
  shows "getPlanInstance b '''' i w = Err (Sentinel ErrInstanceNotFound)"
proof -
  from assms obtain ps where ps: "Plans (br_cp b) (ServiceIDs (cp_config (br_cp b))) w = Ok ps"
    and absent: "list_all (\<lambda>p. case Instance (br_cp b) i p w of Ok found \<Rightarrow> Option.is_none found
      | Err e \<Rightarrow> e = Sentinel ErrInstanceNotFound | Panic x \<Rightarrow> False) ps"
    by (auto simp: absent_everywhere_def split: result.splits)
  from absent have "find_instance_loop (br_cp b) i ps w = Err (Sentinel ErrInstanceNotFound)"
    by (induction ps) (auto simp: Option.is_none_def split: result.splits option.splits)
  with ps show ?thesis by (simp add: getPlanInstance_def FindInstanceWithoutPlan_def)
qed

text \<open>C36: Polling an instance that does not exist answers that it does not exist only when the request
  names a plan; without a plan, which the request need not name, the answer is an internal server
  error, so that a platform that polls the removal of an instance does not learn that it is gone.\<close>

theorem polling_an_unknown_instance:
  assumes "absent_everywhere (ba_broker a) i w"
    and "d_PlanID d \<noteq> ''''" and "instance_is_new (ba_broker a) (d_PlanID d) i w"
  shows "\<exists>f g. API_LastOperation a ctx i d w = Err (Failure f) \<and>
      failure_status predefined f = predefined ErrInstanceDoesNotExist \<and>
    API_LastOperation a ctx i (d\<lparr>d_PlanID := ''''\<rparr>) w = Err (Failure g) \<and>
      failure_status predefined g = 500"
proof -
  from assms(3) obtain p where "Plan (br_cp (ba_broker a)) (d_PlanID d) w = Ok p"
    "Instance (br_cp (ba_broker a)) i p w = Ok None"
    by (auto simp: instance_is_new_def Option.is_none_def split: result.splits option.splits)
  with assms(2) have "getPlanInstance (ba_broker a) (d_PlanID d) i w =
      Err (Failure (LibFailure ErrInstanceDoesNotExist))" by (simp add: getPlanInstance_def)
  moreover note absent_not_found [OF assms(1)]
  ultimately show ?thesis
    by (simp add: API_LastOperation_def LastOperation_def api_result_def APIResponseError_def)
qed

theorem polling_an_unknown_instance_witness:
  "\<exists>g. API_LastOperation \<lparr>ba_broker = ex_broker\<rparr> ex_ctx ''gone'' \<lparr>d_ServiceID = ''svc-redis'', d_PlanID = ''''\<rparr>
       ex_world = Err (Failure g) \<and> failure_status (\<lambda>_. 410) g = 500"
proof -
  have "absent_everywhere ex_broker ''gone'' ex_world" by code_simp
  moreover have "instance_is_new ex_broker ''plan-redis'' ''gone'' ex_world" by code_simp
  ultimately show ?thesis
    using polling_an_unknown_instance [where a = "\<lparr>ba_broker = ex_broker\<rparr>" and i = "''gone''"
        and d = "\<lparr>d_ServiceID = ''svc-redis'', d_PlanID = ''plan-redis''\<rparr>" and w = ex_world
        and ctx = ex_ctx and predefined = "\<lambda>_. 410"] by auto
qed

section \<open>The catalog\<close>

text \<open>C33: The catalog has one entry for each definition in the cluster whose service id is configured, in
  the order the API lists them, with the id and the name of its labels. The plans of an entry are
  all the compositions labelled with its service id, under their own names as ids and ordered by the
  name of the plan; an entry has no plans only when they could not be read.\<close>

theorem catalog_lists_services_and_plans:
  assumes "broker_client b view" and "Services b x w = Ok svs"
  shows "(\<exists>ds. l_listXRDs (cp_client (br_cp b)) ServiceIDLabel (ServiceIDs (cp_config (br_cp b))) w = Inr ds \<and>
      set ds = {d \<in> set (cl_xrds (view w)).
        \<exists>v. x_labels d ServiceIDLabel = Some v \<and> v \<in> set (ServiceIDs (cp_config (br_cp b)))} \<and>
      map (\<lambda>s. (sv_ID s, sv_Name s)) svs =
        map (\<lambda>d. (sget (x_labels d) ServiceIDLabel, sget (x_labels d) ServiceNameLabel)) ds) \<and>
    (\<forall>s \<in> set svs. case sv_Plans s of
       Some sps \<Rightarrow> sorted (map sp_Name sps) \<and>
         (\<lambda>sp. (sp_ID sp, sp_Name sp)) ` set sps =
           (\<lambda>co. (co_name co, sget (co_labels co) PlanNameLabel)) `
             {co \<in> set (cl_compositions (view w)). co_labels co ServiceIDLabel = Some (sv_ID s)}
     | None \<Rightarrow> \<exists>e. Plans (br_cp b) [sv_ID s] w = Err e)"
proof -
  from assms(2) obtain xrds where xrds: "ServiceXRDs (br_cp b) w = Ok xrds"
    and loop: "services_loop b x xrds w = Ok svs" by (auto simp: Services_def go_inv)
  have plans: "case sv_Plans s of
       Some sps \<Rightarrow> sorted (map sp_Name sps) \<and>
         (\<lambda>sp. (sp_ID sp, sp_Name sp)) ` set sps =
           (\<lambda>co. (co_name co, sget (co_labels co) PlanNameLabel)) `
             {co \<in> set (cl_compositions (view w)). co_labels co ServiceIDLabel = Some (sv_ID s)}
     | None \<Rightarrow> \<exists>e. Plans (br_cp b) [sv_ID s] w = Err e" if "s \<in> set svs" for s
  proof (cases "servicePlans b x [sv_ID s] w")
    case (Ok sps)
    with services_loop_plans [OF loop that] servicePlans_sorted [OF Ok]
      broker_client.servicePlans_all [OF assms(1) Ok]
    show ?thesis by (simp add: plan_name_of_def)
  next
    case (Err e)
    with services_loop_plans [OF loop that] servicePlans_Err [OF Err] show ?thesis by auto
  qed simp
  from broker_client.ServiceXRDs_all [OF assms(1) xrds] services_loop_Ok [OF loop] plans
  show ?thesis by auto
qed

definition ex_catalog_world :: mem where
  "ex_catalog_world =
     ex_world\<lparr>m_xrds := [\<lparr>x_name = ''compositeredisinstances'',
        x_labels = [ServiceNameLabel \<mapsto> RedisService, ServiceIDLabel \<mapsto> ''svc-redis'',
                    UpdatableLabel \<mapsto> ''true''], x_annotations = Map.empty\<rparr>]\<rparr>"

definition ex_catalog_lib :: "(string, string) catalog_lib" where
  "ex_catalog_lib =
     \<lparr>DecodeMetadata = (\<lambda>s. ('''', Some (LibError ''json''))), SetDisplayName = (\<lambda>n m. n),
      DecodePlanMetadata = (\<lambda>s. (s, None)), SetPlanDisplayName = (\<lambda>n m. n),
      DecodeTags = (\<lambda>s. ([], None))\<rparr>"

theorem catalog_lists_services_and_plans_witness:
  "\<exists>svs. Services ex_broker ex_catalog_lib ex_catalog_world = Ok svs \<and>
     map (\<lambda>s. (sv_ID s, sv_Name s)) svs = [(''svc-redis'', RedisService)] \<and>
     (\<forall>s \<in> set svs. \<exists>sps. sv_Plans s = Some sps \<and>
        (\<lambda>co. co_name co) ` {co \<in> set (m_compositions ex_catalog_world).
           co_labels co ServiceIDLabel = Some ''svc-redis''} = sp_ID ` set sps)"
proof -
  have "case Services ex_broker ex_catalog_lib ex_catalog_world of
      Ok svs \<Rightarrow> map (\<lambda>s. (sv_ID s, sv_Name s)) svs = [(''svc-redis'', RedisService)] \<and>
        list_all (\<lambda>s. \<not> Option.is_none (sv_Plans s)) svs
    | _ \<Rightarrow> False" by code_simp
  then obtain svs where svs: "Services ex_broker ex_catalog_lib ex_catalog_world = Ok svs"
    and ids: "map (\<lambda>s. (sv_ID s, sv_Name s)) svs = [(''svc-redis'', RedisService)]"
    and some: "\<forall>s \<in> set svs. sv_Plans s \<noteq> None"
    by (auto simp: list_all_iff Option.is_none_def split: result.splits)
  have client: "broker_client ex_broker mem_view" using mem_is_client by (simp add: ex_broker_def)
  have each: "\<exists>sps. sv_Plans s = Some sps \<and>
      (\<lambda>co. co_name co) ` {co \<in> set (m_compositions ex_catalog_world).
         co_labels co ServiceIDLabel = Some ''svc-redis''} = sp_ID ` set sps" if s: "s \<in> set svs" for s
  proof -
    from s some obtain sps where sps: "sv_Plans s = Some sps" by auto
    from ids s have id: "sv_ID s = ''svc-redis''" by auto
    let ?cos = "{co \<in> set (m_compositions ex_catalog_world). co_labels co ServiceIDLabel = Some ''svc-redis''}"
    from bspec [OF conjunct2 [OF catalog_lists_services_and_plans [OF client svs]] s] sps id
    have "(\<lambda>sp. (sp_ID sp, sp_Name sp)) ` set sps =
        (\<lambda>co. (co_name co, sget (co_labels co) PlanNameLabel)) ` ?cos"
      by (simp add: mem_view_def)
    then have "fst ` (\<lambda>sp. (sp_ID sp, sp_Name sp)) ` set sps =
        fst ` (\<lambda>co. (co_name co, sget (co_labels co) PlanNameLabel)) ` ?cos" by simp
    with sps show ?thesis by (simp add: image_image)
  qed
  show ?thesis by (intro exI [of _ svs] conjI ballI svs ids each)
qed

end
