(* ===== verification/Binding_Operations.thy ===== *)
theory Binding_Operations
  imports Broker_Memory
begin

text \<open>
  What binding and unbinding achieve: for every service while the instance is not ready, and for
  databases, whose bindings are objects in the cluster.
\<close>

section \<open>Binding and unbinding\<close>

text \<open>C20: An instance that is not ready is neither bound nor unbound nor asked for a binding: each
  call answers with the concurrency error and writes nothing.\<close>

theorem not_ready_is_refused:
  assumes "instance_is b planID i (\<lambda>inst. \<not> Ready inst) w"
  shows "Bind b i bid planID async w = (Err (Failure (LibFailure ErrConcurrentInstanceAccess)), w)
    \<and> Unbind b i bid planID w = (Err (Failure (LibFailure ErrConcurrentInstanceAccess)), w)
    \<and> GetBinding b i bid planID w = Err (Failure (LibFailure ErrConcurrentInstanceAccess))"
  using assms Bind_not_ready by (auto elim!: instance_isE)

theorem not_ready_is_refused_witness:
  "Bind ex_broker ''redis-1'' ''b'' ''plan-redis'' True ex_creating =
     (Err (Failure (LibFailure ErrConcurrentInstanceAccess)), ex_creating)"
proof -
  have "instance_is ex_broker ''plan-redis'' ''redis-1'' (\<lambda>inst. \<not> Ready inst) ex_creating"
    by code_simp
  then show ?thesis by (simp add: not_ready_is_refused)
qed

text \<open>C8: A successful bind of a database leaves the secret of the binding in the broker's
  namespace, with a password that was not there before, and the user composite; the credentials
  it answers name that password, the binding as the user and the instance as the database. It
  only succeeds for a ready instance whose parent cluster exists.\<close>

theorem bind_stores_what_it_answers:
  assumes "broker_client b view"
    and "instance_is b planID i (service_is MariaDBDatabaseService) w"
    and "Bind b i bid planID async w = (Ok res, w')"
  shows "\<exists>parent pw. cl_composites (view w) (mariaDBGroupVersionKind, parent) \<noteq> None \<and>
    cl_secrets (view w) (Namespace (cp_config (br_cp b)), secretName bid) = None \<and>
    cl_secrets (view w') (Namespace (cp_config (br_cp b)), secretName bid) =
      Some (stored_secret (Namespace (cp_config (br_cp b))) bid i parent pw) \<and>
    cl_composites (view w') (mariaDBUserGroupVersionKind, bid) \<noteq> None \<and>
    map_of (bi_Credentials res) SecretPasswordKey = Some (CString pw) \<and>
    map_of (bi_Credentials res) SecretUserKey = Some (CString bid) \<and>
    map_of (bi_Credentials res) ''database'' = Some (CString i) \<and>
    instance_is b planID i Ready w"
proof -
  from assms(2) obtain p inst where inst: "getPlanInstance b planID i w = Ok (p, inst)"
    and svc: "ServiceName (i_Labels inst) = MariaDBDatabaseService"
    by (auto elim: instance_isE simp: service_is_def)
  show ?thesis
  proof (rule broker_client.Bind_database_Ok [OF assms(1,3) inst svc], goal_cases)
    case (1 parent pw)
    moreover from 1(2) inst have "instance_is b planID i Ready w" by (simp add: instance_is_def)
    ultimately show ?case by blast
  qed
qed

theorem bind_stores_what_it_answers_witness:
  "\<exists>parent pw. cl_secrets (mem_view (snd (Bind ex_broker ''db-1'' ''b'' ''plan-db'' True ex_world)))
     (''broker'', secretName ''b'') = Some (stored_secret ''broker'' ''b'' ''db-1'' parent pw)"
proof -
  have ns: "Namespace (cp_config (br_cp ex_broker)) = ''broker''" by code_simp
  have db: "instance_is ex_broker ''plan-db'' ''db-1'' (service_is MariaDBDatabaseService) ex_world"
    by code_simp
  have "(case fst (Bind ex_broker ''db-1'' ''b'' ''plan-db'' True ex_world) of
      Ok r \<Rightarrow> True | _ \<Rightarrow> False)" by code_simp
  then obtain res where "fst (Bind ex_broker ''db-1'' ''b'' ''plan-db'' True ex_world) = Ok res"
    by (auto split: result.splits)
  then have "Bind ex_broker ''db-1'' ''b'' ''plan-db'' True ex_world =
      (Ok res, snd (Bind ex_broker ''db-1'' ''b'' ''plan-db'' True ex_world))"
    by (simp add: prod_eq_iff)
  from bind_stores_what_it_answers [of ex_broker mem_view, OF _ db this] mem_is_client ns
  show ?thesis by (auto simp: ex_broker_def)
qed

text \<open>C23: A bind that came as far as storing the secret cannot be repeated: on a cluster that
  answers, while the secret is there every later bind of the same id fails with the API's
  already-exists error, whatever became of the first one, and changes nothing.\<close>

theorem bind_cannot_be_repeated:
  assumes "reliable_broker b view"
    and "instance_is b planID i (\<lambda>inst. service_is MariaDBDatabaseService inst \<and> Ready inst \<and>
           ParentReference inst = Ok parent) w"
    and "cl_composites (view w) (mariaDBGroupVersionKind, parent) \<noteq> None"
    and "cl_secrets (view w) (Namespace (cp_config (br_cp b)), secretName bid) \<noteq> None"
  shows "\<exists>e w'. Bind b i bid planID async w = (Err e, w') \<and> IsAlreadyExists e \<and> view w' = view w"
proof -
  from assms(2) obtain p inst where "getPlanInstance b planID i w = Ok (p, inst)" "Ready inst"
    "ServiceName (i_Labels inst) = MariaDBDatabaseService" "ParentReference inst = Ok parent"
    by (auto elim: instance_isE simp: service_is_def)
  from reliable_broker.Bind_again [OF assms(1) this assms(3,4)] show ?thesis .
qed

theorem bind_cannot_be_repeated_witness:
  "\<exists>e w'. Bind ex_broker ''db-1'' ''bind-1'' ''plan-db'' True ex_bound = (Err e, w') \<and> IsAlreadyExists e"
proof -
  have "instance_is ex_broker ''plan-db'' ''db-1'' (\<lambda>inst. service_is MariaDBDatabaseService inst \<and>
      Ready inst \<and> ParentReference inst = Ok ''galera-1'') ex_bound" by code_simp
  moreover have "\<not> Option.is_none
      (cl_composites (mem_view ex_bound) (mariaDBGroupVersionKind, ''galera-1''))" by code_simp
  moreover have "\<not> Option.is_none (cl_secrets (mem_view ex_bound)
      (Namespace (cp_config (br_cp ex_broker)), secretName ''bind-1''))" by code_simp
  ultimately show ?thesis
    using bind_cannot_be_repeated [of ex_broker mem_view "''plan-db''" "''db-1''" "''galera-1''"
        ex_bound "''bind-1''" True] mem_is_reliable
    by (auto simp: ex_broker_def Option.is_none_def)
qed

text \<open>On a cluster that answers, polling a binding right after a bind of a database that
  succeeded says that it is in progress: a user that was just created is not reported as ready,
  although the bind has already answered with credentials.\<close>

theorem fresh_binding_is_in_progress:
  assumes "reliable_broker b view"
    and "instance_is b planID i (service_is MariaDBDatabaseService) w"
    and "Bind b i bid planID async w = (Ok res, w')"
    and "cl_composites (view w) (mariaDBUserGroupVersionKind, bid) = None"
    and "instance_is b planID i (service_is MariaDBDatabaseService) w'"
  shows "LastBindingOperation b i planID bid w' =
    Ok \<lparr>lo_State = InProgress, lo_Description = Text ''''\<rparr>"
proof -
  from assms(2) obtain p inst where inst: "getPlanInstance b planID i w = Ok (p, inst)"
    "ServiceName (i_Labels inst) = MariaDBDatabaseService"
    by (auto elim: instance_isE simp: service_is_def)
  from assms(5) obtain p' inst' where inst': "getPlanInstance b planID i w' = Ok (p', inst')"
    "ServiceName (i_Labels inst') = MariaDBDatabaseService"
    by (auto elim: instance_isE simp: service_is_def)
  from assms(1) have client: "broker_client b view" by (rule reliable_is_client)
  show ?thesis
  proof (rule broker_client.Bind_database_Ok [OF client assms(3) inst], goal_cases)
    case (1 parent pw)
    from reliable_broker.LastBindingOperation_in_progress [OF assms(1) inst' 1(8) [OF assms(4)]]
    show ?case by simp
  qed
qed

theorem fresh_binding_is_in_progress_witness:
  "LastBindingOperation ex_broker ''db-1'' ''plan-db'' ''b''
     (snd (Bind ex_broker ''db-1'' ''b'' ''plan-db'' True ex_world)) =
   Ok \<lparr>lo_State = InProgress, lo_Description = Text ''''\<rparr>"
proof -
  have db: "instance_is ex_broker ''plan-db'' ''db-1'' (service_is MariaDBDatabaseService) ex_world"
    by code_simp
  have db': "instance_is ex_broker ''plan-db'' ''db-1'' (service_is MariaDBDatabaseService)
      (snd (Bind ex_broker ''db-1'' ''b'' ''plan-db'' True ex_world))" by code_simp
  have none: "Option.is_none (cl_composites (mem_view ex_world) (mariaDBUserGroupVersionKind, ''b''))"
    by code_simp
  have "(case fst (Bind ex_broker ''db-1'' ''b'' ''plan-db'' True ex_world) of
      Ok r \<Rightarrow> True | _ \<Rightarrow> False)" by code_simp
  then obtain res where "fst (Bind ex_broker ''db-1'' ''b'' ''plan-db'' True ex_world) = Ok res"
    by (auto split: result.splits)
  then have "Bind ex_broker ''db-1'' ''b'' ''plan-db'' True ex_world =
      (Ok res, snd (Bind ex_broker ''db-1'' ''b'' ''plan-db'' True ex_world))"
    by (simp add: prod_eq_iff)
  from fresh_binding_is_in_progress [of ex_broker mem_view, OF _ db this _ db'] mem_is_reliable none
  show ?thesis by (simp add: ex_broker_def Option.is_none_def)
qed

text \<open>C9: A successful unbind of a database made the user object the only owner of the secret of the
  binding, and then deleted the user composite, or marked it for deletion; the secret itself stays,
  with its data. The user object is the one the API answered for the last reference of the kind
  \<open>User\<close> among the composed resources of the user composite, and the owner written into the secret has
  its version, kind, name and UID and blocks its deletion.\<close>

theorem unbind_hands_over_and_deletes:
  assumes "broker_client b view"
    and "instance_is b planID i (service_is MariaDBDatabaseService) w"
    and "Unbind b i bid planID w = (Ok res, w')"
  shows "\<exists>c s u ref. cl_composites (view w) (mariaDBUserGroupVersionKind, bid) = Some c \<and>
    ref \<in> set (c_resourceRefs c) \<and> or_Kind ref = ''User'' \<and>
    ref = last (filter (\<lambda>r. or_Kind r = ''User'') (c_resourceRefs c)) \<and>
    l_getObject (cp_client (br_cp b)) (or_APIVersion ref) ''User'' (or_Name ref) w = Inr u \<and>
    k_kind u = ''User'' \<and> k_name u = or_Name ref \<and> k_apiVersion u = or_APIVersion ref \<and>
    cl_secrets (view w) (Namespace (cp_config (br_cp b)), secretName bid) = Some s \<and>
    deleted mariaDBUserGroupVersionKind bid
      (put_secret
         (s\<lparr>s_owners := [\<lparr>ow_APIVersion = k_apiVersion u, ow_Kind = k_kind u, ow_Name = k_name u,
            ow_UID = k_uid u, ow_BlockOwnerDeletion = True\<rparr>]\<rparr>) (view w))
      (view w')"
proof -
  from assms(2) obtain p inst where inst: "getPlanInstance b planID i w = Ok (p, inst)"
    and svc: "ServiceName (i_Labels inst) = MariaDBDatabaseService"
    by (auto elim: instance_isE simp: service_is_def)
  show ?thesis
  proof (rule broker_client.Unbind_database_Ok [OF assms(1,3) inst svc], goal_cases)
    case (1 c s u ref)
    from user_ref_loop_user [OF 1(3,4)] have "ref \<in> set (c_resourceRefs c)"
      "ref = last (filter (\<lambda>r. or_Kind r = ''User'') (c_resourceRefs c))" by blast+
    moreover from 1(5) have "k_apiVersion u = or_APIVersion ref" "k_kind u = or_Kind ref"
      "k_name u = or_Name ref" using broker_client.object_answered [OF assms(1)] by blast+
    ultimately show ?case
      using 1(1,2,4-6) unfolding owned_by_def owner_of_def by metis
  qed
qed

theorem unbind_hands_over_and_deletes_witness:
  "\<exists>c s (u :: kobject). cl_composites (mem_view ex_bound) (mariaDBUserGroupVersionKind, ''bind-1'') = Some c \<and>
     k_kind u = ''User'' \<and>
     deleted mariaDBUserGroupVersionKind ''bind-1''
       (put_secret
          (s\<lparr>s_owners := [\<lparr>ow_APIVersion = k_apiVersion u, ow_Kind = k_kind u, ow_Name = k_name u,
             ow_UID = k_uid u, ow_BlockOwnerDeletion = True\<rparr>]\<rparr>) (mem_view ex_bound))
       (mem_view (snd (Unbind ex_broker ''db-1'' ''bind-1'' ''plan-db'' ex_bound)))"
proof -
  have db: "instance_is ex_broker ''plan-db'' ''db-1'' (service_is MariaDBDatabaseService) ex_bound"
    by code_simp
  have "(case fst (Unbind ex_broker ''db-1'' ''bind-1'' ''plan-db'' ex_bound) of
      Ok r \<Rightarrow> True | _ \<Rightarrow> False)" by code_simp
  then obtain res where "fst (Unbind ex_broker ''db-1'' ''bind-1'' ''plan-db'' ex_bound) = Ok res"
    by (auto split: result.splits)
  then have run: "Unbind ex_broker ''db-1'' ''bind-1'' ''plan-db'' ex_bound =
      (Ok res, snd (Unbind ex_broker ''db-1'' ''bind-1'' ''plan-db'' ex_bound))"
    by (simp add: prod_eq_iff)
  have client: "broker_client ex_broker mem_view" using mem_is_client by (simp add: ex_broker_def)
  from unbind_hands_over_and_deletes [OF client db run] show ?thesis by blast
qed

text \<open>On a cluster that answers, unbinding a database from a binding without a user composite
  answers that the binding does not exist, and writes nothing.\<close>

theorem unbind_of_nothing:
  assumes "reliable_broker b view"
    and "instance_is b planID i (\<lambda>inst. service_is MariaDBDatabaseService inst \<and> Ready inst) w"
    and "cl_composites (view w) (mariaDBUserGroupVersionKind, bid) = None"
  shows "Unbind b i bid planID w = (Err (Failure (LibFailure ErrBindingDoesNotExist)), w)"
proof -
  from assms(2) obtain p inst where "getPlanInstance b planID i w = Ok (p, inst)" "Ready inst"
    "ServiceName (i_Labels inst) = MariaDBDatabaseService"
    by (auto elim: instance_isE simp: service_is_def)
  from reliable_broker.Unbind_database_absent [OF assms(1) this assms(3)] show ?thesis .
qed

theorem unbind_of_nothing_witness:
  "Unbind ex_broker ''db-1'' ''other'' ''plan-db'' ex_bound =
     (Err (Failure (LibFailure ErrBindingDoesNotExist)), ex_bound)"
proof -
  have "instance_is ex_broker ''plan-db'' ''db-1''
      (\<lambda>inst. service_is MariaDBDatabaseService inst \<and> Ready inst) ex_bound" by code_simp
  moreover have "Option.is_none
      (cl_composites (mem_view ex_bound) (mariaDBUserGroupVersionKind, ''other''))" by code_simp
  ultimately show ?thesis
    using unbind_of_nothing [of ex_broker mem_view "''plan-db''" "''db-1''" ex_bound "''other''"]
      mem_is_reliable by (simp add: ex_broker_def Option.is_none_def)
qed

end
