(* ===== verification/Binding_Success.thy ===== *)
theory Binding_Success
  imports Broker_Memory
begin

text \<open>
  When binding and unbinding a database succeed, on a cluster that answers: the conditions on the
  instance and on the cluster that are both needed and enough.
\<close>

section \<open>The conditions\<close>

text \<open>The connection secret that an object names is there and holds an endpoint.\<close>

definition endpoint_known :: "cluster \<Rightarrow> composite \<Rightarrow> bool" where
  "endpoint_known cl c =
     (case c_secretRef c of
        None \<Rightarrow> False
      | Some ref \<Rightarrow>
          (case cl_secrets cl (sr_Namespace ref, sr_Name ref) of
             None \<Rightarrow> False
           | Some s \<Rightarrow>
               (case s_data s of
                  None \<Rightarrow> False
                | Some d \<Rightarrow> (case mapMariadbEndpoint d of Ok e \<Rightarrow> True | _ \<Rightarrow> False))))"

text \<open>
  A database can be bound when its parameters name its Galera cluster, which is there with its
  endpoint, its label names one that is there, and the binding has no secret yet.
\<close>

definition bindable :: "string \<Rightarrow> inst \<Rightarrow> string \<Rightarrow> cluster \<Rightarrow> bool" where
  "bindable ns inst bid cl =
     (case ParentReference inst of
        Ok parent \<Rightarrow>
          (case cl_composites cl (mariaDBGroupVersionKind, parent) of
             None \<Rightarrow> False
           | Some c \<Rightarrow>
               Option.is_none (cl_secrets cl (ns, secretName bid)) \<and> endpoint_known cl c \<and>
               \<not> Option.is_none (cl_composites cl (mariaDBGroupVersionKind, ParentID (i_Labels inst))))
      | _ \<Rightarrow> False)"

text \<open>
  A binding can be removed when its composite is there and was composed into a user object, which
  can be read, and its secret is there. \<open>get\<close> reads an object.
\<close>

definition unbindable :: "(object_ref \<Rightarrow> go_error + kobject) \<Rightarrow> string \<Rightarrow> string \<Rightarrow> cluster \<Rightarrow> bool" where
  "unbindable get ns bid cl =
     (case cl_composites cl (mariaDBUserGroupVersionKind, bid) of
        None \<Rightarrow> False
      | Some c \<Rightarrow>
          (let ref = user_ref_loop (c_resourceRefs c) no_ref
           in or_Kind ref = ''User'' \<and> \<not> Option.is_none (cl_secrets cl (ns, secretName bid)) \<and>
              (case get ref of Inr u \<Rightarrow> True | Inl e \<Rightarrow> False)))"

section \<open>They are what is needed\<close>

context reliable_client
begin

lemma get_secret_iff: "l_getSecret (cp_client cp) ns n w = Inr s \<longleftrightarrow> cl_secrets (view w) (ns, n) = Some s"
  using get_secret_ok get_secret_found by blast

lemma get_composite_iff:
  "l_getComposite (cp_client cp) g n w = Inr c \<longleftrightarrow> cl_composites (view w) (g, n) = Some c"
  using get_composite_ok get_composite_found by blast

lemma endpoint_known_iff:
  "endpoint_known (view w) c \<longleftrightarrow>
     (\<exists>s e. GetConnectionDetails cp (Some c) w = Ok s \<and> mapMariadbEndpoint (secret_data s) = Ok e)"
proof -
  have details: "GetConnectionDetails cp (Some c) w = Ok s \<longleftrightarrow>
      (\<exists>ref d. c_secretRef c = Some ref \<and> s_data s = Some d \<and>
        cl_secrets (view w) (sr_Namespace ref, sr_Name ref) = Some s)" for s
    by (cases "c_secretRef c"; cases "s_data s")
      (auto simp: GetConnectionDetails_def go_inv get_secret_iff Option.is_none_def split: if_splits)
  show ?thesis
    unfolding details endpoint_known_def
    by (auto simp: secret_data_def split: option.splits result.splits)
qed

text \<open>Storing the binding does not make an endpoint known or unknown.\<close>

lemma endpoint_known_bound:
  assumes run: "createBinding cp b i p w = (Ok pw, w')"
  shows "endpoint_known (view w') c \<longleftrightarrow> endpoint_known (view w) c"
proof (cases "c_secretRef c")
  case (Some ref)
  have frame: "touches (binding_composites b) (binding_secrets namespace b) (view w) (view w')"
    by (rule bound_stage_touches [OF createBinding_stage [OF run]])
  show ?thesis
  proof (cases "(sr_Namespace ref, sr_Name ref) = (namespace, secretName b)")
    case True
    have "mapMariadbEndpoint [SecretPasswordKey \<mapsto> pw] = Err (Failure (LibFailure ErrBindingNotFound))"
      by (simp add: mapMariadbEndpoint_def secret_keys)
    with Some True createBinding_Ok(1,2) [OF run] show ?thesis by (simp add: endpoint_known_def)
  next
    case False
    with frame have "cl_secrets (view w') (sr_Namespace ref, sr_Name ref) =
        cl_secrets (view w) (sr_Namespace ref, sr_Name ref)"
      by (auto simp: touches_def binding_secrets_def)
    with Some show ?thesis by (simp add: endpoint_known_def)
  qed
qed (simp add: endpoint_known_def)

lemma createBinding_keeps_clusters:
  assumes "createBinding cp b i p w = (r, w')"
  shows "cl_composites (view w') (mariaDBGroupVersionKind, n) = cl_composites (view w) (mariaDBGroupVersionKind, n)"
  using bound_stage_touches [OF createBinding_stage [OF assms]]
  by (auto simp: touches_def binding_composites_def mariadb_kinds)

lemma createBinding_succeeds:
  assumes "cl_secrets (view w) (namespace, secretName b) = None"
  shows "\<exists>pw w'. createBinding cp b i p w = (Ok pw, w')"
proof -
  obtain pw w1 where pw: "l_generatePassword (cp_client cp) w = (Inr pw, w1)"
    using password_answers by blast
  with password_keeps have v1: "view w1 = view w" by blast
  obtain w2 where sec: "l_createSecret (cp_client cp) (stored_secret namespace b i p pw) w1 = (Inr (), w2)"
    using create_secret_succeeds [of w1 "stored_secret namespace b i p pw"] assms v1 by auto
  obtain cmp where cmp: "l_setParameter (cp_client cp) instanceParamsParentReferenceName (JString p)
      (binding_composite b (binding_labels i p)) = Inr cmp"
    using set_parameter_answers [of _ _ "binding_composite b (binding_labels i p)"]
    unfolding binding_composite_bare by blast
  obtain r w3 where "l_createComposite (cp_client cp) cmp w2 = (r, w3)" by fastforce
  moreover have "r = Inr () \<or> (\<exists>e. r = Inl e \<and> IsAlreadyExists e)"
    using create_composite_succeeds [of w2 cmp] create_composite_refused [of w2 cmp] calculation by auto
  ultimately have "handleM (writeM (l_createComposite (cp_client cp) cmp))
      (\<lambda>e. if IsAlreadyExists e then Ok () else Err e) w2 = (Ok (), w3)"
    by (auto simp: handleM_def writeM_def)
  with pw sec cmp show ?thesis
    by (simp add: createBinding_def Let_def binding_secret_stored bindM_def writeM_def)
qed

lemma db_Bind_succeeds:
  "(\<exists>creds w'. MariadbDatabase_Bind cp inst b w = (Ok creds, w')) \<longleftrightarrow> bindable namespace inst b (view w)"
proof (cases "\<exists>parent c. ParentReference inst = Ok parent \<and>
    cl_composites (view w) (mariaDBGroupVersionKind, parent) = Some c")
  case False
  then have "\<not> bindable namespace inst b (view w)"
    by (auto simp: bindable_def split: result.splits option.splits)
  with False show ?thesis by (auto elim!: db_Bind_Ok)
next
  case True
  then obtain parent c where p: "ParentReference inst = Ok parent"
    and c: "cl_composites (view w) (mariaDBGroupVersionKind, parent) = Some c" by blast
  show ?thesis
  proof (cases "cl_secrets (view w) (namespace, secretName b)")
    case (Some s)
    with db_Bind_again [of inst parent w b] p c obtain e w'
      where "MariadbDatabase_Bind cp inst b w = (Err e, w')" by auto
    with p c Some show ?thesis by (simp add: bindable_def Option.is_none_def)
  next
    case None
    from createBinding_succeeds [OF None] obtain pw w1
      where cr: "createBinding cp b (ID inst) parent w = (Ok pw, w1)" by blast
    have "MariadbDatabase_Bind cp inst b w =
      (bindR (connection_details cp (Sentinel ErrInstanceNotReady) c w1) (\<lambda>s.
       bindR (mapMariadbEndpoint (secret_data s)) (\<lambda>e.
       database_credentials cp inst b pw e w1)), w1)"
      using p get_composite_found [OF c] cr
      by (auto simp: MariadbDatabase_Bind_def bindM_step split: result.splits)
    moreover have "(\<exists>creds. bindR (connection_details cp (Sentinel ErrInstanceNotReady) c w1) (\<lambda>s.
        bindR (mapMariadbEndpoint (secret_data s)) (\<lambda>e. database_credentials cp inst b pw e w1)) = Ok creds) \<longleftrightarrow>
      endpoint_known (view w1) c \<and>
      cl_composites (view w1) (mariaDBGroupVersionKind, ParentID (i_Labels inst)) \<noteq> None"
      by (auto simp: endpoint_known_iff connection_details_def database_credentials_def go_inv get_composite_iff)
    ultimately show ?thesis
      using p c None
      by (simp add: bindable_def Option.is_none_def endpoint_known_bound [OF cr]
          createBinding_keeps_clusters [OF cr])
  qed
qed

abbreviation read_object :: "'w \<Rightarrow> object_ref \<Rightarrow> go_error + kobject" where
  "read_object w ref \<equiv> l_getObject (cp_client cp) (or_APIVersion ref) (or_Kind ref) (or_Name ref) w"

lemma db_Unbind_succeeds:
  "(\<exists>w'. MariadbDatabase_Unbind cp b w = (Ok (), w')) \<longleftrightarrow> unbindable (read_object w) namespace b (view w)"
proof
  assume "\<exists>w'. MariadbDatabase_Unbind cp b w = (Ok (), w')"
  then obtain w' where run: "MariadbDatabase_Unbind cp b w = (Ok (), w')" ..
  then show "unbindable (read_object w) namespace b (view w)"
  proof (cases rule: db_Unbind_run)
    case (marked w1)
    from mark_stage [OF marked(1)] show ?thesis
      by (auto simp: unbindable_def Let_def Option.is_none_def)
  qed simp_all
next
  assume ok: "unbindable (read_object w) namespace b (view w)"
  then obtain c s u where c: "cl_composites (view w) (mariaDBUserGroupVersionKind, b) = Some c"
    and kind: "or_Kind (user_ref_loop (c_resourceRefs c) no_ref) = ''User''"
    and s: "cl_secrets (view w) (namespace, secretName b) = Some s"
    and u: "read_object w (user_ref_loop (c_resourceRefs c) no_ref) = Inr u"
    by (auto simp: unbindable_def Let_def Option.is_none_def split: option.splits sum.splits)
  have name: "c_name c = b" using composite_key [OF c] ..
  have key: "s_namespace s = namespace" "s_name s = secretName b" using secret_key [OF s] by simp_all
  obtain w1 where upd: "l_updateSecret (cp_client cp) (owned_by u s) w = (Inr (), w1)"
    using update_secret_succeeds [of w "owned_by u s"] s key by auto
  then have mark: "markCredentialsForDeletion cp b w = (Ok (), w1)"
    using get_composite_found [OF c] get_secret_found [OF s] u kind name
    by (simp add: markCredentialsForDeletion_def Let_def owned_by_def writeM_def)
  have "view w1 = put_secret (owned_by u s) (view w)" using update_secret_ok [OF upd] ..
  with c have "cl_composites (view w1) (mariaDBUserGroupVersionKind, b) \<noteq> None"
    by (simp add: put_secret_def)
  from delete_composite_succeeds [OF this] obtain w'
    where "l_deleteComposite (cp_client cp) mariaDBUserGroupVersionKind b True w1 = (Inr (), w')" by blast
  with mark show "\<exists>w'. MariadbDatabase_Unbind cp b w = (Ok (), w')"
    by (simp add: MariadbDatabase_Unbind_def handleM_step bindM_step writeM_def)
qed

end

context reliable_broker
begin

lemma Bind_database_succeeds:
  assumes "getPlanInstance b planID i w = Ok (p, inst)"
    and "ServiceName (i_Labels inst) = MariaDBDatabaseService"
  shows "(\<exists>res w'. Bind b i bid planID async w = (Ok res, w')) \<longleftrightarrow>
    Ready inst \<and> bindable namespace inst bid (view w)"
proof (cases "Ready inst")
  case True
  obtain r w1 where run: "MariadbDatabase_Bind (br_cp b) inst bid w = (r, w1)" by fastforce
  with assms True have "(\<exists>res w'. Bind b i bid planID async w = (Ok res, w')) \<longleftrightarrow> (\<exists>creds. r = Ok creds)"
    by (cases r) (auto simp: Bind_def ServiceBinderFactory_def service_names bindM_step)
  with True run db_Bind_succeeds [of inst bid w] show ?thesis by auto
next
  case False
  with assms show ?thesis by (simp add: Bind_def)
qed

lemma Unbind_database_succeeds:
  assumes "getPlanInstance b planID i w = Ok (p, inst)"
    and "ServiceName (i_Labels inst) = MariaDBDatabaseService"
  shows "(\<exists>res w'. Unbind b i bid planID w = (Ok res, w')) \<longleftrightarrow>
    Ready inst \<and> unbindable (read_object w) namespace bid (view w)"
proof (cases "Ready inst")
  case True
  obtain r w1 where run: "MariadbDatabase_Unbind (br_cp b) bid w = (r, w1)" by fastforce
  with assms True have "(\<exists>res w'. Unbind b i bid planID w = (Ok res, w')) \<longleftrightarrow> r = Ok ()"
    by (cases r) (auto simp: Unbind_def ServiceBinderFactory_def service_names bindM_def handleM_def)
  with True run db_Unbind_succeeds [of bid w] show ?thesis by auto
next
  case False
  with assms show ?thesis by (simp add: Unbind_def)
qed

end

section \<open>Properties\<close>

text \<open>C12: On a cluster that answers, binding a database succeeds exactly when the instance is ready, its
  parameters name a Galera cluster that is there with its endpoint in its connection secret, the
  cluster its label names is there, and no secret of an earlier attempt is; and unbinding succeeds
  exactly when the instance is ready and the binding has its composite, its secret and a user
  object that can be read.\<close>

theorem bindings_succeed:
  assumes "reliable_broker b view" and "getPlanInstance b planID i w = Ok (p, inst)"
    and "ServiceName (i_Labels inst) = MariaDBDatabaseService"
  shows "((\<exists>res w'. Bind b i bid planID async w = (Ok res, w')) =
      (Ready inst \<and> bindable (Namespace (cp_config (br_cp b))) inst bid (view w))) \<and>
    ((\<exists>res w'. Unbind b i bid planID w = (Ok res, w')) =
      (Ready inst \<and>
       unbindable
         (\<lambda>ref. l_getObject (cp_client (br_cp b)) (or_APIVersion ref) (or_Kind ref) (or_Name ref) w)
         (Namespace (cp_config (br_cp b))) bid (view w)))"
  using reliable_broker.Bind_database_succeeds [OF assms] reliable_broker.Unbind_database_succeeds [OF assms]
  by blast

theorem bindings_succeed_witness:
  "(\<exists>res w'. Bind ex_broker ''db-1'' ''b'' ''plan-db'' True ex_bound = (Ok res, w')) \<and>
   (\<nexists>res w'. Bind ex_broker ''db-1'' ''bind-1'' ''plan-db'' True ex_bound = (Ok res, w')) \<and>
   (\<exists>res w'. Unbind ex_broker ''db-1'' ''bind-1'' ''plan-db'' ex_bound = (Ok res, w'))"
proof -
  have ns: "Namespace (cp_config (br_cp ex_broker)) = ''broker''" by code_simp
  have reliable: "reliable_broker ex_broker mem_view" using mem_is_reliable by (simp add: ex_broker_def)
  have "instance_is ex_broker ''plan-db'' ''db-1'' (\<lambda>inst. service_is MariaDBDatabaseService inst \<and>
      Ready inst \<and> bindable ''broker'' inst ''b'' (mem_view ex_bound) \<and>
      \<not> bindable ''broker'' inst ''bind-1'' (mem_view ex_bound)) ex_bound" by code_simp
  then obtain p inst where inst: "getPlanInstance ex_broker ''plan-db'' ''db-1'' ex_bound = Ok (p, inst)"
    "ServiceName (i_Labels inst) = MariaDBDatabaseService"
    and bind: "Ready inst" "bindable ''broker'' inst ''b'' (mem_view ex_bound)"
      "\<not> bindable ''broker'' inst ''bind-1'' (mem_view ex_bound)"
    by (auto elim!: instance_isE simp: service_is_def)
  have unbind: "unbindable (\<lambda>ref. l_getObject (cp_client (br_cp ex_broker)) (or_APIVersion ref)
      (or_Kind ref) (or_Name ref) ex_bound) ''broker'' ''bind-1'' (mem_view ex_bound)" by code_simp
  note succeed = bindings_succeed [OF reliable inst, unfolded ns]
  show ?thesis
    using succeed [of "''b''" True] succeed [of "''bind-1''" True] bind unbind by blast
qed

end
