(* ===== verification/Broker_Spec.thy ===== *)
theory Broker_Spec
  imports Broker_Correct
begin

text \<open>
  What the broker promises, without the objects it keeps its promises in: which instances there are
  and on which plan, which bindings have a password, and which have a user. Every operation of the
  broker, on a cluster that answers, is one step of this machine or leaves it as it is.
\<close>

section \<open>The abstract service broker\<close>

record osb =
  os_instances :: "gvk \<times> string \<rightharpoonup> string option"
  os_passwords :: "string \<rightharpoonup> str_map option"
  os_users :: "string set"

inductive osb_step :: "string set \<Rightarrow> osb \<Rightarrow> osb \<Rightarrow> bool" for plans :: "string set" where
  osb_idle: "osb_step plans s s"
| osb_provision: "os_instances s k = None \<Longrightarrow> p \<in> plans \<Longrightarrow>
    osb_step plans s (s\<lparr>os_instances := (os_instances s)(k \<mapsto> Some p)\<rparr>)"
| osb_update: "os_instances s k \<noteq> None \<Longrightarrow> p \<in> plans \<Longrightarrow>
    osb_step plans s (s\<lparr>os_instances := (os_instances s)(k \<mapsto> Some p)\<rparr>)"
| osb_deprovision: "os_instances s k \<noteq> None \<Longrightarrow>
    osb_step plans s (s\<lparr>os_instances := (os_instances s)(k := None)\<rparr>)"
| osb_bind: "os_passwords s bid = None \<Longrightarrow>
    osb_step plans s (s\<lparr>os_passwords := (os_passwords s)(bid \<mapsto> pw),
                        os_users := insert bid (os_users s)\<rparr>)"
| osb_unbind: "bid \<in> os_users s \<Longrightarrow> os_passwords s bid \<noteq> None \<Longrightarrow>
    osb_step plans s (s\<lparr>os_users := os_users s - {bid}\<rparr>)"

inductive_cases osb_stepE: "osb_step plans s s'"

text \<open>Two invariants of the machine: every user has a password, and a password never changes.\<close>

lemma osb_step_users:
  "osb_step plans s s' \<Longrightarrow> os_users s \<subseteq> dom (os_passwords s) \<Longrightarrow> os_users s' \<subseteq> dom (os_passwords s')"
  by (erule osb_stepE) auto

lemma osb_step_passwords: "osb_step plans s s' \<Longrightarrow> os_passwords s \<subseteq>\<^sub>m os_passwords s'"
  by (erule osb_stepE) (auto simp: map_le_def)

lemma osb_steps_passwords: "(osb_step plans)\<^sup>*\<^sup>* s s' \<Longrightarrow> os_passwords s \<subseteq>\<^sub>m os_passwords s'"
  by (induction rule: rtranclp_induct) (auto dest: osb_step_passwords intro: map_le_trans)

section \<open>The abstraction\<close>

definition osb_of :: "string \<Rightarrow> cluster \<Rightarrow> osb" where
  "osb_of ns cl =
     \<lparr>os_instances = (\<lambda>(g, n). if g = mariaDBUserGroupVersionKind then None
                       else map_option c_compositionRef (cl_composites cl (g, n))),
      os_passwords = (\<lambda>bid. map_option s_data (cl_secrets cl (ns, secretName bid))),
      os_users = {bid. cl_composites cl (mariaDBUserGroupVersionKind, bid) \<noteq> None}\<rparr>"

lemma osb_of_instance:
  "c_gvk c \<noteq> mariaDBUserGroupVersionKind \<Longrightarrow>
     osb_of ns (put_composite c cl) =
       (osb_of ns cl)\<lparr>os_instances :=
          (os_instances (osb_of ns cl))((c_gvk c, c_name c) \<mapsto> c_compositionRef c)\<rparr>"
  by (auto simp: osb_of_def put_composite_def fun_eq_iff)

lemma osb_of_dropped:
  "g \<noteq> mariaDBUserGroupVersionKind \<Longrightarrow>
     osb_of ns (drop_composite g n cl) =
       (osb_of ns cl)\<lparr>os_instances := (os_instances (osb_of ns cl))((g, n) := None)\<rparr>"
  by (auto simp: osb_of_def drop_composite_def fun_eq_iff)

lemma osb_of_user:
  "c_gvk c = mariaDBUserGroupVersionKind \<Longrightarrow>
     osb_of ns (put_composite c cl) =
       (osb_of ns cl)\<lparr>os_users := insert (c_name c) (os_users (osb_of ns cl))\<rparr>"
  by (auto simp: osb_of_def put_composite_def fun_eq_iff)

lemma osb_of_user_dropped:
  "osb_of ns (drop_composite mariaDBUserGroupVersionKind n cl) =
     (osb_of ns cl)\<lparr>os_users := os_users (osb_of ns cl) - {n}\<rparr>"
  by (auto simp: osb_of_def drop_composite_def fun_eq_iff)

lemma osb_of_secret:
  "s_namespace s = ns \<Longrightarrow> s_name s = secretName bid \<Longrightarrow>
     osb_of ns (put_secret s cl) =
       (osb_of ns cl)\<lparr>os_passwords := (os_passwords (osb_of ns cl))(bid \<mapsto> s_data s)\<rparr>"
  by (auto simp: osb_of_def put_secret_def fun_eq_iff)

lemma osb_of_instances [simp]:
  "g \<noteq> mariaDBUserGroupVersionKind \<Longrightarrow>
     os_instances (osb_of ns cl) (g, n) = map_option c_compositionRef (cl_composites cl (g, n))"
  by (simp add: osb_of_def)

lemma osb_of_passwords [simp]:
  "os_passwords (osb_of ns cl) bid = map_option s_data (cl_secrets cl (ns, secretName bid))"
  by (simp add: osb_of_def)

lemma osb_of_users [simp]:
  "bid \<in> os_users (osb_of ns cl) \<longleftrightarrow> cl_composites cl (mariaDBUserGroupVersionKind, bid) \<noteq> None"
  by (simp add: osb_of_def)

lemma osb_of_same_secret:
  assumes "cl_secrets cl (ns, secretName bid) = Some s" and "s_namespace s' = ns"
    and "s_name s' = secretName bid" and "s_data s' = s_data s"
  shows "osb_of ns (put_secret s' cl) = osb_of ns cl"
proof -
  have "(os_passwords (osb_of ns cl))(bid \<mapsto> s_data s) = os_passwords (osb_of ns cl)"
    using assms(1) by (intro fun_upd_idem) simp
  then show ?thesis using osb_of_secret [OF assms(2,3)] assms(4) by simp
qed

section \<open>Binding on a cluster that answers\<close>

context reliable_client
begin

text \<open>Creating a binding writes nothing, or both objects.\<close>

lemma createBinding_both:
  assumes run: "createBinding cp bid i p w = (r, w')"
  shows "view w' = view w \<or>
    cl_secrets (view w) (namespace, secretName bid) = None \<and>
    (\<exists>pw. view w' = put_composite (stored_user bid i p)
             (put_secret (stored_secret namespace bid i p pw) (view w)) \<or>
       cl_composites (view w) (mariaDBUserGroupVersionKind, bid) \<noteq> None \<and>
       view w' = put_secret (stored_secret namespace bid i p pw) (view w))"
proof (cases "cl_secrets (view w) (namespace, secretName bid)")
  case (Some s)
  then have "cl_secrets (view w) (namespace, secretName bid) \<noteq> None" by simp
  from createBinding_again [OF this, of i p] run show ?thesis by auto
next
  case None
  obtain pw w1 where pw: "l_generatePassword (cp_client cp) w = (Inr pw, w1)"
    using password_answers by blast
  with password_keeps have v1: "view w1 = view w" by blast
  let ?s = "stored_secret namespace bid i p pw"
  obtain w2 where sec: "l_createSecret (cp_client cp) ?s w1 = (Inr (), w2)"
    using create_secret_succeeds [of w1 ?s] None v1 by auto
  with create_secret_ok v1 have v2: "view w2 = put_secret ?s (view w)" by fastforce
  obtain cmp where set: "l_setParameter (cp_client cp) instanceParamsParentReferenceName (JString p)
      (binding_composite bid (binding_labels i p)) = Inr cmp"
    using set_parameter_answers binding_composite_bare by metis
  then have cmp: "cmp = stored_user bid i p" by (rule set_parent_reference)
  have "snd (createBinding cp bid i p w) = snd (writeM (l_createComposite (cp_client cp) cmp) w2)"
  proof -
    have "writeM (l_generatePassword (cp_client cp)) w = (Ok pw, w1)"
      "writeM (l_createSecret (cp_client cp) ?s) w1 = (Ok (), w2)"
      using pw sec by (simp_all add: writeM_simps)
    with set show ?thesis
      by (simp add: createBinding_def Let_def binding_secret_stored bindM_step)
  qed
  with run have w': "w' = snd (l_createComposite (cp_client cp) cmp w2)"
    by (simp add: writeM_def split: prod.splits)
  show ?thesis
  proof (cases "cl_composites (view w) (mariaDBUserGroupVersionKind, bid)")
    case free: None
    with v2 cmp have "cl_composites (view w2) (c_gvk cmp, c_name cmp) = None"
      by (simp add: put_secret_def)
    then obtain w3 where "l_createComposite (cp_client cp) cmp w2 = (Inr (), w3)"
      using create_composite_succeeds by blast
    with w' create_composite_ok v2 cmp None show ?thesis by fastforce
  next
    case (Some c)
    with v2 cmp have "cl_composites (view w2) (c_gvk cmp, c_name cmp) \<noteq> None"
      by (simp add: put_secret_def)
    then obtain e w3 where "l_createComposite (cp_client cp) cmp w2 = (Inl e, w3)" "IsAlreadyExists e"
      using create_composite_refused by blast
    with w' create_composite_exists v2 None Some show ?thesis by fastforce
  qed
qed

lemma createBinding_osb:
  assumes "createBinding cp bid i p w = (r, w')"
  shows "osb_step plans (osb_of namespace (view w)) (osb_of namespace (view w'))"
  using createBinding_both [OF assms]
proof (elim disjE conjE exE)
  assume "view w' = view w"
  then show ?thesis by (simp add: osb_idle)
next
  fix pw
  assume none: "cl_secrets (view w) (namespace, secretName bid) = None"
    and v: "view w' = put_composite (stored_user bid i p)
      (put_secret (stored_secret namespace bid i p pw) (view w))"
  have "osb_of namespace (view w') = (osb_of namespace (view w))
      \<lparr>os_passwords := (os_passwords (osb_of namespace (view w)))(bid \<mapsto> Some [SecretPasswordKey \<mapsto> pw]),
       os_users := insert bid (os_users (osb_of namespace (view w)))\<rparr>"
    by (simp add: v osb_of_user osb_of_secret [of _ _ bid])
  with none show ?thesis by (simp add: osb_bind)
next
  fix pw
  assume none: "cl_secrets (view w) (namespace, secretName bid) = None"
    and user: "cl_composites (view w) (mariaDBUserGroupVersionKind, bid) \<noteq> None"
    and v: "view w' = put_secret (stored_secret namespace bid i p pw) (view w)"
  from user have "insert bid (os_users (osb_of namespace (view w))) = os_users (osb_of namespace (view w))"
    by (intro insert_absorb) simp
  then have "osb_of namespace (view w') = (osb_of namespace (view w))
      \<lparr>os_passwords := (os_passwords (osb_of namespace (view w)))(bid \<mapsto> Some [SecretPasswordKey \<mapsto> pw]),
       os_users := insert bid (os_users (osb_of namespace (view w)))\<rparr>"
    by (simp add: v osb_of_secret [of _ _ bid])
  with none show ?thesis by (simp add: osb_bind)
qed

end

section \<open>Every operation is a step\<close>

context reliable_broker
begin

abbreviation osb_keeps :: "('w, 'a) io \<Rightarrow> bool" where
  "osb_keeps m \<equiv>
     (\<forall>plans. keeps (\<lambda>w w'. osb_step plans (osb_of namespace (view w)) (osb_of namespace (view w'))) m)"

lemma read_only_osb: "read_only m \<Longrightarrow> osb_keeps m"
  by (simp add: keeps_def osb_idle)

lemma db_Bind_osb: "osb_keeps (MariadbDatabase_Bind (br_cp b) inst bid)"
proof (intro allI keepsI)
  fix plans w r w'
  assume "MariadbDatabase_Bind (br_cp b) inst bid w = (r, w')"
  from db_Bind_writes [OF this] show "osb_step plans (osb_of namespace (view w)) (osb_of namespace (view w'))"
    using createBinding_osb osb_idle by blast
qed

lemma unbound_stage_osb:
  assumes "unbound_stage namespace bid (view w) cl'"
  shows "osb_step plans (osb_of namespace (view w)) (osb_of namespace cl')"
  using assms unfolding unbound_stage_def
proof (elim disjE exE conjE)
  assume "cl' = view w"
  then show ?thesis by (simp add: osb_idle)
next
  fix s u
  assume s: "cl_secrets (view w) (namespace, secretName bid) = Some s"
    and "cl' = put_secret (owned_by u s) (view w)"
  with secret_key [OF s] show ?thesis by (simp add: osb_of_same_secret [OF s] osb_idle)
next
  fix s u
  assume s: "cl_secrets (view w) (namespace, secretName bid) = Some s"
    and del: "deleted mariaDBUserGroupVersionKind bid (put_secret (owned_by u s) (view w)) cl'"
  let ?cl = "put_secret (owned_by u s) (view w)"
  have same: "osb_of namespace ?cl = osb_of namespace (view w)"
    using secret_key [OF s] by (simp add: osb_of_same_secret [OF s])
  have composites: "cl_composites ?cl = cl_composites (view w)" by (simp add: put_secret_def)
  from del show ?thesis
    unfolding deleted_def
  proof (elim disjE exE conjE)
    assume "cl' = drop_composite mariaDBUserGroupVersionKind bid ?cl"
    then have cl': "osb_of namespace cl' = (osb_of namespace (view w))
        \<lparr>os_users := os_users (osb_of namespace (view w)) - {bid}\<rparr>"
      by (simp add: osb_of_user_dropped same)
    show ?thesis
    proof (cases "bid \<in> os_users (osb_of namespace (view w))")
      case True
      with s show ?thesis unfolding cl' by (intro osb_unbind) simp_all
    next
      case False
      then have "osb_of namespace cl' = osb_of namespace (view w)" by (simp add: cl')
      then show ?thesis by (simp add: osb_idle)
    qed
  next
    fix c
    assume c: "cl_composites ?cl (mariaDBUserGroupVersionKind, bid) = Some c"
      and cl': "cl' = put_composite (c\<lparr>c_terminating := True\<rparr>) ?cl"
    from c composite_key have key: "c_gvk c = mariaDBUserGroupVersionKind" "c_name c = bid"
      by (auto simp: composites)
    from c have "bid \<in> os_users (osb_of namespace (view w))" by (simp add: composites)
    then have "osb_of namespace cl' = osb_of namespace (view w)"
      using key by (simp add: cl' osb_of_user same insert_absorb)
    then show ?thesis by (simp add: osb_idle)
  qed
qed

lemma db_Unbind_osb: "osb_keeps (MariadbDatabase_Unbind (br_cp b) bid)"
  by (intro allI keepsI) (rule unbound_stage_osb, rule db_Unbind_stage)

lemma instance_Bind_osb: "osb_keeps (instance_Bind (br_cp b) inst bid)"
  by (rule instance_Bind_by_service) (rule db_Bind_osb read_only_osb; assumption?)+

lemma instance_Unbind_osb: "osb_keeps (instance_Unbind (br_cp b) inst bid)"
  by (rule instance_Unbind_by_service) (rule db_Unbind_osb read_only_osb; assumption?)+

text \<open>Creating, updating and deleting a composite of another kind.\<close>

lemma create_osb:
  assumes "CreateInstance (br_cp b) rctx i p ap w = (r, w')"
    and "co_name (p_Composition p) \<in> plans"
    and "GVK (cp_client (br_cp b)) p \<noteq> Ok mariaDBUserGroupVersionKind"
  shows "osb_step plans (osb_of namespace (view w)) (osb_of namespace (view w'))"
proof (cases "r = Ok ()")
  case True
  with CreateInstance_effect [OF assms(1)] obtain l g where g: "GVK (cp_client (br_cp b)) p = Ok g"
    "view w' = put_composite (instance_composite g i p l ap) (view w)"
    "cl_composites (view w) (g, i) = None" by auto
  with assms(3) have "g \<noteq> mariaDBUserGroupVersionKind" by auto
  with g assms(2) show ?thesis by (simp add: osb_of_instance osb_provision)
next
  case False
  with CreateInstance_err_keeps [OF assms(1)] show ?thesis by (simp add: osb_idle)
qed

lemma update_osb:
  assumes "UpdateInstance (br_cp b) inst p ap w = (r, w')"
    and "c_compositionRef (i_Composite inst) = Some n" and "n \<in> plans"
    and "GVK (cp_client (br_cp b)) p \<noteq> Ok mariaDBUserGroupVersionKind"
  shows "osb_step plans (osb_of namespace (view w)) (osb_of namespace (view w'))"
proof (cases "view w' = view w")
  case False
  with UpdateInstance_effect [OF assms(1)] obtain g where g: "GVK (cp_client (br_cp b)) p = Ok g"
    and v: "view w' = put_composite (updated_composite g inst ap) (view w)" by auto
  obtain c where c: "l_setParameters (cp_client (br_cp b)) (map_value ap) ((i_Composite inst)\<lparr>c_gvk := g\<rparr>) = Inr c"
    using set_parameters_answers by blast
  then have "c = updated_composite g inst ap"
    using set_parameters_ok by (simp add: updated_composite_def)
  with assms(1) g c have "writeM (l_updateComposite (cp_client (br_cp b)) (updated_composite g inst ap)) w
      = (r, w')" by (simp add: UpdateInstance_def Let_def)
  with False update_composite_missing [of w "updated_composite g inst ap"]
  have "cl_composites (view w) (g, ID inst) \<noteq> None"
    by (intro notI) (auto simp: writeM_def)
  moreover from assms(4) g have "g \<noteq> mariaDBUserGroupVersionKind" by auto
  ultimately show ?thesis using assms(2,3) by (simp add: v osb_of_instance osb_update)
qed (simp add: osb_idle)

lemma deleted_osb:
  assumes "deleted g n (view w) cl'" and "g \<noteq> mariaDBUserGroupVersionKind"
  shows "osb_step plans (osb_of namespace (view w)) (osb_of namespace cl')"
  using assms(1) unfolding deleted_def
proof (elim disjE exE conjE)
  assume cl': "cl' = drop_composite g n (view w)"
  show ?thesis
  proof (cases "cl_composites (view w) (g, n)")
    case None
    with assms(2) have "(os_instances (osb_of namespace (view w)))((g, n) := None) =
        os_instances (osb_of namespace (view w))" by (intro fun_upd_idem) simp
    with assms(2) show ?thesis by (simp add: cl' osb_of_dropped osb_idle)
  next
    case (Some c)
    with assms(2) show ?thesis by (simp add: cl' osb_of_dropped osb_deprovision)
  qed
next
  fix c
  assume c: "cl_composites (view w) (g, n) = Some c"
    and cl': "cl' = put_composite (c\<lparr>c_terminating := True\<rparr>) (view w)"
  from c composite_key have key: "c_gvk c = g" "c_name c = n" by blast+
  from c assms(2) have "(os_instances (osb_of namespace (view w)))((g, n) \<mapsto> c_compositionRef c) =
      os_instances (osb_of namespace (view w))" by (intro fun_upd_idem) simp
  with key assms(2) show ?thesis by (simp add: cl' osb_of_instance osb_idle)
qed

lemma step_osb:
  assumes "broker_step b w w'" and "no_user_plans b (view w)"
  shows "osb_step (co_name ` set (cl_compositions (view w)))
    (osb_of namespace (view w)) (osb_of namespace (view w'))"
  using assms(1)
proof (cases rule: broker_step.cases)
  case (step_Provision rctx i planID params r)
  from this show ?thesis
  proof (cases rule: Provision_run)
    case (create p ap r1)
    from Plan_stored [OF create(1)] assms(2)
    have "co_name (p_Composition p) \<in> co_name ` set (cl_compositions (view w))"
      "GVK (cp_client (br_cp b)) p \<noteq> Ok mariaDBUserGroupVersionKind"
      by (auto simp: no_user_plans_def)
    with create(4) show ?thesis by (rule create_osb)
  qed (simp_all add: osb_idle)
next
  case (step_Deprovision i planID r)
  from this show ?thesis
  proof (cases rule: Deprovision_run)
    case (delete p inst sb r1)
    from getPlanInstance_found(1) [OF delete(1)] assms(2)
    have "GVK (cp_client (br_cp b)) p \<noteq> Ok mariaDBUserGroupVersionKind"
      by (auto simp: found_instance_def no_user_plans_def)
    with DeleteInstance_effect [OF delete(4)] show ?thesis
      by (auto simp: osb_idle intro: deleted_osb)
  qed (simp_all add: osb_idle)
next
  case (step_Bind i bid planID async r)
  from this show ?thesis
  proof (cases rule: Bind_run)
    case (bound p inst r1)
    with instance_Bind_osb show ?thesis by (metis keepsD)
  qed (simp_all add: osb_idle)
next
  case (step_Unbind i bid planID r)
  from this show ?thesis
  proof (cases rule: Unbind_run)
    case (unbound p inst r1)
    with instance_Unbind_osb show ?thesis by (metis keepsD)
  qed (simp_all add: osb_idle)
next
  case (step_Update i serviceID oldPlanID newPlanID raw r)
  from this show ?thesis
  proof (cases rule: Update_run)
    case (stored p inst np ap)
    from Plan_stored [OF stored(3)] assms(2)
    have "co_name (p_Composition np) \<in> co_name ` set (cl_compositions (view w))"
      "GVK (cp_client (br_cp b)) np \<noteq> Ok mariaDBUserGroupVersionKind"
      by (auto simp: no_user_plans_def)
    moreover have "c_compositionRef (i_Composite (inst\<lparr>i_Composite := on_plan np (i_Composite inst)\<rparr>)) =
        Some (co_name (p_Composition np))" by (simp add: on_plan_def)
    ultimately show ?thesis using update_osb [OF stored(6)] by blast
  qed (simp_all add: osb_idle)
qed

lemma reaches_osb:
  assumes "broker_reaches b w w'" and "no_user_plans b (view w)"
  shows "(osb_step (co_name ` set (cl_compositions (view w))))\<^sup>*\<^sup>*
    (osb_of namespace (view w)) (osb_of namespace (view w'))"
proof -
  have "(osb_step (co_name ` set (cl_compositions (view w))))\<^sup>*\<^sup>*
      (osb_of namespace (view w)) (osb_of namespace (view w')) \<and>
    cl_compositions (view w') = cl_compositions (view w)"
    using assms
  proof (induction rule: broker_reaches.induct)
    case (reaches_step w w1 w2)
    then have "no_user_plans b (view w1)" by (simp add: no_user_plans_def)
    from step_osb [OF reaches_step(2) this] step_keeps_compositions [OF reaches_step(2)] reaches_step
    show ?case by (auto intro: rtranclp.rtrancl_into_rtrancl)
  qed simp
  then show ?thesis ..
qed

end

end
