(* ===== verification/Go_Threads.thy ===== *)
theory Go_Threads
  imports Go_Prelude
begin

text \<open>
  Requests are served concurrently. A \<open>thread\<close> is a handler cut into its calls to the cluster: each
  call is one atomic step, and any other thread may run between two of them. Running a thread alone
  gives the handlers of \<open>Go_Prelude\<close>; \<open>safe\<close> is what a thread guarantees step by step, knowing only
  how the others may change the world meanwhile.
\<close>

section \<open>Threads\<close>

text \<open>\<open>Call k u\<close> changes the world by \<open>u\<close> and goes on as \<open>k\<close> says, both on the world it finds.\<close>

datatype ('w, 'a) thread = Done "'a result" | Call "'w \<Rightarrow> ('w, 'a) thread" "'w \<Rightarrow> 'w"

primrec runT :: "('w, 'a) thread \<Rightarrow> ('w, 'a) io" where
  "runT (Done r) = (\<lambda>w. (r, w))"
| "runT (Call k u) = (\<lambda>w. runT (k w) (u w))"

text \<open>A handler with at most one call is a step of its own.\<close>

definition atomT :: "('w, 'a) io \<Rightarrow> ('w, 'a) thread" where
  "atomT m = Call (\<lambda>w. Done (fst (m w))) (\<lambda>w. snd (m w))"

primrec bindT :: "('w, 'a) thread \<Rightarrow> ('a \<Rightarrow> ('w, 'b) thread) \<Rightarrow> ('w, 'b) thread" where
  "bindT (Done r) f = (case r of Ok a \<Rightarrow> f a | Err e \<Rightarrow> Done (Err e) | Panic p \<Rightarrow> Done (Panic p))"
| "bindT (Call k u) f = Call (\<lambda>w. bindT (k w) f) u"

primrec handleT :: "('w, 'a) thread \<Rightarrow> (go_error \<Rightarrow> 'a result) \<Rightarrow> ('w, 'a) thread" where
  "handleT (Done r) h = Done (case r of Err e \<Rightarrow> h e | _ \<Rightarrow> r)"
| "handleT (Call k u) h = Call (\<lambda>w. handleT (k w) h) u"

lemma runT_atomT [simp]: "runT (atomT m) = m"
  by (simp add: atomT_def fun_eq_iff)

lemma runT_Done [simp]: "runT (Done (Ok a)) = retM a" "runT (Done (Err e)) = failM e"
  "runT (Done r) = liftR r"
  by (simp_all add: fun_eq_iff)

declare runT.simps(1) [simp del]

lemma runT_bindT [simp]: "runT (bindT t f) = bindM (runT t) (\<lambda>a. runT (f a))"
proof (induction t)
  case (Done r)
  then show ?case by (cases r) (simp_all add: bindM_def fun_eq_iff)
next
  case (Call k u)
  then show ?case by (simp add: bindM_def fun_eq_iff)
qed

lemma runT_handleT [simp]: "runT (handleT t h) = handleM (runT t) h"
proof (induction t)
  case (Done r)
  then show ?case by (cases r) (simp_all add: handleM_def fun_eq_iff)
next
  case (Call k u)
  then show ?case by (simp add: handleM_def fun_eq_iff)
qed

section \<open>Running threads together\<close>

text \<open>
  A pool of threads over one world, each with the request it serves: a step starts the thread of a
  new request, lets one of the threads take its next call, or is one of the environment, which
  changes the world by itself.
\<close>

type_synonym ('w, 'r, 'a) pool = "('r \<times> ('w, 'a) thread) list \<times> 'w"

inductive pool_step ::
  "('r \<Rightarrow> ('w, 'a) thread) \<Rightarrow> ('w \<Rightarrow> 'w \<Rightarrow> bool) \<Rightarrow> ('w, 'r, 'a) pool \<Rightarrow> ('w, 'r, 'a) pool \<Rightarrow> bool"
  for prog :: "'r \<Rightarrow> ('w, 'a) thread" and env :: "'w \<Rightarrow> 'w \<Rightarrow> bool" where
  pool_spawn: "pool_step prog env (ts, w) (ts @ [(r, prog r)], w)"
| pool_call: "n < length ts \<Longrightarrow> ts ! n = (r, Call k u) \<Longrightarrow>
    pool_step prog env (ts, w) (ts[n := (r, k w)], u w)"
| pool_env: "env w w' \<Longrightarrow> pool_step prog env (ts, w) (ts, w')"

abbreviation pool_reaches ::
  "('r \<Rightarrow> ('w, 'a) thread) \<Rightarrow> ('w \<Rightarrow> 'w \<Rightarrow> bool) \<Rightarrow> ('w, 'r, 'a) pool \<Rightarrow> ('w, 'r, 'a) pool \<Rightarrow> bool" where
  "pool_reaches prog env \<equiv> (pool_step prog env)\<^sup>*\<^sup>*"

text \<open>A schedule names the thread of each call; a thread that is done makes none.\<close>

definition next_call :: "nat \<Rightarrow> ('w, 'r, 'a) pool \<Rightarrow> ('w, 'r, 'a) pool" where
  "next_call n = (\<lambda>(ts, w).
     if n < length ts
     then (case ts ! n of
             (r, Call k u) \<Rightarrow> (ts[n := (r, k w)], u w)
           | (r, Done a) \<Rightarrow> (ts, w))
     else (ts, w))"

definition run_schedule :: "nat list \<Rightarrow> ('w, 'r, 'a) pool \<Rightarrow> ('w, 'r, 'a) pool" where
  "run_schedule ns s = fold next_call ns s"

text \<open>The pool in which each of some requests has just arrived.\<close>

definition arrived :: "('r \<Rightarrow> ('w, 'a) thread) \<Rightarrow> 'r list \<Rightarrow> ('r \<times> ('w, 'a) thread) list" where
  "arrived prog rs = map (\<lambda>r. (r, prog r)) rs"

lemma next_call_reaches: "pool_reaches prog env s (next_call n s)"
  by (cases s) (auto simp: next_call_def split: prod.split thread.split intro: pool_call)

lemma run_schedule_reaches: "pool_reaches prog env s (run_schedule ns s)"
  unfolding run_schedule_def
proof (induction ns arbitrary: s)
  case (Cons n ns)
  from next_call_reaches [of prog env s n] Cons [of "next_call n s"] show ?case by simp
qed simp

lemma pool_arrived: "pool_reaches prog env (ts, w) (ts @ arrived prog rs, w)"
proof (induction rs rule: rev_induct)
  case (snoc r rs)
  from pool_spawn [of prog env "ts @ arrived prog rs" w r]
  have "pool_step prog env (ts @ arrived prog rs, w) (ts @ arrived prog (rs @ [r]), w)"
    by (simp add: arrived_def)
  with snoc show ?case by (rule rtranclp.rtrancl_into_rtrancl)
qed (simp add: arrived_def)

text \<open>Among the interleavings is the one that runs a new thread alone to its end.\<close>

lemma pool_alone:
  "pool_reaches prog env (ts @ [(r, t)], w) (ts @ [(r, Done (fst (runT t w)))], snd (runT t w))"
proof (induction t arbitrary: w)
  case (Done a)
  show ?case by simp
next
  case (Call k u)
  have "pool_step prog env (ts @ [(r, Call k u)], w) ((ts @ [(r, Call k u)])[length ts := (r, k w)], u w)"
    by (rule pool_call) simp_all
  with Call [of "k w" "u w"] show ?case by (simp add: converse_rtranclp_into_rtranclp)
qed

text \<open>A thread of the pool that runs the first part of what it has to do, with no other in between.\<close>

lemma bindT_assoc: "bindT (bindT t f) g = bindT t (\<lambda>a. bindT (f a) g)"
proof (induction t)
  case (Done r)
  then show ?case by (cases r) simp_all
qed (simp add: fun_eq_iff)

lemma bindT_return: "bindT (Done (Ok a)) f = f a"
  by simp

lemma bindT_Done: "bindT t (\<lambda>a. Done (Ok a)) = t"
proof (induction t)
  case (Done r)
  then show ?case by (cases r) simp_all
qed (simp add: fun_eq_iff)

lemma pool_part:
  assumes "n < length ts" and "ts ! n = (r, bindT t f)"
  shows "pool_reaches prog env (ts, w)
    (ts[n := (r, bindT (Done (fst (runT t w))) f)], snd (runT t w))"
  using assms
proof (induction t arbitrary: w ts)
  case (Done a)
  from Done.prems(2) have "ts[n := (r, bindT (Done a) f)] = ts" by (metis list_update_id)
  then show ?case by simp
next
  case (Call k u)
  have "pool_step prog env (ts, w) (ts[n := (r, bindT (k w) f)], u w)"
    by (rule pool_call) (use Call.prems in simp_all)
  moreover have "pool_reaches prog env (ts[n := (r, bindT (k w) f)], u w)
      ((ts[n := (r, bindT (k w) f)])[n := (r, bindT (Done (fst (runT (k w) (u w)))) f)], snd (runT (k w) (u w)))"
    by (rule Call.IH) (use Call.prems(1) in simp_all)
  ultimately show ?case by (simp add: converse_rtranclp_into_rtranclp)
qed

lemma pool_part_Ok:
  assumes "runT t w = (Ok a, w')" and "n < length ts" and "ts ! n = (r, bindT t f)"
  shows "pool_reaches prog env (ts, w) (ts[n := (r, f a)], w')"
  using pool_part [OF assms(2,3), of prog env w] assms(1) by simp

text \<open>
  The steps with a record of the turns: the number of the thread of each, the last one first. A
  thread whose turn it is takes its next call, and none when it is done.
\<close>

inductive pool_run ::
  "('r \<Rightarrow> ('w, 'a) thread) \<Rightarrow> ('w \<Rightarrow> 'w \<Rightarrow> bool) \<Rightarrow> ('w, 'r, 'a) pool \<Rightarrow> nat list \<Rightarrow> ('w, 'r, 'a) pool \<Rightarrow> bool"
  for prog :: "'r \<Rightarrow> ('w, 'a) thread" and env :: "'w \<Rightarrow> 'w \<Rightarrow> bool" and s :: "('w, 'r, 'a) pool" where
  run_start: "pool_run prog env s [] s"
| run_spawn: "pool_run prog env s ns (ts, w) \<Longrightarrow> pool_run prog env s ns (ts @ [(r, prog r)], w)"
| run_call: "pool_run prog env s ns (ts, w) \<Longrightarrow> n < length ts \<Longrightarrow> ts ! n = (r, Call k u) \<Longrightarrow>
    pool_run prog env s (n # ns) (ts[n := (r, k w)], u w)"
| run_idle: "pool_run prog env s ns (ts, w) \<Longrightarrow> n < length ts \<Longrightarrow> ts ! n = (r, Done a) \<Longrightarrow>
    pool_run prog env s (n # ns) (ts, w)"
| run_env: "pool_run prog env s ns (ts, w) \<Longrightarrow> env w w' \<Longrightarrow> pool_run prog env s ns (ts, w')"

lemma pool_run_reaches: "pool_run prog env s ns s' \<Longrightarrow> pool_reaches prog env s s'"
  by (induction rule: pool_run.induct) (auto intro: pool_step.intros rtranclp.rtrancl_into_rtrancl)

lemma reaches_pool_run:
  assumes "pool_reaches prog env s s'"
  shows "\<exists>ns. pool_run prog env s ns s'"
  using assms
proof (induction rule: rtranclp_induct)
  case (step s1 s2)
  then obtain ns where "pool_run prog env s ns s1" by blast
  with step.hyps(2) show ?case by (cases rule: pool_step.cases) (auto intro: pool_run.intros)
qed (auto intro: run_start)

lemma pool_run_next:
  assumes "pool_run prog env s ns s'" and "n < length (fst s')"
  shows "pool_run prog env s (n # ns) (next_call n s') \<and> length (fst (next_call n s')) = length (fst s')"
  using assms by (cases s') (auto simp: next_call_def intro: run_call run_idle split: prod.split thread.split)

lemma pool_run_schedule:
  assumes "pool_run prog env s ns s'" and "list_all (\<lambda>n. n < length (fst s')) ms"
  shows "pool_run prog env s (rev ms @ ns) (run_schedule ms s')"
  using assms
proof (induction ms arbitrary: ns s')
  case (Cons n ms)
  from Cons.prems have "n < length (fst s')" by simp
  from pool_run_next [OF Cons.prems(1) this]
  have "pool_run prog env s (n # ns) (next_call n s')" "length (fst (next_call n s')) = length (fst s')" by auto
  with Cons.IH [of "n # ns" "next_call n s'"] Cons.prems(2) show ?case by (simp add: run_schedule_def)
qed (simp add: run_schedule_def)

lemma pool_run_arrived:
  "pool_run prog env ([], w) [] (arrived prog rs, w)"
proof (induction rs rule: rev_induct)
  case (snoc r rs)
  from run_spawn [OF this, of r] show ?case by (simp add: arrived_def)
qed (simp add: arrived_def run_start)

lemma run_schedule_requests: "map fst (fst (run_schedule ms s)) = map fst (fst s)"
proof (induction ms arbitrary: s)
  case (Cons n ms)
  obtain ts w where "s = (ts, w)" by fastforce
  then have "map fst (fst (next_call n s)) = map fst (fst s)"
    by (auto simp: next_call_def map_update list_update_same_conv split: prod.split thread.split)
  with Cons [of "next_call n s"] show ?case by (simp add: run_schedule_def)
qed (simp add: run_schedule_def)

section \<open>How many calls a thread makes\<close>

text \<open>A thread ends within \<open>n\<close> calls if the world is one that \<open>P\<close> holds of whenever it takes one.\<close>

primrec within :: "('w \<Rightarrow> bool) \<Rightarrow> ('w, 'a) thread \<Rightarrow> nat \<Rightarrow> bool" where
  "within P (Done r) n = True"
| "within P (Call k u) n = (case n of 0 \<Rightarrow> False | Suc m \<Rightarrow> \<forall>w. P w \<longrightarrow> within P (k w) m)"

lemma within_more: "within P t m \<Longrightarrow> m \<le> n \<Longrightarrow> within P t n"
proof (induction t arbitrary: m n)
  case (Call k u)
  from Call.prems obtain m' n' where n: "m = Suc m'" "n = Suc n'" "m' \<le> n'" by (cases m; cases n) auto
  with Call.prems(1) have "P w \<Longrightarrow> within P (k w) m'" for w by simp
  then have "P w \<Longrightarrow> within P (k w) n'" for w using Call.IH n(3) by blast
  then show ?case by (simp add: n(2))
qed simp

lemma within_bindT:
  assumes "within P t m" and "\<And>a. within P (f a) n"
  shows "within P (bindT t f) (m + n)"
  using assms(1)
proof (induction t arbitrary: m)
  case (Done r)
  have "within P (f a) (m + n)" for a by (rule within_more [OF assms(2)]) simp
  then show ?case by (cases r) simp_all
qed (auto split: nat.splits)

lemma within_last: "within P t n \<Longrightarrow> (\<And>a. within P (f a) 0) \<Longrightarrow> within P (bindT t f) n"
  using within_bindT [of P t n f 0] by simp

lemma within_handleT: "within P t n \<Longrightarrow> within P (handleT t h) n"
  by (induction t arbitrary: n) (auto split: nat.splits)

lemma within_value: "(\<And>a. r = Ok a \<Longrightarrow> within P (f a) n) \<Longrightarrow> within P (bindT (Done r) f) n"
  by (cases r) simp_all

lemma within_atomT: "within P (atomT m) (Suc n)"
  by (simp add: atomT_def)

text \<open>What follows a call may rely on the answer being one for a world that \<open>P\<close> holds of.\<close>

lemma within_call:
  assumes "\<And>w a. P w \<Longrightarrow> fst (m w) = Ok a \<Longrightarrow> within P (f a) n"
  shows "within P (bindT (atomT m) f) (Suc n)"
  using assms by (auto simp: atomT_def split: result.splits)

section \<open>What a thread guarantees\<close>

text \<open>
  \<open>G\<close> is how the world may change between two points of time. A thread is safe from a set of worlds
  when its next call changes the world as \<open>G\<close> allows, and the rest of it is safe from whatever
  world \<open>G\<close> may have made of the result by the time it goes on.
\<close>

primrec safe :: "('w \<Rightarrow> 'w \<Rightarrow> bool) \<Rightarrow> ('w, 'a) thread \<Rightarrow> ('w \<Rightarrow> bool) \<Rightarrow> bool" where
  "safe G (Done r) K = True"
| "safe G (Call k u) K = (\<forall>w. K w \<longrightarrow> G w (u w) \<and> safe G (k w) (G (u w)))"

lemma safe_mono:
  assumes "safe G t K" and "\<And>w. K' w \<Longrightarrow> K w"
  shows "safe G t K'"
  using assms by (cases t) auto

lemma safe_atomT: "(\<And>w. K w \<Longrightarrow> G w (snd (m w))) \<Longrightarrow> safe G (atomT m) K"
  by (simp add: atomT_def)

text \<open>
  The rule for sequences: what follows is safe from every world that may follow the first part,
  knowing what the first part's last call saw.
\<close>

primrec ends :: "('w \<Rightarrow> 'w \<Rightarrow> bool) \<Rightarrow> ('w, 'a) thread \<Rightarrow> ('w \<Rightarrow> bool) \<Rightarrow> ('a \<Rightarrow> 'w \<Rightarrow> bool) \<Rightarrow> bool" where
  "ends G (Done r) K Q = (\<forall>a w. r = Ok a \<longrightarrow> K w \<longrightarrow> Q a w)"
| "ends G (Call k u) K Q = (\<forall>w. K w \<longrightarrow> ends G (k w) (G (u w)) Q)"

lemma safe_bindT:
  assumes "safe G t K" and "ends G t K Q" and "\<And>a. safe G (f a) (Q a)"
  shows "safe G (bindT t f) K"
  using assms(1,2)
proof (induction t arbitrary: K)
  case (Done r)
  show ?case
  proof (cases r)
    case (Ok a)
    with Done have "K w \<Longrightarrow> Q a w" for w by simp
    with assms(3) [of a] have "safe G (f a) K" by (rule safe_mono)
    with Ok show ?thesis by simp
  qed simp_all
qed auto

lemma ends_bindT:
  assumes "ends G t K Q" and "\<And>a. ends G (f a) (Q a) R"
  shows "ends G (bindT t f) K R"
  using assms(1)
proof (induction t arbitrary: K)
  case (Done r)
  have mono: "ends G t' K1 R \<Longrightarrow> (\<And>w. K2 w \<Longrightarrow> K1 w) \<Longrightarrow> ends G t' K2 R"
    for t' :: "('a, 'c) thread" and K1 K2 by (cases t') auto
  show ?case
  proof (cases r)
    case (Ok a)
    with Done have "K w \<Longrightarrow> Q a w" for w by simp
    with assms(2) [of a] have "ends G (f a) K R" by (rule mono)
    with Ok show ?thesis by simp
  qed simp_all
qed auto

lemma safe_handleT: "safe G t K \<Longrightarrow> safe G (handleT t h) K"
  by (induction t arbitrary: K) auto

lemma ends_any: "ends G t K (\<lambda>a w. True)"
  by (induction t arbitrary: K) auto

lemma ends_atomT:
  "(\<And>w a w'. K w \<Longrightarrow> fst (m w) = Ok a \<Longrightarrow> G (snd (m w)) w' \<Longrightarrow> Q a w') \<Longrightarrow> ends G (atomT m) K Q"
  by (auto simp: atomT_def)

text \<open>A fact that \<open>G\<close> keeps is known after a thread as before it, beside what else it ends in.\<close>

definition stable :: "('w \<Rightarrow> 'w \<Rightarrow> bool) \<Rightarrow> ('w \<Rightarrow> bool) \<Rightarrow> bool" where
  "stable G K \<longleftrightarrow> (\<forall>u v. K u \<longrightarrow> G u v \<longrightarrow> K v)"

lemma ends_stable:
  assumes "stable G K" and "safe G t K" and "ends G t K Q" and "reflp G" and "transp G"
  shows "ends G t K (\<lambda>a w. K w \<and> Q a w)"
proof -
  have "ends G t S (\<lambda>a w. K w \<and> Q a w)"
    if "safe G t S" "ends G t S Q" "\<And>w. S w \<Longrightarrow> K w" for S
    using that
  proof (induction t arbitrary: S)
    case (Call k u)
    have "ends G (k w) (G (u w)) (\<lambda>a w. K w \<and> Q a w)" if w: "S w" for w
    proof (rule Call.IH)
      from Call.prems(1) w show "safe G (k w) (G (u w))" by simp
      from Call.prems(2) w show "ends G (k w) (G (u w)) Q" by simp
      fix v assume "G (u w) v"
      moreover from Call.prems(1) w have "G w (u w)" by simp
      ultimately have "G w v" using assms(5) by (auto dest: transpD)
      with Call.prems(3) [OF w] assms(1) show "K v" by (auto simp: stable_def)
    qed simp
    then show ?case by simp
  qed simp
  with assms(2,3) show ?thesis by blast
qed

lemma safe_sequence:
  assumes "stable G K" and "reflp G" and "transp G" and "safe G t K" and "ends G t K Q"
    and "\<And>a. safe G (f a) (\<lambda>w. K w \<and> Q a w)"
  shows "safe G (bindT t f) K"
  using assms(4) ends_stable [OF assms(1,4,5,2,3)] assms(6) by (rule safe_bindT)

lemma ends_sequence:
  assumes "stable G K" and "reflp G" and "transp G" and "safe G t K" and "ends G t K Q"
    and "\<And>a. ends G (f a) (\<lambda>w. K w \<and> Q a w) R"
  shows "ends G (bindT t f) K R"
  using ends_stable [OF assms(1,4,5,2,3)] assms(6) by (rule ends_bindT)

lemma ends_mono:
  assumes "ends G t K Q" and "\<And>w. K' w \<Longrightarrow> K w" and "\<And>a w. Q a w \<Longrightarrow> Q' a w"
  shows "ends G t K' Q'"
  using assms(1,2)
proof (induction t arbitrary: K K')
  case (Call k u)
  have "ends G (k w) (G (u w)) Q'" if "K' w" for w
    by (rule Call.IH [of _ "G (u w)"]) (use Call.prems that in auto)
  then show ?case by simp
qed (simp add: assms(3))

text \<open>
  If the thread of every request is safe from each world that \<open>I\<close> holds of and ends in \<open>Q\<close>, the
  environment does what \<open>G\<close> allows, and \<open>G\<close> keeps \<open>I\<close>, then \<open>G\<close> relates the start to every world
  that any interleaving reaches, and whatever a request was answered, its \<open>Q\<close> holds from then on.
\<close>

locale guarantee =
  fixes G :: "'w \<Rightarrow> 'w \<Rightarrow> bool" and I :: "'w \<Rightarrow> bool" and env :: "'w \<Rightarrow> 'w \<Rightarrow> bool"
    and prog :: "'r \<Rightarrow> ('w, 'a) thread" and Q :: "'r \<Rightarrow> 'a \<Rightarrow> 'w \<Rightarrow> bool"
  assumes reflp: "reflp G" and transp: "transp G" and kept: "stable G I"
    and env_guarantee: "I w \<Longrightarrow> env w w' \<Longrightarrow> G w w'"
    and prog_safe: "safe G (prog r) I" and prog_ends: "ends G (prog r) I (Q r)"
begin

definition well_behaved :: "'w \<Rightarrow> 'r \<times> ('w, 'a) thread \<Rightarrow> bool" where
  "well_behaved w rt \<longleftrightarrow> safe G (snd rt) (G w) \<and> ends G (snd rt) (G w) (Q (fst rt))"

lemma well_behaved_later:
  assumes "well_behaved u rt" and "G u v"
  shows "well_behaved v rt"
proof -
  have "G u w" if "G v w" for w using assms(2) that transp by (auto dest: transpD)
  with assms(1) show ?thesis
    using safe_mono [of G "snd rt" "G u" "G v"] ends_mono [of G "snd rt" "G u" "Q (fst rt)" "G v" "Q (fst rt)"]
    by (auto simp: well_behaved_def)
qed

lemma arrives_well_behaved:
  assumes "I w"
  shows "well_behaved w (r, prog r)"
proof -
  have "I v" if "G w v" for v using assms that kept by (auto simp: stable_def)
  then show ?thesis
    using safe_mono [OF prog_safe, of "G w" r] ends_mono [OF prog_ends, of "G w" r "Q r"]
    by (auto simp: well_behaved_def)
qed

lemma step_well_behaved:
  assumes "pool_step prog env (ts, w) (ts', w')" and "I w" and "\<forall>rt \<in> set ts. well_behaved w rt"
  shows "G w w' \<and> (\<forall>rt \<in> set ts'. well_behaved w' rt)"
  using assms(1)
proof (cases rule: pool_step.cases)
  case (pool_spawn r)
  with assms(2,3) reflp show ?thesis by (auto simp: arrives_well_behaved dest: reflpD)
next
  case (pool_call n r k u)
  then have "well_behaved w (r, Call k u)" using assms(3) by (metis nth_mem)
  moreover from reflp have "G w w" by (rule reflpD)
  ultimately have "G w (u w)" "well_behaved (u w) (r, k w)" by (simp_all add: well_behaved_def)
  moreover have "set (ts[n := (r, k w)]) \<subseteq> insert (r, k w) (set ts)" by (rule set_update_subset_insert)
  ultimately show ?thesis using pool_call assms(3) well_behaved_later by blast
next
  case pool_env
  with assms env_guarantee show ?thesis using well_behaved_later by blast
qed

lemma pool_guarantee:
  assumes "pool_reaches prog env ([], w) (ts', w')" and "I w"
  shows "G w w'" "\<forall>rt \<in> set ts'. well_behaved w' rt"
proof -
  have "G w w' \<and> (\<forall>rt \<in> set ts'. well_behaved w' rt)"
    using assms(1)
  proof (induction "(ts', w')" arbitrary: ts' w' rule: rtranclp_induct)
    case base
    with reflp show ?case by (auto dest: reflpD)
  next
    case (step y)
    obtain ts1 w1 where y: "y = (ts1, w1)" by fastforce
    with step.hyps(3) have G1: "G w w1" and "\<forall>rt \<in> set ts1. well_behaved w1 rt" by blast+
    moreover from G1 assms(2) kept have "I w1" by (auto simp: stable_def)
    ultimately have "G w1 w' \<and> (\<forall>rt \<in> set ts'. well_behaved w' rt)"
      using step_well_behaved step.hyps(2) unfolding y by blast
    with G1 transp show ?case by (auto dest: transpD)
  qed
  then show "G w w'" "\<forall>rt \<in> set ts'. well_behaved w' rt" by blast+
qed

lemma pool_answer:
  assumes "pool_reaches prog env ([], w) (ts', w')" and "I w" and "(r, Done (Ok a)) \<in> set ts'"
  shows "Q r a w'"
proof -
  have "well_behaved w' (r, Done (Ok a))" using pool_guarantee(2) [OF assms(1,2)] assms(3) by blast
  moreover from reflp have "G w' w'" by (rule reflpD)
  ultimately show ?thesis by (simp add: well_behaved_def)
qed

text \<open>
  If \<open>P\<close> holds as long as the world changes as \<open>G\<close> allows, and the threads end within a number of
  calls while it holds, then the calls that a thread made and those it may still make are no more
  than that number, and a thread that had so many turns is done.
\<close>

definition calls_left :: "('w \<Rightarrow> bool) \<Rightarrow> ('r \<Rightarrow> nat) \<Rightarrow> nat list \<Rightarrow> ('w, 'r, 'a) pool \<Rightarrow> nat \<Rightarrow> bool" where
  "calls_left P bound ns s j \<longleftrightarrow>
     (if j < length (fst s)
      then (\<exists>a. snd (fst s ! j) = Done a) \<or>
        (\<exists>m. count_list ns j + m \<le> bound (fst (fst s ! j)) \<and> within P (snd (fst s ! j)) m)
      else count_list ns j = 0)"

lemma pool_calls:
  assumes "pool_run prog env ([], w) ns s" and "I w"
    and "\<And>v. G w v \<Longrightarrow> P v" and "\<And>r. within P (prog r) (bound r)"
  shows "calls_left P bound ns s j"
  using assms(1)
proof (induction rule: pool_run.induct)
  case (run_spawn ns ts v r)
  with assms(4) [of r] show ?case
    by (auto simp: calls_left_def nth_append less_Suc_eq split: if_splits)
next
  case (run_call ns ts v n r k u)
  have P: "P v" by (rule assms(3) [OF pool_guarantee(1) [OF pool_run_reaches [OF run_call.hyps(1)] assms(2)]])
  show ?case
  proof (cases "j = n")
    case True
    with run_call obtain m where m: "count_list ns j + m \<le> bound r" and t: "within P (Call k u) m"
      by (auto simp: calls_left_def)
    from t P obtain m' where "m = Suc m'" and "within P (k v) m'" by (cases m) auto
    with m True run_call.hyps(2) show ?thesis by (auto simp: calls_left_def)
  next
    case False
    with run_call.IH show ?thesis by (auto simp: calls_left_def split: if_splits)
  qed
qed (auto simp: calls_left_def split: if_splits)

lemma pool_ends:
  assumes "pool_run prog env ([], w) ns (ts, w')" and "I w"
    and "\<And>v. G w v \<Longrightarrow> P v" and "\<And>r. within P (prog r) (bound r)"
    and "j < length ts" and "ts ! j = (r, t)" and "bound r \<le> count_list ns j"
  shows "\<exists>a. t = Done a"
proof (rule ccontr)
  assume unfinished: "\<nexists>a. t = Done a"
  with pool_calls [OF assms(1-4), of j] assms(5-6)
  obtain m where m: "count_list ns j + m \<le> bound r" and t: "within P t m"
    by (auto simp: calls_left_def)
  from m assms(7) have "m = 0" by simp
  with t have "within P t 0" by simp
  with unfinished show False by (cases t) auto
qed

end

end
