(* ===== verification/Broker_Threads.thy ===== *)
theory Broker_Threads
  imports Broker_Steps Go_Threads
begin

text \<open>
  The broker's writing operations as threads, one step for each call to the cluster, and what they
  guarantee when requests run concurrently. Alone, a thread is the operation of \<open>Broker\<close>.
\<close>

section \<open>The operations, call by call\<close>

abbreviation readT :: "('w \<Rightarrow> 'a result) \<Rightarrow> ('w, 'a) thread" where
  "readT f \<equiv> atomT (readM f)"

fun find_instance_thread ::
  "'w Crossplane \<Rightarrow> string \<Rightarrow> plan list \<Rightarrow> ('w, (inst \<times> plan) option) thread" where
  "find_instance_thread cp i [] = Done (Err (Sentinel ErrInstanceNotFound))"
| "find_instance_thread cp i (plan # plans) =
     bindT (readT (\<lambda>w. case Instance cp i plan w of
                Err e \<Rightarrow> if e = Sentinel ErrInstanceNotFound then Ok None else Err e
              | r \<Rightarrow> r)) (\<lambda>found.
     case found of
       None \<Rightarrow> find_instance_thread cp i plans
     | Some inst \<Rightarrow> Done (Ok (Some (inst, plan))))"

definition getPlanInstance_thread :: "'w Broker \<Rightarrow> string \<Rightarrow> string \<Rightarrow> ('w, plan \<times> inst) thread" where
  "getPlanInstance_thread b planID i =
     (if planID = ''''
      then bindT (readT (Plans (br_cp b) (ServiceIDs (cp_config (br_cp b))))) (\<lambda>plans.
           bindT (find_instance_thread (br_cp b) i plans) (\<lambda>found.
           Done (case found of
             None \<Rightarrow> Err (Failure (LibFailure ErrInstanceDoesNotExist))
           | Some (inst, p) \<Rightarrow> Ok (p, inst))))
      else bindT (readT (Plan (br_cp b) planID)) (\<lambda>p.
           bindT (readT (Instance (br_cp b) i p)) (\<lambda>found.
           Done (case found of
             None \<Rightarrow> Err (Failure (LibFailure ErrInstanceDoesNotExist))
           | Some inst \<Rightarrow> Ok (p, inst)))))"

definition Provision_thread ::
  "'w Broker \<Rightarrow> ReqContext \<Rightarrow> string \<Rightarrow> string \<Rightarrow> raw_json option \<Rightarrow>
     ('w, ProvisionedServiceSpec) thread" where
  "Provision_thread b rctx i planID params =
     bindT (readT (Plan (br_cp b) planID)) (\<lambda>plan.
     bindT (readT (Instance (br_cp b) i plan)) (\<lambda>found.
     case found of
       Some inst \<Rightarrow>
         Done (if params = None then Ok \<lparr>ps_IsAsync = False, ps_AlreadyExists = True\<rparr>
               else Err (Failure (LibFailure ErrInstanceAlreadyExists)))
     | None \<Rightarrow>
         bindT (case params of
                  None \<Rightarrow> Done (Ok (GoMap []))
                | Some raw \<Rightarrow>
                    bindT (Done (deref ''plan.Labels'' (p_Labels plan))) (\<lambda>pl.
                    readT (validateParams b None (ServiceName pl) raw))) (\<lambda>ap.
         bindT (atomT (CreateInstance (br_cp b) rctx i plan ap)) (\<lambda>_.
         Done (Ok \<lparr>ps_IsAsync = True, ps_AlreadyExists = False\<rparr>)))))"

definition Deprovision_thread ::
  "'w Broker \<Rightarrow> string \<Rightarrow> string \<Rightarrow> ('w, DeprovisionServiceSpec) thread" where
  "Deprovision_thread b i planID =
     bindT (getPlanInstance_thread b planID i) (\<lambda>(p, inst).
     bindT (Done (ServiceBinderFactory (ServiceName (i_Labels inst)) (Some inst))) (\<lambda>sb.
     bindT (readT (sb_Deprovisionable (br_cp b) sb)) (\<lambda>_.
     bindT (atomT (DeleteInstance (br_cp b) (c_name (i_Composite inst)) p)) (\<lambda>_.
     Done (Ok \<lparr>ds_IsAsync = False\<rparr>)))))"

definition createBinding_thread ::
  "'w Crossplane \<Rightarrow> string \<Rightarrow> string \<Rightarrow> string \<Rightarrow> ('w, string) thread" where
  "createBinding_thread cp bid i parentReference =
     bindT (atomT (writeM (l_generatePassword (cp_client cp)))) (\<lambda>pw.
     let lbls = binding_labels i parentReference;
         secret = binding_secret (Namespace (cp_config cp)) bid lbls pw
     in bindT (atomT (writeM (l_createSecret (cp_client cp) secret))) (\<lambda>_.
        bindT (Done (lib_call (l_setParameter (cp_client cp) instanceParamsParentReferenceName
                 (JString parentReference) (binding_composite bid lbls)))) (\<lambda>cmp.
        bindT (handleT (atomT (writeM (l_createComposite (cp_client cp) cmp)))
                 (\<lambda>e. if IsAlreadyExists e then Ok () else Err e)) (\<lambda>_.
        Done (Ok (sget (secret_data secret) SecretPasswordKey))))))"

definition db_Bind_thread :: "'w Crossplane \<Rightarrow> inst \<Rightarrow> string \<Rightarrow> ('w, Credentials) thread" where
  "db_Bind_thread cp inst bid =
     bindT (Done (ParentReference inst)) (\<lambda>parentRef.
     bindT (readT (\<lambda>w. mapErr (Wrapf ''could not get parent Galera cluster: %w'' [])
              (lib_call (l_getComposite (cp_client cp) mariaDBGroupVersionKind parentRef w)))) (\<lambda>cmp.
     bindT (createBinding_thread cp bid (ID inst) parentRef) (\<lambda>pw.
     bindT (readT (connection_details cp (Sentinel ErrInstanceNotReady) cmp)) (\<lambda>secret.
     bindT (Done (mapMariadbEndpoint (secret_data secret))) (\<lambda>endpoint.
     readT (database_credentials cp inst bid pw endpoint))))))"

fun sb_Bind_thread :: "'w Crossplane \<Rightarrow> ServiceBinder \<Rightarrow> string \<Rightarrow> ('w, Credentials) thread" where
  "sb_Bind_thread cp (RedisServiceBinder i) bid =
     bindT (Done (deref ''instance'' i)) (\<lambda>inst. atomT (Redis_Bind cp inst bid))"
| "sb_Bind_thread cp (MariadbServiceBinder i) bid =
     bindT (Done (deref ''instance'' i)) (\<lambda>inst. atomT (Mariadb_Bind inst bid))"
| "sb_Bind_thread cp (MariadbDatabaseServiceBinder i) bid =
     bindT (Done (deref ''instance'' i)) (\<lambda>inst. db_Bind_thread cp inst bid)"

definition Bind_thread ::
  "'w Broker \<Rightarrow> string \<Rightarrow> string \<Rightarrow> string \<Rightarrow> bool \<Rightarrow> ('w, Binding) thread" where
  "Bind_thread b i bid planID asyncAllowed =
     bindT (getPlanInstance_thread b planID i) (\<lambda>(_, inst).
     if \<not> Ready inst then Done (Err (Failure (LibFailure ErrConcurrentInstanceAccess)))
     else
       bindT (Done (ServiceBinderFactory (ServiceName (i_Labels inst)) (Some inst))) (\<lambda>sb.
       bindT (sb_Bind_thread (br_cp b) sb bid) (\<lambda>creds.
       Done (Ok \<lparr>bi_IsAsync = asyncAllowed, bi_Credentials = creds\<rparr>))))"

definition mark_thread :: "'w Crossplane \<Rightarrow> string \<Rightarrow> ('w, unit) thread" where
  "mark_thread cp bid =
     bindT (readT (\<lambda>w. mapErr (Wrapf ''could not get binding: %w'' [])
              (lib_call (l_getComposite (cp_client cp) mariaDBUserGroupVersionKind bid w)))) (\<lambda>cmp.
     let userRef = user_ref_loop (c_resourceRefs cmp) no_ref
     in if or_Kind userRef = ''''
        then Done (Err (Errorf ''unable to find User object in composite'' []))
        else
          bindT (readT (\<lambda>w. mapErr (Wrapf ''failed to fetch secret: %w'' [])
                   (lib_call (l_getSecret (cp_client cp) (Namespace (cp_config cp))
                      (secretName (c_name cmp)) w)))) (\<lambda>secret.
          bindT (readT (\<lambda>w. mapErr (Wrapf ''failed to fetch user: %w'' [])
                   (lib_call (l_getObject (cp_client cp) (or_APIVersion userRef)
                      (or_Kind userRef) (or_Name userRef) w)))) (\<lambda>user.
          atomT (writeM (l_updateSecret (cp_client cp) (secret\<lparr>s_owners := [owner_of user]\<rparr>))))))"

definition db_Unbind_thread :: "'w Crossplane \<Rightarrow> string \<Rightarrow> ('w, unit) thread" where
  "db_Unbind_thread cp bid =
     bindT (handleT (mark_thread cp bid)
              (\<lambda>e. Err (Wrapf ''could not mark credentials for deletion: %w'' [] e))) (\<lambda>_.
     atomT (writeM (l_deleteComposite (cp_client cp) mariaDBUserGroupVersionKind bid True)))"

fun sb_Unbind_thread :: "'w Crossplane \<Rightarrow> ServiceBinder \<Rightarrow> string \<Rightarrow> ('w, unit) thread" where
  "sb_Unbind_thread cp (RedisServiceBinder i) bid = atomT (Redis_Unbind bid)"
| "sb_Unbind_thread cp (MariadbServiceBinder i) bid = atomT (Mariadb_Unbind bid)"
| "sb_Unbind_thread cp (MariadbDatabaseServiceBinder i) bid = db_Unbind_thread cp bid"

definition Unbind_thread ::
  "'w Broker \<Rightarrow> string \<Rightarrow> string \<Rightarrow> string \<Rightarrow> ('w, UnbindSpec) thread" where
  "Unbind_thread b i bid planID =
     bindT (getPlanInstance_thread b planID i) (\<lambda>(_, inst).
     if \<not> Ready inst then Done (Err (Failure (LibFailure ErrConcurrentInstanceAccess)))
     else
       bindT (Done (ServiceBinderFactory (ServiceName (i_Labels inst)) (Some inst))) (\<lambda>sb.
       bindT (handleT (sb_Unbind_thread (br_cp b) sb bid)
                (\<lambda>e. if IsNotFound e then Err (Failure (LibFailure ErrBindingDoesNotExist))
                     else Err e)) (\<lambda>_.
       Done (Ok \<lparr>ub_IsAsync = False\<rparr>))))"

definition Update_thread ::
  "'w Broker \<Rightarrow> string \<Rightarrow> string \<Rightarrow> string \<Rightarrow> string \<Rightarrow> raw_json option \<Rightarrow> ('w, unit) thread" where
  "Update_thread b i serviceID oldPlanID newPlanID rawParameters =
     bindT (getPlanInstance_thread b oldPlanID i) (\<lambda>(p, inst).
     if ServiceID (i_Labels inst) \<noteq> serviceID then Done (Err (Sentinel ErrServiceUpdateNotPermitted))
     else
       bindT (readT (Plan (br_cp b) newPlanID)) (\<lambda>np.
       bindT (Done (AllowUpdate (br_planComparer b) p np)) (\<lambda>ok.
       if \<not> ok then Done (Err (Sentinel ErrPlanChangeNotPermitted))
       else
         let inst1 = inst\<lparr>i_Composite := on_plan np (i_Composite inst)\<rparr>
         in bindT (case rawParameters of
                     None \<Rightarrow> Done (Ok (GoMap []))
                   | Some raw \<Rightarrow>
                       if raw_is_empty rawParameters then Done (Ok (GoMap []))
                       else readT (validateParams b (Some inst1) (ServiceName (i_Labels inst)) raw))
              (\<lambda>ap. atomT (UpdateInstance (br_cp b) inst1 np ap)))))"

section \<open>Alone, a thread is the operation\<close>

lemma runT_find_instance: "runT (find_instance_thread cp i ps) = readM (find_instance_loop cp i ps)"
proof (induction ps)
  case (Cons p ps)
  show ?case
  proof
    fix w
    show "runT (find_instance_thread cp i (p # ps)) w = readM (find_instance_loop cp i (p # ps)) w"
      by (simp add: Cons split: result.splits option.splits)
  qed
qed (simp add: fun_eq_iff)

lemma runT_getPlanInstance: "runT (getPlanInstance_thread b planID i) = readM (getPlanInstance b planID i)"
  by (rule ext) (auto simp: getPlanInstance_thread_def getPlanInstance_def FindInstanceWithoutPlan_def
      runT_find_instance split: result.splits option.splits)

text \<open>The two notations for a call that makes no step, and \<open>runT\<close> inside the branches of a case.\<close>

lemma no_step: "retM a = liftR (Ok a)" "failM e = liftR (Err e)"
  by (simp_all add: fun_eq_iff)

lemmas runT_branches =
  option.case_distrib [where h = runT] prod.case_distrib [where h = runT] if_distrib [where f = runT]

declare bindT.simps [simp del] handleT.simps [simp del]

lemmas runT_op = runT_branches no_step Let_def

lemma liftR_branches:
  "liftR (if c then r else r') = (if c then liftR r else liftR r')" by simp

lemma runT_Provision: "runT (Provision_thread b rctx i planID params) = Provision b rctx i planID params"
  by (simp add: Provision_thread_def Provision_def runT_op liftR_branches
      cong: option.case_cong if_cong)

lemma runT_Deprovision: "runT (Deprovision_thread b i planID) = Deprovision b i planID"
  by (simp add: Deprovision_thread_def Deprovision_def runT_op runT_getPlanInstance
      cong: prod.case_cong)

lemma runT_createBinding: "runT (createBinding_thread cp bid i p) = createBinding cp bid i p"
  by (simp add: createBinding_thread_def createBinding_def runT_op)

lemma runT_db_Bind: "runT (db_Bind_thread cp inst bid) = MariadbDatabase_Bind cp inst bid"
  by (simp add: db_Bind_thread_def MariadbDatabase_Bind_def runT_op runT_createBinding)

lemma runT_sb_Bind: "runT (sb_Bind_thread cp sb bid) = sb_Bind cp sb bid"
  by (cases sb) (simp_all add: runT_op runT_db_Bind)

lemma runT_Bind: "runT (Bind_thread b i bid planID async) = Bind b i bid planID async"
  by (simp add: Bind_thread_def Bind_def runT_op runT_getPlanInstance runT_sb_Bind
      cong: prod.case_cong if_cong)

lemma runT_mark: "runT (mark_thread cp bid) = markCredentialsForDeletion cp bid"
  by (simp add: mark_thread_def markCredentialsForDeletion_def runT_op cong: if_cong)

lemma runT_db_Unbind: "runT (db_Unbind_thread cp bid) = MariadbDatabase_Unbind cp bid"
  by (simp add: db_Unbind_thread_def MariadbDatabase_Unbind_def runT_op runT_mark)

lemma runT_sb_Unbind: "runT (sb_Unbind_thread cp sb bid) = sb_Unbind cp sb bid"
  by (cases sb) (simp_all add: runT_db_Unbind)

lemma runT_Unbind: "runT (Unbind_thread b i bid planID) = Unbind b i bid planID"
  by (simp add: Unbind_thread_def Unbind_def runT_op runT_getPlanInstance runT_sb_Unbind
      cong: prod.case_cong if_cong)

lemma runT_Update:
  "runT (Update_thread b i serviceID oldPlanID newPlanID raw) = Update b i serviceID oldPlanID newPlanID raw"
  by (simp add: Update_thread_def Update_def runT_op runT_getPlanInstance
      cong: prod.case_cong if_cong option.case_cong)

section \<open>Requests running together\<close>

datatype broker_request =
    ProvisionRequest ReqContext string string "raw_json option"
  | DeprovisionRequest string string
  | BindRequest string string string bool
  | UnbindRequest string string string
  | UpdateRequest string string string string "raw_json option"

datatype broker_answer =
    ProvisionAnswer ProvisionedServiceSpec
  | DeprovisionAnswer DeprovisionServiceSpec
  | BindAnswer Binding
  | UnbindAnswer UnbindSpec
  | UpdateAnswer

definition answering :: "('a \<Rightarrow> 'b) \<Rightarrow> ('w, 'a) thread \<Rightarrow> ('w, 'b) thread" where
  "answering f t = bindT t (\<lambda>a. Done (Ok (f a)))"

fun request_thread :: "'w Broker \<Rightarrow> broker_request \<Rightarrow> ('w, broker_answer) thread" where
  "request_thread b (ProvisionRequest rctx i planID params) =
     answering ProvisionAnswer (Provision_thread b rctx i planID params)"
| "request_thread b (DeprovisionRequest i planID) =
     answering DeprovisionAnswer (Deprovision_thread b i planID)"
| "request_thread b (BindRequest i bid planID async) =
     answering BindAnswer (Bind_thread b i bid planID async)"
| "request_thread b (UnbindRequest i bid planID) =
     answering UnbindAnswer (Unbind_thread b i bid planID)"
| "request_thread b (UpdateRequest i serviceID oldPlanID newPlanID raw) =
     answering (\<lambda>_. UpdateAnswer) (Update_thread b i serviceID oldPlanID newPlanID raw)"

end
