(* ===== verification/Request_Safety.thy ===== *)
theory Request_Safety
  imports Broker_Threads
begin

text \<open>
  Requests that interleave call by call, beside the controllers of Crossplane. Every call of a request
  changes the cluster in a way that keeps the invariants of \<open>Broker_Steps\<close> and every password of a
  binding, whatever others did since its last call. The locale \<open>served_broker\<close> is a broker with its
  environment, and an instance of \<open>guarantee\<close>.
\<close>

section \<open>The controllers\<close>

text \<open>
  What Crossplane does to the cluster meanwhile: it reports conditions, composed resources and
  connection secrets on composites, ends deletions that were asked for, and writes and removes
  secrets, but not those of the broker's bindings. \<open>ns\<close> is the broker's namespace.
\<close>

inductive controller_step :: "string \<Rightarrow> cluster \<Rightarrow> cluster \<Rightarrow> bool" for ns :: string where
  controller_idle: "controller_step ns cl cl"
| controller_status: "cl_composites cl (c_gvk c, c_name c) = Some c \<Longrightarrow>
    controller_step ns cl
      (put_composite (c\<lparr>c_ready := ready, c_resourceRefs := rs, c_secretRef := sr\<rparr>) cl)"
| controller_finalized: "cl_composites cl (g, n) = Some c \<Longrightarrow> c_terminating c \<Longrightarrow>
    controller_step ns cl (drop_composite g n cl)"
| controller_secret: "(\<And>bid. (s_namespace s, s_name s) \<noteq> (ns, secretName bid)) \<Longrightarrow>
    controller_step ns cl (put_secret s cl)"
| controller_no_secret: "(\<And>bid. k \<noteq> (ns, secretName bid)) \<Longrightarrow>
    controller_step ns cl (cl\<lparr>cl_secrets := (cl_secrets cl)(k := None)\<rparr>)"

section \<open>How the cluster evolves\<close>

context broker_client
begin

text \<open>
  What holds at every point of time, and how the cluster may change between two of them: the plans
  stay, no secret of a binding goes away or gets other data, and the two invariants are kept.
\<close>

definition consistent :: "'w \<Rightarrow> bool" where
  "consistent w \<longleftrightarrow> no_user_plans b (view w) \<and> credentials_stored namespace (view w) \<and>
     instances_agree (view w)"

definition evolves :: "'w \<Rightarrow> 'w \<Rightarrow> bool" where
  "evolves w w' \<longleftrightarrow>
     cl_compositions (view w') = cl_compositions (view w) \<and>
     (\<forall>bid s. cl_secrets (view w) (namespace, secretName bid) = Some s \<longrightarrow>
        (\<exists>s'. cl_secrets (view w') (namespace, secretName bid) = Some s' \<and> s_data s' = s_data s)) \<and>
     (consistent w \<longrightarrow> consistent w')"

lemma evolves_refl: "reflp evolves"
  by (simp add: reflp_def evolves_def)

lemma evolves_trans: "transp evolves"
  unfolding transp_def evolves_def by metis

lemma evolves_consistent: "consistent u \<Longrightarrow> evolves u v \<Longrightarrow> consistent v"
  by (simp add: evolves_def)

lemma evolves_same: "view w' = view w \<Longrightarrow> evolves w w'"
  by (simp add: evolves_def consistent_def)

lemma evolves_read [simp]: "evolves w w"
  by (rule evolves_same) simp

lemma evolves_put:
  assumes "view w' = put_composite c (view w)"
    and "c_gvk c = mariaDBUserGroupVersionKind \<Longrightarrow> cl_secrets (view w) (namespace, secretName (c_name c)) \<noteq> None"
    and "c_labels c PrincipalLabel \<noteq> None \<Longrightarrow> instances_agree (view w) \<Longrightarrow>
      c_labels c InstanceIDLabel = Some (c_name c) \<and> plan_agrees (view w) c"
  shows "evolves w w'"
proof -
  have "credentials_stored namespace (put_composite c (view w))" if "credentials_stored namespace (view w)"
    using that assms(2) by (auto simp: credentials_stored_def put_composite_def)
  moreover have "instances_agree (put_composite c (view w))" if "instances_agree (view w)"
    using that assms(3) by (intro instances_agree_put) auto
  ultimately show ?thesis
    by (auto simp: evolves_def consistent_def assms(1) no_user_plans_def) (simp_all add: put_composite_def)
qed

lemma evolves_secret:
  assumes "view w' = put_secret s (view w)"
    and "\<And>bid s0. (s_namespace s, s_name s) = (namespace, secretName bid) \<Longrightarrow>
      cl_secrets (view w) (s_namespace s, s_name s) = Some s0 \<Longrightarrow> s_data s = s_data s0"
  shows "evolves w w'"
proof -
  have "consistent w \<Longrightarrow> consistent w'"
    using credentials_stored_updates(1) instances_agree_secret
    by (auto simp: consistent_def assms(1) no_user_plans_def) (simp add: put_secret_def)
  moreover have "\<exists>s'. cl_secrets (view w') (namespace, secretName bid) = Some s' \<and> s_data s' = s_data s0"
    if "cl_secrets (view w) (namespace, secretName bid) = Some s0" for bid s0
    using that assms(2) [of bid s0] by (cases "(s_namespace s, s_name s) = (namespace, secretName bid)")
      (auto simp: assms(1) put_secret_def)
  ultimately show ?thesis by (simp add: evolves_def) (simp add: assms(1) put_secret_def)
qed

lemma evolves_deleted:
  assumes "deleted g n (view w) (view w')"
  shows "evolves w w'"
proof -
  have key: "\<And>c. cl_composites (view w) (g, n) = Some c \<Longrightarrow> c_gvk c = g \<and> c_name c = n"
    using composite_key by blast
  have "cl_compositions (view w') = cl_compositions (view w)" "cl_secrets (view w') = cl_secrets (view w)"
    using assms by (auto simp: deleted_def cluster_updates)
  with credentials_stored_deleted [OF _ assms] instances_agree_deleted [OF _ assms key] show ?thesis
    by (auto simp: evolves_def consistent_def no_user_plans_def)
qed

abbreviation safely :: "('w, 'a) thread \<Rightarrow> ('w \<Rightarrow> bool) \<Rightarrow> bool" where
  "safely \<equiv> safe evolves"

abbreviation leads :: "('w, 'a) thread \<Rightarrow> ('w \<Rightarrow> bool) \<Rightarrow> ('a \<Rightarrow> 'w \<Rightarrow> bool) \<Rightarrow> bool" where
  "leads \<equiv> ends evolves"

lemma safely_read [simp]: "safely (readT f) K"
  by (rule safe_atomT) simp

lemma safely_read_only: "read_only m \<Longrightarrow> safely (atomT m) K"
  by (rule safe_atomT) (metis keeps_def evolves_read)

text \<open>A read tells a fact that stays true, as far as it is about the answer and the plans.\<close>

lemma leads_read:
  assumes "\<And>w. K w \<Longrightarrow> consistent w"
    and "\<And>w a w'. K w \<Longrightarrow> f w = Ok a \<Longrightarrow> cl_compositions (view w') = cl_compositions (view w) \<Longrightarrow> Q a w'"
  shows "leads (readT f) K (\<lambda>a w. consistent w \<and> Q a w)"
  by (rule ends_atomT) (use assms in \<open>auto simp: evolves_def\<close>)

lemma stable_consistent: "stable evolves consistent"
  by (auto simp: stable_def evolves_def)

text \<open>A plan that was read, and an instance that was found: facts that no other request can change.\<close>

definition read_plan :: "plan \<Rightarrow> 'w \<Rightarrow> bool" where
  "read_plan p w \<longleftrightarrow> p_Composition p \<in> set (cl_compositions (view w)) \<and>
     newPlan (p_Composition p) = Ok p"

definition labelled_as :: "string \<Rightarrow> inst \<Rightarrow> bool" where
  "labelled_as i inst \<longleftrightarrow> ID inst = i \<and>
     (c_labels (i_Composite inst) PrincipalLabel \<noteq> None \<longrightarrow>
        c_labels (i_Composite inst) InstanceIDLabel = Some i)"

lemma stable_facts:
  "stable evolves K \<Longrightarrow> stable evolves (\<lambda>w. K w \<and> read_plan p w)"
  "stable evolves K \<Longrightarrow> stable evolves (\<lambda>w. K w \<and> F)"
  by (auto simp: stable_def evolves_def read_plan_def)

lemmas safely_sequence = safe_sequence [OF _ evolves_refl evolves_trans]

lemma labelled_Instance:
  assumes "consistent w" and "read_plan p w" and "Instance (br_cp b) i p w = Ok (Some inst)"
  shows "labelled_as i inst"
proof -
  from Instance_stored [OF assms(3)] assms(2) have found: "found_instance b i (view w) p inst"
    by (simp add: read_plan_def)
  then have "ID inst = i" by (rule found_instance_name)
  moreover from found assms(1) have "c_labels (i_Composite inst) PrincipalLabel \<noteq> None \<Longrightarrow>
      c_labels (i_Composite inst) InstanceIDLabel = Some i"
    by (auto simp: found_instance_def consistent_def instances_agree_def)
  ultimately show ?thesis by (simp add: labelled_as_def)
qed

lemma leads_Plan: "leads (readT (Plan (br_cp b) n)) consistent read_plan"
  by (rule ends_atomT) (auto simp: read_plan_def evolves_def dest: Plan_stored(1,3))

lemma leads_Plans:
  "leads (readT (Plans (br_cp b) ids)) consistent (\<lambda>ps w. \<forall>p \<in> set ps. read_plan p w)"
  by (rule ends_atomT) (auto simp: read_plan_def evolves_def dest: Plans_stored)

lemma leads_Instance:
  "leads (readT (Instance (br_cp b) i p)) (\<lambda>w. consistent w \<and> read_plan p w)
     (\<lambda>found w. \<forall>inst. found = Some inst \<longrightarrow> labelled_as i inst)"
  by (rule ends_atomT) (auto dest: labelled_Instance)


lemmas leads_sequence = ends_sequence [OF _ evolves_refl evolves_trans]

lemma safely_Done [simp]: "safely (Done r) K" by simp

lemma safely_reads:
  "safely t K \<Longrightarrow> (\<And>a. safely (f a) (\<lambda>_. True)) \<Longrightarrow> safely (bindT t f) K"
  by (rule safe_bindT [where Q = "\<lambda>_ _. True"]) (simp_all add: ends_any)

lemma safely_find_instance: "safely (find_instance_thread cp i ps) K"
proof (induction ps arbitrary: K)
  case (Cons p ps)
  then show ?case by (auto intro!: safely_reads split: option.split)
qed simp

lemma safely_getPlanInstance [simp]: "safely (getPlanInstance_thread b planID i) K"
  by (auto simp: getPlanInstance_thread_def intro!: safely_reads safely_find_instance)

lemma leads_find_instance:
  "leads (find_instance_thread (br_cp b) i ps) (\<lambda>w. consistent w \<and> (\<forall>p \<in> set ps. read_plan p w))
     (\<lambda>found w. \<forall>inst p. found = Some (inst, p) \<longrightarrow> read_plan p w \<and> labelled_as i inst)"
proof (induction ps)
  case (Cons p ps)
  let ?K = "\<lambda>w. consistent w \<and> (\<forall>q \<in> set (p # ps). read_plan q w)"
  have stable: "stable evolves ?K" by (auto simp: stable_def evolves_def read_plan_def)
  show ?case
    unfolding find_instance_thread.simps
  proof (rule leads_sequence [OF stable safely_read])
    show "leads (readT (\<lambda>w. case Instance (br_cp b) i p w of
              Err e \<Rightarrow> if e = Sentinel ErrInstanceNotFound then Ok None else Err e | r \<Rightarrow> r)) ?K
            (\<lambda>found w. \<forall>inst. found = Some inst \<longrightarrow> labelled_as i inst)"
      by (rule ends_atomT) (auto split: result.splits if_splits dest!: labelled_Instance)
    fix found
    show "leads (case found of None \<Rightarrow> find_instance_thread (br_cp b) i ps
              | Some inst \<Rightarrow> Done (Ok (Some (inst, p))))
            (\<lambda>w. ?K w \<and> (\<forall>inst. found = Some inst \<longrightarrow> labelled_as i inst))
            (\<lambda>found w. \<forall>inst p. found = Some (inst, p) \<longrightarrow> read_plan p w \<and> labelled_as i inst)"
      by (cases found) (auto intro: ends_mono [OF Cons])
  qed
qed simp

lemma leads_getPlanInstance:
  "leads (getPlanInstance_thread b planID i) consistent
     (\<lambda>(p, inst) w. read_plan p w \<and> labelled_as i inst)"
proof (cases "planID = ''''")
  case True
  have stable: "stable evolves (\<lambda>w. consistent w \<and> (\<forall>p \<in> set ps. read_plan p w))" for ps
    by (auto simp: stable_def evolves_def read_plan_def)
  from True show ?thesis
    by (auto simp: getPlanInstance_thread_def split: option.splits
        intro!: leads_sequence [OF stable_consistent safely_read leads_Plans]
          leads_sequence [OF stable safely_find_instance leads_find_instance])
next
  case False
  from False show ?thesis
    by (auto simp: getPlanInstance_thread_def split: option.splits
        intro!: leads_sequence [OF stable_consistent safely_read leads_Plan]
          leads_sequence [OF stable_facts(1) [OF stable_consistent] safely_read leads_Instance])
qed


section \<open>Every call of a request is safe\<close>

lemma safely_Create:
  "safely (atomT (CreateInstance (br_cp b) rctx i p ap)) (\<lambda>w. consistent w \<and> read_plan p w)"
proof (rule safe_atomT)
  fix w assume K: "consistent w \<and> read_plan p w"
  obtain r w' where run: "CreateInstance (br_cp b) rctx i p ap w = (r, w')" by fastforce
  from CreateInstance_effect [OF run] show "evolves w (snd (CreateInstance (br_cp b) rctx i p ap w))"
  proof (elim disjE exE conjE)
    fix l g assume l: "prepareLabels (br_cp b) rctx i p ap = Ok l"
      and g: "GVK (cp_client (br_cp b)) p = Ok g"
      and view: "view w' = put_composite (instance_composite g i p l ap) (view w)"
    from K g have "g \<noteq> mariaDBUserGroupVersionKind"
      by (auto simp: consistent_def no_user_plans_def read_plan_def)
    with view l K have "evolves w w'"
      by (intro evolves_put [OF view])
        (auto simp: read_plan_def prepareLabels_OkD(1) [OF l] created_agrees [OF l])
    with run show ?thesis by simp
  qed (simp add: run evolves_same)
qed

lemma safely_Update:
  assumes "labelled_as i inst"
  shows "safely (atomT (UpdateInstance (br_cp b) (inst\<lparr>i_Composite := on_plan np (i_Composite inst)\<rparr>) np ap))
    (\<lambda>w. consistent w \<and> read_plan np w)"
proof (rule safe_atomT)
  let ?inst = "inst\<lparr>i_Composite := on_plan np (i_Composite inst)\<rparr>"
  fix w assume K: "consistent w \<and> read_plan np w"
  obtain r w' where run: "UpdateInstance (br_cp b) ?inst np ap w = (r, w')" by fastforce
  from UpdateInstance_effect [OF run] show "evolves w (snd (UpdateInstance (br_cp b) ?inst np ap w))"
  proof (elim disjE exE conjE)
    fix g assume g: "GVK (cp_client (br_cp b)) np = Ok g"
      and view: "view w' = put_composite (updated_composite g ?inst ap) (view w)"
    from K g have "g \<noteq> mariaDBUserGroupVersionKind"
      by (auto simp: consistent_def no_user_plans_def read_plan_def)
    moreover from assms K have "plan_agrees (view w) (updated_composite g ?inst ap)"
      by (intro updated_agrees) (simp add: read_plan_def)
    moreover from assms have "c_labels (i_Composite inst) PrincipalLabel \<noteq> None \<Longrightarrow>
        c_labels (i_Composite inst) InstanceIDLabel = Some (ID ?inst)"
      by (simp add: labelled_as_def ID_def on_plan_def)
    ultimately have "evolves w w'" by (intro evolves_put [OF view]) auto
    with run show ?thesis by simp
  qed (simp add: run evolves_same)
qed

lemma safely_Delete: "safely (atomT (DeleteInstance (br_cp b) n p)) K"
proof (rule safe_atomT)
  fix w
  obtain r w' where run: "DeleteInstance (br_cp b) n p w = (r, w')" by fastforce
  from DeleteInstance_effect [OF run] have "evolves w w'"
    by (auto intro: evolves_same evolves_deleted)
  with run show "evolves w (snd (DeleteInstance (br_cp b) n p w))" by simp
qed

text \<open>The calls of the client library by themselves.\<close>

lemma evolves_calls:
  "evolves w (snd (writeM (l_generatePassword (cp_client (br_cp b))) w))"
  "evolves w (snd (writeM (l_createSecret (cp_client (br_cp b)) s) w))"
  "evolves w (snd (writeM (l_deleteComposite (cp_client (br_cp b)) g n fg) w))"
proof -
  note pair = prod.collapse [symmetric]
  show "evolves w (snd (writeM (l_generatePassword (cp_client (br_cp b))) w))"
    by (rule evolves_same [OF generate_password_view [OF pair]])
  show "evolves w (snd (writeM (l_createSecret (cp_client (br_cp b)) s) w))"
    using create_secret_new [OF pair, of s w] by (auto intro: evolves_same evolves_secret)
  show "evolves w (snd (writeM (l_deleteComposite (cp_client (br_cp b)) g n fg) w))"
    using delete_composite_view [OF pair] by (blast intro: evolves_same evolves_deleted)
qed

text \<open>The user composite is only created after its secret, which no other request deletes.\<close>

definition has_password :: "string \<Rightarrow> string \<Rightarrow> 'w \<Rightarrow> bool" where
  "has_password bid pw w \<longleftrightarrow>
     (\<exists>s. cl_secrets (view w) (namespace, secretName bid) = Some s \<and>
        s_data s = Some [SecretPasswordKey \<mapsto> pw])"

lemma stable_has_password: "stable evolves (has_password bid pw)"
  unfolding stable_def evolves_def has_password_def by metis

lemma leads_createSecret:
  "leads (atomT (writeM (l_createSecret (cp_client (br_cp b)) (stored_secret namespace bid i p pw)))) K
     (\<lambda>_. has_password bid pw)"
proof (rule ends_atomT)
  let ?s = "stored_secret namespace bid i p pw"
  fix w a w'
  assume "fst (writeM (l_createSecret (cp_client (br_cp b)) ?s) w) = Ok a"
    and evolves: "evolves (snd (writeM (l_createSecret (cp_client (br_cp b)) ?s) w)) w'"
  then obtain w1 where "l_createSecret (cp_client (br_cp b)) ?s w = (Inr (), w1)"
    and w1: "snd (writeM (l_createSecret (cp_client (br_cp b)) ?s) w) = w1"
    by (cases "l_createSecret (cp_client (br_cp b)) ?s w") (auto simp: writeM_def go_inv)
  then have "view w1 = put_secret ?s (view w)" using create_secret_ok by blast
  then have "has_password bid pw w1" by (simp add: has_password_def put_secret_def)
  with evolves w1 stable_has_password show "has_password bid pw w'" unfolding stable_def by blast
qed

lemma safely_create_user:
  "safely (atomT (writeM (l_createComposite (cp_client (br_cp b)) (stored_user bid i p)))) (has_password bid pw)"
proof (rule safe_atomT)
  fix w assume K: "has_password bid pw w"
  from create_composite_view [OF prod.collapse [symmetric]]
  show "evolves w (snd (writeM (l_createComposite (cp_client (br_cp b)) (stored_user bid i p)) w))"
    by (rule disjE, intro evolves_same)
      (use K in \<open>auto intro!: evolves_put simp: has_password_def stored_user_no_principal\<close>)
qed

lemma safely_createBinding: "safely (createBinding_thread (br_cp b) bid i p) K"
proof -
  let ?set = "lib_call (l_setParameter (cp_client (br_cp b)) instanceParamsParentReferenceName
      (JString p) (binding_composite bid (binding_labels i p)))"
  have user: "safely (bindT (Done ?set) (\<lambda>cmp.
      bindT (handleT (atomT (writeM (l_createComposite (cp_client (br_cp b)) cmp))) h) (\<lambda>_. Done r)))
      (has_password bid pw)" for h and pw and r :: "string result"
  proof (cases ?set)
    case (Ok cmp)
    then have "cmp = stored_user bid i p"
      by (auto simp: go_inv intro: set_parent_reference)
    with Ok show ?thesis
      by (auto simp: bindT.simps intro!: safe_bindT [OF _ ends_any] safe_handleT safely_create_user)
  qed (simp_all add: bindT.simps)
  show ?thesis
    unfolding createBinding_thread_def Let_def binding_secret_stored
    by (rule safe_bindT [OF safe_atomT ends_any], rule evolves_calls)
      (rule safe_bindT [OF safe_atomT leads_createSecret user], rule evolves_calls)
qed


section \<open>Every request is safe\<close>

text \<open>Behind a call that tells nothing, a thread goes on with what it knew, or stops.\<close>

lemma safely_keep:
  "stable evolves K \<Longrightarrow> safely t K \<Longrightarrow> (\<And>a. safely (f a) K) \<Longrightarrow> safely (bindT t f) K"
  by (rule safely_sequence [OF _ _ ends_any]) simp_all

lemma safely_value: "(\<And>a. safely (f a) K) \<Longrightarrow> safely (bindT (Done r) f) K"
  by (cases r) (simp_all add: bindT.simps)

lemma safely_atomic: "(\<And>w. evolves w (snd (m w))) \<Longrightarrow> safely (atomT m) K"
  by (rule safe_atomT) simp

lemmas safely_calls = safely_read_only [OF Redis_calls_read_only(1)]
  safely_read_only [OF Redis_calls_read_only(2)] safely_read_only [OF Mariadb_calls_read_only(1)]
  safely_read_only [OF Mariadb_calls_read_only(2)] evolves_calls [THEN safely_atomic]

lemma safely_sb_Bind [simp]: "safely (sb_Bind_thread (br_cp b) sb bid) K"
  by (cases sb) (auto simp: db_Bind_thread_def
      intro!: safely_value safely_reads safely_calls safely_createBinding)

text \<open>The secret of a binding gets its owner when other requests may have written it since it was read.\<close>

definition read_secret :: "secret \<Rightarrow> 'w \<Rightarrow> bool" where
  "read_secret s w \<longleftrightarrow>
     (\<exists>bid s'. (s_namespace s, s_name s) = (namespace, secretName bid) \<and>
        cl_secrets (view w) (namespace, secretName bid) = Some s' \<and> s_data s' = s_data s)"

lemma stable_read_secret: "stable evolves (read_secret s)"
  unfolding stable_def evolves_def read_secret_def by metis

lemma leads_getSecret:
  "leads (readT (\<lambda>w. mapErr h (lib_call
     (l_getSecret (cp_client (br_cp b)) namespace (secretName n) w)))) K read_secret"
proof (rule ends_atomT)
  let ?get = "\<lambda>w. mapErr h (lib_call (l_getSecret (cp_client (br_cp b)) namespace (secretName n) w))"
  fix w s w'
  assume "fst (readM ?get w) = Ok s" and evolves: "evolves (snd (readM ?get w)) w'"
  then have "l_getSecret (cp_client (br_cp b)) namespace (secretName n) w = Inr s" by (simp add: go_inv)
  from get_secret_ok [OF this] secret_key have "read_secret s w" by (auto simp: read_secret_def)
  with stable_read_secret evolves show "read_secret s w'" by (simp add: stable_def)
qed

lemma safely_own_secret:
  "safely (atomT (writeM (l_updateSecret (cp_client (br_cp b)) (s\<lparr>s_owners := os\<rparr>)))) (read_secret s)"
proof (rule safe_atomT)
  fix w assume "read_secret s w"
  with update_secret_view [OF prod.collapse [symmetric], of "s\<lparr>s_owners := os\<rparr>" w]
  show "evolves w (snd (writeM (l_updateSecret (cp_client (br_cp b)) (s\<lparr>s_owners := os\<rparr>)) w))"
    by (auto simp: read_secret_def intro: evolves_same evolves_secret)
qed

lemma safely_mark: "safely (mark_thread (br_cp b) bid) K"
proof -
  have own: "safely (bindT (readT g) (\<lambda>user. atomT (writeM (l_updateSecret (cp_client (br_cp b))
      (s\<lparr>s_owners := [owner_of user]\<rparr>))))) (read_secret s)" for s and g :: "'w \<Rightarrow> kobject result"
    by (rule safely_keep [OF stable_read_secret safely_read safely_own_secret])
  show ?thesis
    unfolding mark_thread_def Let_def
    by (intro safely_reads safely_read)
      (auto intro!: safe_bindT [OF safely_read leads_getSecret] own)
qed

lemma safely_sb_Unbind [simp]: "safely (sb_Unbind_thread (br_cp b) sb bid) K"
  by (cases sb) (auto simp: db_Unbind_thread_def
      intro!: safely_reads safely_calls safe_handleT safely_mark)

lemma safely_Bind: "safely (Bind_thread b i bid planID async) K"
  by (auto simp: Bind_thread_def intro!: safely_reads safely_value)

lemma safely_Unbind: "safely (Unbind_thread b i bid planID) K"
  by (auto simp: Unbind_thread_def intro!: safely_reads safely_value safe_handleT)

lemma safely_Deprovision: "safely (Deprovision_thread b i planID) K"
  by (auto simp: Deprovision_thread_def intro!: safely_reads safely_value safely_Delete)

lemma safely_Provision: "safely (Provision_thread b rctx i planID params) consistent"
proof -
  note keep = safely_keep [OF stable_facts(1) [OF stable_consistent]]
  have create: "safely (bindT (atomT (CreateInstance (br_cp b) rctx i p ap)) (\<lambda>_. Done r))
      (\<lambda>w. consistent w \<and> read_plan p w)" for p ap and r :: "ProvisionedServiceSpec result"
    by (rule keep [OF safely_Create]) simp
  show ?thesis
    unfolding Provision_thread_def
    by (rule safely_sequence [OF stable_consistent safely_read leads_Plan])
      (auto intro!: keep create safely_value split: option.split)
qed

lemma safely_Update_request:
  "safely (Update_thread b i serviceID oldPlanID newPlanID raw) consistent"
proof -
  note keep = safely_keep [OF stable_facts(1) [OF stable_consistent]]
  have found: "safely t (\<lambda>w. consistent w \<and> read_plan p w \<and> labelled_as i inst)"
    if "labelled_as i inst \<Longrightarrow> safely t consistent" for t :: "('w, unit) thread" and p inst
  proof (cases "labelled_as i inst")
    case True
    from that [OF True] show ?thesis by (rule safe_mono) simp
  next
    case False
    then show ?thesis by (cases t) simp_all
  qed
  have plan: "safely (bindT (readT (Plan (br_cp b) newPlanID)) f) consistent"
    if "\<And>np. safely (f np) (\<lambda>w. consistent w \<and> read_plan np w)"
    for f :: "plan \<Rightarrow> ('w, unit) thread"
    by (rule safely_sequence [OF stable_consistent safely_read leads_Plan]) (rule that)
  have stored: "safely (let inst1 = inst\<lparr>i_Composite := on_plan np (i_Composite inst)\<rparr>
       in bindT (case raw of None \<Rightarrow> Done (Ok (GoMap []))
                   | Some j \<Rightarrow> if raw_is_empty raw then Done (Ok (GoMap []))
                               else readT (validateParams b (Some inst1) (ServiceName (i_Labels inst)) j))
            (\<lambda>ap. atomT (UpdateInstance (br_cp b) inst1 np ap)))
     (\<lambda>w. consistent w \<and> read_plan np w)" if "labelled_as i inst" for inst np
    unfolding Let_def by (rule keep) (auto intro: safely_Update [OF that] split: option.split)
  have rest: "safely (if ServiceID (i_Labels inst) \<noteq> serviceID
        then Done (Err (Sentinel ErrServiceUpdateNotPermitted))
        else bindT (readT (Plan (br_cp b) newPlanID)) (f p inst))
      (\<lambda>w. consistent w \<and> read_plan p w \<and> labelled_as i inst)"
    if "\<And>np. labelled_as i inst \<Longrightarrow> safely (f p inst np) (\<lambda>w. consistent w \<and> read_plan np w)"
    for p inst and f :: "plan \<Rightarrow> inst \<Rightarrow> plan \<Rightarrow> ('w, unit) thread"
    using that by (cases "ServiceID (i_Labels inst) = serviceID") (auto intro: found plan)
  show ?thesis
    unfolding Update_thread_def
    by (rule safely_sequence [OF stable_consistent safely_getPlanInstance leads_getPlanInstance],
        simp only: split_paired_all prod.case, rule rest, rule safely_value) (use stored in auto)
qed

lemma safely_answering: "safely t consistent \<Longrightarrow> safely (answering f t) consistent"
  unfolding answering_def by (rule safely_keep [OF stable_consistent]) simp_all

lemma safely_request: "safely (request_thread b r) consistent"
  by (cases r) (simp_all add: safely_answering safely_Provision safely_Deprovision safely_Bind
      safely_Unbind safely_Update_request)

section \<open>What a bind answers\<close>

text \<open>
  Credentials of a database hold the password of the binding's secret. Those of Redis name no
  database.
\<close>

definition answered_password :: "string \<Rightarrow> Credentials \<Rightarrow> 'w \<Rightarrow> bool" where
  "answered_password bid creds w \<longleftrightarrow> map_of creds ''database'' \<noteq> None \<longrightarrow>
     (\<exists>pw. map_of creds SecretPasswordKey = Some (CString pw) \<and> has_password bid pw w)"

lemma stable_True: "stable evolves (\<lambda>_. True)"
  by (simp add: stable_def)

lemma leads_createBinding:
  "leads (createBinding_thread (br_cp b) bid i p) (\<lambda>_. True) (\<lambda>pw. has_password bid pw)"
proof -
  let ?set = "lib_call (l_setParameter (cp_client (br_cp b)) instanceParamsParentReferenceName
      (JString p) (binding_composite bid (binding_labels i p)))"
  have user: "leads (bindT (Done ?set) (\<lambda>cmp.
      bindT (handleT (atomT (writeM (l_createComposite (cp_client (br_cp b)) cmp))) h) (\<lambda>_. Done (Ok pw))))
      (has_password bid pw) (\<lambda>pw. has_password bid pw)" for h and pw
  proof (cases ?set)
    case (Ok cmp)
    then have "cmp = stored_user bid i p" by (auto simp: go_inv intro: set_parent_reference)
    with Ok show ?thesis
      by (auto simp: bindT.simps intro!: safe_handleT safely_create_user
          leads_sequence [OF stable_has_password _ ends_any])
  qed (simp_all add: bindT.simps)
  show ?thesis
    unfolding createBinding_thread_def Let_def binding_secret_stored secret_data_binding
    by (rule ends_bindT [OF ends_any]) (rule ends_bindT [OF leads_createSecret user])
qed

lemma leads_keep:
  "stable evolves K \<Longrightarrow> safely t K \<Longrightarrow> (\<And>a. leads (f a) K R) \<Longrightarrow> leads (bindT t f) K R"
  by (rule leads_sequence [OF _ _ ends_any]) simp_all

lemma leads_value: "(\<And>a. leads (f a) K R) \<Longrightarrow> leads (bindT (Done r) f) K R"
  by (cases r) (simp_all add: bindT.simps)

lemma leads_credentials:
  "leads (readT (database_credentials (br_cp b) inst bid pw endpoint)) (has_password bid pw)
     (answered_password bid)"
proof (rule ends_atomT)
  fix w creds w'
  assume K: "has_password bid pw w"
    and "fst (readM (database_credentials (br_cp b) inst bid pw endpoint) w) = Ok creds"
    and evolves: "evolves (snd (readM (database_credentials (br_cp b) inst bid pw endpoint) w)) w'"
  then have "map_of creds SecretPasswordKey = Some (CString pw)"
    by (auto simp: database_credentials_def go_inv createCredentials_def Let_def secret_keys)
  moreover from K evolves stable_has_password have "has_password bid pw w'" by (simp add: stable_def)
  ultimately show "answered_password bid creds w'" by (simp add: answered_password_def)
qed

lemma leads_db_Bind: "leads (db_Bind_thread (br_cp b) inst bid) (\<lambda>_. True) (answered_password bid)"
  unfolding db_Bind_thread_def
  by (intro leads_value leads_keep [OF stable_True safely_read] ends_bindT [OF leads_createBinding]
      leads_keep [OF stable_has_password safely_read] leads_credentials)

lemma leads_sb_Bind: "leads (sb_Bind_thread (br_cp b) sb bid) (\<lambda>_. True) (answered_password bid)"
proof (cases sb)
  case (RedisServiceBinder inst)
  have "answered_password bid creds w'" if "Redis_GetBinding (br_cp b) inst' bid w = Ok creds" for creds inst' w w'
    using that by (auto simp: answered_password_def Redis_GetBinding_def go_inv Let_def
        split: option.splits if_splits)
  with RedisServiceBinder show ?thesis by (auto simp: Redis_Bind_def intro!: leads_value ends_atomT)
next
  case (MariadbServiceBinder inst)
  then show ?thesis by (auto simp: Mariadb_Bind_def intro!: leads_value ends_atomT)
next
  case (MariadbDatabaseServiceBinder inst)
  then show ?thesis by (auto intro!: leads_value leads_db_Bind)
qed

lemma leads_Bind:
  "leads (Bind_thread b i bid planID async) (\<lambda>_. True) (\<lambda>bi. answered_password bid (bi_Credentials bi))"
proof -
  have answer: "leads (bindT (sb_Bind_thread (br_cp b) sb bid)
      (\<lambda>creds. Done (Ok \<lparr>bi_IsAsync = async, bi_Credentials = creds\<rparr>))) (\<lambda>_. True)
      (\<lambda>bi. answered_password bid (bi_Credentials bi))" for sb
    by (rule ends_bindT [OF leads_sb_Bind]) simp
  show ?thesis
    unfolding Bind_thread_def
    by (rule leads_keep [OF stable_True safely_getPlanInstance])
      (auto intro!: leads_value answer)
qed

text \<open>What holds of an answer from the time it is given.\<close>

fun answer_holds :: "broker_request \<Rightarrow> broker_answer \<Rightarrow> 'w \<Rightarrow> bool" where
  "answer_holds (BindRequest i bid planID async) (BindAnswer bi) w =
     answered_password bid (bi_Credentials bi) w"
| "answer_holds r a w = True"

lemma leads_request: "leads (request_thread b r) consistent (answer_holds r)"
proof (cases r)
  case (BindRequest i bid planID async)
  have "leads (Bind_thread b i bid planID async) consistent (\<lambda>bi. answered_password bid (bi_Credentials bi))"
    by (rule ends_mono [OF leads_Bind]) simp_all
  with BindRequest show ?thesis
    by (auto simp: answering_def intro!: ends_bindT)
qed (auto simp: answering_def intro!: leads_keep [OF stable_consistent] safely_Provision
    safely_Deprovision safely_Unbind safely_Update_request)

lemma controller_evolves:
  assumes "controller_step namespace (view w) (view w')"
  shows "evolves w w'"
  using assms
proof (cases rule: controller_step.cases)
  case (controller_status c sr rs ready)
  then have c: "cl_composites (view w) (c_gvk c, c_name c) = Some c" by simp
  let ?c = "c\<lparr>c_ready := ready, c_resourceRefs := rs, c_secretRef := sr\<rparr>"
  have stored: "credentials_stored namespace (put_composite ?c (view w))"
    if "credentials_stored namespace (view w)"
    using that c by (auto simp: credentials_stored_def put_composite_def)
  have "instances_agree (put_composite ?c (view w))" if "instances_agree (view w)"
    using that c by (intro instances_agree_put) (auto simp: instances_agree_def plan_agrees_def)
  with stored controller_status show ?thesis
    by (auto simp: evolves_def consistent_def no_user_plans_def) (simp_all add: put_composite_def)
next
  case (controller_finalized g n c)
  then have "deleted g n (view w) (view w')" by (simp add: deleted_def)
  then show ?thesis by (rule evolves_deleted)
next
  case (controller_secret s)
  then show ?thesis
    by (auto intro!: evolves_secret)
next
  case (controller_no_secret k)
  then show ?thesis
    by (auto simp: evolves_def consistent_def no_user_plans_def credentials_stored_def
        instances_agree_def plan_agrees_def)
qed (simp add: evolves_same)

end

section \<open>The broker at work\<close>

locale served_broker = broker_client b view for b :: "'w Broker" and view :: "'w \<Rightarrow> cluster" +
  fixes env :: "'w \<Rightarrow> 'w \<Rightarrow> bool"
  assumes controllers: "env w w' \<Longrightarrow> controller_step namespace (view w) (view w')"

sublocale served_broker \<subseteq> requests: guarantee evolves consistent env "request_thread b" answer_holds
proof
  show "stable evolves consistent" by (rule stable_consistent)
  show "consistent w \<Longrightarrow> env w w' \<Longrightarrow> evolves w w'" for w w'
    by (rule controller_evolves [OF controllers])
qed (rule evolves_refl evolves_trans safely_request leads_request)+

context served_broker
begin

lemma served_evolves:
  assumes "pool_reaches (request_thread b) env ([], w) (ts, w')" and "no_user_plans b (view w)"
    and "credentials_stored namespace (view w)" and "instances_agree (view w)"
  shows "evolves w w'" "credentials_stored namespace (view w') \<and> instances_agree (view w')"
  using requests.pool_guarantee(1) [OF assms(1)] assms(2-4)
  by (simp_all add: evolves_def consistent_def)

lemma served_password:
  assumes "pool_reaches (request_thread b) env ([], w) (ts, w')" and "no_user_plans b (view w)"
    and "credentials_stored namespace (view w)" and "instances_agree (view w)"
    and "cl_secrets (view w) (namespace, secretName bid) = Some s"
  shows "\<exists>s'. cl_secrets (view w') (namespace, secretName bid) = Some s' \<and> s_data s' = s_data s"
  using served_evolves(1) [OF assms(1-4)] assms(5) by (simp add: evolves_def)

lemma served_bind:
  assumes "pool_reaches (request_thread b) env ([], w) (ts, w')" and "no_user_plans b (view w)"
    and "credentials_stored namespace (view w)" and "instances_agree (view w)"
    and "(BindRequest i bid planID async, Done (Ok (BindAnswer bi))) \<in> set ts"
    and "map_of (bi_Credentials bi) ''database'' \<noteq> None"
  shows "\<exists>pw s. map_of (bi_Credentials bi) SecretPasswordKey = Some (CString pw) \<and>
    cl_secrets (view w') (namespace, secretName bid) = Some s \<and> s_data s = Some [SecretPasswordKey \<mapsto> pw]"
  using requests.pool_answer [OF assms(1) _ assms(5)] assms(2-4,6)
  by (auto simp: consistent_def answered_password_def has_password_def)

end

end
