(* ===== verification/Concurrent_Requests.thy ===== *)
theory Concurrent_Requests
  imports Request_Safety Broker_Memory
begin

text \<open>
  The broker's requests as a pool of threads, beside the controllers of Crossplane: what holds in every
  state that any number of requests can reach, and of every answer they gave. Taking one request
  after the other is one of the interleavings.
\<close>

section \<open>Operations taken one at a time\<close>

text \<open>A run of the state machine of \<open>Broker_Steps\<close> is one of the interleavings.\<close>

lemma runT_answering: "snd (runT (answering f t) w) = snd (runT t w)"
  by (cases "runT t w"; cases "fst (runT t w)") (auto simp: answering_def bindM_def)

lemma broker_step_request:
  assumes "broker_step b w w'"
  obtains r where "snd (runT (request_thread b r) w) = w'"
  using assms
proof (cases rule: broker_step.cases)
  case (step_Provision rctx i planID params r)
  then have "snd (runT (request_thread b (ProvisionRequest rctx i planID params)) w) = w'"
    by (simp add: runT_answering runT_Provision)
  with that show ?thesis .
next
  case (step_Deprovision i planID r)
  then have "snd (runT (request_thread b (DeprovisionRequest i planID)) w) = w'"
    by (simp add: runT_answering runT_Deprovision)
  with that show ?thesis .
next
  case (step_Bind i bid planID async r)
  then have "snd (runT (request_thread b (BindRequest i bid planID async)) w) = w'"
    by (simp add: runT_answering runT_Bind)
  with that show ?thesis .
next
  case (step_Unbind i bid planID r)
  then have "snd (runT (request_thread b (UnbindRequest i bid planID)) w) = w'"
    by (simp add: runT_answering runT_Unbind)
  with that show ?thesis .
next
  case (step_Update i serviceID oldPlanID newPlanID raw r)
  then have "snd (runT (request_thread b (UpdateRequest i serviceID oldPlanID newPlanID raw)) w) = w'"
    by (simp add: runT_answering runT_Update)
  with that show ?thesis .
qed

lemma one_at_a_time:
  assumes "broker_reaches b w w'"
  shows "\<exists>ts. pool_reaches (request_thread b) env ([], w) (ts, w')"
  using assms
proof (induction rule: broker_reaches.induct)
  case (reaches_step w w1 w2)
  from reaches_step.IH obtain ts where ts: "pool_reaches (request_thread b) env ([], w) (ts, w1)" ..
  from reaches_step.hyps(2) obtain r where "snd (runT (request_thread b r) w1) = w2"
    by (rule broker_step_request)
  then have "pool_reaches (request_thread b) env (ts @ [(r, request_thread b r)], w1)
      (ts @ [(r, Done (fst (runT (request_thread b r) w1)))], w2)"
    using pool_alone [of "request_thread b" env ts r "request_thread b r" w1] by simp
  moreover have "pool_step (request_thread b) env (ts, w1) (ts @ [(r, request_thread b r)], w1)"
    by (rule pool_spawn)
  ultimately show ?case using ts by (meson converse_rtranclp_into_rtranclp rtranclp_trans)
qed blast

section \<open>A deprovision and a provision at once\<close>

context reliable_broker
begin

lemma DeleteInstance_succeeds:
  assumes "GVK (cp_client (br_cp b)) p = Ok g" and "cl_composites (view w) (g, i) \<noteq> None"
  shows "\<exists>w'. DeleteInstance (br_cp b) i p w = (Ok (), w') \<and> deleted g i (view w) (view w')"
proof -
  from delete_composite_succeeds [OF assms(2)] obtain w'
    where del: "l_deleteComposite (cp_client (br_cp b)) g i False w = (Inr (), w')" by blast
  with assms(1) have "DeleteInstance (br_cp b) i p w = (Ok (), w')"
    by (simp add: DeleteInstance_def writeM_def)
  with delete_composite_ok [OF del] show ?thesis by blast
qed

text \<open>A deprovision that has made all its checks has only its deletion left.\<close>

lemma deprovision_checked:
  assumes "Deprovision b i planID w = (Ok dres, w1)"
    and "n < length ts" and "ts ! n = (r, request_thread b (DeprovisionRequest i planID))"
  shows "\<exists>p inst g. found_instance b i (view w) p inst \<and> GVK (cp_client (br_cp b)) p = Ok g \<and>
    pool_reaches prog env (ts, w)
      (ts[n := (r, bindT (atomT (DeleteInstance (br_cp b) i p)) (\<lambda>_. Done (Ok (DeprovisionAnswer dres))))], w)"
  using assms(1)
proof (cases rule: Deprovision_run)
  case (delete p inst sb r1)
  from getPlanInstance_found(1) [OF delete(1)] have found: "found_instance b i (view w) p inst" .
  then have name: "c_name (i_Composite inst) = i" using found_instance_name by (simp add: ID_def)
  from delete(5) have dres: "dres = \<lparr>ds_IsAsync = False\<rparr>" by (cases r1) simp_all
  let ?last = "\<lambda>p inst. bindT (atomT (DeleteInstance (br_cp b) (c_name (i_Composite inst)) p))
    (\<lambda>_. Done (Ok (DeprovisionAnswer \<lparr>ds_IsAsync = False\<rparr>)))"
  let ?rest = "\<lambda>(p, inst). bindT (Done (ServiceBinderFactory (ServiceName (i_Labels inst)) (Some inst))) (\<lambda>sb.
    bindT (readT (sb_Deprovisionable (br_cp b) sb)) (\<lambda>_. ?last p inst))"
  have thread: "request_thread b (DeprovisionRequest i planID) = bindT (getPlanInstance_thread b planID i) ?rest"
    by (simp add: answering_def Deprovision_thread_def bindT_assoc bindT_return case_prod_unfold)
  have "pool_reaches prog env (ts, w) (ts[n := (r, ?rest (p, inst))], w)"
  proof (rule pool_part_Ok [where f = ?rest and a = "(p, inst)", OF _ assms(2)])
    show "runT (getPlanInstance_thread b planID i) w = (Ok (p, inst), w)"
      using delete(1) by (simp add: runT_getPlanInstance)
    show "ts ! n = (r, bindT (getPlanInstance_thread b planID i) ?rest)" using assms(3) unfolding thread .
  qed
  also have "?rest (p, inst) = bindT (readT (sb_Deprovisionable (br_cp b) sb)) (\<lambda>_. ?last p inst)"
    by (simp add: delete(2) bindT_return)
  also have "pool_reaches prog env
      (ts[n := (r, bindT (readT (sb_Deprovisionable (br_cp b) sb)) (\<lambda>_. ?last p inst))], w)
      ((ts[n := (r, bindT (readT (sb_Deprovisionable (br_cp b) sb)) (\<lambda>_. ?last p inst))])
         [n := (r, ?last p inst)], w)"
  proof (rule pool_part_Ok [where f = "\<lambda>_. ?last p inst" and a = "()"])
    show "runT (readT (sb_Deprovisionable (br_cp b) sb)) w = (Ok (), w)" using delete(3) by simp
  qed (use assms(2) in simp_all)
  finally have "pool_reaches prog env (ts, w) (ts[n := (r, ?last p inst)], w)" by simp
  moreover from found obtain g where "GVK (cp_client (br_cp b)) p = Ok g" by (auto simp: found_instance_def)
  ultimately show ?thesis using found by (auto simp: name dres)
qed simp_all

lemma race:
  assumes "instance_is b planG i (service_is MariaDBService) w"
    and "Deprovision b i planG w = (Ok dres, w1)"
    and "plan_service b planD MariaDBDatabaseService w"
    and "map_of kvs instanceParamsParentReferenceName = Some (JString i)"
    and run: "Provision b rctx d planD (Some (Json (JObject kvs))) w = (Ok pres, w2)"
  shows "\<exists>w' p inst g c. pool_reaches (request_thread b) env ([], w)
      ([(DeprovisionRequest i planG, Done (Ok (DeprovisionAnswer dres))),
        (ProvisionRequest rctx d planD (Some (Json (JObject kvs))), Done (Ok (ProvisionAnswer pres)))], w') \<and>
    found_instance b i (view w) p inst \<and> GVK (cp_client (br_cp b)) p = Ok g \<and>
    c_name c = d \<and> c_labels c ParentIDLabel = Some i \<and>
    cl_composites (view w) (c_gvk c, d) = None \<and>
    deleted g i (put_composite c (view w)) (view w')"
proof -
  let ?D = "DeprovisionRequest i planG" and ?P = "ProvisionRequest rctx d planD (Some (Json (JObject kvs)))"
  let ?start = "arrived (request_thread b) [?D, ?P]"
  from deprovision_checked [OF assms(2), of 0 ?start ?D "request_thread b" env] obtain p inst g
    where found: "found_instance b i (view w) p inst" and g: "GVK (cp_client (br_cp b)) p = Ok g"
      and checked: "pool_reaches (request_thread b) env (?start, w)
        (?start[0 := (?D, bindT (atomT (DeleteInstance (br_cp b) i p))
          (\<lambda>_. Done (Ok (DeprovisionAnswer dres))))], w)"
    by (auto simp: arrived_def)
  let ?waiting = "[(?D, bindT (atomT (DeleteInstance (br_cp b) i p)) (\<lambda>_. Done (Ok (DeprovisionAnswer dres)))),
    (?P, request_thread b ?P)]"
  have "pool_reaches (request_thread b) env ([], w) (?start, w)"
    using pool_arrived [of "request_thread b" env "[]" w "[?D, ?P]"] by simp
  also note checked
  also have "?start[0 := (?D, bindT (atomT (DeleteInstance (br_cp b) i p))
      (\<lambda>_. Done (Ok (DeprovisionAnswer dres))))] = ?waiting" by (simp add: arrived_def)
  also have "pool_reaches (request_thread b) env (?waiting, w)
      (?waiting[1 := (?P, Done (Ok (ProvisionAnswer pres)))], w2)"
    by (rule pool_part_Ok [where t = "Provision_thread b rctx d planD (Some (Json (JObject kvs)))"])
      (use run in \<open>simp_all add: runT_Provision answering_def\<close>)
  finally have granted: "pool_reaches (request_thread b) env ([], w)
      (?waiting[1 := (?P, Done (Ok (ProvisionAnswer pres)))], w2)" .
  from run obtain c where c: "c_name c = d" "c_labels c ParentIDLabel = Some i"
    "cl_composites (view w) (c_gvk c, d) = None" and v2: "view w2 = put_composite c (view w)"
  proof (cases rule: Provision_Ok)
    case (created q c ap)
    from assms(3) obtain q' l where "Plan (br_cp b) planD w = Ok q'" "p_Labels q' = Some l"
      "ServiceName l = MariaDBDatabaseService" by (rule plan_serviceE)
    with created(9) have "unmarshal_map (Json (JObject kvs)) = Ok ap"
      by (intro provision_params_database(1) [OF _ _ created(5)]) simp_all
    then have "ap = GoMap kvs" by simp
    with assms(4) created(6) have "c_labels c ParentIDLabel = Some i" "c_name c = d"
      by (simp_all add: fresh_instance_def parent_of_def)
    with that created(7,8) show ?thesis by blast
  qed simp
  from found g have "cl_composites (view w2) (g, i) \<noteq> None"
    by (auto simp: found_instance_def v2 put_composite_def)
  from DeleteInstance_succeeds [OF g this] obtain w'
    where del: "DeleteInstance (br_cp b) i p w2 = (Ok (), w')" and gone: "deleted g i (view w2) (view w')" by blast
  note granted
  also have "pool_reaches (request_thread b) env (?waiting[1 := (?P, Done (Ok (ProvisionAnswer pres)))], w2)
      ((?waiting[1 := (?P, Done (Ok (ProvisionAnswer pres)))])[0 := (?D, Done (Ok (DeprovisionAnswer dres)))], w')"
    by (rule pool_part_Ok [where t = "atomT (DeleteInstance (br_cp b) i p)"]) (use del in simp_all)
  finally have "pool_reaches (request_thread b) env ([], w)
      ([(?D, Done (Ok (DeprovisionAnswer dres))), (?P, Done (Ok (ProvisionAnswer pres)))], w')" by simp
  with found g c gone v2 show ?thesis by metis
qed

end

section \<open>The broker in memory at work\<close>

definition mem_controllers :: "string \<Rightarrow> mem \<Rightarrow> mem \<Rightarrow> bool" where
  "mem_controllers ns w w' \<longleftrightarrow> controller_step ns (mem_view w) (mem_view w')"

lemma mem_broker_config [simp]: "cp_config (br_cp (mem_broker cfg pc)) = cfg"
  by (simp add: mem_broker_def NewBroker_def mem_crossplane_def)

interpretation mem_served:
  served_broker "mem_broker cfg pc" mem_view "mem_controllers (Namespace cfg)"
  for cfg :: config and pc :: PlanUpdateChecker
  by unfold_locales (simp add: mem_controllers_def)

lemma ex_served: "served_broker ex_broker mem_view (mem_controllers ''broker'')"
  using mem_served.served_broker_axioms [of ex_config ex_rules] by (simp add: ex_broker_def ex_config_def)

section \<open>Two requests at once\<close>

definition ex_lone :: mem where
  "ex_lone = ex_empty\<lparr>m_composites := [ex_galera], m_secrets := [ex_connection]\<rparr>"

definition ex_race :: "broker_request list" where
  "ex_race =
     [DeprovisionRequest ''galera-1'' ''plan-galera'',
      ProvisionRequest ex_rctx ''db-2'' ''plan-db''
        (Some (Json (JObject [(''parent_reference'', JString ''galera-1'')])))]"

text \<open>The same cluster with a binding, and two requests for it.\<close>

definition ex_pair :: "broker_request list" where
  "ex_pair =
     [UnbindRequest ''db-1'' ''bind-1'' ''plan-db'', BindRequest ''db-1'' ''bind-1'' ''plan-db'' True]"

text \<open>Some requests that arrive together and take their calls as a schedule says.\<close>

definition ex_run ::
  "broker_request list \<Rightarrow> nat list \<Rightarrow> mem \<Rightarrow> (mem, broker_request, broker_answer) pool" where
  "ex_run rs ns w = run_schedule ns (arrived (request_thread ex_broker) rs, w)"

lemma ex_run_reaches:
  assumes "ex_run rs ns w = (ts, w')"
  shows "pool_reaches (request_thread ex_broker) env ([], w) (ts, w')"
proof -
  let ?p = "(arrived (request_thread ex_broker) rs, w)"
  have "pool_reaches (request_thread ex_broker) env ([], w) ?p"
    using pool_arrived [of "request_thread ex_broker" env "[]" w rs] by simp
  also have "pool_reaches (request_thread ex_broker) env ?p (run_schedule ns ?p)"
    by (rule run_schedule_reaches)
  finally show ?thesis using assms by (simp add: ex_run_def)
qed

fun succeeded :: "('w, 'a) thread \<Rightarrow> bool" where
  "succeeded (Done (Ok a)) = True"
| "succeeded t = False"

lemma ex_bound_consistent:
  "no_user_plans ex_broker (mem_view ex_bound)"
  "credentials_stored (Namespace (cp_config (br_cp ex_broker))) (mem_view ex_bound)"
  "instances_agree (mem_view ex_bound)"
proof -
  have ns: "Namespace (cp_config (br_cp ex_broker)) = ''broker''" by code_simp
  have "list_all (\<lambda>co. co_typeRefKind co \<noteq> Kind mariaDBUserGroupVersionKind)
      (cl_compositions (mem_view ex_bound))" by code_simp
  then show "no_user_plans ex_broker (mem_view ex_bound)" by (rule no_user_plansI)
  have "list_all (\<lambda>c. c_gvk c = mariaDBUserGroupVersionKind \<longrightarrow>
      \<not> Option.is_none (cl_secrets (mem_view ex_bound) (''broker'', secretName (c_name c))))
      (m_composites ex_bound)" by code_simp
  then show "credentials_stored (Namespace (cp_config (br_cp ex_broker))) (mem_view ex_bound)"
    unfolding ns by (auto simp: credentials_stored_def mem_view_def list_all_iff Option.is_none_def
        dest!: lookup_compositeD)
  have "list_all (\<lambda>c. Option.is_none (c_labels c PrincipalLabel)) (m_composites ex_bound)"
    by code_simp
  then show "instances_agree (mem_view ex_bound)"
    by (auto simp: instances_agree_def mem_view_def list_all_iff Option.is_none_def
        dest!: lookup_compositeD)
qed

section \<open>Properties\<close>

text \<open>C2: In every state that any number of concurrent requests can reach, interleaved call by call with
  each other and with Crossplane's controllers and whatever the API answers, each MariaDB user
  composite has the secret with its password, and each instance the broker created carries its own
  name and the plan name and service level of the composition it refers to, if that was so at the
  start and no plan has the kind of the user composites.\<close>

theorem interleaved_requests_keep_invariants:
  assumes "served_broker b view env" and "pool_reaches (request_thread b) env ([], w) (ts, w')"
    and "no_user_plans b (view w)"
    and "credentials_stored (Namespace (cp_config (br_cp b))) (view w)"
    and "instances_agree (view w)"
  shows "credentials_stored (Namespace (cp_config (br_cp b))) (view w') \<and> instances_agree (view w')"
  using assms by (rule served_broker.served_evolves(2))

theorem interleaved_requests_keep_invariants_witness:
  "\<forall>ns. credentials_stored ''broker'' (mem_view (snd (ex_run ex_pair ns ex_bound))) \<and>
     instances_agree (mem_view (snd (ex_run ex_pair ns ex_bound)))"
proof
  fix ns
  have ns: "Namespace (cp_config (br_cp ex_broker)) = ''broker''" by code_simp
  obtain ts w where run: "ex_run ex_pair ns ex_bound = (ts, w)" by fastforce
  from interleaved_requests_keep_invariants [OF ex_served ex_run_reaches [OF run] ex_bound_consistent]
  show "credentials_stored ''broker'' (mem_view (snd (ex_run ex_pair ns ex_bound))) \<and>
     instances_agree (mem_view (snd (ex_run ex_pair ns ex_bound)))"
    by (simp add: run ns)
qed

text \<open>C3: No request changes or removes the data of the secret of a binding, and so its password, however
  requests interleave with each other and with the controllers: a bind never replaces a password,
  and an unbind that writes the owner into the secret writes back the data it is still holding.\<close>

theorem interleaved_requests_keep_passwords:
  assumes "served_broker b view env" and "pool_reaches (request_thread b) env ([], w) (ts, w')"
    and "no_user_plans b (view w)"
    and "credentials_stored (Namespace (cp_config (br_cp b))) (view w)"
    and "instances_agree (view w)"
    and "cl_secrets (view w) (Namespace (cp_config (br_cp b)), secretName bid) = Some s"
  shows "\<exists>s'. cl_secrets (view w') (Namespace (cp_config (br_cp b)), secretName bid) = Some s' \<and>
    s_data s' = s_data s"
  using assms by (rule served_broker.served_password)

theorem interleaved_requests_keep_passwords_witness:
  "\<forall>ns. \<exists>s. cl_secrets (mem_view (snd (ex_run ex_pair ns ex_bound))) (''broker'', secretName ''bind-1'')
       = Some s \<and> s_data s = Some [SecretPasswordKey \<mapsto> ''s3cret'']"
proof
  fix ns
  have ns: "Namespace (cp_config (br_cp ex_broker)) = ''broker''" by code_simp
  obtain ts w where run: "ex_run ex_pair ns ex_bound = (ts, w)" by fastforce
  have s: "cl_secrets (mem_view ex_bound) (Namespace (cp_config (br_cp ex_broker)), secretName ''bind-1'') =
      Some (stored_secret ''broker'' ''bind-1'' ''db-1'' ''galera-1'' ''s3cret'')"
    unfolding ns by (simp add: mem_view_def ex_bound_def secret_key_of_def)
  from interleaved_requests_keep_passwords [OF ex_served ex_run_reaches [OF run] ex_bound_consistent s]
  show "\<exists>s. cl_secrets (mem_view (snd (ex_run ex_pair ns ex_bound))) (''broker'', secretName ''bind-1'')
       = Some s \<and> s_data s = Some [SecretPasswordKey \<mapsto> ''s3cret'']"
    by (simp add: run ns)
qed

text \<open>C4: The credentials of a database that a bind answered hold the password in the binding's secret,
  then and in every later state, whatever requests ran beside it and will run after it, and also
  when the API lost responses: no other bind for the same binding can have been answered another
  password.\<close>

theorem answered_credentials_stand:
  assumes "served_broker b view env" and "pool_reaches (request_thread b) env ([], w) (ts, w')"
    and "no_user_plans b (view w)"
    and "credentials_stored (Namespace (cp_config (br_cp b))) (view w)"
    and "instances_agree (view w)"
    and "(BindRequest i bid planID async, Done (Ok (BindAnswer bi))) \<in> set ts"
    and "map_of (bi_Credentials bi) ''database'' \<noteq> None"
  shows "\<exists>pw s. map_of (bi_Credentials bi) SecretPasswordKey = Some (CString pw) \<and>
    cl_secrets (view w') (Namespace (cp_config (br_cp b)), secretName bid) = Some s \<and>
    s_data s = Some [SecretPasswordKey \<mapsto> pw]"
  using assms by (rule served_broker.served_bind)

theorem answered_credentials_stand_witness:
  "\<exists>creds w pw s. Bind ex_broker ''db-1'' ''b'' ''plan-db'' True ex_bound =
       (Ok \<lparr>bi_IsAsync = True, bi_Credentials = creds\<rparr>, w) \<and>
     map_of creds SecretPasswordKey = Some (CString pw) \<and>
     cl_secrets (mem_view w) (''broker'', secretName ''b'') = Some s \<and>
     s_data s = Some [SecretPasswordKey \<mapsto> pw]"
proof -
  let ?bind = "Bind ex_broker ''db-1'' ''b'' ''plan-db'' True ex_bound"
  let ?r = "BindRequest ''db-1'' ''b'' ''plan-db'' True"
  have ns: "Namespace (cp_config (br_cp ex_broker)) = ''broker''" by code_simp
  have "case ?bind of (Ok bi, w) \<Rightarrow> bi_IsAsync bi \<and> \<not> Option.is_none (map_of (bi_Credentials bi) ''database'')
      | _ \<Rightarrow> False"
    by code_simp
  then obtain bi w where bind: "?bind = (Ok bi, w)" and async: "bi_IsAsync bi"
    and database: "map_of (bi_Credentials bi) ''database'' \<noteq> None"
    by (auto simp: Option.is_none_def split: prod.splits result.splits)
  then have "runT (request_thread ex_broker ?r) ex_bound = (Ok (BindAnswer bi), w)"
    by (simp add: answering_def runT_Bind bindM_def)
  with pool_alone [of "request_thread ex_broker" "mem_controllers ''broker''" "[]" ?r
      "request_thread ex_broker ?r" ex_bound]
    pool_arrived [of "request_thread ex_broker" "mem_controllers ''broker''" "[]" ex_bound "[?r]"]
  have "pool_reaches (request_thread ex_broker) (mem_controllers ''broker'') ([], ex_bound)
      ([(?r, Done (Ok (BindAnswer bi)))], w)"
    by (simp add: arrived_def)
  from answered_credentials_stand [OF ex_served this ex_bound_consistent _ database]
  obtain pw s where "map_of (bi_Credentials bi) SecretPasswordKey = Some (CString pw)"
    "cl_secrets (mem_view w) (''broker'', secretName ''b'') = Some s"
    "s_data s = Some [SecretPasswordKey \<mapsto> pw]" unfolding ns by fastforce
  with bind async show ?thesis by (cases bi) auto
qed

text \<open>C18: Deprovisioning checks for databases and deletes in two calls, and a database can be created in
  between. On a cluster that answers, take any deprovision of a Galera cluster and any provision of a
  database that names it as parent, each of which would be granted if it came alone: there is an
  interleaving of the two in which both are granted, and which leaves the new database with the
  cluster as its parent and the cluster deleted.\<close>

theorem deprovision_races_with_provision:
  assumes "reliable_broker b view"
    and "instance_is b planG i (service_is MariaDBService) w"
    and "Deprovision b i planG w = (Ok dres, w1)"
    and "plan_service b planD MariaDBDatabaseService w"
    and "map_of kvs instanceParamsParentReferenceName = Some (JString i)"
    and "Provision b rctx d planD (Some (Json (JObject kvs))) w = (Ok pres, w2)"
  shows "\<exists>w' p inst g c. pool_reaches (request_thread b) env ([], w)
      ([(DeprovisionRequest i planG, Done (Ok (DeprovisionAnswer dres))),
        (ProvisionRequest rctx d planD (Some (Json (JObject kvs))), Done (Ok (ProvisionAnswer pres)))], w') \<and>
    found_instance b i (view w) p inst \<and> GVK (cp_client (br_cp b)) p = Ok g \<and>
    c_name c = d \<and> c_labels c ParentIDLabel = Some i \<and>
    cl_composites (view w) (c_gvk c, d) = None \<and>
    deleted g i (put_composite c (view w)) (view w')"
  using assms by (rule reliable_broker.race)

theorem deprovision_races_with_provision_witness:
  "\<exists>ts w' (c :: composite). pool_reaches (request_thread ex_broker) (mem_controllers ''broker'') ([], ex_lone) (ts, w') \<and>
     list_all (succeeded \<circ> snd) ts \<and> map fst ts = ex_race \<and>
     c_name c = ''db-2'' \<and> c_labels c ParentIDLabel = Some ''galera-1''"
proof -
  have reliable: "reliable_broker ex_broker mem_view" using mem_is_reliable by (simp add: ex_broker_def)
  have galera: "instance_is ex_broker ''plan-galera'' ''galera-1'' (service_is MariaDBService) ex_lone"
    by code_simp
  have db: "plan_service ex_broker ''plan-db'' MariaDBDatabaseService ex_lone" by code_simp
  have "case fst (Deprovision ex_broker ''galera-1'' ''plan-galera'' ex_lone) of Ok r \<Rightarrow> True | _ \<Rightarrow> False"
    by code_simp
  then obtain dres w1 where deprovision:
    "Deprovision ex_broker ''galera-1'' ''plan-galera'' ex_lone = (Ok dres, w1)"
    by (cases "Deprovision ex_broker ''galera-1'' ''plan-galera'' ex_lone") (auto split: result.splits)
  let ?kvs = "[(''parent_reference'', JString ''galera-1'')]"
  have "case fst (Provision ex_broker ex_rctx ''db-2'' ''plan-db'' (Some (Json (JObject ?kvs))) ex_lone) of
      Ok r \<Rightarrow> True | _ \<Rightarrow> False" by code_simp
  then obtain pres w2 where provision:
    "Provision ex_broker ex_rctx ''db-2'' ''plan-db'' (Some (Json (JObject ?kvs))) ex_lone = (Ok pres, w2)"
    by (cases "Provision ex_broker ex_rctx ''db-2'' ''plan-db'' (Some (Json (JObject ?kvs))) ex_lone")
      (auto split: result.splits)
  have parent: "map_of ?kvs instanceParamsParentReferenceName = Some (JString ''galera-1'')"
    by (simp add: instanceParamsParentReferenceName_def)
  from deprovision_races_with_provision [OF reliable galera deprovision db parent provision]
  obtain w' and c :: composite
    where "pool_reaches (request_thread ex_broker) (mem_controllers ''broker'') ([], ex_lone)
      ([(DeprovisionRequest ''galera-1'' ''plan-galera'', Done (Ok (DeprovisionAnswer dres))),
        (ProvisionRequest ex_rctx ''db-2'' ''plan-db'' (Some (Json (JObject ?kvs))),
         Done (Ok (ProvisionAnswer pres)))], w')"
    and "c_name c = ''db-2''" "c_labels c ParentIDLabel = Some ''galera-1''" by blast
  then show ?thesis
    by (intro exI [of _ "[(DeprovisionRequest ''galera-1'' ''plan-galera'', Done (Ok (DeprovisionAnswer dres))),
        (ProvisionRequest ex_rctx ''db-2'' ''plan-db'' (Some (Json (JObject ?kvs))),
         Done (Ok (ProvisionAnswer pres)))]"] exI [of _ w'] exI [of _ c])
      (simp add: ex_race_def)
qed

end
