(* ===== verification/Request_Bounds.thy ===== *)
theory Request_Bounds
  imports Concurrent_Requests
begin

text \<open>
  How many calls to the cluster a request of the broker makes. Only the search for an instance
  without its plan depends on the cluster, with one call for each plan of the catalog; everything
  else is a fixed number of calls, so that a request ends however it interleaves with others.
\<close>

section \<open>The bounds\<close>

text \<open>With \<open>N\<close> plans: an instance is found by its plan, or by trying the plans of a list.\<close>

definition lookup_calls :: "nat \<Rightarrow> string \<Rightarrow> nat" where
  "lookup_calls N planID = (if planID = '''' then Suc N else 2)"

fun request_calls :: "nat \<Rightarrow> broker_request \<Rightarrow> nat" where
  "request_calls N (ProvisionRequest rctx i planID params) = (if params = None then 3 else 4)"
| "request_calls N (DeprovisionRequest i planID) = lookup_calls N planID + 2"
| "request_calls N (BindRequest i bid planID async) = lookup_calls N planID + 6"
| "request_calls N (UnbindRequest i bid planID) = lookup_calls N planID + 5"
| "request_calls N (UpdateRequest i serviceID oldPlanID newPlanID raw) =
     lookup_calls N oldPlanID + (if raw_is_empty raw then 2 else 3)"

section \<open>The threads are within them\<close>

lemma within_find_instance: "within P (find_instance_thread cp i ps) (length ps)"
  by (induction ps) (auto intro!: within_call split: option.split)

lemma within_getPlanInstance:
  assumes "\<And>w ps. P w \<Longrightarrow> Plans (br_cp b) (ServiceIDs (cp_config (br_cp b))) w = Ok ps \<Longrightarrow> length ps \<le> N"
  shows "within P (getPlanInstance_thread b planID i) (lookup_calls N planID)"
proof (cases "planID = ''''")
  case True
  have "within P (bindT (find_instance_thread (br_cp b) i ps) (\<lambda>found. Done (r found))) N"
    if "P w" "Plans (br_cp b) (ServiceIDs (cp_config (br_cp b))) w = Ok ps"
    for w ps and r :: "(inst \<times> plan) option \<Rightarrow> (plan \<times> inst) result"
  proof (rule within_more)
    show "within P (bindT (find_instance_thread (br_cp b) i ps) (\<lambda>found. Done (r found))) (length ps + 0)"
      by (rule within_bindT [OF within_find_instance]) simp
    show "length ps + 0 \<le> N" using assms that by simp
  qed
  with True show ?thesis
    unfolding getPlanInstance_thread_def lookup_calls_def by (auto intro!: within_call)
next
  case False
  then show ?thesis
    unfolding getPlanInstance_thread_def lookup_calls_def numeral_2_eq_2 by (auto intro!: within_call)
qed

lemma within_createBinding: "within P (createBinding_thread cp bid i parentReference) 3"
  unfolding createBinding_thread_def numeral_3_eq_3 Let_def
  by (intro within_call within_value within_last within_handleT within_atomT) simp

lemma within_db_Bind: "within P (db_Bind_thread cp inst bid) 6"
proof -
  have rest: "within P (bindT (createBinding_thread cp bid (ID inst) parentRef) (\<lambda>pw.
      bindT (readT (connection_details cp (Sentinel ErrInstanceNotReady) cmp)) (\<lambda>secret.
      bindT (Done (mapMariadbEndpoint (secret_data secret))) (\<lambda>endpoint.
      readT (database_credentials cp inst bid pw endpoint))))) (3 + Suc (Suc 0))" for parentRef cmp
    by (intro within_bindT within_createBinding within_call within_value within_atomT)
  have "within P (db_Bind_thread cp inst bid) (Suc (3 + Suc (Suc 0)))"
    unfolding db_Bind_thread_def by (intro within_call within_value rest)
  then show ?thesis by simp
qed

lemma within_sb_Bind: "within P (sb_Bind_thread cp sb bid) 6"
proof (cases sb)
  case (MariadbDatabaseServiceBinder i)
  then show ?thesis by (auto intro!: within_value within_db_Bind)
qed (auto intro!: within_value within_more [OF within_atomT])

lemma within_mark: "within P (mark_thread cp bid) 4"
proof -
  have "within P (mark_thread cp bid) (Suc (Suc (Suc (Suc 0))))"
    unfolding mark_thread_def Let_def by (auto intro!: within_call within_atomT)
  then show ?thesis by (simp add: eval_nat_numeral)
qed

lemma within_sb_Unbind: "within P (sb_Unbind_thread cp sb bid) 5"
proof (cases sb)
  case (MariadbDatabaseServiceBinder i)
  have "within P (db_Unbind_thread cp bid) (4 + Suc 0)"
    unfolding db_Unbind_thread_def
    by (intro within_bindT within_handleT within_mark within_atomT)
  with MariadbDatabaseServiceBinder show ?thesis by simp
qed (auto intro!: within_more [OF within_atomT])

text \<open>An operation on an instance: the calls that find it, and those that follow.\<close>

lemma within_found:
  assumes "within P (getPlanInstance_thread b planID i) m"
    and "\<And>p inst. within P (f (p, inst)) n"
  shows "within P (bindT (getPlanInstance_thread b planID i) f) (m + n)"
  using assms by (auto intro!: within_bindT)

lemma within_Deprovision:
  assumes "within P (getPlanInstance_thread b planID i) m"
  shows "within P (Deprovision_thread b i planID) (m + 2)"
  unfolding Deprovision_thread_def numeral_2_eq_2
  by (rule within_found [OF assms]) (auto intro!: within_value within_call)

lemma within_Bind:
  assumes "within P (getPlanInstance_thread b planID i) m"
  shows "within P (Bind_thread b i bid planID async) (m + 6)"
  unfolding Bind_thread_def
  by (rule within_found [OF assms]) (auto intro!: within_value within_last within_sb_Bind)

lemma within_Unbind:
  assumes "within P (getPlanInstance_thread b planID i) m"
  shows "within P (Unbind_thread b i bid planID) (m + 5)"
  unfolding Unbind_thread_def
  by (rule within_found [OF assms]) (auto intro!: within_value within_last within_handleT within_sb_Unbind)

text \<open>The parameters of a request: validating them is a call, having none is not.\<close>

lemma within_then:
  assumes "within P t m" and "\<And>a. within P (f a) (Suc 0)"
  shows "within P (bindT t f) (Suc m)"
  using within_bindT [OF assms] by simp

lemma within_if: "(c \<Longrightarrow> within P t n) \<Longrightarrow> (\<not> c \<Longrightarrow> within P u n) \<Longrightarrow> within P (if c then t else u) n"
  by simp

lemma within_Update:
  assumes "within P (getPlanInstance_thread b oldPlanID i) m"
  shows "within P (Update_thread b i serviceID oldPlanID newPlanID raw) (m + (if raw_is_empty raw then 2 else 3))"
proof -
  have params: "within P (case raw of None \<Rightarrow> Done (Ok (GoMap [])) | Some rw \<Rightarrow>
      if raw_is_empty raw then Done (Ok (GoMap [])) else readT (v rw))
      (if raw_is_empty raw then 0 else 1)" for v :: "raw_json \<Rightarrow> 'a \<Rightarrow> go_map result"
    by (cases raw) (simp_all add: raw_is_empty_def within_atomT)
  have n: "(if raw_is_empty raw then 2 else 3) = Suc (Suc (if raw_is_empty raw then 0 else 1))" by simp
  show ?thesis
    unfolding Update_thread_def Let_def n
    by (rule within_found [OF assms])
      (auto intro!: within_if within_value within_call within_then params within_atomT split del: if_split)
qed

lemma within_Provision:
  "within P (Provision_thread b rctx i planID params) (if params = None then 3 else 4)"
proof -
  have create: "within P (bindT (atomT m) (\<lambda>_. Done q)) (Suc 0)"
    for m :: "('a, 'c) io" and q :: "ProvisionedServiceSpec result"
    by (rule within_last) (simp_all add: within_atomT)
  have n: "(if params = None then 3 else 4) = Suc (Suc (Suc (if params = None then 0 else 1)))"
    by (simp add: eval_nat_numeral)
  show ?thesis
    unfolding Provision_thread_def n
    by (auto intro!: within_call within_then within_value within_atomT create split del: if_split split: option.split)
qed

lemma within_answering: "within P t n \<Longrightarrow> within P (answering f t) n"
  unfolding answering_def by (rule within_last) simp_all

lemma within_request:
  assumes "\<And>w ps. P w \<Longrightarrow> Plans (br_cp b) (ServiceIDs (cp_config (br_cp b))) w = Ok ps \<Longrightarrow> length ps \<le> N"
  shows "within P (request_thread b r) (request_calls N r)"
proof -
  have found: "within P (getPlanInstance_thread b planID i) (lookup_calls N planID)" for planID i
    by (rule within_getPlanInstance) (rule assms)
  show ?thesis
    by (cases r) (simp_all only: request_thread.simps request_calls.simps within_answering
        within_Provision within_Deprovision [OF found] within_Bind [OF found] within_Unbind [OF found]
        within_Update [OF found])
qed

section \<open>Requests running together\<close>

context served_broker
begin

lemma Plans_length:
  assumes "Plans (br_cp b) ids w = Ok ps"
  shows "length ps \<le> length (cl_compositions (view w))"
proof -
  from Plans_OkD [OF assms] obtain cos
    where "l_listCompositions (cp_client (br_cp b)) ServiceIDLabel ids w = Inr cos"
      and "map p_Composition ps = sort_key plan_name_of cos" by blast
  with list_compositions_once show ?thesis by (metis length_map length_sort)
qed

lemma served_ends:
  assumes "pool_run (request_thread b) env ([], w) ns (ts, w')" and "no_user_plans b (view w)"
    and "credentials_stored namespace (view w)" and "instances_agree (view w)"
    and "j < length ts" and "ts ! j = (r, t)"
    and "request_calls (length (cl_compositions (view w))) r \<le> count_list ns j"
  shows "\<exists>a. t = Done a"
proof (rule requests.pool_ends [where bound = "request_calls (length (cl_compositions (view w)))",
      OF assms(1) _ _ _ assms(5-7)])
  show "consistent w" using assms(2-4) by (simp add: consistent_def)
  show "cl_compositions (view v) = cl_compositions (view w)" if "evolves w v" for v
    using that by (simp add: evolves_def)
  fix r
  show "within (\<lambda>v. cl_compositions (view v) = cl_compositions (view w)) (request_thread b r)
      (request_calls (length (cl_compositions (view w))) r)"
    by (rule within_request) (metis Plans_length)
qed

end

section \<open>Properties\<close>

text \<open>C6: Every request ends: in any interleaving of any number of requests with each other and with
  Crossplane's controllers, and whatever the API answers, a request that had as many turns as its
  bound has been answered. The bound is a fixed number of calls, but for the search of an instance
  without its plan, which adds one for each plan of the catalog.\<close>

theorem requests_end:
  assumes "served_broker b view env" and "pool_run (request_thread b) env ([], w) ns (ts, w')"
    and "no_user_plans b (view w)"
    and "credentials_stored (Namespace (cp_config (br_cp b))) (view w)"
    and "instances_agree (view w)"
    and "j < length ts" and "ts ! j = (r, t)"
    and "request_calls (length (cl_compositions (view w))) r \<le> count_list ns j"
  shows "\<exists>a. t = Done a"
  using assms by (rule served_broker.served_ends)

text \<open>The two requests of \<open>ex_pair\<close>, turn by turn: eight turns are enough for each.\<close>

theorem requests_end_witness:
  "\<exists>ts w a1 a2. ex_run ex_pair (concat (replicate 8 [0, 1])) ex_bound = (ts, w) \<and>
     map snd ts = [Done a1, Done a2]"
proof -
  let ?ms = "concat (replicate 8 [0, 1]) :: nat list"
  let ?p = "(arrived (request_thread ex_broker) ex_pair, ex_bound)"
  obtain ts w where run: "run_schedule ?ms ?p = (ts, w)" by fastforce
  have "pool_run (request_thread ex_broker) (mem_controllers ''broker'') ([], ex_bound) (rev ?ms @ [])
      (run_schedule ?ms ?p)"
    by (rule pool_run_schedule [OF pool_run_arrived]) (simp add: arrived_def ex_pair_def eval_nat_numeral)
  then have pool: "pool_run (request_thread ex_broker) (mem_controllers ''broker'') ([], ex_bound) (rev ?ms) (ts, w)"
    by (simp only: run append_Nil2)
  have requests: "map fst ts = ex_pair"
    using run_schedule_requests [of ?ms ?p, unfolded run] by (simp add: arrived_def comp_def)
  then obtain t1 t2 where ts: "ts = [(ex_pair ! 0, t1), (ex_pair ! 1, t2)]"
    by (auto simp: ex_pair_def map_eq_Cons_conv)
  note ends = requests_end [OF ex_served pool ex_bound_consistent]
  have "\<exists>a. t1 = Done a"
    by (rule ends [of 0 "ex_pair ! 0"]) (simp_all add: ts ex_pair_def lookup_calls_def eval_nat_numeral)
  moreover have "\<exists>a. t2 = Done a"
    by (rule ends [of 1 "ex_pair ! 1"]) (simp_all add: ts ex_pair_def lookup_calls_def eval_nat_numeral)
  ultimately show ?thesis using run by (auto simp: ex_run_def ts)
qed

end
