(* ===== verification/Test_Fixtures.thy ===== *)
theory Test_Fixtures
  imports Broker_Memory
begin

text \<open>
  \<open>pkg/integration/integration.go\<close>: the objects the integration tests put into a cluster, and the
  functions that create, change and remove them. The tests use the client on all kinds of objects
  (\<open>client_object\<close>), so it is a record of its own; \<open>object_store\<close> is what they rely on of it. What an
  object has beside the fields the broker reads is left out.
\<close>

section \<open>The client of the tests\<close>

text \<open>Any other object, a namespace or the \<open>User\<close> of a database, is a \<open>kobject\<close>.\<close>

datatype client_object =
    XRDObject xrd
  | CompositionObject composition
  | CompositeObject composite
  | SecretObject secret
  | PlainObject kobject

datatype object_key =
    XRDKey string
  | CompositionKey string
  | CompositeKey gvk string
  | SecretKey string string
  | PlainKey string string string

fun object_key_of_object :: "client_object \<Rightarrow> object_key" where
  "object_key_of_object (XRDObject x) = XRDKey (x_name x)"
| "object_key_of_object (CompositionObject co) = CompositionKey (co_name co)"
| "object_key_of_object (CompositeObject c) = CompositeKey (c_gvk c) (c_name c)"
| "object_key_of_object (SecretObject s) = SecretKey (s_namespace s) (s_name s)"
| "object_key_of_object (PlainObject k) = PlainKey (k_apiVersion k) (k_kind k) (k_name k)"

record 'w test_client =
  tc_Create :: "client_object \<Rightarrow> 'w \<Rightarrow> (go_error + unit) \<times> 'w"
  tc_Delete :: "client_object \<Rightarrow> 'w \<Rightarrow> (go_error + unit) \<times> 'w"
  tc_Update :: "client_object \<Rightarrow> 'w \<Rightarrow> (go_error + unit) \<times> 'w"
  tc_GetComposite :: "gvk \<Rightarrow> string \<Rightarrow> 'w \<Rightarrow> go_error + composite"

section \<open>Services and plans\<close>

definition TestNamespace :: string where "TestNamespace = ''test''"

definition NewTestService :: "string \<Rightarrow> string \<Rightarrow> xrd" where
  "NewTestService serviceID serviceName =
     \<lparr>x_name = ''testservice'' @ serviceID,
      x_labels = [ServiceIDLabel \<mapsto> serviceID, ServiceNameLabel \<mapsto> serviceName,
                  BindableLabel \<mapsto> ''true'', UpdatableLabel \<mapsto> ''true''],
      x_annotations = [DescriptionAnnotation \<mapsto> ''testservice description'',
                       MetadataAnnotation \<mapsto> ''{\"displayName\": \"testservice\"}'',
                       TagsAnnotation \<mapsto> ''[\"foo\",\"bar\",\"baz\"]'']\<rparr>"

definition kindForService :: "string \<Rightarrow> string" where
  "kindForService name =
     (if name = RedisService then ''CompositeRedisInstance''
      else if name = MariaDBService then ''CompositeMariaDBInstance''
      else if name = MariaDBDatabaseService then ''CompositeMariaDBDatabaseInstance''
      else ''CompositeInstance'')"

text \<open>The plan the tests work with has the labels that are written down here, not parsed ones.\<close>

definition NewTestServicePlanWithSize :: "string \<Rightarrow> string \<Rightarrow> string \<Rightarrow> string \<Rightarrow> string \<Rightarrow> plan" where
  "NewTestServicePlanWithSize serviceID planID serviceName name sla =
     \<lparr>p_Composition =
        \<lparr>co_name = planID,
         co_labels = [ServiceIDLabel \<mapsto> serviceID, ServiceNameLabel \<mapsto> serviceName,
                      PlanNameLabel \<mapsto> name, SLALabel \<mapsto> sla, BindableLabel \<mapsto> ''false''],
         co_annotations = [DescriptionAnnotation \<mapsto> ''testservice-small plan description'',
                           MetadataAnnotation \<mapsto> ''{\"displayName\": \"small\"}''],
         co_typeRefAPIVersion = ''syn.tools/v1alpha1'',
         co_typeRefKind = kindForService serviceName\<rparr>,
      p_Labels = Some
        \<lparr>ServiceName = serviceName, ServiceID = serviceID, PlanName = name, PlanSize = '''',
         InstanceID = '''', ParentID = '''', SLA = sla, Bindable = False, Updatable = False,
         Deleted = False, OwnerApiVersion = '''', OwnerGroup = '''', OwnerKind = ''''\<rparr>,
      p_Metadata = '''', p_Tags = '''', p_Description = ''''\<rparr>"

definition NewTestServicePlan :: "string \<Rightarrow> string \<Rightarrow> string \<Rightarrow> plan" where
  "NewTestServicePlan serviceID planID serviceName =
     NewTestServicePlanWithSize serviceID planID serviceName (''small'' @ planID) ''standard''"

section \<open>Instances, users and secrets\<close>

text \<open>
  A parent is set by assigning \<open>spec\<close> as a whole, which drops the reference to the composition that
  was set before it. The namespace of an object reference is left out.
\<close>

definition with_parent :: "string \<Rightarrow> composite \<Rightarrow> composite" where
  "with_parent parent cmp =
     cmp\<lparr>c_compositionRef := None, c_resourceRefs := [], c_secretRef := None,
         c_parameters := Some (JObject [(''parent_reference'', JString parent)])\<rparr>"

definition NewTestInstance ::
  "'w lib \<Rightarrow> string \<Rightarrow> plan \<Rightarrow> string \<Rightarrow> string \<Rightarrow> string \<Rightarrow> composite result" where
  "NewTestInstance lib instanceID plan serviceName serviceID parent =
     (let g = (case GVK lib plan of Ok g \<Rightarrow> g | _ \<Rightarrow> \<lparr>Group = '''', Version = '''', Kind = ''''\<rparr>)
      in bindR (deref ''plan.Labels'' (p_Labels plan)) (\<lambda>pl.
         let cmp = (new_composite g instanceID)\<lparr>c_compositionRef := Some (PlanName pl)\<rparr>;
             lbls = [PlanNameLabel \<mapsto> PlanName pl, ServiceIDLabel \<mapsto> serviceID, SLALabel \<mapsto> SLA pl,
                     ServiceNameLabel \<mapsto> serviceName, ClusterLabel \<mapsto> ''dbaas-test-cluster''];
             (lbls, cmp) = (if parent \<noteq> ''''
               then (lbls(ParentIDLabel \<mapsto> parent), with_parent parent cmp) else (lbls, cmp))
         in Ok (cmp\<lparr>c_labels := lbls,
                    c_resourceRefs := [\<lparr>or_APIVersion = ''v1'', or_Kind = ''Secret'', or_Name = instanceID\<rparr>],
                    c_secretRef := Some \<lparr>sr_Name = instanceID, sr_Namespace = TestNamespace\<rparr>\<rparr>)))"

text \<open>The API server stores \<open>StringData\<close> as data.\<close>

definition NewTestSecret :: "string \<Rightarrow> string \<Rightarrow> str_map \<Rightarrow> secret" where
  "NewTestSecret namespace name stringData =
     \<lparr>s_name = name, s_namespace = namespace, s_labels = Map.empty, s_data = Some stringData,
      s_owners = []\<rparr>"

definition NewTestMariaDBUserInstance :: "string \<Rightarrow> string \<Rightarrow> composite" where
  "NewTestMariaDBUserInstance instanceID bindingID =
     (let gvk = \<lparr>Group = ''syn.tools'', Version = ''v1alpha1'', Kind = ''CompositeMariaDBUserInstance''\<rparr>
      in (with_parent instanceID (new_composite gvk bindingID))
           \<lparr>c_secretRef := Some \<lparr>sr_Name = bindingID, sr_Namespace = TestNamespace\<rparr>\<rparr>)"

definition newTestNamespace :: "string \<Rightarrow> kobject" where
  "newTestNamespace name =
     \<lparr>k_apiVersion = ''v1'', k_kind = ''Namespace'', k_name = name, k_uid = ''''\<rparr>"

section \<open>Setting up and clearing away\<close>

fun CreateObjects :: "client_object list \<Rightarrow> 'w test_client \<Rightarrow> ('w, unit) io" where
  "CreateObjects [] c = retM ()"
| "CreateObjects (obj # objs) c = bindM (writeM (tc_Create c obj)) (\<lambda>_. CreateObjects objs c)"

fun RemoveObjects :: "client_object list \<Rightarrow> 'w test_client \<Rightarrow> ('w, unit) io" where
  "RemoveObjects [] c = retM ()"
| "RemoveObjects (obj # objs) c = bindM (writeM (tc_Delete c obj)) (\<lambda>_. RemoveObjects objs c)"

definition GetInstance_test ::
  "'w lib \<Rightarrow> 'w test_client \<Rightarrow> plan \<Rightarrow> string \<Rightarrow> 'w \<Rightarrow> composite result" where
  "GetInstance_test lib c servicePlan instanceID w =
     bindR (GVK lib servicePlan) (\<lambda>g. lib_call (tc_GetComposite c g instanceID w))"

text \<open>The model of a composite has the condition \<open>Ready\<close> alone.\<close>

definition UpdateInstanceConditions ::
  "'w lib \<Rightarrow> 'w test_client \<Rightarrow> plan \<Rightarrow> composite \<Rightarrow> string \<Rightarrow> string \<Rightarrow> string \<Rightarrow> ('w, unit) io" where
  "UpdateInstanceConditions lib c servicePlan instance t status reason =
     bindM (readM (GetInstance_test lib c servicePlan (c_name instance))) (\<lambda>cmp.
     let g = (case GVK lib servicePlan of Ok g \<Rightarrow> g | _ \<Rightarrow> \<lparr>Group = '''', Version = '''', Kind = ''''\<rparr>);
         cmp1 = cmp\<lparr>c_gvk := g\<rparr>;
         cmp2 = (if t = ''Ready''
           then cmp1\<lparr>c_ready := \<lparr>cond_Status = status, cond_Reason = reason\<rparr>\<rparr> else cmp1)
     in writeM (tc_Update c (CompositeObject cmp2)))"

text \<open>The configuration the tests run with.\<close>

definition test_broker_config :: config where
  "test_broker_config =
     \<lparr>Kubeconfig = '''', ServiceIDs = [''1'', ''2''], ListenAddr = '''', Username = '''', Password = '''',
      UsernameClaim = ''sub'', JWKeyRegister = [], Namespace = TestNamespace, ReadTimeout = 0,
      WriteTimeout = 0, MaxHeaderBytes = 0, PlanUpdateSizeRule = '''', PlanUpdateSLARule = '''',
      EnableMetrics = True, MetricsDomain = ''metrics.example.tld''\<rparr>"

definition BoolPtr :: "bool \<Rightarrow> bool option" where "BoolPtr b = Some b"

lemma CreateObjects_append:
  "CreateObjects (xs @ ys) c w = bindM (CreateObjects xs c) (\<lambda>_. CreateObjects ys c) w"
proof (induction xs arbitrary: w)
  case (Cons x xs)
  then show ?case by (cases "tc_Create c x w"; cases "fst (tc_Create c x w)") (auto simp: bindM_def writeM_def)
qed (simp add: bindM_def)

section \<open>A store of objects\<close>

text \<open>
  What setting up and clearing away rely on. The store may add to an object what the server sets.
\<close>

locale object_store =
  fixes client :: "'w test_client" and contents :: "'w \<Rightarrow> object_key \<Rightarrow> client_object option"
  assumes create_new:
      "contents w (object_key_of_object obj) = None \<Longrightarrow>
         \<exists>w' obj'. tc_Create client obj w = (Inr (), w') \<and>
           contents w' = (contents w)(object_key_of_object obj \<mapsto> obj')"
    and create_present:
      "contents w (object_key_of_object obj) \<noteq> None \<Longrightarrow> \<exists>e. tc_Create client obj w = (Inl e, w)"
    and delete_present:
      "contents w (object_key_of_object obj) \<noteq> None \<Longrightarrow>
         \<exists>w'. tc_Delete client obj w = (Inr (), w') \<and>
           contents w' = (contents w)(object_key_of_object obj := None)"
    and delete_absent:
      "contents w (object_key_of_object obj) = None \<Longrightarrow> \<exists>e. tc_Delete client obj w = (Inl e, w)"
begin

lemma create_all:
  assumes "distinct (map object_key_of_object objs)"
    and "\<forall>obj \<in> set objs. contents w (object_key_of_object obj) = None"
  shows "\<exists>w'. CreateObjects objs client w = (Ok (), w') \<and>
    (\<forall>k. (k \<in> object_key_of_object ` set objs \<longrightarrow> contents w' k \<noteq> None) \<and>
         (k \<notin> object_key_of_object ` set objs \<longrightarrow> contents w' k = contents w k))"
  using assms
proof (induction objs arbitrary: w)
  case (Cons obj objs)
  then obtain w1 obj' where w1: "tc_Create client obj w = (Inr (), w1)"
    "contents w1 = (contents w)(object_key_of_object obj \<mapsto> obj')"
    using create_new [of w obj] by auto
  have "distinct (map object_key_of_object objs)"
    "\<forall>o' \<in> set objs. contents w1 (object_key_of_object o') = None"
    using Cons.prems w1(2) by (auto simp: image_iff)
  then obtain w2 where w2: "CreateObjects objs client w1 = (Ok (), w2)"
    "\<forall>k. (k \<in> object_key_of_object ` set objs \<longrightarrow> contents w2 k \<noteq> None) \<and>
         (k \<notin> object_key_of_object ` set objs \<longrightarrow> contents w2 k = contents w1 k)"
    using Cons.IH by blast
  have "CreateObjects (obj # objs) client w = (Ok (), w2)"
    using w1(1) w2(1) by (simp add: bindM_def writeM_def)
  moreover have "\<forall>k. (k \<in> object_key_of_object ` set (obj # objs) \<longrightarrow> contents w2 k \<noteq> None) \<and>
         (k \<notin> object_key_of_object ` set (obj # objs) \<longrightarrow> contents w2 k = contents w k)"
    using w2(2) w1(2) Cons.prems(1) by auto
  ultimately show ?case by blast
qed simp

lemma remove_all:
  assumes "distinct (map object_key_of_object objs)"
    and "\<forall>obj \<in> set objs. contents w (object_key_of_object obj) \<noteq> None"
  shows "\<exists>w'. RemoveObjects objs client w = (Ok (), w') \<and>
    contents w' = (\<lambda>k. if k \<in> object_key_of_object ` set objs then None else contents w k)"
  using assms
proof (induction objs arbitrary: w)
  case (Cons obj objs)
  then obtain w1 where w1: "tc_Delete client obj w = (Inr (), w1)"
    "contents w1 = (contents w)(object_key_of_object obj := None)"
    using delete_present [of w obj] by auto
  have "distinct (map object_key_of_object objs)"
    "\<forall>o' \<in> set objs. contents w1 (object_key_of_object o') \<noteq> None"
    using Cons.prems w1(2) by (auto simp: image_iff)
  then obtain w2 where w2: "RemoveObjects objs client w1 = (Ok (), w2)"
    "contents w2 = (\<lambda>k. if k \<in> object_key_of_object ` set objs then None else contents w1 k)"
    using Cons.IH by blast
  have "RemoveObjects (obj # objs) client w = (Ok (), w2)"
    using w1(1) w2(1) by (simp add: bindM_def writeM_def)
  moreover have "contents w2 = (\<lambda>k. if k \<in> object_key_of_object ` set (obj # objs) then None else contents w k)"
    using w2(2) w1(2) by (auto simp: fun_eq_iff)
  ultimately show ?case by blast
qed (simp add: fun_eq_iff)

lemma create_and_remove:
  assumes "distinct (map object_key_of_object objs)"
    and "\<forall>obj \<in> set objs. contents w (object_key_of_object obj) = None"
  shows "\<exists>w1 w2. CreateObjects objs client w = (Ok (), w1) \<and>
    (\<forall>obj \<in> set objs. contents w1 (object_key_of_object obj) \<noteq> None) \<and>
    RemoveObjects objs client w1 = (Ok (), w2) \<and> contents w2 = contents w"
proof -
  from create_all [OF assms] obtain w1 where w1: "CreateObjects objs client w = (Ok (), w1)"
    "\<forall>obj \<in> set objs. contents w1 (object_key_of_object obj) \<noteq> None"
    "\<forall>k. k \<notin> object_key_of_object ` set objs \<longrightarrow> contents w1 k = contents w k" by blast
  from remove_all [OF assms(1) w1(2)] obtain w2 where w2: "RemoveObjects objs client w1 = (Ok (), w2)"
    "contents w2 = (\<lambda>k. if k \<in> object_key_of_object ` set objs then None else contents w1 k)" by blast
  have "contents w2 = contents w"
    using w1(3) w2(2) assms(2) by (auto simp: fun_eq_iff)
  with w1(1,2) w2(1) show ?thesis by blast
qed

text \<open>Creating stops at an object that is there; what was created before stays.\<close>

lemma create_stops:
  assumes "distinct (map object_key_of_object before)"
    and "\<forall>obj \<in> set before. contents w (object_key_of_object obj) = None"
    and "contents w (object_key_of_object obj) \<noteq> None"
  shows "\<exists>e w'. CreateObjects (before @ obj # after) client w = (Err e, w') \<and>
    (\<forall>obj \<in> set before. contents w' (object_key_of_object obj) \<noteq> None)"
proof -
  from create_all [OF assms(1,2)] obtain w' where before: "CreateObjects before client w = (Ok (), w')"
    and created: "\<And>k. k \<in> object_key_of_object ` set before \<Longrightarrow> contents w' k \<noteq> None"
    and others: "\<And>k. k \<notin> object_key_of_object ` set before \<Longrightarrow> contents w' k = contents w k" by blast
  have "contents w' (object_key_of_object obj) \<noteq> None" using created others assms(3) by metis
  then obtain e where "tc_Create client obj w' = (Inl e, w')" using create_present by blast
  then have "CreateObjects (before @ obj # after) client w = (Err e, w')"
    using before by (simp add: CreateObjects_append bindM_def writeM_def)
  with created show ?thesis by blast
qed

end

section \<open>The tests' client in memory\<close>

definition mem_contents :: "mem \<Rightarrow> object_key \<Rightarrow> client_object option" where
  "mem_contents m k =
     (case k of
        XRDKey n \<Rightarrow> map_option XRDObject (lookup_by x_name (m_xrds m) n)
      | CompositionKey n \<Rightarrow> map_option CompositionObject (lookup_by co_name (m_compositions m) n)
      | CompositeKey g n \<Rightarrow> map_option CompositeObject (lookup_by composite_key_of (m_composites m) (g, n))
      | SecretKey ns n \<Rightarrow> map_option SecretObject (lookup_by secret_key_of (m_secrets m) (ns, n))
      | PlainKey a kd n \<Rightarrow> map_option PlainObject (lookup_by object_key_of (m_objects m) (a, kd, n)))"

text \<open>The server gives an object its uid.\<close>

fun mem_store :: "client_object \<Rightarrow> mem \<Rightarrow> mem" where
  "mem_store (XRDObject x) m = m\<lparr>m_xrds := store_by x_name x (m_xrds m)\<rparr>"
| "mem_store (CompositionObject co) m = m\<lparr>m_compositions := store_by co_name co (m_compositions m)\<rparr>"
| "mem_store (CompositeObject c) m = m\<lparr>m_composites := store_by composite_key_of c (m_composites m)\<rparr>"
| "mem_store (SecretObject s) m = m\<lparr>m_secrets := store_by secret_key_of s (m_secrets m)\<rparr>"
| "mem_store (PlainObject k) m =
     m\<lparr>m_objects := store_by object_key_of (k\<lparr>k_uid := ''uid-'' @ k_name k\<rparr>) (m_objects m)\<rparr>"

fun mem_drop :: "object_key \<Rightarrow> mem \<Rightarrow> mem" where
  "mem_drop (XRDKey n) m = m\<lparr>m_xrds := delete_by x_name n (m_xrds m)\<rparr>"
| "mem_drop (CompositionKey n) m = m\<lparr>m_compositions := delete_by co_name n (m_compositions m)\<rparr>"
| "mem_drop (CompositeKey g n) m = m\<lparr>m_composites := delete_by composite_key_of (g, n) (m_composites m)\<rparr>"
| "mem_drop (SecretKey ns n) m = m\<lparr>m_secrets := delete_by secret_key_of (ns, n) (m_secrets m)\<rparr>"
| "mem_drop (PlainKey a k n) m = m\<lparr>m_objects := delete_by object_key_of (a, k, n) (m_objects m)\<rparr>"

text \<open>What the texts of the server's errors name an object by.\<close>

fun key_gvk :: "object_key \<Rightarrow> gvk" where
  "key_gvk (XRDKey n) = xrd_gvk"
| "key_gvk (CompositionKey n) = composition_gvk"
| "key_gvk (CompositeKey g n) = g"
| "key_gvk (SecretKey ns n) = secret_gvk"
| "key_gvk (PlainKey a k n) = object_gvk a k"

fun key_name :: "object_key \<Rightarrow> string" where
  "key_name (XRDKey n) = n"
| "key_name (CompositionKey n) = n"
| "key_name (CompositeKey g n) = n"
| "key_name (SecretKey ns n) = n"
| "key_name (PlainKey a k n) = n"

definition key_error :: "(gvk \<Rightarrow> string \<Rightarrow> go_error) \<Rightarrow> client_object \<Rightarrow> go_error" where
  "key_error e obj = e (key_gvk (object_key_of_object obj)) (key_name (object_key_of_object obj))"

definition mem_Create :: "client_object \<Rightarrow> mem \<Rightarrow> (go_error + unit) \<times> mem" where
  [simp]: "mem_Create obj m =
     (if Option.is_none (mem_contents m (object_key_of_object obj))
      then (Inr (), mem_store obj m) else (Inl (key_error already_exists obj), m))"

definition mem_Delete :: "client_object \<Rightarrow> mem \<Rightarrow> (go_error + unit) \<times> mem" where
  [simp]: "mem_Delete obj m =
     (if Option.is_none (mem_contents m (object_key_of_object obj))
      then (Inl (key_error not_found obj), m) else (Inr (), mem_drop (object_key_of_object obj) m))"

definition mem_Update :: "client_object \<Rightarrow> mem \<Rightarrow> (go_error + unit) \<times> mem" where
  [simp]: "mem_Update obj m =
     (if Option.is_none (mem_contents m (object_key_of_object obj))
      then (Inl (key_error not_found obj), m) else (Inr (), mem_store obj m))"

definition mem_client :: "mem test_client" where
  "mem_client =
     \<lparr>tc_Create = mem_Create, tc_Delete = mem_Delete, tc_Update = mem_Update,
      tc_GetComposite = mem_getComposite\<rparr>"

lemma mem_contents_store:
  "\<exists>obj'. mem_contents (mem_store obj m) = (mem_contents m)(object_key_of_object obj \<mapsto> obj')"
  by (cases obj)
    (auto simp: fun_eq_iff mem_contents_def lookup_by_store mem_keys split: object_key.split)

lemma mem_contents_drop: "mem_contents (mem_drop k m) = (mem_contents m)(k := None)"
  by (cases k) (auto simp: fun_eq_iff mem_contents_def lookup_by_delete split: object_key.split)

interpretation mem_objects: object_store mem_client mem_contents
  by unfold_locales
    (use mem_contents_store mem_contents_drop in \<open>fastforce simp: mem_client_def Option.is_none_def\<close>)+

section \<open>Properties\<close>

text \<open>Setting objects up and clearing them away leaves a cluster as it was: objects with different keys
  that are not there yet are all created, then all removed, and nothing else is touched, whatever
  else the cluster holds.\<close>

theorem fixtures_come_and_go:
  assumes "object_store client contents" and "distinct (map object_key_of_object objs)"
    and "\<forall>obj \<in> set objs. contents w (object_key_of_object obj) = None"
  shows "\<exists>w1 w2. CreateObjects objs client w = (Ok (), w1) \<and>
    (\<forall>obj \<in> set objs. contents w1 (object_key_of_object obj) \<noteq> None) \<and>
    RemoveObjects objs client w1 = (Ok (), w2) \<and> contents w2 = contents w"
  using assms by (rule object_store.create_and_remove)

theorem fixtures_come_and_go_witness:
  "\<exists>w1 w2. CreateObjects [XRDObject (NewTestService ''1'' RedisService),
       CompositionObject (p_Composition (NewTestServicePlan ''1'' ''1-1'' RedisService))] mem_client ex_world
       = (Ok (), w1) \<and>
     RemoveObjects [XRDObject (NewTestService ''1'' RedisService),
       CompositionObject (p_Composition (NewTestServicePlan ''1'' ''1-1'' RedisService))] mem_client w1
       = (Ok (), w2) \<and> mem_contents w2 = mem_contents ex_world"
proof -
  let ?objs = "[XRDObject (NewTestService ''1'' RedisService),
     CompositionObject (p_Composition (NewTestServicePlan ''1'' ''1-1'' RedisService))]"
  have "distinct (map object_key_of_object ?objs)" by simp
  moreover have "list_all (\<lambda>obj. Option.is_none (mem_contents ex_world (object_key_of_object obj))) ?objs"
    by code_simp
  ultimately show ?thesis
    using fixtures_come_and_go [OF mem_objects.object_store_axioms, of ?objs ex_world]
    by (auto simp: list_all_iff Option.is_none_def)
qed

text \<open>The labels the tests write into the plan they work with are the labels the broker reads from its
  composition, but for the size of the plan, which the tests leave empty and the broker takes from
  the plan's name.\<close>

theorem fixture_plans_parse:
  assumes "IsValid serviceName"
  shows "\<exists>l. p_Labels (NewTestServicePlanWithSize serviceID planID serviceName name sla) = Some l \<and>
    (\<exists>p. newPlan (p_Composition (NewTestServicePlanWithSize serviceID planID serviceName name sla)) = Ok p \<and>
       p_Labels p = Some (l\<lparr>PlanSize := getPlanSize name sla\<rparr>))"
proof -
  have "parseBoolLabel ''false'' True = Ok False" by code_simp
  then show ?thesis
    using assms by (simp add: NewTestServicePlanWithSize_def newPlan_def parseLabels_def sget_def
        label_keys parseBoolLabel_def Let_def)
qed

theorem fixture_plans_parse_witness:
  "\<exists>p l. newPlan (p_Composition (NewTestServicePlan ''1'' ''1-1'' RedisService)) = Ok p \<and>
     p_Labels p = Some l \<and> PlanName l = ''small1-1'' \<and> PlanSize l = ''small1-1''"
proof -
  have "IsValid RedisService" by code_simp
  from fixture_plans_parse [OF this, of "''1''" "''1-1''" "''small1-1''" "''standard''"]
  obtain p l where "newPlan (p_Composition (NewTestServicePlan ''1'' ''1-1'' RedisService)) = Ok p"
    and l: "p_Labels (NewTestServicePlan ''1'' ''1-1'' RedisService) = Some l"
    and "p_Labels p = Some (l\<lparr>PlanSize := getPlanSize ''small1-1'' ''standard''\<rparr>)"
    by (auto simp: NewTestServicePlan_def)
  moreover have "getPlanSize ''small1-1'' ''standard'' = ''small1-1''" by code_simp
  moreover from l have "PlanName l = ''small1-1''"
    by (auto simp: NewTestServicePlan_def NewTestServicePlanWithSize_def)
  ultimately show ?thesis by simp
qed

end
