(* ===== verification/Test_Suite.thy ===== *)
theory Test_Suite
  imports Test_Fixtures
begin

text \<open>
  The cases of \<open>pkg/brokerapi/brokerapi_test.go\<close>, run on the model over the server in memory: each
  sets up its objects, makes one call of the API, looks at the answer, and clears away. An error the
  tests compare by its text is compared here by the value the text is made from.
\<close>

section \<open>Running a case\<close>

record 'a test_case =
  tt_resources :: "client_object list"
  tt_fn :: "(mem, unit) io"
  tt_call :: "(mem, 'a) io"
  tt_want :: "'a result \<Rightarrow> mem \<Rightarrow> bool"
  tt_removed :: "client_object list"

definition run_case :: "'a test_case \<Rightarrow> mem \<Rightarrow> bool \<times> mem" where
  "run_case tt w =
     (let (r0, w0) = CreateObjects (tt_resources tt) mem_client w;
          (r1, w1) = tt_fn tt w0;
          (r, w2) = tt_call tt w1;
          (r3, w3) = RemoveObjects (tt_removed tt) mem_client w2
      in (r0 = Ok () \<and> r1 = Ok () \<and> tt_want tt r w2 \<and> r3 = Ok (), w3))"

fun run_cases :: "'a test_case list \<Rightarrow> mem \<Rightarrow> bool list" where
  "run_cases [] w = []"
| "run_cases (tt # tts) w = (case run_case tt w of (ok, w') \<Rightarrow> ok # run_cases tts w')"

definition gives :: "'a \<Rightarrow> 'a result \<Rightarrow> mem \<Rightarrow> bool" where
  "gives a r w \<longleftrightarrow> r = Ok a"

definition fails_with :: "go_error \<Rightarrow> 'a result \<Rightarrow> mem \<Rightarrow> bool" where
  "fails_with e r w \<longleftrightarrow> (case r of Err e' \<Rightarrow> e' = e | _ \<Rightarrow> False)"

text \<open>The errors the tests expect, with the correlation id of the request.\<close>

definition library_error :: "lib_failure \<Rightarrow> go_error" where
  "library_error f = Failure (AppendErrorMessage (LibFailure f) ''corrid'')"

definition internal_error :: "go_error \<Rightarrow> go_error" where
  "internal_error e =
     Failure (NewFailure (Wrapf ''%w (correlation-id: %q)'' [''corrid''] e) 500
       ''internal-server-error'' None)"

text \<open>An error of the server with the text it gives for a missing object.\<close>

definition missing :: "string \<Rightarrow> string \<Rightarrow> go_error" where
  "missing resource n = StatusError
     \<lparr>se_class = ClassNotFound, se_code = 404, se_reason = ''NotFound'',
      se_message = resource @ '' '' @ [CHR 0x22] @ n @ [CHR 0x22] @ '' not found''\<rparr>"

definition not_found_failure :: "string \<Rightarrow> string \<Rightarrow> go_error" where
  "not_found_failure resource n =
     Failure (NewFailure (missing resource n) 404 ''invalid'' (Some ''NotFound''))"

section \<open>The suite\<close>

definition suite_comparer :: PlanUpdateChecker where
  "suite_comparer =
     (case ParsePlanUpdateRules '''' ''standard>premium|premium>standard'' of
        Ok pc \<Rightarrow> pc | _ \<Rightarrow> \<lparr>sizeRules = [], slaRules = []\<rparr>)"

definition bAPI :: "mem BrokerAPI" where
  "bAPI = New_BrokerAPI (mem_crossplane test_broker_config) suite_comparer"

definition givenContext :: ctx where
  "givenContext =
     WithValue (WithValue (WithValue [] CorrelationIDKey (VString ''corrid''))
       AuthenticationMethodPropertyName (VString AuthenticationMethodBearerToken))
       TokenPropertyName (VClaims [''sub'' \<mapsto> ''username''])"

definition correlated :: ctx where
  "correlated = WithValue [] CorrelationIDKey (VString ''corrid'')"

text \<open>The cluster after \<open>SetupSuite\<close>.\<close>

definition suite_cluster :: mem where
  "suite_cluster =
     snd (CreateObjects [PlainObject (newTestNamespace TestNamespace)] mem_client
       \<lparr>m_compositions = [], m_xrds = [], m_composites = [], m_secrets = [], m_objects = [], m_seed = 0\<rparr>)"

text \<open>No object but the namespace is in the cluster; a case that clears away leads back here.\<close>

definition is_suite_cluster :: "mem \<Rightarrow> bool" where
  "is_suite_cluster w \<longleftrightarrow> List.null (m_compositions w) \<and> List.null (m_xrds w) \<and>
     List.null (m_composites w) \<and> List.null (m_secrets w) \<and>
     m_objects w = m_objects suite_cluster \<and> m_seed w = 0"

lemma is_suite_cluster_iff: "is_suite_cluster w \<longleftrightarrow> w = suite_cluster"
proof -
  have "is_suite_cluster suite_cluster" by code_simp
  then show ?thesis by (auto simp: is_suite_cluster_def intro: mem.equality)
qed

definition passes_and_clears :: "'a test_case \<Rightarrow> bool" where
  "passes_and_clears tt = (case run_case tt suite_cluster of (ok, w) \<Rightarrow> ok \<and> is_suite_cluster w)"

lemma passes_and_clears_run:
  "passes_and_clears tt \<Longrightarrow> run_cases (tt # tts) suite_cluster = True # run_cases tts suite_cluster"
  by (auto simp: passes_and_clears_def is_suite_cluster_iff split: prod.splits)

definition suite_passes :: "'a test_case list \<Rightarrow> bool" where
  "suite_passes tts \<longleftrightarrow> list_all id (run_cases tts suite_cluster)"

text \<open>Cases that clear away can be run one by one, in any order.\<close>

lemma suite_passes_single:
  "list_all passes_and_clears tts \<Longrightarrow> suite_passes (tts @ tts') \<longleftrightarrow> suite_passes tts'"
proof (induction tts)
  case (Cons tt tts)
  then show ?case using passes_and_clears_run [of tt "tts @ tts'"] by (simp add: suite_passes_def)
qed simp

lemma suite_passes_cleared: "list_all passes_and_clears tts \<Longrightarrow> suite_passes tts"
  using suite_passes_single [of tts "[]"] by (simp add: suite_passes_def)

text \<open>The objects the cases share.\<close>

definition service_object :: "string \<Rightarrow> string \<Rightarrow> client_object" where
  "service_object serviceID name = XRDObject (NewTestService serviceID name)"

definition plan_object :: "plan \<Rightarrow> client_object" where
  "plan_object p = CompositionObject (p_Composition p)"

definition test_instance :: "string \<Rightarrow> plan \<Rightarrow> string \<Rightarrow> string \<Rightarrow> string \<Rightarrow> composite" where
  "test_instance i p service serviceID parent =
     (case NewTestInstance mem_lib i p service serviceID parent of
        Ok c \<Rightarrow> c | _ \<Rightarrow> new_composite \<lparr>Group = '''', Version = '''', Kind = ''''\<rparr> i)"

abbreviation redis_plan :: plan where
  "redis_plan \<equiv> NewTestServicePlan ''1'' ''1-1'' RedisService"

abbreviation galera_plan :: plan where
  "galera_plan \<equiv> NewTestServicePlan ''1'' ''1-1'' MariaDBService"

abbreviation database_plan :: plan where
  "database_plan \<equiv> NewTestServicePlan ''2'' ''2-1'' MariaDBDatabaseService"

abbreviation database_service_plan :: plan where
  "database_service_plan \<equiv> NewTestServicePlan ''1'' ''1-1'' MariaDBDatabaseService"

definition set_ready :: "plan \<Rightarrow> composite \<Rightarrow> string \<Rightarrow> (mem, unit) io" where
  "set_ready p c reason = UpdateInstanceConditions mem_lib mem_client p c ''Ready'' ''True'' reason"

definition redis_secret :: "string \<Rightarrow> secret" where
  "redis_secret i =
     NewTestSecret TestNamespace i
       [SecretPortKey \<mapsto> ''1234'', SecretEndpointKey \<mapsto> ''localhost'',
        SecretPasswordKey \<mapsto> ''supersecret'', ''sentinelPort'' \<mapsto> ''21234'']"

section \<open>Provisioning\<close>

definition provision_case ::
  "client_object list \<Rightarrow> string \<Rightarrow> string \<Rightarrow> string \<Rightarrow> raw_json option \<Rightarrow> bool \<Rightarrow>
     (ProvisionedServiceSpec result \<Rightarrow> mem \<Rightarrow> bool) \<Rightarrow> ProvisionedServiceSpec test_case" where
  "provision_case objs i serviceID planID params async want =
     \<lparr>tt_resources = objs, tt_fn = retM (),
      tt_call = API_Provision bAPI givenContext i
        \<lparr>pd_ServiceID = serviceID, pd_PlanID = planID, pd_RawParameters = params\<rparr> async,
      tt_want = want, tt_removed = objs\<rparr>"

definition parent_parameter :: "string \<Rightarrow> raw_json option" where
  "parent_parameter p = Some (Json (JObject [(''parent_reference'', JString p)]))"

definition galera_and_database :: "client_object list" where
  "galera_and_database =
     [service_object ''1'' MariaDBService, plan_object galera_plan,
      service_object ''2'' MariaDBDatabaseService, plan_object database_plan]"

text \<open>The instances that were provisioned stay for the cases that follow.\<close>

definition TestBrokerAPI_Provision :: "ProvisionedServiceSpec test_case list" where
  "TestBrokerAPI_Provision =
     [provision_case [] ''1'' '''' '''' None False (fails_with (library_error ErrAsyncRequired)),
      provision_case [] ''1'' '''' ''1-1'' None True (fails_with (internal_error
        (not_found_failure ''compositions.apiextensions.crossplane.io'' ''1-1''))),
      provision_case [service_object ''1'' RedisService, plan_object redis_plan] ''1'' ''1'' ''1-1'' None True
        (gives \<lparr>ps_IsAsync = True, ps_AlreadyExists = False\<rparr>),
      provision_case
        [service_object ''1'' RedisService, plan_object redis_plan,
         CompositeObject (test_instance ''1-1-1'' redis_plan RedisService '''' '''')]
        ''1'' ''1'' ''1-1'' None True (gives \<lparr>ps_IsAsync = False, ps_AlreadyExists = True\<rparr>),
      provision_case [service_object ''1'' MariaDBService, plan_object galera_plan] ''1'' ''1'' ''1-1'' None True
        (gives \<lparr>ps_IsAsync = True, ps_AlreadyExists = False\<rparr>),
      provision_case galera_and_database ''2'' ''2'' ''2-1'' (parent_parameter ''1'') True
        (gives \<lparr>ps_IsAsync = True, ps_AlreadyExists = False\<rparr>),
      provision_case galera_and_database ''3'' ''2'' ''2-1'' (parent_parameter ''non-existent'') True
        (fails_with (Failure (AppendErrorMessage
           (NewFailure (Wrapf ''valid %q required: %w'' [''parent_reference'']
              (missing ''compositemariadbinstances.syn.tools'' ''non-existent'')) 400
              ''validate-update-failed'' None) ''corrid'')))]"

section \<open>Deprovisioning\<close>

text \<open>A successful case has removed the last of its objects itself.\<close>

definition deprovision_case ::
  "client_object list \<Rightarrow> client_object list \<Rightarrow> string \<Rightarrow> bool \<Rightarrow>
     (DeprovisionServiceSpec result \<Rightarrow> mem \<Rightarrow> bool) \<Rightarrow> DeprovisionServiceSpec test_case" where
  "deprovision_case objs removed i async want =
     \<lparr>tt_resources = objs, tt_fn = retM (),
      tt_call = API_Deprovision bAPI givenContext i \<lparr>d_ServiceID = ''1'', d_PlanID = ''1-1''\<rparr> async,
      tt_want = want, tt_removed = removed\<rparr>"

text \<open>\<open>customCheckFn\<close> of the case that removes an instance.\<close>

definition removed_instance :: "DeprovisionServiceSpec result \<Rightarrow> mem \<Rightarrow> bool" where
  "removed_instance r w \<longleftrightarrow> gives \<lparr>ds_IsAsync = False\<rparr> r w \<and>
     (case GetInstance_test mem_lib mem_client redis_plan ''1'' w of
        Err e \<Rightarrow> e = missing ''compositeredisinstances.syn.tools'' ''1'' | _ \<Rightarrow> False)"

definition TestBrokerAPI_Deprovision :: "DeprovisionServiceSpec test_case list" where
  "TestBrokerAPI_Deprovision =
     (let redis = [service_object ''1'' RedisService, plan_object redis_plan];
          in_use = galera_and_database @
            [CompositeObject (test_instance ''1'' galera_plan MariaDBService '''' ''''),
             CompositeObject (test_instance ''2'' database_plan MariaDBDatabaseService '''' ''1'')]
      in [deprovision_case redis redis ''1-1-1'' False (fails_with (library_error ErrInstanceDoesNotExist)),
          deprovision_case (redis @ [CompositeObject (test_instance ''1'' redis_plan RedisService '''' '''')])
            redis ''1'' True removed_instance,
          deprovision_case in_use in_use ''1'' True
            (fails_with (Failure (AppendErrorMessage
               (NewFailure (Errorf ''instance is still in use by %q'' [''2'']) 422
                  ''deprovision-instance-in-use'' (Some ''InUseError'')) ''corrid'')))])"

section \<open>Polling\<close>

definition last_operation_case :: "(composite \<Rightarrow> (mem, unit) io) \<Rightarrow> string \<Rightarrow> LastOperationState \<Rightarrow>
     LastOperationSpec test_case" where
  "last_operation_case fn description state =
     (let c = test_instance ''1'' redis_plan RedisService '''' '''';
          objs = [service_object ''1'' RedisService, plan_object redis_plan, CompositeObject c]
      in \<lparr>tt_resources = objs, tt_fn = fn c,
          tt_call = readM (API_LastOperation bAPI correlated ''1'' \<lparr>d_ServiceID = '''', d_PlanID = ''1-1''\<rparr>),
          tt_want = gives \<lparr>lo_State = state, lo_Description = Text description\<rparr>, tt_removed = objs\<rparr>)"

definition TestBrokerAPI_LastOperation :: "LastOperationSpec test_case list" where
  "TestBrokerAPI_LastOperation =
     [last_operation_case (\<lambda>_. retM ()) ''Unknown'' InProgress,
      last_operation_case (\<lambda>c. set_ready redis_plan c ReasonCreating) ReasonCreating InProgress,
      last_operation_case (\<lambda>c. set_ready redis_plan c ReasonAvailable) ReasonAvailable Succeeded,
      last_operation_case (\<lambda>c. set_ready redis_plan c ReasonUnavailable) ReasonUnavailable Failed]"

section \<open>Reading and updating an instance\<close>

definition get_instance_case ::
  "client_object list \<Rightarrow> (string \<times> json) list option \<Rightarrow> GetInstanceDetailsSpec test_case" where
  "get_instance_case objs params =
     \<lparr>tt_resources = objs, tt_fn = retM (),
      tt_call = readM (API_GetInstance bAPI correlated ''1-1-1'' \<lparr>d_ServiceID = '''', d_PlanID = ''1-1''\<rparr>),
      tt_want = gives \<lparr>gi_ServiceID = ''1'', gi_PlanID = ''1-1'', gi_Parameters = params\<rparr>,
      tt_removed = objs\<rparr>"

definition TestBrokerAPI_GetInstance :: "GetInstanceDetailsSpec test_case list" where
  "TestBrokerAPI_GetInstance =
     [get_instance_case
        [service_object ''1'' RedisService, plan_object (NewTestServicePlan ''1'' ''1-2'' RedisService),
         plan_object redis_plan, CompositeObject (test_instance ''1-1-1'' redis_plan RedisService '''' '''')]
        None,
      get_instance_case
        [service_object ''1'' MariaDBDatabaseService,
         plan_object (NewTestServicePlan ''1'' ''1-2'' MariaDBDatabaseService),
         plan_object database_service_plan,
         CompositeObject (test_instance ''1-1-1'' database_service_plan MariaDBDatabaseService '''' ''1'')]
        (Some [(''parent_reference'', JString ''1'')])]"

text \<open>An update from the plan \<open>1-1\<close>, of which the instance is.\<close>

definition update_case ::
  "plan \<Rightarrow> client_object list \<Rightarrow> string \<Rightarrow> string \<Rightarrow> string \<Rightarrow> (unit result \<Rightarrow> mem \<Rightarrow> bool) \<Rightarrow>
     unit test_case" where
  "update_case fromPlan others serviceID planID previous want =
     (let objs = [service_object ''1'' RedisService, service_object ''2'' RedisService] @ others @
            [plan_object fromPlan, CompositeObject (test_instance ''1-1-1'' fromPlan RedisService ''1'' '''')]
      in \<lparr>tt_resources = objs, tt_fn = retM (),
          tt_call = API_Update bAPI correlated ''1-1-1''
            \<lparr>ud_ServiceID = serviceID, ud_PlanID = planID, ud_PreviousPlanID = previous,
             ud_RawParameters = None\<rparr> False,
          tt_want = want, tt_removed = objs\<rparr>)"

abbreviation redis_size :: "string \<Rightarrow> string \<Rightarrow> string \<Rightarrow> plan" where
  "redis_size planID name sla \<equiv> NewTestServicePlanWithSize ''1'' planID RedisService name sla"

definition update_refused :: "sentinel \<Rightarrow> go_error" where
  "update_refused e =
     Failure (AppendErrorMessage (NewFailure (Sentinel e) 422 ''update-instance-failed'' None) ''corrid'')"

definition TestBrokerAPI_Update :: "unit test_case list" where
  "TestBrokerAPI_Update =
     [update_case redis_plan
        [plan_object (NewTestServicePlan ''1'' ''1-2'' RedisService),
         plan_object (NewTestServicePlan ''2'' ''2-1'' RedisService)]
        ''2'' ''2-1'' ''1-1'' (fails_with (update_refused ErrServiceUpdateNotPermitted)),
      update_case (redis_size ''1-1'' ''small'' ''standard'')
        [plan_object (redis_size ''1-2'' ''large'' ''standard'')]
        ''1'' ''1-2'' ''1-1'' (fails_with (update_refused ErrPlanChangeNotPermitted)),
      update_case (redis_size ''1-1'' ''small'' ''standard'')
        [plan_object (redis_size ''1-2'' ''small-premium'' ''premium'')] ''1'' ''1-2'' ''1-1'' (gives ()),
      update_case (redis_size ''1-1'' ''small'' ''standard'')
        [plan_object (redis_size ''1-2'' ''small-premium'' ''premium'')] ''1'' ''1-2'' '''' (gives ()),
      update_case (redis_size ''1-1'' ''small-premium'' ''premium'')
        [plan_object (redis_size ''1-2'' ''small'' ''standard'')] ''1'' ''1-2'' ''1-1'' (gives ()),
      update_case (redis_size ''1-1'' ''xlarge'' ''standard'')
        [plan_object (redis_size ''1-2'' ''xlarge-premium'' ''premium'')] ''1'' ''1-2'' ''1-1'' (gives ())]"

section \<open>The runs\<close>

lemma Provision_passes: "suite_passes TestBrokerAPI_Provision" by code_simp

lemma Update_passes: "suite_passes TestBrokerAPI_Update" by code_simp

lemma instance_tests_pass:
  "suite_passes TestBrokerAPI_Deprovision \<and> suite_passes TestBrokerAPI_LastOperation \<and>
   suite_passes TestBrokerAPI_GetInstance"
  by code_simp

end
