(* ===== verification/Test_Bindings.thy ===== *)
theory Test_Bindings
  imports Test_Suite
begin

text \<open>The cases of \<open>brokerapi_test.go\<close> on bindings and on the catalog.\<close>

section \<open>Polling a binding\<close>

definition last_binding_case ::
  "client_object list \<Rightarrow> (mem, unit) io \<Rightarrow> string \<Rightarrow> string \<Rightarrow> string \<Rightarrow>
     (LastOperationSpec result \<Rightarrow> mem \<Rightarrow> bool) \<Rightarrow> LastOperationSpec test_case" where
  "last_binding_case objs fn i bid planID want =
     \<lparr>tt_resources = objs, tt_fn = fn,
      tt_call = readM (API_LastBindingOperation bAPI correlated i bid
        \<lparr>d_ServiceID = '''', d_PlanID = planID\<rparr>),
      tt_want = want, tt_removed = objs\<rparr>"

text \<open>The plan of the user composites, of which the tests only use the type reference.\<close>

definition user_plan :: plan where
  "user_plan = (NewTestServicePlan '''' '''' '''')
     \<lparr>p_Composition := (p_Composition (NewTestServicePlan '''' '''' ''''))
        \<lparr>co_typeRefKind := ''CompositeMariaDBUserInstance''\<rparr>\<rparr>"

definition TestBrokerAPI_LastBindingOperation :: "LastOperationSpec test_case list" where
  "TestBrokerAPI_LastBindingOperation =
     (let instance = test_instance ''instance-1'' redis_plan RedisService '''' '''';
          redis = [service_object ''1'' RedisService, plan_object redis_plan, CompositeObject instance,
            SecretObject (redis_secret ''instance-1'')];
          ready = set_ready redis_plan instance ReasonAvailable;
          user = NewTestMariaDBUserInstance ''instance-1'' ''binding-1'';
          database = [service_object ''1'' MariaDBService, service_object ''2'' MariaDBDatabaseService,
            plan_object galera_plan,
            CompositeObject (test_instance ''1-1-1'' galera_plan MariaDBService '''' ''''),
            plan_object database_plan,
            CompositeObject (test_instance ''instance-1'' database_plan MariaDBDatabaseService '''' ''1-1-1''),
            CompositeObject user];
          password = SecretObject (NewTestSecret TestNamespace ''binding-1''
            [SecretPortKey \<mapsto> ''1234'', SecretEndpointKey \<mapsto> ''localhost'', SecretPasswordKey \<mapsto> ''supersecret''])
      in [last_binding_case redis ready ''inexistent-name'' ''binding-1'' ''1-1''
            (fails_with (library_error ErrInstanceDoesNotExist)),
          last_binding_case redis ready ''instance-1'' ''binding-1'' ''1-1''
            (gives \<lparr>lo_State = Succeeded, lo_Description = Text ''''\<rparr>),
          last_binding_case database (retM ()) ''instance-1'' ''binding-1'' ''2-1''
            (gives \<lparr>lo_State = InProgress, lo_Description = Text ''''\<rparr>),
          last_binding_case (database @ [password]) (set_ready user_plan user ReasonAvailable)
            ''instance-1'' ''binding-1'' ''2-1''
            (gives \<lparr>lo_State = Succeeded, lo_Description = Text ''''\<rparr>),
          last_binding_case database (retM ()) ''instance-1'' ''inexistent-binding'' ''2-1''
            (fails_with (library_error ErrBindingDoesNotExist))])"

section \<open>Binding\<close>

text \<open>The credentials of the tests are maps: the order of the entries does not matter.\<close>

definition same_credentials :: "Credentials \<Rightarrow> Credentials \<Rightarrow> bool" where
  "same_credentials wanted got \<longleftrightarrow> length wanted = length got \<and>
     list_all (\<lambda>(k, v). map_of got k = Some v) wanted"

definition metrics_of :: "string \<Rightarrow> string list" where
  "metrics_of name =
     map (\<lambda>path. ''http://1-1-1.dbaas-test-cluster.metrics.example.tld'' @ path)
       ['''', ''/'' @ name @ ''/0'', ''/'' @ name @ ''/1'', ''/'' @ name @ ''/2'']"

definition redis_credentials :: Credentials where
  "redis_credentials =
     [(''ca.crt'', CString ''''), (''host'', CString ''localhost''), (''master'', CString ''redis://1-1-1''),
      (''password'', CString ''supersecret''), (''port'', CInt 1234),
      (''sentinels'', CCredentials [[(''host'', CString ''localhost''), (''port'', CInt 21234)]]),
      (''servers'', CCredentials [[(''host'', CString ''localhost''), (''port'', CInt 1234)]]),
      (''metricsEndpoints'', CStrings (metrics_of ''redis''))]"

text \<open>
  The comparison of the credentials of a database: \<open>***\<close> stands for any value, and the test wants no
  value for \<open>user\<close>.
\<close>

definition database_credentials_wanted :: "Credentials \<Rightarrow> bool" where
  "database_credentials_wanted got \<longleftrightarrow> length got = 12 \<and> Option.is_none (map_of got ''user'') \<and>
     list_all (\<lambda>k. \<not> Option.is_none (map_of got k))
       [''password'', ''database_uri'', ''uri'', ''jdbcUrl'', ''jdbcUrlMariaDb''] \<and>
     list_all (\<lambda>(k, v). map_of got k = Some v)
       [(''host'', CString ''localhost''), (''hostname'', CString ''localhost''), (''port'', CInt32 1234),
        (''name'', CString ''1-2-1''), (''database'', CString ''1-2-1''),
        (''metricsEndpoints'', CStrings (metrics_of ''mariadb''))]"

definition binds :: "bool \<Rightarrow> (Credentials \<Rightarrow> bool) \<Rightarrow> Binding result \<Rightarrow> mem \<Rightarrow> bool" where
  "binds async good r w \<longleftrightarrow>
     (case r of Ok b \<Rightarrow> bi_IsAsync b = async \<and> good (bi_Credentials b) | _ \<Rightarrow> False)"

definition bind_case ::
  "client_object list \<Rightarrow> (mem, unit) io \<Rightarrow> string \<Rightarrow> string \<Rightarrow> string \<Rightarrow> string \<Rightarrow> bool \<Rightarrow>
     (Binding result \<Rightarrow> mem \<Rightarrow> bool) \<Rightarrow> Binding test_case" where
  "bind_case objs fn i bid serviceID planID async want =
     \<lparr>tt_resources = objs, tt_fn = fn,
      tt_call = API_Bind bAPI correlated i bid \<lparr>d_ServiceID = serviceID, d_PlanID = planID\<rparr> async,
      tt_want = want, tt_removed = objs\<rparr>"

definition redis_instance :: composite where
  "redis_instance = test_instance ''1-1-1'' redis_plan RedisService '''' ''''"

definition galera_instance :: composite where
  "galera_instance = test_instance ''1-1-1'' galera_plan MariaDBService '''' ''''"

definition database_instance :: composite where
  "database_instance = test_instance ''1-2-1'' database_plan MariaDBDatabaseService '''' ''1-1-1''"

definition redis_objects :: "client_object list" where
  "redis_objects =
     [service_object ''1'' RedisService, plan_object redis_plan, CompositeObject redis_instance]"

definition galera_secret :: client_object where
  "galera_secret = SecretObject (NewTestSecret TestNamespace ''1-1-1''
     [SecretPortKey \<mapsto> ''1234'', SecretEndpointKey \<mapsto> ''localhost'', SecretPasswordKey \<mapsto> ''supersecret''])"

definition no_endpoint_secret :: client_object where
  "no_endpoint_secret = SecretObject (NewTestSecret TestNamespace ''1-1-1''
     [SecretPortKey \<mapsto> ''1234'', SecretPasswordKey \<mapsto> ''supersecret'', ''sentinelPort'' \<mapsto> ''21234''])"

definition database_objects :: "client_object list" where
  "database_objects =
     [service_object ''1'' MariaDBService, service_object ''2'' MariaDBDatabaseService,
      plan_object galera_plan, CompositeObject galera_instance, plan_object database_plan,
      CompositeObject database_instance, galera_secret]"

definition not_bindable :: go_error where
  "not_bindable =
     Failure (AppendErrorMessage
       (NewFailure
         (Errorf (''service MariaDB Galera Cluster is not bindable. You can create a bindable database on this cluster using cf create-service mariadb-k8s-database default my-mariadb-db -c '{\"%s\": %q}'' @ [CHR 0x27])
           [''parent_reference'', ''1-1-1''])
         422 ''binding-not-supported'' (Some ''BindingNotSupported'')) ''corrid'')"

definition redis_ready :: "(mem, unit) io" where
  "redis_ready = set_ready redis_plan redis_instance ReasonAvailable"

definition database_ready :: "(mem, unit) io" where
  "database_ready = bindM (set_ready galera_plan galera_instance ReasonAvailable)
     (\<lambda>_. set_ready database_plan database_instance ReasonAvailable)"

definition TestBrokerAPI_Bind :: "Binding test_case list" where
  "TestBrokerAPI_Bind =
     [bind_case redis_objects (retM ()) ''1-1-1'' ''1'' ''1'' ''1-1'' False
        (fails_with (library_error ErrConcurrentInstanceAccess)),
      bind_case (redis_objects @ [SecretObject (redis_secret ''1-1-1'')]) redis_ready
        ''1-1-1'' ''1'' ''1'' ''1-1'' False (binds False (same_credentials redis_credentials)),
      bind_case (redis_objects @ [SecretObject (redis_secret ''1-1-1'')]) redis_ready
        ''1-1-1'' ''1'' ''1'' ''1-1'' True (binds True (\<lambda>_. True)),
      bind_case (redis_objects @ [no_endpoint_secret]) redis_ready
        ''1-1-1'' ''1'' ''1'' ''1-1'' False (fails_with (library_error ErrBindingNotFound)),
      bind_case
        [service_object ''1'' MariaDBService, plan_object galera_plan, CompositeObject galera_instance, galera_secret]
        (set_ready galera_plan galera_instance ReasonAvailable)
        ''1-1-1'' ''1'' ''1'' ''1-1'' False (fails_with not_bindable),
      bind_case database_objects database_ready ''1-2-1'' ''2'' ''2'' ''2-1'' False
        (binds False database_credentials_wanted),
      bind_case database_objects database_ready ''1-2-1'' ''3'' ''2'' ''2-1'' True
        (binds True (\<lambda>_. True))]"

section \<open>Reading a binding\<close>

definition get_binding_case ::
  "client_object list \<Rightarrow> (mem, unit) io \<Rightarrow> (GetBindingSpec result \<Rightarrow> mem \<Rightarrow> bool) \<Rightarrow>
     GetBindingSpec test_case" where
  "get_binding_case objs fn want =
     \<lparr>tt_resources = objs, tt_fn = fn,
      tt_call = readM (API_GetBinding bAPI correlated ''1-1-1'' ''1'' \<lparr>d_ServiceID = '''', d_PlanID = ''1-1''\<rparr>),
      tt_want = want, tt_removed = objs\<rparr>"

definition TestBrokerAPI_GetBinding :: "GetBindingSpec test_case list" where
  "TestBrokerAPI_GetBinding =
     [get_binding_case redis_objects (retM ()) (fails_with (library_error ErrConcurrentInstanceAccess)),
      get_binding_case
        (plan_object (NewTestServicePlan ''1'' ''1-2'' RedisService) # redis_objects @ [no_endpoint_secret])
        redis_ready (fails_with (library_error ErrBindingNotFound)),
      get_binding_case
        (plan_object (NewTestServicePlan ''1'' ''1-2'' RedisService) # redis_objects @
           [SecretObject (redis_secret ''1-1-1'')])
        redis_ready
        (\<lambda>r w. case r of Ok b \<Rightarrow> same_credentials redis_credentials (gb_Credentials b) | _ \<Rightarrow> False)]"

section \<open>Removing a binding\<close>

definition unbind_case ::
  "client_object list \<Rightarrow> (mem, unit) io \<Rightarrow> string \<Rightarrow> (UnbindSpec result \<Rightarrow> mem \<Rightarrow> bool) \<Rightarrow>
     UnbindSpec test_case" where
  "unbind_case objs fn bid want =
     \<lparr>tt_resources = objs, tt_fn = fn,
      tt_call = API_Unbind bAPI correlated ''1-1-1'' bid \<lparr>d_ServiceID = ''1'', d_PlanID = ''1-1''\<rparr> False,
      tt_want = want, tt_removed = objs\<rparr>"

definition database_1_1_1 :: composite where
  "database_1_1_1 = test_instance ''1-1-1'' database_service_plan MariaDBDatabaseService '''' ''1''"

definition sql_user :: kobject where
  "sql_user = \<lparr>k_apiVersion = ''mysql.sql.crossplane.io/v1alpha1'', k_kind = ''User'',
     k_name = ''binding-1-user'', k_uid = ''''\<rparr>"

definition user_instance :: composite where
  "user_instance = (NewTestMariaDBUserInstance ''1-1-1'' ''binding-1'')
     \<lparr>c_resourceRefs := [\<lparr>or_APIVersion = k_apiVersion sql_user, or_Kind = k_kind sql_user,
        or_Name = k_name sql_user\<rparr>]\<rparr>"

text \<open>
  The checks after the call: the user composite is being deleted, and the secret is gone or owned by
  the \<open>User\<close>, which blocks its deletion. The test fails when the composite is not there.
\<close>

definition unbound :: "UnbindSpec result \<Rightarrow> mem \<Rightarrow> bool" where
  "unbound r w \<longleftrightarrow> gives \<lparr>ub_IsAsync = False\<rparr> r w \<and>
     (case lookup_by composite_key_of (m_composites w) (mariaDBUserGroupVersionKind, ''binding-1'') of
        Some c \<Rightarrow> c_terminating c | None \<Rightarrow> False) \<and>
     (case lookup_by secret_key_of (m_secrets w) (TestNamespace, ''binding-1-password'') of
        Some s \<Rightarrow> (case s_owners s of
            o1 # _ \<Rightarrow> ow_BlockOwnerDeletion o1 \<and> ow_Name o1 = ''binding-1-user'' \<and> ow_UID o1 \<noteq> ''''
          | [] \<Rightarrow> False)
      | None \<Rightarrow> True)"

definition TestBrokerAPI_Unbind :: "UnbindSpec test_case list" where
  "TestBrokerAPI_Unbind =
     [unbind_case redis_objects (retM ()) ''1'' (fails_with (library_error ErrConcurrentInstanceAccess)),
      unbind_case [plan_object database_service_plan, CompositeObject database_1_1_1]
        (set_ready database_service_plan database_1_1_1 ReasonAvailable) ''1''
        (fails_with (library_error ErrBindingDoesNotExist)),
      unbind_case
        [service_object ''1'' MariaDBDatabaseService, plan_object database_service_plan,
         CompositeObject database_1_1_1, CompositeObject user_instance, PlainObject sql_user,
         SecretObject (NewTestSecret TestNamespace ''binding-1-password'' [SecretPasswordKey \<mapsto> ''supersecret''])]
        (set_ready database_service_plan database_1_1_1 ReasonAvailable) ''binding-1'' unbound]"

section \<open>The catalog\<close>

text \<open>Of the metadata, the tests have a display name; the decoders are tables of what they decode.\<close>

definition suite_catalog :: "(string, string) catalog_lib" where
  "suite_catalog =
     \<lparr>DecodeMetadata = (\<lambda>s. if s = ''{\"displayName\": \"testservice\"}'' then (''testservice'', None)
        else ('''', Some (LibError ''json''))),
      SetDisplayName = (\<lambda>n m. n),
      DecodePlanMetadata = (\<lambda>s. if s = ''{\"displayName\": \"small\"}'' then (''small'', None)
        else ('''', Some (LibError ''json''))),
      SetPlanDisplayName = (\<lambda>n m. n),
      DecodeTags = (\<lambda>s. if s = ''[\"foo\",\"bar\",\"baz\"]'' then ([''foo'', ''bar'', ''baz''], None)
        else ([], Some (LibError ''json'')))\<rparr>"

definition TestBrokerAPI_Services :: "(string, string) Service list test_case list" where
  "TestBrokerAPI_Services =
     (let objs = [service_object ''1'' RedisService, plan_object redis_plan,
            plan_object (NewTestServicePlan ''1'' ''1-2'' RedisService)];
          wanted_plan = (\<lambda>i. \<lparr>sp_ID = i, sp_Name = ''small'' @ i,
            sp_Description = ''testservice-small plan description'', sp_Free = False, sp_Bindable = False,
            sp_Metadata = ''small''\<rparr>)
      in [\<lparr>tt_resources = objs, tt_fn = retM (), tt_call = readM (API_Services bAPI suite_catalog []),
           tt_want = gives
             [\<lparr>sv_ID = ''1'', sv_Name = RedisService, sv_Description = ''testservice description'',
               sv_Bindable = True, sv_InstancesRetrievable = True, sv_BindingsRetrievable = True,
               sv_PlanUpdatable = True, sv_Plans = Some [wanted_plan ''1-1'', wanted_plan ''1-2''],
               sv_Metadata = ''testservice'', sv_Tags = [''foo'', ''bar'', ''baz'']\<rparr>],
           tt_removed = objs\<rparr>])"

section \<open>The runs\<close>

lemma LastBindingOperation_passes: "suite_passes TestBrokerAPI_LastBindingOperation" by code_simp

lemma Bind_clears: "list_all passes_and_clears (take 5 TestBrokerAPI_Bind)" by code_simp

text \<open>Binding a database leaves the user and the secret of the binding behind.\<close>

lemma Bind_database_passes: "suite_passes (drop 5 TestBrokerAPI_Bind)" by code_simp

lemma binding_tests_pass:
  "suite_passes TestBrokerAPI_GetBinding \<and> suite_passes TestBrokerAPI_Unbind \<and>
   suite_passes TestBrokerAPI_Services"
  by code_simp

lemma Bind_passes: "suite_passes TestBrokerAPI_Bind"
  using suite_passes_single [OF Bind_clears, of "drop 5 TestBrokerAPI_Bind"] Bind_database_passes
  by simp

section \<open>All runs\<close>

text \<open>
  The model passes the project's integration tests of the OSB API: every case of every test in
  \<open>brokerapi_test.go\<close>, run in order on a cluster of its own with the fixtures of \<open>integration.go\<close>,
  gives the answer, the error or the effect on the cluster the test demands.
\<close>

lemma tests_pass:
  "suite_passes TestBrokerAPI_Services \<and> suite_passes TestBrokerAPI_Provision \<and>
   suite_passes TestBrokerAPI_Deprovision \<and> suite_passes TestBrokerAPI_LastOperation \<and>
   suite_passes TestBrokerAPI_LastBindingOperation \<and> suite_passes TestBrokerAPI_Bind \<and>
   suite_passes TestBrokerAPI_GetBinding \<and> suite_passes TestBrokerAPI_GetInstance \<and>
   suite_passes TestBrokerAPI_Update \<and> suite_passes TestBrokerAPI_Unbind"
  using Provision_passes Update_passes instance_tests_pass LastBindingOperation_passes Bind_passes
    binding_tests_pass
  by blast

end
