(* ===== verification/Test_Crds.thy ===== *)
theory Test_Crds
  imports Go_Strings "HOL-Library.Word"
begin

text \<open>
  The files of \<open>pkg/integration/test/integration\<close> that fetch and read the definitions the test
  cluster is set up with: \<open>remote.go\<close> and \<open>crd.go\<close>, with the functions of \<open>path/filepath\<close> and
  \<open>hash/fnv\<close> they use. The operating system, the downloads (go-getter), the YAML reader and the test
  cluster are a record of functions.
\<close>

unbundle bit_operations_syntax

section \<open>\<open>path/filepath\<close>\<close>

text \<open>The elements of a path after \<open>Clean\<close>, from the ones that are kept so far, the last one first.\<close>

fun clean_elements :: "bool \<Rightarrow> string list \<Rightarrow> string list \<Rightarrow> string list" where
  "clean_elements rooted kept [] = rev kept"
| "clean_elements rooted kept (p # ps) =
     (if p = '''' \<or> p = ''.'' then clean_elements rooted kept ps
      else if p = ''..'' then
        (if kept \<noteq> [] \<and> hd kept \<noteq> ''..'' then clean_elements rooted (tl kept) ps
         else if rooted then clean_elements rooted kept ps
         else clean_elements rooted (p # kept) ps)
      else clean_elements rooted (p # kept) ps)"

definition filepath_Clean :: "string \<Rightarrow> string" where
  "filepath_Clean path =
     (let rooted = (path \<noteq> [] \<and> hd path = CHR ''/'');
          cleaned = (if rooted then ''/'' else '''') @
            Join (clean_elements rooted [] (Split path CHR ''/'')) ''/''
      in if cleaned = '''' then ''.'' else cleaned)"

definition filepath_Join :: "string list \<Rightarrow> string" where
  "filepath_Join elems =
     (case dropWhile (\<lambda>e. e = '''') elems of
        [] \<Rightarrow> ''''
      | es \<Rightarrow> filepath_Clean (Join es ''/''))"

definition filepath_Ext :: "string \<Rightarrow> string" where
  "filepath_Ext path =
     (let ext = takeWhile (\<lambda>c. c \<noteq> CHR ''.'' \<and> c \<noteq> CHR ''/'') (rev path)
      in if length ext < length path \<and> rev path ! length ext = CHR ''.''
         then CHR ''.'' # rev ext else '''')"

section \<open>Downloading\<close>

definition fnv32a :: "string \<Rightarrow> 32 word" where
  "fnv32a s = foldl (\<lambda>h c. (h XOR of_nat (of_char c)) * 16777619) 2166136261 s"

text \<open>\<open>%x\<close>\<close>

definition hex_digit :: "int \<Rightarrow> char" where
  "hex_digit d = (if d < 10 then char_of (48 + d) else char_of (87 + d))"

function show_hex :: "int \<Rightarrow> string" where
  "show_hex n = (if n < 16 then [hex_digit n] else show_hex (n div 16) @ [hex_digit (n mod 16)])"
  by auto

termination by (relation "measure nat") auto

declare show_hex.simps [simp del]

text \<open>The mode of the client is always \<open>ClientModeAny\<close>.\<close>

record getter_client =
  gc_Src :: string
  gc_Dst :: string
  gc_Pwd :: string

datatype yaml_read = EOF | ReadError go_error | Document string

record crd =
  crd_Name :: string
  crd_Kind :: string
  crd_Group :: string

record environment =
  ev_CRDDirectoryPaths :: "string list"
  ev_Config :: "string option"
  ev_UseExistingCluster :: bool

text \<open>
  The YAML reader is a function from the bytes that are left to what it reads and the bytes left
  after it. A REST configuration is a name.
\<close>

record 'w harness =
  x_ParseDuration :: "string \<Rightarrow> go_error + int"
  x_MkdirTemp :: "'w \<Rightarrow> (go_error + string) \<times> 'w"
  x_Getwd :: "'w \<Rightarrow> go_error + string"
  x_Get :: "getter_client \<Rightarrow> 'w \<Rightarrow> (go_error + unit) \<times> 'w"
  x_ReadDir :: "string \<Rightarrow> 'w \<Rightarrow> go_error + string list"
  x_ReadFile :: "string \<Rightarrow> 'w \<Rightarrow> go_error + string"
  x_RemoveAll :: "string \<Rightarrow> 'w \<Rightarrow> (go_error + unit) \<times> 'w"
  x_ReadYAML :: "string \<Rightarrow> yaml_read \<times> string"
  x_UnmarshalCRD :: "string \<Rightarrow> go_error + crd"
  x_DeleteCRD :: "crd \<Rightarrow> 'w \<Rightarrow> (go_error + unit) \<times> 'w"
  x_Start :: "environment \<Rightarrow> 'w \<Rightarrow> (go_error + string) \<times> 'w"
  x_Stop :: "environment \<Rightarrow> 'w \<Rightarrow> (go_error + unit) \<times> 'w"
  x_NewClient :: "string \<Rightarrow> 'w \<Rightarrow> go_error + unit"
  x_NewManager :: "string \<Rightarrow> int option \<Rightarrow> 'w \<Rightarrow> (go_error + unit) \<times> 'w"
  x_RunManager :: "'w \<Rightarrow> (go_error + unit) \<times> 'w"

definition download_dir :: "string \<Rightarrow> string \<Rightarrow> string" where
  "download_dir url path = filepath_Join [path, show_hex (uint (fnv32a url))]"

definition downloadPath :: "'w harness \<Rightarrow> string \<Rightarrow> string \<Rightarrow> ('w, string) io" where
  "downloadPath x url path =
     bindM (readM (\<lambda>w. lib_call (x_Getwd x w))) (\<lambda>pwd.
     let dst = download_dir url path
     in bindM (writeM (x_Get x \<lparr>gc_Src = url, gc_Dst = dst, gc_Pwd = pwd\<rparr>)) (\<lambda>_. retM dst))"

section \<open>Reading definitions\<close>

text \<open>
  The loop over the documents of a file, with fuel: as many rounds as the file has bytes and one more
  are enough for a reader that consumes what it reads (\<open>read_loop_enough\<close>).
\<close>

fun read_loop :: "(string \<Rightarrow> yaml_read \<times> string) \<Rightarrow> nat \<Rightarrow> string \<Rightarrow> string list result" where
  "read_loop rd 0 bs = Ok []"
| "read_loop rd (Suc n) bs =
     (case rd bs of
        (EOF, _) \<Rightarrow> Ok []
      | (ReadError e, _) \<Rightarrow> Err e
      | (Document d, bs') \<Rightarrow> bindR (read_loop rd n bs') (\<lambda>docs. Ok (d # docs)))"

definition readDocuments :: "'w harness \<Rightarrow> string \<Rightarrow> 'w \<Rightarrow> string list result" where
  "readDocuments x fp w =
     bindR (lib_call (x_ReadFile x (filepath_Clean fp) w)) (\<lambda>b.
     read_loop (x_ReadYAML x) (Suc (length b)) b)"

definition crdExts :: "string list" where
  "crdExts = [''.json'', ''.yaml'', ''.yml'']"

fun crds_of_docs :: "'w harness \<Rightarrow> string list \<Rightarrow> crd list result" where
  "crds_of_docs x [] = Ok []"
| "crds_of_docs x (doc # docs) =
     bindR (lib_call (x_UnmarshalCRD x doc)) (\<lambda>crd.
     bindR (crds_of_docs x docs) (\<lambda>crds.
     Ok (if crd_Kind crd = '''' \<or> crd_Group crd = '''' then crds else crd # crds)))"

fun crds_of_files :: "'w harness \<Rightarrow> string \<Rightarrow> string list \<Rightarrow> 'w \<Rightarrow> crd list result" where
  "crds_of_files x path [] w = Ok []"
| "crds_of_files x path (file # files) w =
     (if filepath_Ext file \<notin> set crdExts then crds_of_files x path files w
      else bindR (readDocuments x (filepath_Join [path, file]) w) (\<lambda>docs.
           bindR (crds_of_docs x docs) (\<lambda>crds.
           bindR (crds_of_files x path files w) (\<lambda>rest. Ok (crds @ rest)))))"

definition readCRDs :: "'w harness \<Rightarrow> string \<Rightarrow> 'w \<Rightarrow> crd list result" where
  "readCRDs x path w =
     bindR (lib_call (x_ReadDir x path w)) (\<lambda>files. crds_of_files x path files w)"

section \<open>Lemmas\<close>

definition consumes :: "(string \<Rightarrow> yaml_read \<times> string) \<Rightarrow> bool" where
  "consumes rd \<longleftrightarrow> (\<forall>bs d bs'. rd bs = (Document d, bs') \<longrightarrow> length bs' < length bs)"

lemma read_loop_enough:
  assumes "consumes rd" and "length bs < n" and "length bs < k"
  shows "read_loop rd n bs = read_loop rd k bs"
  using assms(2,3)
proof (induction n arbitrary: k bs)
  case (Suc n)
  then obtain k' where k: "k = Suc k'" by (cases k) auto
  have "read_loop rd n bs' = read_loop rd k' bs'" if "rd bs = (Document d, bs')" for d bs'
    using that assms(1) Suc.prems k by (intro Suc.IH) (fastforce simp: consumes_def)+
  then show ?case by (auto simp: k split: prod.splits yaml_read.splits)
qed simp

lemma read_loop_documents:
  assumes "consumes rd" and "read_loop rd n bs = Ok docs" and "length bs < n"
  shows "fst (rd bs) = EOF \<and> docs = [] \<or>
    (\<exists>d bs' docs'. rd bs = (Document d, bs') \<and> docs = d # docs' \<and> read_loop rd n bs' = Ok docs')"
proof (cases n)
  case (Suc k)
  show ?thesis
  proof (cases "rd bs")
    case (Pair r bs')
    show ?thesis
    proof (cases r)
      case (Document d)
      then have "length bs' < length bs" using assms(1) Pair by (auto simp: consumes_def)
      then have "read_loop rd k bs' = read_loop rd n bs'"
        using assms(3) Suc by (intro read_loop_enough [OF assms(1)]) auto
      then show ?thesis using assms(2) Suc Pair Document by (auto simp: go_inv)
    qed (use assms(2) Suc Pair in auto)
  qed
qed (use assms(3) in simp)

lemma hex_digit_no_slash:
  "0 \<le> d \<Longrightarrow> d < 16 \<Longrightarrow> hex_digit d \<noteq> CHR ''/'' \<and> hex_digit d \<noteq> CHR ''.''"
proof -
  have "list_all (\<lambda>d. hex_digit d \<noteq> CHR ''/'' \<and> hex_digit d \<noteq> CHR ''.'') [0..15]" by code_simp
  then show "0 \<le> d \<Longrightarrow> d < 16 \<Longrightarrow> ?thesis" by (simp add: list_all_iff)
qed

lemma show_hex_chars:
  "0 \<le> n \<Longrightarrow> show_hex n \<noteq> [] \<and> CHR ''/'' \<notin> set (show_hex n) \<and> CHR ''.'' \<notin> set (show_hex n)"
proof (induction n rule: show_hex.induct)
  case (1 n)
  show ?case
  proof (cases "n < 16")
    case True
    then have "show_hex n = [hex_digit n]" by (simp add: show_hex.simps [of n])
    then show ?thesis using hex_digit_no_slash [OF 1(2) True] by auto
  next
    case False
    then have "show_hex n = show_hex (n div 16) @ [hex_digit (n mod 16)]"
      by (simp add: show_hex.simps [of n])
    then show ?thesis using hex_digit_no_slash [of "n mod 16"] 1(1) [OF False] 1(2) by auto
  qed
qed

text \<open>What comes out of a directory: the definitions in its files of the known kinds.\<close>

lemma set_crds_of_docs:
  "crds_of_docs x docs = Ok crds \<Longrightarrow>
     set crds = {c. \<exists>doc \<in> set docs. x_UnmarshalCRD x doc = Inr c \<and> crd_Kind c \<noteq> [] \<and> crd_Group c \<noteq> []}"
proof (induction docs arbitrary: crds)
  case (Cons doc docs)
  from Cons.prems obtain c cs where doc: "x_UnmarshalCRD x doc = Inr c"
    and cs: "crds_of_docs x docs = Ok cs"
    and crds: "crds = (if crd_Kind c = [] \<or> crd_Group c = [] then cs else c # cs)"
    by (auto simp: go_inv)
  show ?case using Cons.IH [OF cs] doc crds by (auto split: if_splits)
qed simp

lemma set_crds_of_files:
  "crds_of_files x path files w = Ok crds \<Longrightarrow>
     set crds = {c. \<exists>file \<in> set files. filepath_Ext file \<in> set crdExts \<and>
       (\<exists>docs doc. readDocuments x (filepath_Join [path, file]) w = Ok docs \<and> doc \<in> set docs \<and>
          x_UnmarshalCRD x doc = Inr c \<and> crd_Kind c \<noteq> [] \<and> crd_Group c \<noteq> [])}"
proof (induction files arbitrary: crds)
  case (Cons f files)
  show ?case
  proof (cases "filepath_Ext f \<in> set crdExts")
    case False
    then show ?thesis using Cons by auto
  next
    case True
    with Cons.prems obtain docs cs rest where docs: "readDocuments x (filepath_Join [path, f]) w = Ok docs"
      and cs: "crds_of_docs x docs = Ok cs" and rest: "crds_of_files x path files w = Ok rest"
      and crds: "crds = cs @ rest"
      by (auto simp: go_inv)
    show ?thesis using set_crds_of_docs [OF cs] Cons.IH [OF rest] docs True by (auto simp: crds)
  qed
qed simp

lemma fnv32a_empty [simp]: "fnv32a '''' = 2166136261" by (simp add: fnv32a_def)

text \<open>A value from the definition of the hash.\<close>

lemma fnv32a_a: "fnv32a ''a'' = 0xe40c292c" by code_simp

lemma clean_examples:
  "filepath_Clean ''/tmp/x/../y//z/.'' = ''/tmp/y/z''" "filepath_Clean ''../../testdata/crds'' = ''../../testdata/crds''"
  "filepath_Clean '''' = ''.''" "filepath_Ext ''a/b.tar.yaml'' = ''.yaml''" "filepath_Ext ''a.b/c'' = ''''"
  by code_simp+

end
