(* ===== verification/Test_Manager.thy ===== *)
theory Test_Manager
  imports Test_Crds Test_Fixtures Http_Api
begin

text \<open>
  \<open>pkg/integration/test/integration/server.go\<close>: the manager of the test cluster, how it is set up and
  cleaned up; and \<open>SetupManager\<close> of \<open>integration.go\<close>. Of the world, the manager's client and its
  goroutine are not values of the model: what they do is the library's.
\<close>

section \<open>Configuration\<close>

text \<open>What a cleaner sees of the manager: the test environment and the directory of the definitions.\<close>

record installation =
  in_env :: environment
  in_tmpDir :: string

type_synonym 'w BuilderFn = "('w, unit) io"
type_synonym 'w CleanerFn = "installation \<Rightarrow> ('w, unit) io"

text \<open>Of the manager's options, the code sets \<open>SyncPeriod\<close>.\<close>

record 'w Config =
  CRDPaths :: "string list"
  Builder :: "'w BuilderFn"
  Cleaners :: "'w CleanerFn list"
  ManagerOptions :: "int option"

definition syncPeriod :: string where "syncPeriod = ''30s''"
definition errCleanup :: string where "errCleanup = ''failure in default cleanup''"
definition errCreateTmpDir :: string where
  "errCreateTmpDir = ''unable to create temporary directory for CRDs''"
definition errGetCRDs :: string where "errGetCRDs = ''unable to download CRDs''"

text \<open>\<open>errors.Wrap(err, msg)\<close>\<close>

definition wrap :: "string \<Rightarrow> go_error \<Rightarrow> go_error" where
  "wrap msg e = Wrapf ''%s: %w'' [msg] e"

definition NewBuilder :: "'w BuilderFn" where
  "NewBuilder = retM ()"

fun read_paths :: "'w harness \<Rightarrow> string list \<Rightarrow> 'w \<Rightarrow> crd list result" where
  "read_paths x [] w = Ok []"
| "read_paths x (path # paths) w =
     bindR (mapErr (wrap errCleanup) (readCRDs x path w)) (\<lambda>crd.
     bindR (read_paths x paths w) (\<lambda>crds. Ok (crd @ crds)))"

fun delete_crds :: "'w harness \<Rightarrow> crd list \<Rightarrow> ('w, unit) io" where
  "delete_crds x [] = retM ()"
| "delete_crds x (crd # crds) =
     bindM (handleM (writeM (x_DeleteCRD x crd))
              (\<lambda>e. if IsNotFound e then Ok () else Err (wrap errCleanup e))) (\<lambda>_.
     delete_crds x crds)"

definition NewCRDCleaner :: "'w harness \<Rightarrow> 'w CleanerFn" where
  "NewCRDCleaner x m =
     bindM (readM (read_paths x (ev_CRDDirectoryPaths (in_env m)))) (\<lambda>crds. delete_crds x crds)"

definition NewCRDDirCleaner :: "'w harness \<Rightarrow> 'w CleanerFn" where
  "NewCRDDirCleaner x m = writeM (x_RemoveAll x (in_tmpDir m))"

definition WithBuilder :: "'w BuilderFn \<Rightarrow> 'w Config \<Rightarrow> 'w Config" where
  "WithBuilder builder c = c\<lparr>Builder := builder\<rparr>"

definition WithCleaners :: "'w CleanerFn list \<Rightarrow> 'w Config \<Rightarrow> 'w Config" where
  "WithCleaners cleaners c = c\<lparr>Cleaners := cleaners\<rparr>"

definition WithCRDPaths :: "string list \<Rightarrow> 'w Config \<Rightarrow> 'w Config" where
  "WithCRDPaths crds c = c\<lparr>CRDPaths := crds\<rparr>"

definition WithManagerOptions :: "int option \<Rightarrow> 'w Config \<Rightarrow> 'w Config" where
  "WithManagerOptions m c = c\<lparr>ManagerOptions := m\<rparr>"

definition defaultConfig :: "'w harness \<Rightarrow> 'w Config result" where
  "defaultConfig x =
     (case x_ParseDuration x syncPeriod of
        Inl e \<Rightarrow> Panic (PanicValue e)
      | Inr t \<Rightarrow> Ok \<lparr>CRDPaths = [], Builder = NewBuilder,
          Cleaners = [NewCRDDirCleaner x, NewCRDCleaner x], ManagerOptions = Some t\<rparr>)"

section \<open>The manager\<close>

text \<open>\<open>mg_stopped\<close> tells whether the channel \<open>stop\<close> is closed.\<close>

record 'w Manager = installation +
  mg_c :: "'w Config"
  mg_rest :: string
  mg_stopped :: bool

fun download_paths :: "'w harness \<Rightarrow> string \<Rightarrow> string list \<Rightarrow> ('w, string list) io" where
  "download_paths x dir [] = retM []"
| "download_paths x dir (path # paths) =
     bindM (handleM (downloadPath x path dir) (\<lambda>e. Err (wrap errGetCRDs e))) (\<lambda>dst.
     bindM (download_paths x dir paths) (\<lambda>dsts. retM (dst # dsts)))"

definition New_Manager ::
  "'w harness \<Rightarrow> string option \<Rightarrow> ('w Config \<Rightarrow> 'w Config) list \<Rightarrow> ('w, 'w Manager) io" where
  "New_Manager x cfg opts =
     bindM (liftR (defaultConfig x)) (\<lambda>c0.
     let c = foldl (\<lambda>c opt. opt c) c0 opts in
     bindM (handleM (writeM (x_MkdirTemp x)) (\<lambda>e. Err (wrap errCreateTmpDir e))) (\<lambda>dir.
     bindM (download_paths x dir (CRDPaths c)) (\<lambda>crdPaths.
     let e = \<lparr>ev_CRDDirectoryPaths = crdPaths, ev_Config = cfg, ev_UseExistingCluster = (cfg \<noteq> None)\<rparr> in
     bindM (writeM (x_Start x e)) (\<lambda>cfg.
     bindM (readM (\<lambda>w. lib_call (x_NewClient x cfg w))) (\<lambda>_.
     bindM (Builder c) (\<lambda>_.
     bindM (writeM (x_NewManager x cfg (ManagerOptions c))) (\<lambda>_.
     retM \<lparr>in_env = e, in_tmpDir = dir, mg_c = c, mg_rest = cfg, mg_stopped = False\<rparr>)))))))"

text \<open>The goroutine of \<open>Run\<close>.\<close>

definition Run_goroutine :: "'w harness \<Rightarrow> ('w, unit) io" where
  "Run_goroutine x = handleM (writeM (x_RunManager x)) (\<lambda>e. Panic (PanicValue e))"

fun run_cleaners :: "'w CleanerFn list \<Rightarrow> installation \<Rightarrow> ('w, unit) io" where
  "run_cleaners [] m = retM ()"
| "run_cleaners (clean # cleaners) m = bindM (clean m) (\<lambda>_. run_cleaners cleaners m)"

definition installation_of :: "'w Manager \<Rightarrow> installation" where
  "installation_of m = \<lparr>in_env = in_env m, in_tmpDir = in_tmpDir m\<rparr>"

definition Cleanup :: "'w harness \<Rightarrow> 'w Manager \<Rightarrow> 'w \<Rightarrow> unit result \<times> 'w Manager \<times> 'w" where
  "Cleanup x m w =
     (if mg_stopped m then (Panic ClosedChannel, m, w)
      else case bindM (run_cleaners (Cleaners (mg_c m)) (installation_of m))
                  (\<lambda>_. writeM (x_Stop x (in_env m))) w of
          (r, w') \<Rightarrow> (r, m\<lparr>mg_stopped := True\<rparr>, w'))"

section \<open>Setting up a test\<close>

text \<open>
  \<open>require\<close> ends the test at an error, \<open>assert\<close> records it and goes on. The result lists what was
  recorded. The goroutine that \<open>Run\<close> starts is not part of this function's run.
\<close>

datatype 'a test_run = Returned "'a result" | FailedNow go_error

definition failed_assertion :: "'a result \<Rightarrow> go_error list" where
  "failed_assertion r = (case r of Err e \<Rightarrow> [e] | _ \<Rightarrow> [])"

definition SetupManager ::
  "'w harness \<Rightarrow> (string \<Rightarrow> string \<Rightarrow> 'w \<Rightarrow> (go_error + unit) \<times> 'w) \<Rightarrow> 's scheme_lib \<Rightarrow>
     ('s \<Rightarrow> go_error + 's) \<Rightarrow> 's \<Rightarrow> 'w test_client \<Rightarrow> ('s \<Rightarrow> string \<Rightarrow> go_error + 'w lib) \<Rightarrow>
     'w \<Rightarrow> ('w Manager \<times> 'w Crossplane) test_run \<times> go_error list \<times> 'w" where
  "SetupManager x setenv sl v1AddToScheme scheme client newClient w =
     (case setenv ''KUBEBUILDER_ASSETS'' ''../../testdata/bin'' w of
        (Inl e, w0) \<Rightarrow> (FailedNow e, [], w0)
      | (Inr _, w0) \<Rightarrow>
          (case New_Manager x None [WithCRDPaths [''../../testdata/crds'']] w0 of
             (Err e, w1) \<Rightarrow> (Returned (Err e), [], w1)
           | (Panic p, w1) \<Rightarrow> (Returned (Panic p), [], w1)
           | (Ok m, w1) \<Rightarrow>
               let r1 = lib_call (v1AddToScheme scheme);
                   scheme1 = (case r1 of Ok s \<Rightarrow> s | _ \<Rightarrow> scheme);
                   failed = failed_assertion r1 @ failed_assertion (Register sl scheme1)
               in (case CreateObjects [PlainObject (newTestNamespace TestNamespace)] client w1 of
                     (Err e, w2) \<Rightarrow> (FailedNow e, failed, w2)
                   | (Panic p, w2) \<Rightarrow> (Returned (Panic p), failed, w2)
                   | (Ok _, w2) \<Rightarrow>
                       (Returned (bindR (New_Crossplane sl newClient test_broker_config (mg_rest m))
                          (\<lambda>cp. Ok (m, cp))), failed, w2))))"

section \<open>Lemmas\<close>

text \<open>An entry of a directory, with a plain name.\<close>

definition below :: "string \<Rightarrow> string \<Rightarrow> bool" where
  "below d p \<longleftrightarrow> d \<noteq> '''' \<and>
     (\<exists>n. n \<noteq> '''' \<and> CHR ''/'' \<notin> set n \<and> CHR ''.'' \<notin> set n \<and> p = filepath_Join [d, n])"

text \<open>
  What is relied on of the operating system: a temporary directory has a name, and a directory that was
  removed with all it holds has no entry that can be read.
\<close>

definition names_directories :: "'w harness \<Rightarrow> bool" where
  "names_directories x \<longleftrightarrow> (\<forall>w d w'. x_MkdirTemp x w = (Inr d, w') \<longrightarrow> d \<noteq> '''')"

definition removes_entries :: "'w harness \<Rightarrow> bool" where
  "removes_entries x \<longleftrightarrow>
     (\<forall>d p w w'. x_RemoveAll x d w = (Inr (), w') \<and> below d p \<longrightarrow> (\<exists>e. x_ReadDir x p w' = Inl e))"

lemma download_dir_below: "d \<noteq> '''' \<Longrightarrow> below d (download_dir url d)"
  using show_hex_chars by (auto simp: below_def download_dir_def)

lemma downloadPath_Ok: "downloadPath x url path w = (Ok dst, w') \<Longrightarrow> dst = download_dir url path"
  by (auto simp: downloadPath_def Let_def go_inv split: result.splits)

lemma download_paths_Ok:
  "download_paths x dir ps w = (Ok dsts, w') \<Longrightarrow> dsts = map (\<lambda>p. download_dir p dir) ps"
proof (induction ps arbitrary: w dsts)
  case (Cons p ps)
  from Cons.prems obtain dst dsts' w1 where "downloadPath x p dir w = (Ok dst, w1)"
    and rest: "download_paths x dir ps w1 = (Ok dsts', w')" and "dsts = dst # dsts'"
    by (auto simp: go_inv)
  then show ?case using Cons.IH [OF rest] by (simp add: downloadPath_Ok)
qed simp

lemma New_Manager_Ok:
  assumes "New_Manager x cfg opts w = (Ok m, w')"
  obtains c0 w1 w2 where "defaultConfig x = Ok c0" "mg_c m = foldl (\<lambda>c opt. opt c) c0 opts"
    "x_MkdirTemp x w1 = (Inr (in_tmpDir m), w2)"
    "ev_CRDDirectoryPaths (in_env m) = map (\<lambda>p. download_dir p (in_tmpDir m)) (CRDPaths (mg_c m))"
    "mg_stopped m = False"
proof (cases "defaultConfig x")
  case (Ok c0)
  let ?c = "foldl (\<lambda>c opt. opt c) c0 opts"
  from assms Ok obtain dir paths v e w1 w2 where
    tmp: "x_MkdirTemp x w = (Inr dir, w1)" and "download_paths x dir (CRDPaths ?c) w1 = (Ok paths, w2)"
    and m: "m = \<lparr>in_env = \<lparr>ev_CRDDirectoryPaths = paths, ev_Config = cfg, ev_UseExistingCluster = v\<rparr>,
      in_tmpDir = dir, mg_c = ?c, mg_rest = e, mg_stopped = False\<rparr>"
    by (auto simp: New_Manager_def go_inv Let_def simp del: bindM_readM)
  then have "paths = map (\<lambda>p. download_dir p dir) (CRDPaths ?c)" by (blast dest: download_paths_Ok)
  with tmp show ?thesis by (intro that [OF Ok]) (simp_all add: m)
qed (use assms in \<open>simp_all add: New_Manager_def\<close>)

lemma defaultConfig_Ok:
  "defaultConfig x = Ok c \<Longrightarrow> Cleaners c = [NewCRDDirCleaner x, NewCRDCleaner x] \<and> CRDPaths c = []"
  by (auto simp: defaultConfig_def split: sum.splits)

text \<open>With the cleaners the other way round, the definitions are deleted and the environment is stopped.\<close>

lemma cleanup_reads_before_it_removes:
  assumes "Cleaners (mg_c m) = [NewCRDCleaner x, NewCRDDirCleaner x]" and "\<not> mg_stopped m"
    and "read_paths x (ev_CRDDirectoryPaths (in_env m)) w = Ok crds"
    and "delete_crds x crds w = (Ok (), w1)"
    and "x_RemoveAll x (in_tmpDir m) w1 = (Inr (), w2)" and "x_Stop x (in_env m) w2 = (Inr (), w3)"
  shows "Cleanup x m w = (Ok (), m\<lparr>mg_stopped := True\<rparr>, w3)"
  using assms
  by (simp add: Cleanup_def installation_of_def NewCRDCleaner_def NewCRDDirCleaner_def bindM_step
      writeM_simps)

text \<open>What a test gets: a manager with the definitions of the repository and a client with the tests' configuration.\<close>

lemma SetupManager_Ok:
  assumes "SetupManager x setenv sl v1 scheme client newClient w =
      (Returned (Ok (m, cp)), failed, w2)"
  obtains w0 w1 where "New_Manager x None [WithCRDPaths [''../../testdata/crds'']] w0 = (Ok m, w1)"
    and "CreateObjects [PlainObject (newTestNamespace TestNamespace)] client w1 = (Ok (), w2)"
    and "cp_config cp = test_broker_config"
proof -
  let ?paths = "[WithCRDPaths [''../../testdata/crds'']]"
    and ?objs = "[PlainObject (newTestNamespace TestNamespace)]"
  obtain s0 w0 where env: "setenv ''KUBEBUILDER_ASSETS'' ''../../testdata/bin'' w = (s0, w0)"
    by fastforce
  obtain r1 w1 where manager: "New_Manager x None ?paths w0 = (r1, w1)" by fastforce
  obtain r2 w3 where objs: "CreateObjects ?objs client w1 = (r2, w3)" by fastforce
  note run = assms [unfolded SetupManager_def env Let_def prod.case]
  show ?thesis
  proof (cases s0)
    case (Inr u)
    note run = run [unfolded Inr sum.case manager prod.case]
    show ?thesis
    proof (cases r1)
      case (Ok m1)
      note run = run [unfolded Ok result.case objs prod.case]
      show ?thesis
      proof (cases r2)
        case ok: (Ok u')
        note run = run [unfolded ok result.case]
        from run manager objs Ok ok show ?thesis
          by (intro that [of w0 w1]) (auto simp: go_inv New_Crossplane_def)
      qed (use run in simp_all)
    qed (use run in simp_all)
  qed (use run in simp)
qed

section \<open>A host\<close>

text \<open>A host whose only directories are those of the tests, with one definition in each download.\<close>

record host =
  ho_dirs :: "(string \<times> (string \<times> string) list) list"
  ho_events :: "string list"

definition happens :: "string \<Rightarrow> host \<Rightarrow> host" where
  "happens ev h = h\<lparr>ho_events := ho_events h @ [ev]\<rparr>"

definition ex_file :: "host \<Rightarrow> string \<Rightarrow> string option" where
  "ex_file h p = map_of (concat (map (\<lambda>(d, fs). map (\<lambda>(n, c). (filepath_Join [d, n], c)) fs) (ho_dirs h))) p"

definition ex_harness :: "host harness" where
  "ex_harness =
     \<lparr>x_ParseDuration = (\<lambda>s. Inr 30000000000),
      x_MkdirTemp = (\<lambda>h. (Inr ''/tmp/1'', h\<lparr>ho_dirs := (''/tmp/1'', []) # ho_dirs h\<rparr>)),
      x_Getwd = (\<lambda>h. Inr ''/src''),
      x_Get = (\<lambda>g h. (Inr (), h\<lparr>ho_dirs :=
         (gc_Dst g, [(''xrd.yaml'', ''composite''), (''README.md'', ''text'')]) # ho_dirs h\<rparr>)),
      x_ReadDir = (\<lambda>p h. case map_of (ho_dirs h) p of
         Some fs \<Rightarrow> Inr (map fst fs) | None \<Rightarrow> Inl (LibError ''no such file or directory'')),
      x_ReadFile = (\<lambda>p h. case ex_file h p of
         Some c \<Rightarrow> Inr c | None \<Rightarrow> Inl (LibError ''no such file or directory'')),
      x_RemoveAll = (\<lambda>d h. (Inr (), h\<lparr>ho_dirs := []\<rparr>)),
      x_ReadYAML = (\<lambda>bs. if bs = [] then (EOF, []) else (Document bs, [])),
      x_UnmarshalCRD = (\<lambda>doc. Inr \<lparr>crd_Name = doc, crd_Kind = ''XRD'', crd_Group = ''syn.tools''\<rparr>),
      x_DeleteCRD = (\<lambda>c h. (Inr (), happens (''delete '' @ crd_Name c) h)),
      x_Start = (\<lambda>e h. (Inr ''rest'', happens ''start'' h)),
      x_Stop = (\<lambda>e h. (Inr (), happens ''stop'' h)),
      x_NewClient = (\<lambda>r h. Inr ()), x_NewManager = (\<lambda>r o' h. (Inr (), h)),
      x_RunManager = (\<lambda>h. (Inr (), h))\<rparr>"

definition ex_host :: host where "ex_host = \<lparr>ho_dirs = [], ho_events = []\<rparr>"

definition ex_setup :: "host Manager result \<times> host" where
  "ex_setup = New_Manager ex_harness None [WithCRDPaths [''../../testdata/crds'']] ex_host"

section \<open>Properties\<close>

text \<open>Reading the definitions of a directory: a definition is answered exactly when it is a document of a
  file with one of the known extensions and names a kind and a group; an unreadable file or document
  is an error.\<close>

theorem definitions_of_a_directory:
  assumes "readCRDs x path w = Ok crds"
  shows "\<exists>files. x_ReadDir x path w = Inr files \<and>
    set crds = {c. \<exists>file \<in> set files. filepath_Ext file \<in> {''.json'', ''.yaml'', ''.yml''} \<and>
      (\<exists>docs doc. readDocuments x (filepath_Join [path, file]) w = Ok docs \<and> doc \<in> set docs \<and>
         x_UnmarshalCRD x doc = Inr c \<and> crd_Kind c \<noteq> [] \<and> crd_Group c \<noteq> [])}"
  using assms set_crds_of_files [of x path _ w crds]
  by (auto simp: readCRDs_def go_inv crdExts_def)

theorem definitions_of_a_directory_witness:
  "\<exists>crds. readCRDs ex_harness ''/crds''
       \<lparr>ho_dirs = [(''/crds'', [(''xrd.yaml'', ''composite''), (''README.md'', ''text'')])], ho_events = []\<rparr> = Ok crds \<and>
     crd_Name ` set crds \<subseteq> {''composite''} \<and> crds \<noteq> []"
proof -
  let ?h = "\<lparr>ho_dirs = [(''/crds'', [(''xrd.yaml'', ''composite''), (''README.md'', ''text'')])], ho_events = []\<rparr>"
  have "case readCRDs ex_harness ''/crds'' ?h of Ok [c] \<Rightarrow> crd_Name c = ''composite'' | _ \<Rightarrow> False"
    by code_simp
  then obtain c where c: "readCRDs ex_harness ''/crds'' ?h = Ok [c]" "crd_Name c = ''composite''"
    by (auto split: result.splits list.splits)
  from definitions_of_a_directory [OF c(1)] c show ?thesis by auto
qed

text \<open>C34: A manager with definitions and the default cleaners does not clean up: the directory the definitions
  were downloaded to is removed first, so the cleaner that reads them fails, no definition is deleted
  and the test cluster is not stopped. A second attempt panics.\<close>

theorem default_cleanup_stops_nothing:
  assumes "names_directories x" and "removes_entries x"
    and "New_Manager x cfg [WithCRDPaths (p # ps)] w0 = (Ok m, w1)"
    and "x_RemoveAll x (in_tmpDir m) w = (Inr (), w')"
  shows "\<exists>e. Cleanup x m w = (Err (wrap errCleanup e), m\<lparr>mg_stopped := True\<rparr>, w') \<and>
    Cleanup x (m\<lparr>mg_stopped := True\<rparr>) w' = (Panic ClosedChannel, m\<lparr>mg_stopped := True\<rparr>, w')"
proof -
  from New_Manager_Ok [OF assms(3)] obtain c0 v1 v2 where c0: "defaultConfig x = Ok c0"
    and c: "mg_c m = WithCRDPaths (p # ps) c0" and tmp: "x_MkdirTemp x v1 = (Inr (in_tmpDir m), v2)"
    and paths: "ev_CRDDirectoryPaths (in_env m) = map (\<lambda>p. download_dir p (in_tmpDir m)) (CRDPaths (mg_c m))"
    and open_stop: "mg_stopped m = False" by auto
  have "below (in_tmpDir m) (download_dir p (in_tmpDir m))"
    using assms(1) tmp by (intro download_dir_below) (auto simp: names_directories_def)
  then obtain e where "x_ReadDir x (download_dir p (in_tmpDir m)) w' = Inl e"
    using assms(2,4) unfolding removes_entries_def by blast
  then have "read_paths x (ev_CRDDirectoryPaths (in_env m)) w' = Err (wrap errCleanup e)"
    by (simp add: paths c WithCRDPaths_def readCRDs_def)
  moreover have "Cleaners (mg_c m) = [NewCRDDirCleaner x, NewCRDCleaner x]"
    using defaultConfig_Ok [OF c0] by (simp add: c WithCRDPaths_def)
  ultimately show ?thesis using assms(4) open_stop
    by (intro exI [of _ e]) (simp add: Cleanup_def installation_of_def NewCRDCleaner_def
        NewCRDDirCleaner_def bindM_step writeM_simps)
qed

theorem default_cleanup_stops_nothing_witness:
  "\<exists>m w e. ex_setup = (Ok m, w) \<and> ho_events w = [''start''] \<and>
     (case Cleanup ex_harness m w of (r, m', w') \<Rightarrow> r = Err (wrap errCleanup e) \<and> ho_events w' = [''start''])"
proof -
  have "case ex_setup of (Ok m, w) \<Rightarrow> ho_events w = [''start''] | _ \<Rightarrow> False" by code_simp
  then obtain m w where made: "ex_setup = (Ok m, w)" and events: "ho_events w = [''start'']"
    by (auto split: prod.splits result.splits)
  have "names_directories ex_harness" by (simp add: names_directories_def ex_harness_def)
  moreover have "removes_entries ex_harness"
    by (auto simp: removes_entries_def ex_harness_def)
  moreover have "x_RemoveAll ex_harness (in_tmpDir m) w = (Inr (), w\<lparr>ho_dirs := []\<rparr>)"
    by (simp add: ex_harness_def)
  ultimately obtain e where "Cleanup ex_harness m w =
      (Err (wrap errCleanup e), m\<lparr>mg_stopped := True\<rparr>, w\<lparr>ho_dirs := []\<rparr>)"
    using default_cleanup_stops_nothing [OF _ _ made [unfolded ex_setup_def]] by blast
  with made events show ?thesis by (intro exI [of _ m] exI [of _ w] exI [of _ e]) simp
qed

text \<open>The other order, on the same host: the definition is deleted, then the cluster is stopped.\<close>

lemma ex_ordered_cleanup:
  "case New_Manager ex_harness None
      [WithCRDPaths [''../../testdata/crds''],
       WithCleaners [NewCRDCleaner ex_harness, NewCRDDirCleaner ex_harness]] ex_host of
    (Ok m, w) \<Rightarrow> (case Cleanup ex_harness m w of
       (r, m', w') \<Rightarrow> r = Ok () \<and> ho_events w' = [''start'', ''delete composite'', ''stop''])
  | _ \<Rightarrow> False"
  by code_simp

end
