(* ===== verification/Spec2Isabelle.thy ===== *)
theory Spec2Isabelle
  imports Server_Run Instance_Operations Binding_Operations Binding_Success Broker_Spec
    Request_Bounds Test_Bindings Test_Manager
begin

text \<open>
  A model of the service broker in \<open>src/\<close>, which serves the Open Service Broker (OSB) API by reading
  and writing Crossplane objects in a Kubernetes cluster, and the theorems that make it correct.

  \<^bold>\<open>The program.\<close> \<open>cmd/crossplane-service-broker/main.go\<close> reads the configuration, builds the client
  and the update rules, and starts the HTTP server. \<open>pkg/api\<close> routes requests, authenticates them and
  logs them. \<open>pkg/brokerapi/brokerapi.go\<close> has the ten OSB operations, which call the broker
  (\<open>broker.go\<close>) and turn its errors into failure responses. The broker finds the plan and the
  instance of a request through the client (\<open>pkg/crossplane/client.go\<close>), and leaves what depends on the
  service to one of three service binders (\<open>service_*.go\<close>) that \<open>ServiceBinderFactory\<close> chooses.
  Plans are compositions, instances are composites, bindings of a database are a user composite and a
  secret; all state is in the cluster.

  \<^bold>\<open>How it is modelled.\<close> A call ends in \<open>Ok\<close>, \<open>Err\<close> or \<open>Panic\<close> (\<open>Go_Prelude\<close>). An operation that only
  reads is a function of the world; one that writes returns its outcome and the world it leaves, also
  when it fails. The world is a type variable: the Kubernetes client, like every other library of the
  program, is a record of functions (\<open>lib\<close> in \<open>Kube\<close>, \<open>config_lib\<close>, \<open>catalog_lib\<close>, and arguments for
  SHA-256, the JWT handler, the routers' redirects and URL paths and the OSB router). What is relied on
  of the Kubernetes client are the assumptions of two locales over a view of the world as a cluster.
  \<open>k8s_api\<close> holds of any API server: an answer tells the truth, an error tells nothing but what it says, and a failed write may have
  happened; a list is all there is with the label, and an object asked for by kind and name has them.
  \<open>k8s_reliable\<close> is a server that answers every request. \<open>Kube_Memory\<close> is a server in memory
  that is an instance of both, and the witnesses of the theorems run on it. The JWT handler is relied on as
  an \<open>authentication_handler\<close> (\<open>Auth\<close>), of which basic authentication is an instance. The router that
  brokerapi makes is relied on as \<open>osb_router\<close> says (\<open>Http_Api\<close>): it answers a request that none of its
  routes matches itself, with 404 or 405, and passes a matched one through the authentication
  middleware, its own middlewares and those added later, in this order, to the route.

  \<^bold>\<open>Theories\<close>, in the order of the code:
  \<^item> \<open>Go_Prelude\<close>, \<open>Go_Strings\<close>: outcomes, errors, the composition of calls; the functions of
    \<open>strings\<close> and \<open>strconv\<close> the code uses.
  \<^item> \<open>Metadata\<close>, \<open>Plans\<close>: \<open>metadata.go\<close> and \<open>plan.go\<close>, label parsing, plans, the update rules.
  \<^item> \<open>Broker_Config\<close>: \<open>pkg/config/config.go\<close>. \<open>Auth\<close>: \<open>pkg/api/auth\<close>.
  \<^item> \<open>Kube\<close>: JSON values, objects of the cluster, the client and its contract.
  \<^item> \<open>Client\<close>: \<open>pkg/reqcontext\<close>, \<open>instance.go\<close>, \<open>client.go\<close>.
  \<^item> \<open>Service_Base\<close>, \<open>Service_Redis\<close>, \<open>Service_Mariadb\<close>, \<open>Service_Mariadb_Database\<close>, \<open>Services\<close>: the
    binders, the contract \<open>service_binder\<close> they meet, and the factory.
  \<^item> \<open>Broker\<close>, \<open>Broker_API\<close>: \<open>broker.go\<close>, \<open>domain.go\<close>, \<open>brokerapi.go\<close>. \<open>Http_Api\<close>: \<open>pkg/api/api.go\<close> and
    the set-up of \<open>main.go\<close>; \<open>Server_Run\<close>: \<open>run\<close> and \<open>main\<close> as a state machine, with the way the set-up
    ends, the server's goroutine, the signals, the connections in use, and the shutdown with its
    deadline of ten seconds.
  \<^item> \<open>Broker_Effects\<close> (what each operation leaves in the cluster), \<open>Broker_Steps\<close> (the broker as a
    state machine, invariants by rule induction), \<open>Broker_Correct\<close> (the outcome of each operation),
    \<open>Broker_Spec\<close> (an abstract service broker that the operations refine).
  \<^item> \<open>Go_Threads\<close>, \<open>Broker_Threads\<close>, \<open>Request_Safety\<close>, \<open>Concurrent_Requests\<close>, \<open>Request_Bounds\<close>: the writing operations cut
    into their calls to the API, pools of such threads that start and end at any time, and what any
    interleaving of requests with each other and with Crossplane's controllers keeps: each call
    guarantees a relation between the cluster before and after, knowing only what the other threads
    and the controllers guarantee (rely and guarantee). Run alone, a thread is the operation
    (lemmas \<open>runT_\<close> of its name). \<open>Request_Bounds\<close> counts the calls a thread can make, so that every
    request ends.
  \<^item> \<open>Broker_Memory\<close>: the broker over the server in memory, and a small cluster.
  \<^item> \<open>Test_Fixtures\<close>, \<open>Test_Crds\<close>, \<open>Test_Manager\<close>: \<open>pkg/integration\<close>, the objects the integration tests set
    up and remove, the manager of their test cluster, and the definitions it is set up with.
    \<open>Test_Suite\<close>, \<open>Test_Bindings\<close>: the cases of \<open>brokerapi_test.go\<close>, run on the model over the server in
    memory; all of them pass (\<open>tests_pass\<close>).
  \<^item> \<open>Instance_Operations\<close>, \<open>Binding_Operations\<close>, \<open>Binding_Success\<close> (when bindings of a database
    succeed) and this theory: properties of whole operations and of the parts together. Properties of one component stand at the end of its theory.

  \<^bold>\<open>Bounds and fuel.\<close> A port is a 32-bit word, a parsed number is bounded to 64 bits, durations and
  sizes are integers as the library parsed them, and the hash that names a download is a 32-bit word.
  Two functions have fuel, one unit more than the bytes they are given: \<open>Fields\<close>, where
  \<open>fields_aux_enough\<close> shows that more changes nothing, and the loop over the documents of a file, where
  \<open>read_loop_enough\<close> shows it for every reader that consumes what it reads. A request makes at most
  \<open>request_calls\<close> calls to the cluster, a fixed number but for one call for each plan of the catalog when
  it names no plan. All other functions are
  total by structural recursion or a measure.

  \<^bold>\<open>Not modelled.\<close> Loggers (but for what the request log is given), metrics counters beyond the two of
  the middleware: they have no effect on the answers or the cluster. The texts of errors are kept as formats
  with arguments and never rendered, except those of the server in memory. Time is only counted, in
  seconds, for the deadline of the shutdown; the set-up is one step, and the time its library calls
  take is not bounded. The order in which
  \<open>sort.Slice\<close> leaves plans of equal names is not fixed by the library; the model keeps the order of the
  API. Comparing checksums in constant time is equality. Decoding requests and encoding responses is done
  by the OSB library. The theorems on single operations take an operation at a time; what holds when
  requests interleave is proved in \<open>Concurrent_Requests\<close>. There the controllers report the condition, the
  resources and the connection secret of a composite, complete a deletion that was asked for, and
  write or remove any secret that belongs to no binding; the garbage collector that removes the secret
  of a binding once its owner is gone is not modelled. Of the tests of
  single functions (\<open>*_test.go\<close> beside \<open>brokerapi_test.go\<close>) no copy is kept: the theorems on those
  functions say more.
\<close>

section \<open>What an operation may touch\<close>

text \<open>C19: Whatever it answers, an operation changes only its own objects: provisioning, deprovisioning
  and updating an instance change no composite that is not named after the instance and no secret;
  binding and unbinding, for every service, change nothing but the user composite named after the
  binding and the secret with its password; compositions and service definitions never change.\<close>

theorem operations_footprint:
  assumes "broker_client b view"
  shows "touches (instance_keys i) {} (view w) (view (snd (Provision b rctx i planID params w)))
    \<and> touches (instance_keys i) {} (view w) (view (snd (Deprovision b i planID w)))
    \<and> touches (instance_keys i) {} (view w) (view (snd (Update b i serviceID planID newPlanID raw w)))
    \<and> touches (binding_composites bid) (binding_secrets (Namespace (cp_config (br_cp b))) bid)
      (view w) (view (snd (Bind b i bid planID async w)))
    \<and> touches (binding_composites bid) (binding_secrets (Namespace (cp_config (br_cp b))) bid)
      (view w) (view (snd (Unbind b i bid planID w)))"
  using broker_client.Provision_touches [OF assms] broker_client.Deprovision_touches [OF assms]
    broker_client.Update_touches [OF assms] broker_client.Bind_touches [OF assms]
    broker_client.Unbind_touches [OF assms] by (metis prod.collapse)

theorem operations_footprint_witness:
  "cl_secrets (mem_view (snd (Deprovision ex_broker ''redis-1'' ''plan-redis'' ex_world))) =
     cl_secrets (mem_view ex_world) \<and>
   touches (binding_composites ''b'') (binding_secrets (Namespace (cp_config (br_cp ex_broker))) ''b'')
     (mem_view ex_world) (mem_view (snd (Bind ex_broker ''db-1'' ''b'' ''plan-db'' True ex_world)))"
proof -
  have "broker_client ex_broker mem_view" using mem_is_client by (simp add: ex_broker_def)
  note footprint = operations_footprint [OF this]
  have "touches (instance_keys ''redis-1'') {} (mem_view ex_world)
      (mem_view (snd (Deprovision ex_broker ''redis-1'' ''plan-redis'' ex_world)))"
    using footprint by blast
  moreover have "touches (binding_composites ''b'')
      (binding_secrets (Namespace (cp_config (br_cp ex_broker))) ''b'') (mem_view ex_world)
      (mem_view (snd (Bind ex_broker ''db-1'' ''b'' ''plan-db'' True ex_world)))"
    using footprint by blast
  ultimately show ?thesis by (simp add: touches_def fun_eq_iff)
qed

section \<open>Invariants of the cluster under the broker\<close>

text \<open>In every state the broker can reach by its operations, with any arguments and any answers
  of the API, each MariaDB user composite has the secret that holds its password, if that was so
  at the start and no plan has the kind of the user composites.\<close>

theorem users_keep_their_secret:
  assumes "broker_client b view" and "broker_reaches b w w'"
    and "credentials_stored (Namespace (cp_config (br_cp b))) (view w)"
    and "no_user_plans b (view w)"
  shows "credentials_stored (Namespace (cp_config (br_cp b))) (view w')"
  using broker_client.reaches_credentials_stored [OF assms] .

theorem users_keep_their_secret_witness:
  "credentials_stored ''broker''
     (mem_view (snd (Bind ex_broker ''db-1'' ''b'' ''plan-db'' True ex_world)))"
proof -
  have ns: "Namespace (cp_config (br_cp ex_broker)) = ''broker''" by code_simp
  have reach: "broker_reaches ex_broker ex_world
      (snd (Bind ex_broker ''db-1'' ''b'' ''plan-db'' True ex_world))"
    by (rule reaches_step [OF reaches_start step_Bind]) (rule prod.collapse [symmetric])
  have "list_all (\<lambda>c. c_gvk c \<noteq> mariaDBUserGroupVersionKind) (m_composites ex_world)" by code_simp
  then have start: "credentials_stored ''broker'' (mem_view ex_world)"
    by (auto simp: credentials_stored_def mem_view_def list_all_iff dest: lookup_compositeD)
  have "list_all (\<lambda>co. co_typeRefKind co \<noteq> Kind mariaDBUserGroupVersionKind)
      (cl_compositions (mem_view ex_world))" by code_simp
  then have "no_user_plans ex_broker (mem_view ex_world)" by (rule no_user_plansI)
  with users_keep_their_secret [of ex_broker mem_view, OF _ reach] mem_is_client start
  show ?thesis by (simp add: ns) (simp add: ex_broker_def)
qed

text \<open>In every state the broker can reach, each instance it created carries its own name as
  instance label, and the plan name and service level of the composition it refers to: updates
  move all three together, and nothing else in the broker touches them.\<close>

theorem instances_agree_with_their_plan:
  assumes "broker_client b view" and "broker_reaches b w w'" and "instances_agree (view w)"
  shows "instances_agree (view w')"
  using broker_client.reaches_instances_agree [OF assms] .

theorem instances_agree_with_their_plan_witness:
  "instances_agree (mem_view (snd (Provision ex_broker ex_rctx ''new'' ''plan-redis'' None ex_world)))"
proof -
  have reach: "broker_reaches ex_broker ex_world
      (snd (Provision ex_broker ex_rctx ''new'' ''plan-redis'' None ex_world))"
    by (rule reaches_step [OF reaches_start step_Provision]) (rule prod.collapse [symmetric])
  have "list_all (\<lambda>c. Option.is_none (c_labels c PrincipalLabel)) (m_composites ex_world)"
    by code_simp
  then have "instances_agree (mem_view ex_world)"
    by (auto simp: instances_agree_def mem_view_def list_all_iff Option.is_none_def
        dest!: lookup_compositeD)
  with instances_agree_with_their_plan [of ex_broker mem_view, OF _ reach] mem_is_client
  show ?thesis by (simp add: ex_broker_def)
qed

section \<open>The specification\<close>

text \<open>C1: On a cluster that answers, and when no plan has the kind of the user composites, every run of
  the broker's operations is a run of its specification: each operation, whatever its arguments and
  its outcome, adds, moves or removes one instance, gives one binding its password and its user at
  once, takes one user away, or changes nothing the specification knows of.\<close>

theorem broker_refines_specification:
  assumes "reliable_broker b view" and "broker_reaches b w w'" and "no_user_plans b (view w)"
  shows "(osb_step (co_name ` set (cl_compositions (view w))))\<^sup>*\<^sup>*
    (osb_of (Namespace (cp_config (br_cp b))) (view w))
    (osb_of (Namespace (cp_config (br_cp b))) (view w'))"
  by (rule reliable_broker.reaches_osb [OF assms])

lemma ex_no_user_plans: "no_user_plans ex_broker (mem_view ex_world)"
proof -
  have "list_all (\<lambda>co. co_typeRefKind co \<noteq> Kind mariaDBUserGroupVersionKind)
      (cl_compositions (mem_view ex_world))" by code_simp
  then show ?thesis by (rule no_user_plansI)
qed

lemma ex_bind_reaches:
  "broker_reaches ex_broker ex_world (snd (Bind ex_broker ''db-1'' ''b'' ''plan-db'' True ex_world))"
  by (rule reaches_step [OF reaches_start step_Bind]) (rule prod.collapse [symmetric])

theorem broker_refines_specification_witness:
  "(osb_step (co_name ` set (cl_compositions (mem_view ex_world))))\<^sup>*\<^sup>*
    (osb_of (Namespace (cp_config (br_cp ex_broker))) (mem_view ex_world))
    (osb_of (Namespace (cp_config (br_cp ex_broker)))
      (mem_view (snd (Bind ex_broker ''db-1'' ''b'' ''plan-db'' True ex_world))))"
proof -
  have "reliable_broker ex_broker mem_view" using mem_is_reliable by (simp add: ex_broker_def)
  from broker_refines_specification [OF this ex_bind_reaches ex_no_user_plans] show ?thesis .
qed

text \<open>On a cluster that answers, no operation ever changes or removes the password of a binding: the
  data of its secret stays the same through every run, also when the binding is repeated, polled
  or removed.\<close>

theorem passwords_never_change:
  assumes "reliable_broker b view" and "broker_reaches b w w'" and "no_user_plans b (view w)"
    and "cl_secrets (view w) (Namespace (cp_config (br_cp b)), secretName bid) = Some s"
  shows "\<exists>s'. cl_secrets (view w') (Namespace (cp_config (br_cp b)), secretName bid) = Some s' \<and>
    s_data s' = s_data s"
proof -
  let ?ns = "Namespace (cp_config (br_cp b))"
  from osb_steps_passwords [OF reliable_broker.reaches_osb [OF assms(1-3)]]
  have "os_passwords (osb_of ?ns (view w)) \<subseteq>\<^sub>m os_passwords (osb_of ?ns (view w'))" .
  with assms(4) have "os_passwords (osb_of ?ns (view w')) bid = Some (s_data s)"
    unfolding map_le_def by (metis domI option.map(2) osb_of_passwords)
  then show ?thesis by auto
qed

theorem passwords_never_change_witness:
  "\<exists>s. cl_secrets (mem_view (snd (Unbind ex_broker ''db-1'' ''bind-1'' ''plan-db'' ex_bound)))
     (Namespace (cp_config (br_cp ex_broker)), secretName ''bind-1'') = Some s \<and>
     s_data s = Some [SecretPasswordKey \<mapsto> ''s3cret'']"
proof -
  have ns: "Namespace (cp_config (br_cp ex_broker)) = ''broker''" by code_simp
  have reach: "broker_reaches ex_broker ex_bound
      (snd (Unbind ex_broker ''db-1'' ''bind-1'' ''plan-db'' ex_bound))"
    by (rule reaches_step [OF reaches_start step_Unbind]) (rule prod.collapse [symmetric])
  have "list_all (\<lambda>co. co_typeRefKind co \<noteq> Kind mariaDBUserGroupVersionKind)
      (cl_compositions (mem_view ex_bound))" by code_simp
  then have plans: "no_user_plans ex_broker (mem_view ex_bound)" by (rule no_user_plansI)
  have s: "cl_secrets (mem_view ex_bound) (Namespace (cp_config (br_cp ex_broker)), secretName ''bind-1'') =
      Some (stored_secret ''broker'' ''bind-1'' ''db-1'' ''galera-1'' ''s3cret'')"
    unfolding ns by (simp add: mem_view_def ex_bound_def secret_key_of_def)
  have "reliable_broker ex_broker mem_view" using mem_is_reliable by (simp add: ex_broker_def)
  from passwords_never_change [OF this reach plans s] show ?thesis by simp
qed

section \<open>Start-up\<close>

text \<open>C35: Without rules in the environment, the broker starts with rules under which an instance may move
  between the levels standard and premium, in both directions, and keep its size; no size may
  change, and no other level may be entered or left.\<close>

theorem default_update_rules:
  assumes "run_setup x getEnv buildConfig sl newClient sha256 = Ok (api, creds, keys, server)"
    and "getEnv EnvPlanUpdateSLA = ''''" and "getEnv EnvPlanUpdateSize = ''''"
    and "newPlan ca = Ok a" and "newPlan cb = Ok b"
  shows "\<exists>la lb. p_Labels a = Some la \<and> p_Labels b = Some lb \<and>
    (AllowUpdate (br_planComparer (ba_broker api)) a b = Ok True \<longleftrightarrow>
       ServiceID la = ServiceID lb \<and> PlanSize la = PlanSize lb \<and>
       (SLA la = SLA lb \<or> {SLA la, SLA lb} = {''standard'', ''premium''}))"
proof -
  let ?pc = "\<lparr>sizeRules = [],
    slaRules = [\<lparr>oldPlan = ''standard'', newPlanName = ''premium''\<rparr>,
                \<lparr>oldPlan = ''premium'', newPlanName = ''standard''\<rparr>]\<rparr>"
  from assms(1) obtain cfg where cfg: "ReadConfig x getEnv = Ok cfg"
    and pc: "ParsePlanUpdateRules (PlanUpdateSizeRule cfg) (PlanUpdateSLARule cfg) =
      Ok (br_planComparer (ba_broker api))"
    by (auto simp: run_setup_def go_inv New_BrokerAPI_def NewBroker_def)
  from cfg have "PlanUpdateSizeRule cfg = ''''" "PlanUpdateSLARule cfg = defaultSLAUpdateRules"
    by (rule ReadConfig_Ok; use assms(2,3) in simp)+
  moreover have "ParsePlanUpdateRules '''' defaultSLAUpdateRules = Ok ?pc" by code_simp
  ultimately have rules: "br_planComparer (ba_broker api) = ?pc" using pc by simp
  from newPlan_has_labels [OF assms(4)] newPlan_has_labels [OF assms(5)]
  obtain la lb where l: "p_Labels a = Some la" "p_Labels b = Some lb" by blast
  moreover have "AllowUpdate ?pc a b = Ok True \<longleftrightarrow>
       ServiceID la = ServiceID lb \<and> PlanSize la = PlanSize lb \<and>
       (SLA la = SLA lb \<or> {SLA la, SLA lb} = {''standard'', ''premium''})"
    using AllowUpdate_labels [OF l, of ?pc] by (auto simp: in_rules_def doubleton_eq_iff)
  ultimately show ?thesis unfolding rules by (intro exI [of _ la] exI [of _ lb]) simp
qed

text \<open>A start on the server in memory.\<close>

definition ex_start ::
  "(mem BrokerAPI \<times> credential list \<times> key_document list \<times> http_server) result" where
  "ex_start = run_setup ex_config_lib ex_env (\<lambda>kubeconfig. Inr ())
     \<lparr>sl_NewScheme = [], sl_AddClientGo = (\<lambda>s. Inr (''client-go'' # s)),
      sl_AddToGroupVersion = (\<lambda>g v s. (g @ ''/'' @ v) # s),
      sl_AddCrossplane = (\<lambda>s. Inr (''crossplane'' # s))\<rparr> (\<lambda>scheme rest. Inr mem_lib) (\<lambda>s. s)"

theorem default_update_rules_witness:
  "\<exists>api creds keys server a b. ex_start = Ok (api, creds, keys, server) \<and>
     newPlan (ex_plan_composition ''small'' ''standard'') = Ok a \<and>
     newPlan (ex_plan_composition ''small'' ''premium'') = Ok b \<and>
     AllowUpdate (br_planComparer (ba_broker api)) a b = Ok True"
proof -
  let ?ca = "ex_plan_composition ''small'' ''standard''"
    and ?cb = "ex_plan_composition ''small'' ''premium''"
  have "case ex_start of Ok r \<Rightarrow> True | _ \<Rightarrow> False" by code_simp
  then obtain api creds keys server where run: "ex_start = Ok (api, creds, keys, server)"
    by (auto split: result.splits)
  have "case parseLabels (co_labels ?ca) of Ok l \<Rightarrow> PlanSize l = ''small'' \<and> SLA l = ''standard'' \<and> ServiceID l = ''svc'' | _ \<Rightarrow> False"
    "case parseLabels (co_labels ?cb) of Ok l \<Rightarrow> PlanSize l = ''small'' \<and> SLA l = ''premium'' \<and> ServiceID l = ''svc'' | _ \<Rightarrow> False"
    by code_simp+
  then obtain a b where ab: "newPlan ?ca = Ok a" "newPlan ?cb = Ok b"
    "case p_Labels a of Some l \<Rightarrow> PlanSize l = ''small'' \<and> SLA l = ''standard'' \<and> ServiceID l = ''svc'' | None \<Rightarrow> False"
    "case p_Labels b of Some l \<Rightarrow> PlanSize l = ''small'' \<and> SLA l = ''premium'' \<and> ServiceID l = ''svc'' | None \<Rightarrow> False"
    by (auto simp: newPlan_def split: result.splits)
  have "ex_env EnvPlanUpdateSLA = ''''" "ex_env EnvPlanUpdateSize = ''''" by code_simp+
  from default_update_rules [OF run [unfolded ex_start_def] this ab(1,2)] run ab show ?thesis by auto
qed

end
